(* ===== verification/TC_Prelude.thy ===== *)
theory TC_Prelude
  imports Main "HOL-Library.Multiset" "HOL-Library.Word" "HOL-Library.Product_Lexorder"
    "HOL-Library.List_Lexorder" "HOL-Library.Char_ord"
begin

text \<open>
  What every component shares: Go errors and error-carrying results, loops that stop at the
  first error, the accumulate-without-duplicates interface that five loops of the program
  implement, stable sorting, and 64-bit signed integers.

  A Go \<open>error\<close> is the text its \<open>Error()\<close> method returns, and a pair \<open>(v, err)\<close> is a value of
  \<open>error + 'a\<close>: \<open>Inl e\<close> when \<open>err != nil\<close>, \<open>Inr v\<close> otherwise. A pointer to a value is an
  \<open>option\<close> (\<open>nil\<close> is \<open>None\<close>).
\<close>

named_theorems loop_simps \<open>equations of the loop combinators\<close>

type_synonym error = string

type_synonym 'a result = "error + 'a"

section \<open>Loops that return at the first error\<close>

text \<open>\<open>for ... \<lbrace> ok, err := p(x); if err != nil \<lbrace> return err \<rbrace>; if ok \<lbrace> out = append(out, x) \<rbrace> \<rbrace>\<close>\<close>

primrec filterR :: "('a \<Rightarrow> 'e + bool) \<Rightarrow> 'a list \<Rightarrow> 'e + 'a list" where
  "filterR p [] = Inr []"
| "filterR p (x # xs) =
     (case p x of
        Inl e \<Rightarrow> Inl e
      | Inr b \<Rightarrow>
          (case filterR p xs of
             Inl e \<Rightarrow> Inl e
           | Inr ys \<Rightarrow> Inr (if b then x # ys else ys)))"

text \<open>\<open>for ... \<lbrace> y, err := f(x); if err != nil \<lbrace> return err \<rbrace>; out = append(out, y) \<rbrace>\<close>\<close>

primrec mapR :: "('a \<Rightarrow> 'e + 'b) \<Rightarrow> 'a list \<Rightarrow> 'e + 'b list" where
  "mapR f [] = Inr []"
| "mapR f (x # xs) =
     (case f x of
        Inl e \<Rightarrow> Inl e
      | Inr y \<Rightarrow>
          (case mapR f xs of
             Inl e \<Rightarrow> Inl e
           | Inr ys \<Rightarrow> Inr (y # ys)))"

definition okb :: "('e + bool) \<Rightarrow> bool" where
  "okb r = (case r of Inl _ \<Rightarrow> False | Inr b \<Rightarrow> b)"

lemma okb_simps [simp]: "okb (Inl e) = False" "okb (Inr b) = b"
  by (simp_all add: okb_def)

text \<open>The error of a call, if it fails.\<close>

definition err_of :: "('e + 'a) \<Rightarrow> 'e option" where
  "err_of r = (case r of Inl e \<Rightarrow> Some e | Inr _ \<Rightarrow> None)"

lemma err_of_simps [simp]: "err_of (Inl e) = Some e" "err_of (Inr x) = None"
  by (simp_all add: err_of_def)

lemma err_of_None_iff: "err_of r = None \<longleftrightarrow> (\<exists>x. r = Inr x)"
  by (cases r) auto

lemma err_of_Some_iff: "err_of r = Some e \<longleftrightarrow> r = Inl e"
  by (cases r) auto

lemma filterR_Inr_iff:
  "filterR p xs = Inr ys \<longleftrightarrow>
     (\<forall>x \<in> set xs. \<exists>b. p x = Inr b) \<and> ys = filter (\<lambda>x. okb (p x)) xs"
proof (induction xs arbitrary: ys)
  case (Cons x xs)
  show ?case
  proof (cases "p x")
    case (Inr b)
    then show ?thesis
      using Cons.IH [of "filter (\<lambda>x. okb (p x)) xs"] Cons.IH
      by (cases "filterR p xs") auto
  qed simp
qed auto

lemma filterR_first_error:
  "p x = Inl e \<Longrightarrow> \<forall>a \<in> set as. \<exists>b. p a = Inr b \<Longrightarrow> filterR p (as @ x # bs) = Inl e"
  by (induction as) auto

lemma filterR_Inl_iff:
  "filterR p xs = Inl e \<longleftrightarrow>
     (\<exists>as x bs. xs = as @ x # bs \<and> p x = Inl e \<and> (\<forall>a \<in> set as. \<exists>b. p a = Inr b))"
proof
  show "filterR p xs = Inl e \<Longrightarrow>
    \<exists>as x bs. xs = as @ x # bs \<and> p x = Inl e \<and> (\<forall>a \<in> set as. \<exists>b. p a = Inr b)"
  proof (induction xs)
    case (Cons y ys)
    show ?case
    proof (cases "p y")
      case (Inl f)
      with Cons.prems show ?thesis by (intro exI [of _ "[]"]) auto
    next
      case (Inr b)
      with Cons.prems have "filterR p ys = Inl e" by (auto split: sum.splits)
      then obtain as x bs where "ys = as @ x # bs" "p x = Inl e" "\<forall>a \<in> set as. \<exists>b. p a = Inr b"
        using Cons.IH by blast
      with Inr show ?thesis by (intro exI [of _ "y # as"]) auto
    qed
  qed simp
qed (auto simp: filterR_first_error)

lemma filterR_Inl_ex: "filterR p xs = Inl e \<Longrightarrow> \<exists>x \<in> set xs. p x = Inl e"
  by (auto simp: filterR_Inl_iff)

lemma filterR_ok: "\<forall>x \<in> set xs. p x = Inr (q x) \<Longrightarrow> filterR p xs = Inr (filter q xs)"
  by (induction xs) auto

lemma filterR_error_iff: "(\<exists>e. filterR p xs = Inl e) \<longleftrightarrow> (\<exists>x \<in> set xs. \<exists>e. p x = Inl e)"
  by (induction xs) (auto split: sum.splits)

lemma mapR_Inr_iff:
  "mapR f xs = Inr ys \<longleftrightarrow> list_all2 (\<lambda>x y. f x = Inr y) xs ys"
proof (induction xs arbitrary: ys)
  case (Cons x xs)
  show ?case
    using Cons.IH by (cases "mapR f xs") (auto simp: list_all2_Cons1 split: sum.splits)
qed auto

lemma mapR_Inl_ex: "mapR f xs = Inl e \<Longrightarrow> \<exists>x \<in> set xs. f x = Inl e"
  by (induction xs) (auto split: sum.splits)

lemma mapR_total: "\<forall>x \<in> set xs. \<exists>y. f x = Inr y \<Longrightarrow> \<exists>ys. mapR f xs = Inr ys"
  by (induction xs) auto

declare filterR_Inr_iff [loop_simps] mapR_Inr_iff [loop_simps]

section \<open>Accumulating without duplicates\<close>

text \<open>
  The \<open>seen\<close> map beside an \<open>order\<close> slice is the program's idiom for a list without duplicates
  in order of first occurrence. The interface: \<open>inv\<close> is the loop's invariant (the map and the
  slice agree), \<open>keys\<close> reads the recorded keys off the loop's state, \<open>kof\<close> is the key of an
  element (\<open>None\<close> when the loop skips it), and \<open>add\<close> is the loop's body.
\<close>

locale dedup_loop =
  fixes inv :: "'s \<Rightarrow> bool"
    and keys :: "'s \<Rightarrow> 'k list"
    and kof :: "'a \<Rightarrow> 'k option"
    and add :: "'s \<Rightarrow> 'a \<Rightarrow> 's"
  assumes inv_add: "inv s \<Longrightarrow> inv (add s x)"
    and keys_add:
    "inv s \<Longrightarrow> keys (add s x) =
       (case kof x of
          None \<Rightarrow> keys s
        | Some k \<Rightarrow> if k \<in> set (keys s) then keys s else keys s @ [k])"
begin

lemma inv_fold: "inv s \<Longrightarrow> inv (foldl add s xs)"
  by (induction xs arbitrary: s) (auto simp: inv_add)

lemma keys_fold_set:
  "inv s \<Longrightarrow> set (keys (foldl add s xs)) = set (keys s) \<union> {k. \<exists>x \<in> set xs. kof x = Some k}"
  by (induction xs arbitrary: s) (auto simp: keys_add inv_add split: option.splits if_splits)

lemma keys_fold_distinct:
  "inv s \<Longrightarrow> distinct (keys s) \<Longrightarrow> distinct (keys (foldl add s xs))"
  by (induction xs arbitrary: s) (auto simp: keys_add inv_add split: option.splits)

lemma keys_fold_prefix: "inv s \<Longrightarrow> \<exists>ks. keys (foldl add s xs) = keys s @ ks"
proof (induction xs arbitrary: s)
  case (Cons x xs)
  obtain ks where "keys (foldl add (add s x) xs) = keys (add s x) @ ks"
    using Cons.IH [OF inv_add [OF Cons.prems]] by blast
  with Cons.prems show ?case by (auto simp: keys_add split: option.splits if_splits)
qed simp

text \<open>Running the loop again over the same elements changes no key.\<close>

lemma keys_fold_absorb:
  "inv s \<Longrightarrow> {k. \<exists>x \<in> set xs. kof x = Some k} \<subseteq> set (keys s) \<Longrightarrow>
     keys (foldl add s xs) = keys s"
proof (induction xs arbitrary: s)
  case (Cons x xs)
  have "keys (add s x) = keys s"
    using Cons.prems by (auto simp: keys_add split: option.splits)
  moreover from this Cons.prems have "keys (foldl add (add s x) xs) = keys (add s x)"
    by (intro Cons.IH) (auto simp: inv_add)
  ultimately show ?case by simp
qed simp

end

text \<open>A Go \<open>map[string]struct\<open>{}\<close>\<close> used as a set, as the list of its keys.\<close>

definition set_add :: "'a list \<Rightarrow> 'a \<Rightarrow> 'a list" where
  "set_add xs x = (if x \<in> set xs then xs else xs @ [x])"

interpretation key_set: dedup_loop "\<lambda>_. True" "\<lambda>s. s" Some set_add
  by unfold_locales (simp_all add: set_add_def)

lemma set_set_add [simp]: "set (set_add xs x) = insert x (set xs)"
  by (auto simp: set_add_def)

lemma distinct_set_add [simp]: "distinct (set_add xs x) = distinct xs"
  by (auto simp: set_add_def)

lemma set_foldl_add [simp]: "set (foldl set_add [] xs) = set xs"
  using key_set.keys_fold_set [OF TrueI, of "[]" xs] by simp

lemma distinct_foldl_add [simp]: "distinct (foldl set_add [] xs)"
  using key_set.keys_fold_distinct [OF TrueI, of "[]" xs] by simp

text \<open>The first entry that is not the empty string.\<close>

fun first_nonempty :: "string list \<Rightarrow> string" where
  "first_nonempty [] = []"
| "first_nonempty (s # ss) = (if s \<noteq> [] then s else first_nonempty ss)"

lemma first_nonempty_mem: "first_nonempty ss = s \<Longrightarrow> s \<noteq> [] \<Longrightarrow> s \<in> set ss"
  by (induction ss) (auto split: if_splits)

lemma first_nonempty_append:
  "first_nonempty (ss @ ts) = (if first_nonempty ss \<noteq> [] then first_nonempty ss else first_nonempty ts)"
  by (induction ss) auto

section \<open>Sorting\<close>

text \<open>
  \<open>sort.SliceStable\<close> with a comparison that compares keys is \<open>sort_key\<close>, and so is
  \<open>sort.Slice\<close> where the keys are pairwise different; \<open>sort.Strings\<close> is \<open>sort\<close> (Go compares
  strings bytewise, as the lexicographic order on \<open>char list\<close> does).
\<close>

lemma sort_key_perm:
  assumes "mset xs = mset ys" and "inj_on k (set xs)"
  shows "sort_key k xs = sort_key k ys"
  using assms by (intro sort_key_inj_key_eq) simp_all

lemma sort_key_Nil_iff [simp]: "sort_key k xs = [] \<longleftrightarrow> xs = []"
  by (metis length_0_conv length_sort)

lemma sort_perm: "mset xs = mset ys \<Longrightarrow> sort xs = sort ys"
  by (metis properties_for_sort mset_sort sorted_sort)

lemma sort_set_eq:
  assumes "distinct xs" "distinct ys" "set xs = set ys"
  shows "sort xs = sort ys"
  using assms by (intro sort_perm) (simp add: set_eq_iff_mset_eq_distinct)

lemma mset_filter_perm: "mset xs = mset ys \<Longrightarrow> mset (filter p xs) = mset (filter p ys)"
  by simp

section \<open>64-bit signed integers\<close>

type_synonym int64 = "64 word"

type_synonym int32 = "32 word"

text \<open>\<open>a <= b\<close> and \<open>a < b\<close> on \<open>int64\<close>.\<close>

definition le64 :: "int64 \<Rightarrow> int64 \<Rightarrow> bool" where
  "le64 a b \<longleftrightarrow> sint a \<le> sint b"

definition lt64 :: "int64 \<Rightarrow> int64 \<Rightarrow> bool" where
  "lt64 a b \<longleftrightarrow> sint a < sint b"

lemma sint_inject64: "sint a = sint b \<longleftrightarrow> a = b" for a b :: int64
  by (metis signed_word_eqI)

lemma le64_refl [simp]: "le64 a a"
  and le64_trans: "le64 a b \<Longrightarrow> le64 b c \<Longrightarrow> le64 a c"
  and le64_antisym: "le64 a b \<Longrightarrow> le64 b a \<Longrightarrow> a = b"
  and le64_linear: "le64 a b \<or> le64 b a"
  by (auto simp: le64_def simp flip: sint_inject64)

lemma int64_bounds: "- (2 ^ 63) \<le> sint (a :: int64)" "sint (a :: int64) < 2 ^ 63"
  using sint_range_size [of a] by (simp_all add: word_size)

text \<open>Addition and subtraction are exact where the mathematical result is in range.\<close>

lemma sint_in_range:
  fixes a :: int64
  assumes "- (2 ^ 63) \<le> i" "i < 2 ^ 63" "a = word_of_int i"
  shows "sint a = i"
  using assms by (simp add: signed_take_bit_int_eq_self sint_sbintrunc')

lemma sint_add64:
  fixes a b :: int64
  assumes "- (2 ^ 63) \<le> sint a + sint b" "sint a + sint b < 2 ^ 63"
  shows "sint (a + b) = sint a + sint b"
  using assms by (intro sint_in_range) simp_all

lemma sint_sub64:
  fixes a b :: int64
  assumes "- (2 ^ 63) \<le> sint a - sint b" "sint a - sint b < 2 ^ 63"
  shows "sint (a - b) = sint a - sint b"
  using assms by (intro sint_in_range) simp_all

end
