(* ===== verification/Api_Types.thy ===== *)
theory Api_Types
  imports Go_Strings
begin

text \<open>
  The API types of \<open>api/v1alpha1\<close>: one record per struct, one datatype per string enumeration
  (its empty value is the \<open>Unset\<close> constructor, a string outside the schema's enumeration the
  \<open>Other\<close> one), the annotation and label keys, and the metadata fields of a Kubernetes object
  that the program reads. A field that is a pointer is an \<open>option\<close>, a Go map is the list of its
  entries (\<open>nil\<close> maps are \<open>None\<close> where the program tells them from empty ones), and a time is a
  count of seconds.
\<close>

section \<open>Label selectors (the fields of the Kubernetes type that the program reads)\<close>

type_synonym labels = "(string \<times> string) list"

record LabelSelectorRequirement =
  lsr_Key :: string
  lsr_Operator :: string
  lsr_Values :: "string list"

record LabelSelector =
  ls_MatchLabels :: labels
  ls_MatchExpressions :: "LabelSelectorRequirement list"

text \<open>
  \<open>metav1.LabelSelectorAsSelector\<close> is a library function: a parameter of everything that selects.
  It fails on an invalid selector and otherwise gives the predicate that \<open>Selector.Matches\<close>
  computes on a set of labels.
\<close>

type_synonym selector_api = "LabelSelector \<Rightarrow> (labels \<Rightarrow> bool) result"

section \<open>Annotation and label keys\<close>

definition AnnotationModels :: string where
  "AnnotationModels = ''governance.tokencontrol.io/models''"

definition AnnotationEffectivePolicy :: string where
  "AnnotationEffectivePolicy = ''governance.tokencontrol.io/effective-policy''"

definition AnnotationCredentialsBound :: string where
  "AnnotationCredentialsBound = ''governance.tokencontrol.io/credentials-bound''"

definition AnnotationInjectionDisabled :: string where
  "AnnotationInjectionDisabled = ''governance.tokencontrol.io/inject-credentials-disabled''"

definition LabelManagedBy :: string where
  "LabelManagedBy = ''app.kubernetes.io/managed-by''"

definition LabelCredential :: string where
  "LabelCredential = ''governance.tokencontrol.io/credential''"

definition ManagedByValue :: string where
  "ManagedByValue = ''token-control''"

definition ManagedSecretPrefix :: string where
  "ManagedSecretPrefix = ''tc-cred-''"

section \<open>Common types\<close>

datatype EnforcementMode =
    EnforcementUnset
  | EnforcementEnforce
  | EnforcementAudit
  | EnforcementDisabled
  | EnforcementOther string

fun enforcement_string :: "EnforcementMode \<Rightarrow> string" where
  "enforcement_string EnforcementUnset = []"
| "enforcement_string EnforcementEnforce = ''Enforce''"
| "enforcement_string EnforcementAudit = ''Audit''"
| "enforcement_string EnforcementDisabled = ''Disabled''"
| "enforcement_string (EnforcementOther s) = s"

datatype PermissionAction =
    ActionUnset
  | ActionAllow
  | ActionDeny
  | ActionOther string

record TokenQuota =
  tq_TokensPerMinute :: "int64 option"
  tq_RequestsPerMinute :: "int64 option"
  tq_TokensPerDay :: "int64 option"
  tq_TokensPerMonth :: "int64 option"

record CredentialReference =
  cr_Name :: string

record ModelPermission =
  mp_Provider :: string
  mp_Model :: string
  mp_Action :: PermissionAction
  mp_CredentialRef :: "CredentialReference option"
  mp_Quota :: "TokenQuota option"

record WorkloadSelector =
  ws_PodSelector :: "LabelSelector option"
  ws_ServiceAccounts :: "string list"

datatype GatewayType =
    GatewayUnset
  | GatewayNone
  | GatewayEnvoyAIGateway
  | GatewayKuadrant
  | GatewayOther string

fun gateway_string :: "GatewayType \<Rightarrow> string" where
  "gateway_string GatewayUnset = []"
| "gateway_string GatewayNone = ''None''"
| "gateway_string GatewayEnvoyAIGateway = ''EnvoyAIGateway''"
| "gateway_string GatewayKuadrant = ''Kuadrant''"
| "gateway_string (GatewayOther s) = s"

record GatewayTargetRef =
  gt_Group :: string
  gt_Kind :: string
  gt_Name :: string
  gt_Namespace :: string

record GatewayIntegration =
  gi_Type :: GatewayType
  gi_TargetRef :: "GatewayTargetRef option"

record EffectiveModel =
  em_Provider :: string
  em_Model :: string
  em_Action :: PermissionAction
  em_Credential :: string
  em_Source :: string

record UsageStatus =
  us_WindowStart :: "int option"
  us_TokensMinute :: int64
  us_TokensDay :: int64
  us_TokensMonth :: int64
  us_RequestsMinute :: int64
  us_LastUpdated :: "int option"

text \<open>\<open>metav1.Condition\<close> without its time stamp.\<close>

datatype ConditionStatus = ConditionTrue | ConditionFalse | ConditionUnknown

record Condition =
  cond_Type :: string
  cond_Status :: ConditionStatus
  cond_Reason :: string
  cond_Message :: string
  cond_ObservedGeneration :: int64

definition ConditionReady :: string where "ConditionReady = ''Ready''"
definition ConditionValid :: string where "ConditionValid = ''Valid''"
definition ConditionGatewaySynced :: string where "ConditionGatewaySynced = ''GatewaySynced''"
definition ConditionSecretResolved :: string where "ConditionSecretResolved = ''SecretResolved''"
definition ConditionOversubscribed :: string where "ConditionOversubscribed = ''Oversubscribed''"
definition ConditionBound :: string where "ConditionBound = ''Bound''"

lemmas condition_type_defs =
  ConditionReady_def ConditionValid_def ConditionGatewaySynced_def
  ConditionSecretResolved_def ConditionOversubscribed_def ConditionBound_def

section \<open>The four kinds\<close>

record ClusterTokenPolicySpec =
  ctps_NamespaceSelector :: "LabelSelector option"
  ctps_Models :: "ModelPermission list"
  ctps_Quota :: "TokenQuota option"
  ctps_Enforcement :: EnforcementMode
  ctps_DefaultCredentialRef :: "CredentialReference option"
  ctps_Gateway :: "GatewayIntegration option"

record ClusterTokenPolicyStatus =
  ctpst_ObservedGeneration :: int64
  ctpst_ModelCount :: nat
  ctpst_AppliedNamespaces :: "string list"
  ctpst_Conditions :: "Condition list"

record ClusterTokenPolicy =
  ctp_Name :: string
  ctp_Generation :: int64
  ctp_Spec :: ClusterTokenPolicySpec
  ctp_Status :: ClusterTokenPolicyStatus

record TokenPolicySpec =
  tps_Selector :: "WorkloadSelector option"
  tps_Models :: "ModelPermission list"
  tps_Quota :: "TokenQuota option"
  tps_Enforcement :: EnforcementMode
  tps_Priority :: int32
  tps_Gateway :: "GatewayIntegration option"

record TokenPolicyStatus =
  tpst_ObservedGeneration :: int64
  tpst_EffectiveModels :: "EffectiveModel list"
  tpst_EffectiveQuota :: "TokenQuota option"
  tpst_Usage :: "UsageStatus option"
  tpst_BoundCredentials :: "string list"
  tpst_GatewayRef :: string
  tpst_Conditions :: "Condition list"

record TokenPolicy =
  tp_Namespace :: string
  tp_Name :: string
  tp_Generation :: int64
  tp_Spec :: TokenPolicySpec
  tp_Status :: TokenPolicyStatus

datatype ModelClaimPhase = PhaseUnset | ClaimPending | ClaimBound | ClaimDenied

record ModelRequest =
  mr_Provider :: string
  mr_Model :: string
  mr_CredentialRef :: "CredentialReference option"

record ModelClaimSpec =
  mcls_Selector :: "WorkloadSelector option"
  mcls_Models :: "ModelRequest list"
  mcls_Purpose :: string

record ModelClaimStatus =
  mclst_ObservedGeneration :: int64
  mclst_Phase :: ModelClaimPhase
  mclst_ResolvedModels :: "EffectiveModel list"
  mclst_BoundCredentials :: "string list"
  mclst_Conditions :: "Condition list"

record ModelClaim =
  mcl_Namespace :: string
  mcl_Name :: string
  mcl_Generation :: int64
  mcl_Spec :: ModelClaimSpec
  mcl_Status :: ModelClaimStatus

datatype InjectionMode =
    InjectUnset
  | InjectNone
  | InjectEnv
  | InjectProjectedVolume
  | InjectOther string

record SecretKeySelector =
  sks_Name :: string
  sks_Namespace :: string
  sks_Key :: string

record CredentialInjection =
  ci_Mode :: InjectionMode
  ci_EnvName :: string
  ci_MountPath :: string

record ModelCredentialSpec =
  mcs_Provider :: string
  mcs_Models :: "string list"
  mcs_SecretRef :: SecretKeySelector
  mcs_AllowedNamespaces :: "string list"
  mcs_NamespaceSelector :: "LabelSelector option"
  mcs_Injection :: "CredentialInjection option"
  mcs_Capacity :: "TokenQuota option"

record ModelCredentialStatus =
  mcst_ObservedGeneration :: int64
  mcst_SecretResolved :: bool
  mcst_SyncedNamespaces :: "string list"
  mcst_ReferencingPolicies :: "string list"
  mcst_Allocated :: "TokenQuota option"
  mcst_Available :: "TokenQuota option"
  mcst_Conditions :: "Condition list"

record ModelCredential =
  mc_Name :: string
  mc_Generation :: int64
  mc_Spec :: ModelCredentialSpec
  mc_Status :: ModelCredentialStatus

section \<open>Workload selectors\<close>

text \<open>\<open>IsEmpty\<close>: whether the selector targets every workload. A \<open>nil\<close> selector is \<open>None\<close>.\<close>

definition IsEmpty :: "WorkloadSelector option \<Rightarrow> bool" where
  "IsEmpty w =
     (case w of
        None \<Rightarrow> True
      | Some w \<Rightarrow>
          if length (ws_ServiceAccounts w) > 0 then False
          else (case ws_PodSelector w of
                  None \<Rightarrow> True
                | Some ps \<Rightarrow>
                    length (ls_MatchLabels ps) = 0 \<and> length (ls_MatchExpressions ps) = 0))"

lemma IsEmpty_iff:
  "IsEmpty w \<longleftrightarrow>
     (\<forall>s. w = Some s \<longrightarrow>
        ws_ServiceAccounts s = [] \<and>
        (\<forall>ps. ws_PodSelector s = Some ps \<longrightarrow> ls_MatchLabels ps = [] \<and> ls_MatchExpressions ps = []))"
  by (auto simp: IsEmpty_def split: option.splits)

text \<open>Empty objects, the zero values of the Go structs.\<close>

definition empty_quota :: TokenQuota where
  "empty_quota = \<lparr>tq_TokensPerMinute = None, tq_RequestsPerMinute = None,
     tq_TokensPerDay = None, tq_TokensPerMonth = None\<rparr>"

lemma quota_eq_iff:
  fixes a b :: TokenQuota
  shows "a = b \<longleftrightarrow>
     tq_TokensPerMinute a = tq_TokensPerMinute b \<and>
     tq_RequestsPerMinute a = tq_RequestsPerMinute b \<and>
     tq_TokensPerDay a = tq_TokensPerDay b \<and>
     tq_TokensPerMonth a = tq_TokensPerMonth b"
  by (cases a; cases b) auto

end
