(* ===== verification/Go_Path.thy ===== *)
theory Go_Path
  imports Go_Strings
begin

text \<open>
  Go's \<open>path.Match\<close> (the shell file name matching of package \<open>path\<close>), which decides whether a
  model rule covers a model. The functions are those of the package: \<open>scanChunk\<close> cuts the next
  star-free chunk off the pattern, \<open>matchChunk\<close> matches one chunk at the start of the name and
  goes on checking the chunk's syntax after a mismatch, \<open>getEsc\<close> reads one possibly escaped
  character of a class, and \<open>path_Match\<close> is \<open>Match\<close>. Runes are characters, as in ASCII strings.
\<close>

definition ErrBadPattern :: error where
  "ErrBadPattern = ''syntax error in pattern''"

section \<open>Chunks\<close>

fun getEsc :: "string \<Rightarrow> (char \<times> string) result" where
  "getEsc [] = Inl ErrBadPattern"
| "getEsc (c # cs) =
     (if c = CHR ''-'' \<or> c = CHR '']'' then Inl ErrBadPattern
      else if c = backslash
      then (case cs of
              [] \<Rightarrow> Inl ErrBadPattern
            | d # ds \<Rightarrow> if ds = [] then Inl ErrBadPattern else Inr (d, ds))
      else if cs = [] then Inl ErrBadPattern
      else Inr (c, cs))"

lemma getEsc_shorter: "getEsc cs = Inr (c, ds) \<Longrightarrow> length ds < length cs \<and> ds \<noteq> []"
  by (cases cs) (auto split: if_splits list.splits)

text \<open>One range of a class: \<open>lo\<close>, \<open>lo-hi\<close>; the rest of the chunk follows.\<close>

definition getRange :: "string \<Rightarrow> (char \<times> char \<times> string) result" where
  "getRange chunk =
     (case getEsc chunk of
        Inl e \<Rightarrow> Inl e
      | Inr (lo, chunk1) \<Rightarrow>
          if hd chunk1 = CHR ''-''
          then (case getEsc (tl chunk1) of
                  Inl e \<Rightarrow> Inl e
                | Inr (hi, chunk2) \<Rightarrow> Inr (lo, hi, chunk2))
          else Inr (lo, lo, chunk1))"

lemma getRange_shorter: "getRange cs = Inr (lo, hi, ds) \<Longrightarrow> length ds < length cs"
  by (fastforce simp: getRange_def dest: getEsc_shorter split: sum.splits if_splits)

text \<open>The loop over the ranges of a class: \<open>r\<close> is the character to match.\<close>

function classLoop :: "char \<Rightarrow> bool \<Rightarrow> nat \<Rightarrow> string \<Rightarrow> (bool \<times> string) result" where
  "classLoop r match nrange chunk =
     (if chunk \<noteq> [] \<and> hd chunk = CHR '']'' \<and> nrange > 0 then Inr (match, tl chunk)
      else (case getRange chunk of
              Inl e \<Rightarrow> Inl e
            | Inr (lo, hi, chunk') \<Rightarrow>
                classLoop r (match \<or> lo \<le> r \<and> r \<le> hi) (nrange + 1) chunk'))"
  by pat_completeness auto
termination
  by (relation "measure (\<lambda>(_, _, _, chunk). length chunk)") (auto dest: getRange_shorter)

declare classLoop.simps [simp del]

lemma classLoop_shorter: "classLoop r m n cs = Inr (b, ds) \<Longrightarrow> length ds < length cs"
proof (induction r m n cs rule: classLoop.induct)
  case (1 r m n cs)
  then show ?case
    by (subst (asm) (2) classLoop.simps)
       (fastforce dest: getRange_shorter split: if_splits sum.splits)
qed

text \<open>\<open>chunk\<close> is without its opening bracket; \<open>r\<close> as above.\<close>

definition matchClass :: "char \<Rightarrow> string \<Rightarrow> (bool \<times> string) result" where
  "matchClass r chunk =
     (let negated = (chunk \<noteq> [] \<and> hd chunk = CHR ''^'');
          chunk = (if negated then tl chunk else chunk)
      in case classLoop r False 0 chunk of
           Inl e \<Rightarrow> Inl e
         | Inr (match, rest) \<Rightarrow> Inr (match \<noteq> negated, rest))"

lemma matchClass_shorter: "matchClass r cs = Inr (b, ds) \<Longrightarrow> length ds < length cs"
  by (fastforce simp: matchClass_def Let_def dest: classLoop_shorter split: sum.splits if_splits)

text \<open>
  The loop of \<open>matchChunk\<close>: \<open>failed\<close> is set at the first mismatch, and from then on the name is
  no longer read. The result is the rest of the name and whether the chunk matched.
\<close>

function chunkLoop :: "bool \<Rightarrow> string \<Rightarrow> string \<Rightarrow> (string \<times> bool) result" where
  "chunkLoop failed [] s = (if failed then Inr ([], False) else Inr (s, True))"
| "chunkLoop failed (c # cs) s =
     (let failed = (failed \<or> s = []);
          s' = (if failed then s else tl s)
      in if c = CHR ''['' then
           (case matchClass (if failed then CHR 0x00 else hd s) cs of
              Inl e \<Rightarrow> Inl e
            | Inr (ok, cs') \<Rightarrow> chunkLoop (failed \<or> \<not> ok) cs' s')
         else if c = CHR ''?'' then chunkLoop (failed \<or> hd s = CHR ''/'') cs s'
         else if c = backslash then
           (case cs of
              [] \<Rightarrow> Inl ErrBadPattern
            | d # ds \<Rightarrow> chunkLoop (failed \<or> d \<noteq> hd s) ds s')
         else chunkLoop (failed \<or> c \<noteq> hd s) cs s')"
  by pat_completeness auto
termination
  by (relation "measure (\<lambda>(_, chunk, _). length chunk)")
     (auto dest: matchClass_shorter)

declare chunkLoop.simps(2) [simp del]

definition matchChunk :: "string \<Rightarrow> string \<Rightarrow> (string \<times> bool) result" where
  "matchChunk chunk s = chunkLoop False chunk s"

section \<open>The pattern\<close>

text \<open>The scanning loop: up to the first star outside brackets.\<close>

fun scanTo :: "bool \<Rightarrow> string \<Rightarrow> string \<times> string" where
  "scanTo inrange [] = ([], [])"
| "scanTo inrange (c # cs) =
     (if c = backslash
      then (case cs of
              [] \<Rightarrow> ([c], [])
            | d # ds \<Rightarrow> (let (a, b) = scanTo inrange ds in (c # d # a, b)))
      else if c = CHR ''*'' \<and> \<not> inrange then ([], c # cs)
      else (let (a, b) = scanTo (if c = CHR ''['' then True
                                 else if c = CHR '']'' then False
                                 else inrange) cs
            in (c # a, b)))"

definition scanChunk :: "string \<Rightarrow> bool \<times> string \<times> string" where
  "scanChunk pattern =
     (let p = dropWhile (\<lambda>c. c = CHR ''*'') pattern;
          (chunk, rest) = scanTo False p
      in (length p < length pattern, chunk, rest))"

lemma scanTo_append: "scanTo i p = (a, b) \<Longrightarrow> p = a @ b"
  by (induction i p arbitrary: a b rule: scanTo.induct)
     (auto split: if_splits list.splits prod.splits)

lemma scanTo_progress: "scanTo False p = ([], b) \<Longrightarrow> p = [] \<or> hd p = CHR ''*''"
  by (cases p) (auto split: if_splits list.splits prod.splits)

lemma scanChunk_shorter:
  assumes "scanChunk p = (star, chunk, rest)" and "p \<noteq> []"
  shows "length rest < length p"
proof -
  let ?q = "dropWhile (\<lambda>c. c = CHR ''*'') p"
  have q: "scanTo False ?q = (chunk, rest)" and star: "star = (length ?q < length p)"
    using assms(1) by (auto simp: scanChunk_def Let_def split: prod.splits)
  have len: "length ?q \<le> length p" by (rule length_dropWhile_le)
  show ?thesis
  proof (cases "chunk = []")
    case True
    with q have "?q = []"
      using scanTo_progress hd_dropWhile [of "\<lambda>c. c = CHR ''*''" p] by blast
    with True q assms(2) show ?thesis by simp
  next
    case False
    with q len show ?thesis using scanTo_append [OF q] by (cases chunk) auto
  qed
qed

lemmas scanChunk_dest = scanChunk_shorter [OF sym]

text \<open>The loop after a star: the first later position where the chunk matches.\<close>

fun skipLoop :: "string \<Rightarrow> string \<Rightarrow> string \<Rightarrow> string option result" where
  "skipLoop chunk rest [] = Inr None"
| "skipLoop chunk rest (n # ns) =
     (if n = CHR ''/'' then Inr None
      else (case matchChunk chunk ns of
              Inl e \<Rightarrow> Inl e
            | Inr (t, ok) \<Rightarrow>
                if ok \<and> \<not> (rest = [] \<and> t \<noteq> []) then Inr (Some t)
                else skipLoop chunk rest ns))"

text \<open>After a mismatch the rest of the pattern is still checked for its syntax.\<close>

function checkRest :: "string \<Rightarrow> bool result" where
  "checkRest pattern =
     (if pattern = [] then Inr False
      else (let (_, chunk, rest) = scanChunk pattern
            in case matchChunk chunk [] of
                 Inl e \<Rightarrow> Inl e
               | Inr _ \<Rightarrow> checkRest rest))"
  by pat_completeness auto
termination
  by (relation "measure length") (auto dest: scanChunk_dest)

declare checkRest.simps [simp del]

function path_Match :: "string \<Rightarrow> string \<Rightarrow> bool result" where
  "path_Match pattern name =
     (if pattern = [] then Inr (name = [])
      else (let (star, chunk, rest) = scanChunk pattern
            in if star \<and> chunk = [] then Inr (CHR ''/'' \<notin> set name)
               else (case matchChunk chunk name of
                       Inl e \<Rightarrow> Inl e
                     | Inr (t, ok) \<Rightarrow>
                         if ok \<and> (t = [] \<or> rest \<noteq> []) then path_Match rest t
                         else if star
                         then (case skipLoop chunk rest name of
                                 Inl e \<Rightarrow> Inl e
                               | Inr (Some t') \<Rightarrow> path_Match rest t'
                               | Inr None \<Rightarrow> checkRest rest)
                         else checkRest rest)))"
  by pat_completeness auto
termination
  by (relation "measure (\<lambda>(pattern, _). length pattern)") (auto dest: scanChunk_dest)

declare path_Match.simps [simp del]

section \<open>Whether a pattern is malformed does not depend on the name\<close>

lemma classLoop_indep:
  "map_sum (\<lambda>e. e) snd (classLoop r m n cs) = map_sum (\<lambda>e. e) snd (classLoop r' m' n cs)"
proof (induction r m n cs arbitrary: m' rule: classLoop.induct)
  case (1 r m n cs)
  show ?case
  proof (cases "cs \<noteq> [] \<and> hd cs = CHR '']'' \<and> n > 0")
    case True
    then show ?thesis
      by (simp add: classLoop.simps [of r m n cs] classLoop.simps [of r' m' n cs])
  next
    case False
    with 1 show ?thesis
      by (subst (1 2) classLoop.simps) (auto split: sum.splits)
  qed
qed

lemma matchClass_indep:
  "map_sum (\<lambda>e. e) snd (matchClass r cs) = map_sum (\<lambda>e. e) snd (matchClass r' cs)"
proof -
  let ?cs = "if cs \<noteq> [] \<and> hd cs = CHR ''^'' then tl cs else cs"
  show ?thesis
    using classLoop_indep [of r False 0 ?cs r' False]
    by (cases "classLoop r False 0 ?cs"; cases "classLoop r' False 0 ?cs")
       (auto simp: matchClass_def Let_def)
qed

lemma matchClass_cases:
  obtains (bad) e where "matchClass r cs = Inl e" "matchClass r' cs = Inl e"
  | (good) b b' ds where "matchClass r cs = Inr (b, ds)" "matchClass r' cs = Inr (b', ds)"
  using matchClass_indep [of r cs r']
  by (cases "matchClass r cs"; cases "matchClass r' cs") auto

lemma chunkLoop_err: "err_of (chunkLoop f cs s) = err_of (chunkLoop f' cs s')"
proof (induction cs arbitrary: f s f' s' rule: length_induct)
  case (1 cs)
  show ?case
  proof (cases cs)
    case (Cons c cs')
    let ?r = "\<lambda>f s. if f \<or> s = [] then CHR 0x00 else hd s"
    show ?thesis
    proof (cases rule: matchClass_cases [of "?r f s" cs' "?r f' s'"])
      case bad
      with 1 Cons show ?thesis
        by (auto simp: chunkLoop.simps(2) Let_def split: list.splits)
    next
      case (good b b' ds)
      then have "length ds < length cs" using Cons matchClass_shorter by fastforce
      with 1 Cons good show ?thesis
        by (auto simp: chunkLoop.simps(2) Let_def split: list.splits)
    qed
  qed simp
qed

lemma matchChunk_err: "err_of (matchChunk cs s) = err_of (matchChunk cs s')"
  unfolding matchChunk_def by (rule chunkLoop_err)

lemma scanChunk_star_only:
  assumes "scanChunk p = (star, [], rest)"
  shows "rest = []"
proof -
  let ?q = "dropWhile (\<lambda>c. c = CHR ''*'') p"
  have q: "scanTo False ?q = ([], rest)"
    using assms by (auto simp: scanChunk_def Let_def split: prod.splits)
  then have "?q = []"
    using scanTo_progress hd_dropWhile [of "\<lambda>c. c = CHR ''*''" p] by blast
  with q show ?thesis by simp
qed

lemma skipLoop_err:
  assumes "err_of (matchChunk chunk s) = None"
  shows "\<exists>x. skipLoop chunk rest n = Inr x"
proof (induction n)
  case (Cons c cs)
  have "err_of (matchChunk chunk cs) = None"
    using assms matchChunk_err [of chunk cs s] by simp
  then obtain t ok where "matchChunk chunk cs = Inr (t, ok)"
    by (auto simp: err_of_None_iff)
  with Cons show ?case by simp
qed simp

lemma path_Match_err: "err_of (path_Match p n) = err_of (checkRest p)"
proof (induction p arbitrary: n rule: length_induct)
  case (1 p)
  show ?case
  proof (cases "p = []")
    case False
    obtain star chunk rest where sc: "scanChunk p = (star, chunk, rest)"
      by (metis prod_cases3)
    have len: "length rest < length p" using sc False by (rule scanChunk_shorter)
    have cr: "err_of (checkRest p) =
        (case err_of (matchChunk chunk []) of Some e \<Rightarrow> Some e | None \<Rightarrow> err_of (checkRest rest))"
      using False sc by (subst checkRest.simps) (auto split: sum.splits)
    show ?thesis
    proof (cases "chunk = [] \<and> star")
      case True
      with sc have "rest = []" by (auto dest: scanChunk_star_only)
      with True False sc cr show ?thesis
        by (subst path_Match.simps) (simp add: matchChunk_def checkRest.simps)
    next
      case nostar: False
      show ?thesis
      proof (cases "matchChunk chunk n")
        case (Inl e)
        with matchChunk_err [of chunk "[]" n] False sc cr nostar show ?thesis
          by (subst path_Match.simps) auto
      next
        case (Inr r)
        then have ok: "err_of (matchChunk chunk []) = None"
          using matchChunk_err [of chunk "[]" n] by simp
        obtain x where "skipLoop chunk rest n = Inr x" using skipLoop_err [OF ok] by blast
        with Inr ok False sc cr nostar len 1 show ?thesis
          by (subst path_Match.simps) (auto split: prod.splits option.splits)
      qed
    qed
  qed (simp add: path_Match.simps checkRest.simps)
qed

lemma path_Match_total:
  "path_Match p n = Inr b \<Longrightarrow> \<exists>b'. path_Match p n' = Inr b'"
  using path_Match_err [of p n] path_Match_err [of p n'] by (simp add: err_of_None_iff)

end
