(* ===== verification/Selectors.thy ===== *)
theory Selectors
  imports Api_Types Go_Path
begin

text \<open>
  What decides whether a policy applies: the namespace selector of a cluster policy and the
  workload selector of a namespaced one (\<open>selectorMatches\<close>, \<open>workloadMatches\<close> and their exported
  wrappers in \<open>internal/policy/resolver.go\<close>), and the glob comparison of provider and model names
  (\<open>globMatch\<close>, \<open>ValidGlob\<close>). The library's selector construction is the parameter \<open>asSel\<close>.
\<close>

section \<open>Selectors\<close>

text \<open>\<open>labels.Set(nil)\<close> has no labels.\<close>

definition label_set :: "labels option \<Rightarrow> labels" where
  "label_set l = (case l of None \<Rightarrow> [] | Some m \<Rightarrow> m)"

definition selectorMatches ::
  "selector_api \<Rightarrow> LabelSelector option \<Rightarrow> labels option \<Rightarrow> bool result" where
  "selectorMatches asSel sel lbls =
     (case sel of
        None \<Rightarrow> Inr True
      | Some s \<Rightarrow>
          (case asSel s of
             Inl e \<Rightarrow> Inl e
           | Inr matches \<Rightarrow> Inr (matches (label_set lbls))))"

definition NamespaceSelectorMatches ::
  "selector_api \<Rightarrow> LabelSelector option \<Rightarrow> labels option \<Rightarrow> bool result" where
  "NamespaceSelectorMatches asSel sel lbls = selectorMatches asSel sel lbls"

definition workloadMatches ::
  "selector_api \<Rightarrow> WorkloadSelector option \<Rightarrow> labels option \<Rightarrow> string \<Rightarrow> bool result" where
  "workloadMatches asSel sel podLabels sa =
     (case sel of
        None \<Rightarrow> Inr True
      | Some s \<Rightarrow>
          if length (ws_ServiceAccounts s) > 0 \<and> \<not> List.member (ws_ServiceAccounts s) sa
          then Inr False
          else (case ws_PodSelector s of
                  None \<Rightarrow> Inr True
                | Some ps \<Rightarrow>
                    (case asSel ps of
                       Inl e \<Rightarrow> Inl e
                     | Inr matches \<Rightarrow>
                         if \<not> matches (label_set podLabels) then Inr False else Inr True)))"

definition WorkloadSelectorMatches ::
  "selector_api \<Rightarrow> WorkloadSelector option \<Rightarrow> labels option \<Rightarrow> string \<Rightarrow> bool result" where
  "WorkloadSelectorMatches asSel sel podLabels sa = workloadMatches asSel sel podLabels sa"

lemma workloadMatches_Some:
  "workloadMatches asSel (Some s) pl sa = Inr True \<longleftrightarrow>
     (ws_ServiceAccounts s = [] \<or> sa \<in> set (ws_ServiceAccounts s)) \<and>
     (\<forall>ps. ws_PodSelector s = Some ps \<longrightarrow>
        (\<exists>m. asSel ps = Inr m \<and> m (label_set pl)))"
  by (auto simp: workloadMatches_def split: option.splits sum.splits)

section \<open>Glob matching of names\<close>

definition globMatch :: "string \<Rightarrow> string \<Rightarrow> bool" where
  "globMatch pattern value =
     (let pattern = ToLower (TrimSpace pattern);
          value = ToLower (TrimSpace value)
      in if pattern = ''*'' \<or> pattern = value then True
         else (case path_Match pattern value of
                 Inl err \<Rightarrow> False
               | Inr ok \<Rightarrow> ok))"

text \<open>\<open>ValidGlob\<close> returns the error of matching a probe, \<open>None\<close> being \<open>nil\<close>.\<close>

definition ValidGlob :: "string \<Rightarrow> error option" where
  "ValidGlob pattern = err_of (path_Match pattern ''probe'')"

lemma globMatch_fold: "globMatch (fold_name p) (fold_name v) = globMatch p v"
  by (simp add: globMatch_def Let_def flip: fold_name_def)

lemma globMatch_cong:
  "fold_name p = fold_name p' \<Longrightarrow> fold_name v = fold_name v' \<Longrightarrow> globMatch p v = globMatch p' v'"
  by (simp add: globMatch_def flip: fold_name_def)

lemma globMatch_star [simp]: "globMatch ''*'' v"
  by (simp add: globMatch_def Let_def TrimSpace_def is_space_def byte_def lower_char_def)

lemma globMatch_self [simp]: "globMatch p p"
  by (simp add: globMatch_def)

end
