(* ===== verification/Go_Float.thy ===== *)
theory Go_Float
  imports TC_Prelude
begin

text \<open>
  The conversion \<open>float64(x)\<close> of an integer. Every \<open>float64\<close> of the program is an integral number and
  is represented by that integer; a conversion rounds to 53 significant bits, to the nearest
  representable number and to the even one when two are equally near (IEEE 754, as Go specifies).
\<close>

type_synonym float64 = int

text \<open>How often a positive number has to be halved until 53 bits suffice.\<close>

function float64_exp :: "int \<Rightarrow> nat" where
  "float64_exp a = (if a < 2 ^ 53 then 0 else Suc (float64_exp (a div 2)))"
  by pat_completeness auto

termination by (relation "measure nat") auto

declare float64_exp.simps [simp del]

text \<open>The quotient, rounded to the nearest integer, ties to even.\<close>

definition div_half_even :: "int \<Rightarrow> int \<Rightarrow> int" where
  "div_half_even a d =
     (let q = a div d; r = a mod d in if 2 * r < d \<or> 2 * r = d \<and> even q then q else q + 1)"

definition float64_of :: "int \<Rightarrow> float64" where
  "float64_of x = (let a = \<bar>x\<bar>; d = 2 ^ float64_exp a in sgn x * (div_half_even a d * d))"

text \<open>The program only adds one to a \<open>float64\<close>.\<close>

definition float64_inc :: "float64 \<Rightarrow> float64" where
  "float64_inc x = float64_of (x + 1)"

lemma float64_exp_bounds: "2 ^ 53 \<le> a \<Longrightarrow> 2 ^ (52 + float64_exp a) \<le> a"
proof (induction a rule: float64_exp.induct)
  case (1 a)
  show ?case
  proof (cases "a div 2 < 2 ^ 53")
    case True
    then have "float64_exp (a div 2) = 0" by (simp add: float64_exp.simps)
    with 1 True have "float64_exp a = 1" by (simp add: float64_exp.simps [of a])
    with 1 show ?thesis by simp
  next
    case False
    with 1 have "2 ^ (52 + float64_exp (a div 2)) \<le> a div 2" by auto
    moreover have "2 * p \<le> a" if "p \<le> a div 2" for p using that by linarith
    ultimately have "2 * 2 ^ (52 + float64_exp (a div 2)) \<le> a" by blast
    moreover have "float64_exp a = Suc (float64_exp (a div 2))"
      using 1 by (simp add: float64_exp.simps [of a])
    ultimately show ?thesis by (simp flip: power_Suc)
  qed
qed

text \<open>Integers of up to 53 bits are converted exactly.\<close>

lemma float64_exact:
  assumes "\<bar>x\<bar> \<le> 2 ^ 53"
  shows "float64_of x = x"
proof (cases "\<bar>x\<bar> = 2 ^ 53")
  case True
  moreover have "float64_exp (2 ^ 53) = 1" by (simp add: float64_exp.simps)
  ultimately show ?thesis
    by (simp add: float64_of_def div_half_even_def) (auto simp: sgn_if)
next
  case False
  with assms have "float64_exp \<bar>x\<bar> = 0" by (simp add: float64_exp.simps)
  then show ?thesis by (simp add: float64_of_def div_half_even_def mult_sgn_abs)
qed

lemma float64_bool [simp]: "float64_of 0 = 0" "float64_of 1 = 1"
  by (simp_all add: float64_exact)

lemma div_half_even_error:
  assumes "0 < d"
  shows "2 * \<bar>div_half_even a d * d - a\<bar> \<le> d"
proof -
  have a: "a = a div d * d + a mod d" by simp
  have r: "a mod d < d" "0 \<le> a mod d" using assms by simp_all
  have "div_half_even a d * d - a = - (a mod d) \<and> 2 * (a mod d) \<le> d \<or>
      div_half_even a d * d - a = d - a mod d \<and> d \<le> 2 * (a mod d)"
    using a by (auto simp: div_half_even_def Let_def algebra_simps)
  with r show ?thesis by auto
qed

text \<open>In general the relative error is at most \<open>2\<close> to the power of \<open>-53\<close>.\<close>

lemma float64_error: "2 ^ 53 * \<bar>float64_of x - x\<bar> \<le> \<bar>x\<bar>"
proof (cases "\<bar>x\<bar> \<le> 2 ^ 53")
  case True
  then show ?thesis by (simp add: float64_exact)
next
  case False
  let ?d = "2 ^ float64_exp \<bar>x\<bar> :: int"
  have big: "2 ^ 52 * ?d \<le> \<bar>x\<bar>"
    using float64_exp_bounds [of "\<bar>x\<bar>"] False by (simp add: power_add)
  have "float64_of x - x = sgn x * (div_half_even \<bar>x\<bar> ?d * ?d - \<bar>x\<bar>)"
    by (simp add: float64_of_def Let_def right_diff_distrib sgn_mult_abs)
  then have "\<bar>float64_of x - x\<bar> = \<bar>div_half_even \<bar>x\<bar> ?d * ?d - \<bar>x\<bar>\<bar>"
    using False by (auto simp: abs_mult sgn_if)
  then have "2 * \<bar>float64_of x - x\<bar> \<le> ?d" using div_half_even_error [of ?d "\<bar>x\<bar>"] by simp
  with big show ?thesis by simp
qed

lemma float64_samples: "float64_of (2 ^ 53 + 1) = 2 ^ 53" "float64_of (2 ^ 53 + 3) = 2 ^ 53 + 4"
  "float64_of (- (2 ^ 53 + 1)) = - (2 ^ 53)"
  by code_simp+

text \<open>So counting in \<open>float64\<close> is exact as long as it can be.\<close>

lemma float64_inc: "0 \<le> n \<Longrightarrow> n \<le> 2 ^ 53 \<Longrightarrow> float64_inc n = min (2 ^ 53) (n + 1)"
  using float64_samples(1) float64_exact [of "n + 1"] by (cases "n = 2 ^ 53") (simp_all add: float64_inc_def)

end
