(* ===== verification/Quotas.thy ===== *)
theory Quotas
  imports Api_Types Go_Float
begin

text \<open>
  Arithmetic on \<open>TokenQuota\<close>: the field-wise minimum of the resolver (\<open>minQuota\<close>, \<open>minPtr\<close> of
  \<open>internal/policy/resolver.go\<close>) and the capacity rollup of the credential controller (\<open>addQuota\<close>,
  \<open>availableQuota\<close>, \<open>oversubscribed\<close>, \<open>mapQuota2\<close>, \<open>normalizeQuota\<close> of
  \<open>internal/controller/modelcredential_controller.go\<close>). A limit is an \<open>int64\<close>; the sums wrap as
  Go's do. \<open>DeepCopy\<close> copies a value, which here is the value itself.
\<close>

section \<open>The resolver's minimum\<close>

definition minPtr :: "int64 option \<Rightarrow> int64 option \<Rightarrow> int64 option" where
  "minPtr a b =
     (case a of
        None \<Rightarrow> b
      | Some x \<Rightarrow>
          (case b of
             None \<Rightarrow> a
           | Some y \<Rightarrow> if le64 x y then a else b))"

definition minQuota :: "TokenQuota option \<Rightarrow> TokenQuota option \<Rightarrow> TokenQuota option" where
  "minQuota a b =
     (case a of
        None \<Rightarrow> b
      | Some qa \<Rightarrow>
          (case b of
             None \<Rightarrow> a
           | Some qb \<Rightarrow>
               Some (qa\<lparr>tq_TokensPerMinute := minPtr (tq_TokensPerMinute qa) (tq_TokensPerMinute qb),
                        tq_RequestsPerMinute := minPtr (tq_RequestsPerMinute qa) (tq_RequestsPerMinute qb),
                        tq_TokensPerDay := minPtr (tq_TokensPerDay qa) (tq_TokensPerDay qb),
                        tq_TokensPerMonth := minPtr (tq_TokensPerMonth qa) (tq_TokensPerMonth qb)\<rparr>)))"

section \<open>The capacity rollup\<close>

definition normalizeQuota :: "TokenQuota option \<Rightarrow> TokenQuota option" where
  "normalizeQuota q =
     (case q of
        None \<Rightarrow> None
      | Some q \<Rightarrow>
          if tq_TokensPerMinute q = None \<and> tq_RequestsPerMinute q = None \<and>
             tq_TokensPerDay q = None \<and> tq_TokensPerMonth q = None
          then None else Some q)"

definition mapQuota2 ::
  "TokenQuota option \<Rightarrow> TokenQuota option \<Rightarrow>
   (int64 option \<Rightarrow> int64 option \<Rightarrow> int64 option) \<Rightarrow> TokenQuota option" where
  "mapQuota2 a b f =
     (let a = (case a of None \<Rightarrow> empty_quota | Some q \<Rightarrow> q);
          b = (case b of None \<Rightarrow> empty_quota | Some q \<Rightarrow> q)
      in normalizeQuota
           (Some \<lparr>tq_TokensPerMinute = f (tq_TokensPerMinute a) (tq_TokensPerMinute b),
                  tq_RequestsPerMinute = f (tq_RequestsPerMinute a) (tq_RequestsPerMinute b),
                  tq_TokensPerDay = f (tq_TokensPerDay a) (tq_TokensPerDay b),
                  tq_TokensPerMonth = f (tq_TokensPerMonth a) (tq_TokensPerMonth b)\<rparr>))"

definition addPtr :: "int64 option \<Rightarrow> int64 option \<Rightarrow> int64 option" where
  "addPtr x y =
     (case x of
        None \<Rightarrow> (case y of None \<Rightarrow> None | Some v \<Rightarrow> Some v)
      | Some v \<Rightarrow> (case y of None \<Rightarrow> Some v | Some w \<Rightarrow> Some (v + w)))"

definition addQuota :: "TokenQuota option \<Rightarrow> TokenQuota option \<Rightarrow> TokenQuota option" where
  "addQuota a b = mapQuota2 a b addPtr"

definition availablePtr :: "int64 option \<Rightarrow> int64 option \<Rightarrow> int64 option" where
  "availablePtr cv av =
     (case cv of
        None \<Rightarrow> None
      | Some c \<Rightarrow>
          (let used = (case av of None \<Rightarrow> 0 | Some a \<Rightarrow> a);
               v = c - used
           in Some (if lt64 v 0 then 0 else v)))"

definition availableQuota :: "TokenQuota option \<Rightarrow> TokenQuota option \<Rightarrow> TokenQuota option" where
  "availableQuota capacity allocated = mapQuota2 capacity allocated availablePtr"

definition overPtr :: "int64 option \<Rightarrow> int64 option \<Rightarrow> bool" where
  "overPtr cv av =
     (case (cv, av) of (Some c, Some a) \<Rightarrow> lt64 c a | _ \<Rightarrow> False)"

definition oversubscribed :: "TokenQuota option \<Rightarrow> TokenQuota option \<Rightarrow> bool" where
  "oversubscribed capacity allocated =
     (case (capacity, allocated) of
        (Some c, Some a) \<Rightarrow>
          overPtr (tq_TokensPerMinute c) (tq_TokensPerMinute a) \<or>
          overPtr (tq_RequestsPerMinute c) (tq_RequestsPerMinute a) \<or>
          overPtr (tq_TokensPerDay c) (tq_TokensPerDay a) \<or>
          overPtr (tq_TokensPerMonth c) (tq_TokensPerMonth a)
      | _ \<Rightarrow> False)"

text \<open>The value of the gauges.\<close>

definition quotaTPM :: "TokenQuota option \<Rightarrow> float64" where
  "quotaTPM q =
     (case q of
        None \<Rightarrow> 0
      | Some q \<Rightarrow> (case tq_TokensPerMinute q of None \<Rightarrow> 0 | Some v \<Rightarrow> float64_of (sint v)))"

section \<open>Windows: the four fields of a quota as one\<close>

text \<open>Every operation above treats the four fields alike; a window names one of them.\<close>

datatype window = TPM | RPM | TPD | TPMonth

fun limit :: "window \<Rightarrow> TokenQuota \<Rightarrow> int64 option" where
  "limit TPM q = tq_TokensPerMinute q"
| "limit RPM q = tq_RequestsPerMinute q"
| "limit TPD q = tq_TokensPerDay q"
| "limit TPMonth q = tq_TokensPerMonth q"

definition qlimit :: "window \<Rightarrow> TokenQuota option \<Rightarrow> int64 option" where
  "qlimit w q = (case q of None \<Rightarrow> None | Some q \<Rightarrow> limit w q)"

lemma qlimit_simps [simp]: "qlimit w None = None" "qlimit w (Some q) = limit w q"
  by (simp_all add: qlimit_def)

lemma limit_eqI: "(\<And>w. limit w a = limit w b) \<Longrightarrow> a = b"
  by (metis quota_eq_iff limit.simps)

lemma limit_empty [simp]: "limit w empty_quota = None"
  by (cases w) (simp_all add: empty_quota_def)

lemma all_windows: "(\<forall>w. P w) \<longleftrightarrow> P TPM \<and> P RPM \<and> P TPD \<and> P TPMonth"
  by (metis window.exhaust)

lemma ex_window: "(\<exists>w. P w) \<longleftrightarrow> P TPM \<or> P RPM \<or> P TPD \<or> P TPMonth"
  by (metis window.exhaust)

lemma qlimit_minQuota: "qlimit w (minQuota a b) = minPtr (qlimit w a) (qlimit w b)"
  by (cases w) (auto simp: minQuota_def minPtr_def split: option.splits)

lemma qlimit_normalize [simp]: "qlimit w (normalizeQuota q) = qlimit w q"
  by (cases w) (auto simp: normalizeQuota_def split: option.splits)

lemma qlimit_mapQuota2:
  "f None None = None \<Longrightarrow> qlimit w (mapQuota2 a b f) = f (qlimit w a) (qlimit w b)"
  by (cases w) (auto simp: mapQuota2_def Let_def empty_quota_def split: option.splits)

lemma qlimit_addQuota: "qlimit w (addQuota a b) = addPtr (qlimit w a) (qlimit w b)"
  by (simp add: addQuota_def qlimit_mapQuota2 addPtr_def)

lemma qlimit_availableQuota:
  "qlimit w (availableQuota a b) = availablePtr (qlimit w a) (qlimit w b)"
  by (simp add: availableQuota_def qlimit_mapQuota2 availablePtr_def)

lemma oversubscribed_iff:
  "oversubscribed c a \<longleftrightarrow> (\<exists>w. overPtr (qlimit w c) (qlimit w a))"
  by (auto simp: oversubscribed_def ex_window overPtr_def split: option.splits)

section \<open>The interface of a field-wise fold\<close>

text \<open>
  Folding policies into a quota relies on three laws of the operation on one field: a missing
  limit is neutral, the order of the operands and their grouping do not matter. Both rollups of
  the program provide it; folds over permuted policies then agree.
\<close>

locale limit_fold =
  fixes op1 :: "int64 option \<Rightarrow> int64 option \<Rightarrow> int64 option"
    and opq :: "TokenQuota option \<Rightarrow> TokenQuota option \<Rightarrow> TokenQuota option"
  assumes op1_None: "op1 None x = x"
    and op1_commute: "op1 x y = op1 y x"
    and op1_assoc: "op1 (op1 x y) z = op1 x (op1 y z)"
    and opq_limit: "qlimit w (opq a b) = op1 (qlimit w a) (qlimit w b)"
begin

lemma fold_limit:
  "qlimit w (foldl opq a qs) = foldl op1 (qlimit w a) (map (qlimit w) qs)"
  by (induction qs arbitrary: a) (simp_all add: opq_limit)

lemma op1_left_commute: "op1 x (op1 y z) = op1 y (op1 x z)"
  by (metis op1_assoc op1_commute)

lemma fold1_swap: "foldl op1 (op1 a x) qs = op1 x (foldl op1 a qs)"
proof (induction qs arbitrary: a)
  case (Cons y qs)
  have "op1 (op1 a x) y = op1 (op1 a y) x" by (metis op1_assoc op1_commute)
  with Cons.IH [of "op1 a y"] show ?case by simp
qed (simp add: op1_commute)

lemma fold1_perm: "mset xs = mset ys \<Longrightarrow> foldl op1 a xs = foldl op1 a ys"
proof (induction xs arbitrary: ys)
  case (Cons x xs)
  then have "x \<in> set ys" by (metis list.set_intros(1) mset_eq_setD)
  then obtain us vs where ys: "ys = us @ x # vs" by (meson split_list)
  with Cons.prems have "mset xs = mset (us @ vs)" by simp
  then have "foldl op1 a xs = foldl op1 a (us @ vs)" by (rule Cons.IH)
  moreover have "foldl op1 a ys = op1 x (foldl op1 a (us @ vs))"
    by (simp add: ys fold1_swap)
  ultimately show ?case by (simp add: fold1_swap)
qed simp

end

lemma minPtr_None [simp]: "minPtr None x = x" "minPtr x None = x"
  by (auto simp: minPtr_def split: option.splits)

lemma minPtr_commute: "minPtr x y = minPtr y x"
  by (auto simp: minPtr_def dest: le64_antisym split: option.splits) (metis le64_linear)+

lemma minPtr_assoc: "minPtr (minPtr x y) z = minPtr x (minPtr y z)"
  by (auto simp: minPtr_def split: option.splits dest: le64_trans le64_antisym)
    (metis le64_linear le64_trans)+

interpretation min_fold: limit_fold minPtr minQuota
  by unfold_locales (simp_all add: minPtr_assoc qlimit_minQuota, rule minPtr_commute)

interpretation add_fold: limit_fold addPtr addQuota
  by unfold_locales
     (auto simp: addPtr_def qlimit_addQuota add.commute add.assoc split: option.splits)

section \<open>Minimum as greatest lower bound\<close>

text \<open>\<open>tightens a b\<close>: whatever limit \<open>b\<close> sets, \<open>a\<close> sets one at most as large.\<close>

definition tightens1 :: "int64 option \<Rightarrow> int64 option \<Rightarrow> bool" where
  "tightens1 a b \<longleftrightarrow> (\<forall>y. b = Some y \<longrightarrow> (\<exists>x. a = Some x \<and> le64 x y))"

definition tightens :: "TokenQuota option \<Rightarrow> TokenQuota option \<Rightarrow> bool" where
  "tightens a b \<longleftrightarrow> (\<forall>w. tightens1 (qlimit w a) (qlimit w b))"

lemma tightens1_refl [simp]: "tightens1 a a"
  and tightens1_None [simp]: "tightens1 a None"
  by (simp_all add: tightens1_def)

lemma tightens1_trans: "tightens1 a b \<Longrightarrow> tightens1 b c \<Longrightarrow> tightens1 a c"
  by (auto simp: tightens1_def) (meson le64_trans)

lemma tightens1_minPtr_iff: "tightens1 c (minPtr a b) \<longleftrightarrow> tightens1 c a \<and> tightens1 c b"
  by (auto simp: tightens1_def minPtr_def split: option.splits if_splits)
    (meson le64_trans le64_linear)+

lemma tightens1_fold_iff:
  "tightens1 c (foldl minPtr a xs) \<longleftrightarrow> tightens1 c a \<and> (\<forall>x \<in> set xs. tightens1 c x)"
  by (induction xs arbitrary: a) (auto simp: tightens1_minPtr_iff)

lemma fold_minPtr_mem: "foldl minPtr a xs \<in> insert a (set xs)"
proof (induction xs arbitrary: a)
  case (Cons x xs)
  have "minPtr a x \<in> {a, x}" by (auto simp: minPtr_def split: option.splits)
  with Cons [of "minPtr a x"] show ?case by auto
qed simp

end
