(* ===== verification/Resolver.thy ===== *)
theory Resolver
  imports Selectors Quotas
begin

text \<open>
  The effective-policy resolver, \<open>internal/policy/resolver.go\<close>: the three tiers of rules and the
  verdict of one tier (\<open>evalTier\<close>), the fold of the applicable policies into an \<open>Effective\<close>
  decision (\<open>Resolve\<close>, \<open>applyNamespaceTier\<close>, \<open>ResolveForPolicy\<close>), and its queries (\<open>Permit\<close>,
  \<open>EffectiveModels\<close>). Definitions only; the lemmas are in \<open>Resolver_Facts\<close>.
\<close>

section \<open>Data\<close>

record ResolveInput =
  ri_ClusterPolicies :: "ClusterTokenPolicy list"
  ri_NamespacePolicies :: "TokenPolicy list"
  ri_Namespace :: string
  ri_NamespaceLabels :: "labels option"
  ri_PodLabels :: "labels option"
  ri_ServiceAccount :: string

datatype Decision = Abstain | Allow | Deny

fun decision_string :: "Decision \<Rightarrow> string" where
  "decision_string Allow = ''Allow''"
| "decision_string Deny = ''Deny''"
| "decision_string Abstain = ''Abstain''"

record sourcedRule =
  sr_rule :: ModelPermission
  sr_source :: string

record tier =
  tier_name :: string
  tier_rules :: "sourcedRule list"

record Effective =
  eff_Governed :: bool
  eff_ModelGoverned :: bool
  eff_Enforcement :: EnforcementMode
  eff_Quota :: "TokenQuota option"
  eff_Gateway :: "GatewayIntegration option"
  eff_DefaultCredential :: string
  eff_Sources :: "string list"
  eff_cluster :: tier
  eff_ns :: tier
  eff_wl :: tier

record ModelDecision =
  md_Provider :: string
  md_Model :: string
  md_Allowed :: bool
  md_Credential :: string
  md_DeniedBy :: string
  md_Reason :: string

section \<open>The verdict of a tier\<close>

definition normAction :: "PermissionAction \<Rightarrow> PermissionAction" where
  "normAction a = (if a = ActionUnset then ActionAllow else a)"

definition modelMatches :: "ModelPermission \<Rightarrow> string \<Rightarrow> string \<Rightarrow> bool" where
  "modelMatches r provider model \<longleftrightarrow>
     globMatch (mp_Provider r) provider \<and> globMatch (mp_Model r) model"

definition evalTier :: "tier \<Rightarrow> string \<Rightarrow> string \<Rightarrow> Decision \<times> string \<times> string" where
  "evalTier t provider model =
     (if length (tier_rules t) = 0 then (Abstain, [], [])
      else
        (let hasAllow = list_ex (\<lambda>r. normAction (mp_Action (sr_rule r)) = ActionAllow) (tier_rules t)
         in case find (\<lambda>r. normAction (mp_Action (sr_rule r)) = ActionDeny \<and>
                           modelMatches (sr_rule r) provider model) (tier_rules t) of
              Some r \<Rightarrow> (Deny, [], sr_source r)
            | None \<Rightarrow>
                (case find (\<lambda>r. normAction (mp_Action (sr_rule r)) = ActionAllow \<and>
                               modelMatches (sr_rule r) provider model) (tier_rules t) of
                   Some r \<Rightarrow>
                     (Allow,
                      (case mp_CredentialRef (sr_rule r) of None \<Rightarrow> [] | Some c \<Rightarrow> cr_Name c),
                      sr_source r)
                 | None \<Rightarrow>
                     if hasAllow then (Deny, [], tier_name t @ '' allowlist'')
                     else (Allow, [], []))))"

definition denyReason :: "string \<Rightarrow> string \<Rightarrow> string \<Rightarrow> string \<Rightarrow> string" where
  "denyReason level source provider model =
     (if HasSuffix source ''allowlist''
      then provider @ ''/'' @ model @ '' is not on the '' @ level @ '' allowlist''
      else provider @ ''/'' @ model @ '' is denied by '' @ level @ '' ('' @ source @ '')'')"

definition Permit :: "Effective \<Rightarrow> string \<Rightarrow> string \<Rightarrow> ModelDecision" where
  "Permit e provider model =
     (let (dc, ccred, csrc) = evalTier (eff_cluster e) provider model;
          (dn, ncred, nsrc) = evalTier (eff_ns e) provider model;
          (dw, wcred, wsrc) = evalTier (eff_wl e) provider model;
          res = \<lparr>md_Provider = provider, md_Model = model, md_Allowed = False,
                 md_Credential = [], md_DeniedBy = [], md_Reason = []\<rparr>
      in if dw = Deny then
           res\<lparr>md_DeniedBy := wsrc, md_Reason := denyReason ''workload'' wsrc provider model\<rparr>
         else if dn = Deny then
           res\<lparr>md_DeniedBy := nsrc, md_Reason := denyReason ''namespace'' nsrc provider model\<rparr>
         else if dc = Deny then
           res\<lparr>md_DeniedBy := csrc, md_Reason := denyReason ''cluster'' csrc provider model\<rparr>
         else
           res\<lparr>md_Allowed := True,
               md_Credential :=
                 (if dw = Allow \<and> wcred \<noteq> [] then wcred
                  else if dn = Allow \<and> ncred \<noteq> [] then ncred
                  else if dc = Allow \<and> ccred \<noteq> [] then ccred
                  else eff_DefaultCredential e),
               md_Reason :=
                 (if dc = Abstain \<and> dn = Abstain \<and> dw = Abstain
                  then ''no model allowlist configured for scope''
                  else ''permitted by policy'')\<rparr>)"

section \<open>Folding the policies\<close>

definition appendRules :: "tier \<Rightarrow> ModelPermission list \<Rightarrow> string \<Rightarrow> tier" where
  "appendRules t models src =
     t\<lparr>tier_rules := tier_rules t @ map (\<lambda>m. \<lparr>sr_rule = m, sr_source = src\<rparr>) models\<rparr>"

definition cluster_src :: "ClusterTokenPolicy \<Rightarrow> string" where
  "cluster_src ctp = ''ClusterTokenPolicy/'' @ ctp_Name ctp"

definition policy_src :: "TokenPolicy \<Rightarrow> string" where
  "policy_src tp = ''TokenPolicy/'' @ tp_Namespace tp @ ''/'' @ tp_Name tp"

text \<open>The body of the loop over the matching cluster policies; the pair is \<open>eff\<close> and \<open>sourceSet\<close>.\<close>

definition clusterStep ::
  "Effective \<times> string list \<Rightarrow> ClusterTokenPolicy \<Rightarrow> Effective \<times> string list" where
  "clusterStep st ctp =
     (let (eff, sourceSet) = st;
          spec = ctp_Spec ctp;
          src = cluster_src ctp;
          eff = eff\<lparr>eff_cluster := appendRules (eff_cluster eff) (ctps_Models spec) src\<rparr>;
          (eff, sourceSet) =
            (case ctps_Quota spec of
               None \<Rightarrow> (eff, sourceSet)
             | Some q \<Rightarrow> (eff\<lparr>eff_Quota := minQuota (eff_Quota eff) (Some q)\<rparr>, set_add sourceSet src));
          eff = (if ctps_Enforcement spec \<noteq> EnforcementUnset
                 then eff\<lparr>eff_Enforcement := ctps_Enforcement spec\<rparr> else eff);
          eff = (case ctps_Gateway spec of
                   None \<Rightarrow> eff | Some g \<Rightarrow> eff\<lparr>eff_Gateway := Some g\<rparr>);
          eff = (case ctps_DefaultCredentialRef spec of
                   None \<Rightarrow> eff | Some c \<Rightarrow> eff\<lparr>eff_DefaultCredential := cr_Name c\<rparr>);
          sourceSet = (if length (ctps_Models spec) > 0 then set_add sourceSet src else sourceSet)
      in (eff, sourceSet))"

text \<open>The tier that \<open>applyNamespaceTier\<close> is given a pointer to.\<close>

datatype tier_slot = NsTier | WlTier

fun slot_tier :: "tier_slot \<Rightarrow> Effective \<Rightarrow> tier" where
  "slot_tier NsTier e = eff_ns e"
| "slot_tier WlTier e = eff_wl e"

fun set_slot :: "tier_slot \<Rightarrow> tier \<Rightarrow> Effective \<Rightarrow> Effective" where
  "set_slot NsTier t e = e\<lparr>eff_ns := t\<rparr>"
| "set_slot WlTier t e = e\<lparr>eff_wl := t\<rparr>"

definition applyNamespaceTier ::
  "tier_slot \<Rightarrow> Effective \<times> string list \<Rightarrow> TokenPolicy \<Rightarrow> Effective \<times> string list" where
  "applyNamespaceTier slot st tp =
     (let (eff, sourceSet) = st;
          spec = tp_Spec tp;
          src = policy_src tp;
          eff = set_slot slot (appendRules (slot_tier slot eff) (tps_Models spec) src) eff;
          sourceSet = (if length (tps_Models spec) > 0 then set_add sourceSet src else sourceSet);
          (eff, sourceSet) =
            (case tps_Quota spec of
               None \<Rightarrow> (eff, sourceSet)
             | Some q \<Rightarrow> (eff\<lparr>eff_Quota := minQuota (eff_Quota eff) (Some q)\<rparr>, set_add sourceSet src));
          eff = (if tps_Enforcement spec \<noteq> EnforcementUnset
                 then eff\<lparr>eff_Enforcement := tps_Enforcement spec\<rparr> else eff);
          eff = (case tps_Gateway spec of
                   None \<Rightarrow> eff | Some g \<Rightarrow> eff\<lparr>eff_Gateway := Some g\<rparr>)
      in (eff, sourceSet))"

text \<open>\<open>sortByPriority\<close>: a stable sort by priority, then by name.\<close>

definition priority_key :: "TokenPolicy \<Rightarrow> int \<times> string" where
  "priority_key tp = (sint (tps_Priority (tp_Spec tp)), tp_Name tp)"

definition sortByPriority :: "TokenPolicy list \<Rightarrow> TokenPolicy list" where
  "sortByPriority ps = sort_key priority_key ps"

text \<open>Whether one cluster policy matches the namespace.\<close>

definition clusterMatches ::
  "selector_api \<Rightarrow> ResolveInput \<Rightarrow> ClusterTokenPolicy \<Rightarrow> bool result" where
  "clusterMatches asSel inp ctp =
     (case selectorMatches asSel (ctps_NamespaceSelector (ctp_Spec ctp)) (ri_NamespaceLabels inp) of
        Inl err \<Rightarrow> Inl (''ClusterTokenPolicy '' @ quote (ctp_Name ctp) @ '' namespaceSelector: '' @ err)
      | Inr match \<Rightarrow> Inr match)"

text \<open>The loop that sorts the namespace's policies into its defaults and the workload's.\<close>

primrec splitPolicies ::
  "selector_api \<Rightarrow> ResolveInput \<Rightarrow> TokenPolicy list \<Rightarrow> TokenPolicy list \<Rightarrow> TokenPolicy list
     \<Rightarrow> (TokenPolicy list \<times> TokenPolicy list) result" where
  "splitPolicies asSel inp nsDefaults wlMatched [] = Inr (nsDefaults, wlMatched)"
| "splitPolicies asSel inp nsDefaults wlMatched (tp # tps) =
     (if IsEmpty (tps_Selector (tp_Spec tp))
      then splitPolicies asSel inp (nsDefaults @ [tp]) wlMatched tps
      else if ri_PodLabels inp = None \<and> ri_ServiceAccount inp = []
      then splitPolicies asSel inp nsDefaults wlMatched tps
      else (case workloadMatches asSel (tps_Selector (tp_Spec tp)) (ri_PodLabels inp)
                   (ri_ServiceAccount inp) of
              Inl err \<Rightarrow>
                Inl (''TokenPolicy '' @ tp_Namespace tp @ ''/'' @ tp_Name tp @ '' selector: '' @ err)
            | Inr ok \<Rightarrow>
                splitPolicies asSel inp nsDefaults
                  (if ok then wlMatched @ [tp] else wlMatched) tps))"

definition empty_tier :: tier where
  "empty_tier = \<lparr>tier_name = [], tier_rules = []\<rparr>"

text \<open>\<open>&Effective\<open>{Enforcement: api.EnforcementEnforce}\<close>\<close>\<close>

definition new_effective :: Effective where
  "new_effective =
     \<lparr>eff_Governed = False, eff_ModelGoverned = False, eff_Enforcement = EnforcementEnforce,
      eff_Quota = None, eff_Gateway = None, eff_DefaultCredential = [], eff_Sources = [],
      eff_cluster = empty_tier, eff_ns = empty_tier, eff_wl = empty_tier\<rparr>"

definition has_rules :: "Effective \<Rightarrow> bool" where
  "has_rules eff \<longleftrightarrow>
     length (tier_rules (eff_cluster eff)) > 0 \<or> length (tier_rules (eff_ns eff)) > 0 \<or>
     length (tier_rules (eff_wl eff)) > 0"

definition Resolve :: "selector_api \<Rightarrow> ResolveInput \<Rightarrow> Effective result" where
  "Resolve asSel inp =
     (let eff = new_effective in
      case filterR (clusterMatches asSel inp) (ri_ClusterPolicies inp) of
        Inl err \<Rightarrow> Inl err
      | Inr matched \<Rightarrow>
          (let clusterMatched = sort_key ctp_Name matched;
               eff = eff\<lparr>eff_cluster := (eff_cluster eff)\<lparr>tier_name := ''cluster''\<rparr>\<rparr>;
               (eff, sourceSet) = foldl clusterStep (eff, []) clusterMatched
           in case splitPolicies asSel inp [] [] (ri_NamespacePolicies inp) of
                Inl err \<Rightarrow> Inl err
              | Inr (nsDefaults, wlMatched) \<Rightarrow>
                  (let nsDefaults = sortByPriority nsDefaults;
                       wlMatched = sortByPriority wlMatched;
                       eff = eff\<lparr>eff_ns := (eff_ns eff)\<lparr>tier_name := ''namespace''\<rparr>\<rparr>;
                       (eff, sourceSet) = foldl (applyNamespaceTier NsTier) (eff, sourceSet) nsDefaults;
                       eff = eff\<lparr>eff_wl := (eff_wl eff)\<lparr>tier_name := ''workload''\<rparr>\<rparr>;
                       (eff, sourceSet) = foldl (applyNamespaceTier WlTier) (eff, sourceSet) wlMatched;
                       eff = eff\<lparr>eff_ModelGoverned := has_rules eff,
                                 eff_Governed := length clusterMatched > 0 \<or>
                                   length nsDefaults > 0 \<or> length wlMatched > 0\<rparr>
                   in Inr (eff\<lparr>eff_Sources := sort sourceSet\<rparr>))))"

section \<open>The resolution of one policy\<close>

definition appendUnique :: "string list \<Rightarrow> string \<Rightarrow> string list" where
  "appendUnique s v = (if list_ex (\<lambda>e. e = v) s then s else s @ [v])"

definition same_policy :: "TokenPolicy \<Rightarrow> TokenPolicy \<Rightarrow> bool" where
  "same_policy p q \<longleftrightarrow> tp_Namespace p = tp_Namespace q \<and> tp_Name p = tp_Name q"

definition ResolveForPolicy ::
  "selector_api \<Rightarrow> ClusterTokenPolicy list \<Rightarrow> TokenPolicy list \<Rightarrow> labels option \<Rightarrow> TokenPolicy
     \<Rightarrow> Effective result" where
  "ResolveForPolicy asSel cluster nsPolicies nsLabels target =
     (let rest = filter (\<lambda>p. \<not> same_policy p target) nsPolicies
      in if IsEmpty (tps_Selector (tp_Spec target))
         then Resolve asSel
                \<lparr>ri_ClusterPolicies = cluster, ri_NamespacePolicies = rest @ [target],
                 ri_Namespace = tp_Namespace target, ri_NamespaceLabels = nsLabels,
                 ri_PodLabels = None, ri_ServiceAccount = []\<rparr>
         else
           (case Resolve asSel
                   \<lparr>ri_ClusterPolicies = cluster, ri_NamespacePolicies = rest,
                    ri_Namespace = tp_Namespace target, ri_NamespaceLabels = nsLabels,
                    ri_PodLabels = None, ri_ServiceAccount = []\<rparr> of
              Inl err \<Rightarrow> Inl err
            | Inr base \<Rightarrow>
                (let (base, sset) = applyNamespaceTier WlTier (base, []) target;
                     base = base\<lparr>eff_wl := (eff_wl base)\<lparr>tier_name := ''workload''\<rparr>\<rparr>;
                     base = base\<lparr>eff_ModelGoverned := has_rules base, eff_Governed := True\<rparr>;
                     base = base\<lparr>eff_Sources := foldl appendUnique (eff_Sources base) sset\<rparr>
                 in Inr (base\<lparr>eff_Sources := sort (eff_Sources base)\<rparr>))))"

section \<open>The models a policy names\<close>

type_synonym model_key = "string \<times> string"

text \<open>The closure \<open>collect\<close>, one rule at a time: the state is \<open>seen\<close> and \<open>order\<close>.\<close>

definition collectRule ::
  "(model_key \<rightharpoonup> string) \<times> model_key list \<Rightarrow> sourcedRule \<Rightarrow> (model_key \<rightharpoonup> string) \<times> model_key list" where
  "collectRule st r =
     (let (seen, order) = st in
      if normAction (mp_Action (sr_rule r)) \<noteq> ActionAllow then (seen, order)
      else (let k = (ToLower (mp_Provider (sr_rule r)), ToLower (mp_Model (sr_rule r)))
            in case seen k of
                 None \<Rightarrow> (seen(k \<mapsto> sr_source r), order @ [k])
               | Some _ \<Rightarrow> (seen, order)))"

definition EffectiveModels :: "Effective \<Rightarrow> EffectiveModel list" where
  "EffectiveModels e =
     (let (seen, order) =
        foldl collectRule (foldl collectRule (foldl collectRule (Map.empty, [])
          (tier_rules (eff_cluster e))) (tier_rules (eff_ns e))) (tier_rules (eff_wl e))
      in map (\<lambda>k. let d = Permit e (fst k) (snd k) in
                \<lparr>em_Provider = fst k, em_Model = snd k,
                 em_Action = (if \<not> md_Allowed d then ActionDeny else ActionAllow),
                 em_Credential = md_Credential d,
                 em_Source = (case seen k of None \<Rightarrow> [] | Some s \<Rightarrow> s)\<rparr>) order)"

end
