(* ===== verification/Resolver_Facts.thy ===== *)
theory Resolver_Facts
  imports Resolver
begin

text \<open>
  Lemmas on the resolver: the verdict of a tier in terms of which of its rules match, decisions
  as a linear order in which \<open>Permit\<close> takes the maximum, and the closed form of \<open>Resolve\<close>:
  the two loops of \<open>Resolve\<close> fold the selected policies, in order, into rule lists, a minimum of
  quotas and last-one-wins scalars (\<open>effective_of\<close>).
\<close>

named_theorems tier_simps \<open>verdicts of tiers\<close>

section \<open>Decisions are ordered by severity\<close>

text \<open>The Go constants are numbered 0, 1, 2 in this order.\<close>

fun decision_code :: "Decision \<Rightarrow> nat" where
  "decision_code Abstain = 0"
| "decision_code Allow = 1"
| "decision_code Deny = 2"

lemma decision_code_inject [simp]: "decision_code a = decision_code b \<longleftrightarrow> a = b"
  by (cases a; cases b) simp_all

instantiation Decision :: linorder
begin

definition less_eq_Decision :: "Decision \<Rightarrow> Decision \<Rightarrow> bool" where
  "a \<le> b \<longleftrightarrow> decision_code a \<le> decision_code b"

definition less_Decision :: "Decision \<Rightarrow> Decision \<Rightarrow> bool" where
  "a < b \<longleftrightarrow> decision_code a < decision_code b"

instance
  by standard (auto simp: less_eq_Decision_def less_Decision_def simp flip: decision_code_inject)

end

lemma Deny_top [simp]: "d \<le> Deny"
  by (cases d) (simp_all add: less_eq_Decision_def)

lemma Deny_le_iff [simp]: "Deny \<le> d \<longleftrightarrow> d = Deny"
  by (cases d) (simp_all add: less_eq_Decision_def)

lemma max_eq_Deny_iff [simp]: "max a b = Deny \<longleftrightarrow> a = Deny \<or> b = Deny" for a b :: Decision
  by (auto simp: max_def)

section \<open>The verdict of a tier\<close>

definition is_allow :: "sourcedRule \<Rightarrow> bool" where
  "is_allow r \<longleftrightarrow> mp_Action (sr_rule r) = ActionUnset \<or> mp_Action (sr_rule r) = ActionAllow"

definition is_deny :: "sourcedRule \<Rightarrow> bool" where
  "is_deny r \<longleftrightarrow> mp_Action (sr_rule r) = ActionDeny"

definition covers :: "sourcedRule \<Rightarrow> string \<Rightarrow> string \<Rightarrow> bool" where
  "covers r p m \<longleftrightarrow> modelMatches (sr_rule r) p m"

definition verdict :: "tier \<Rightarrow> string \<Rightarrow> string \<Rightarrow> Decision" where
  "verdict t p m = fst (evalTier t p m)"

lemma normAction_Allow [simp]: "normAction (mp_Action (sr_rule r)) = ActionAllow \<longleftrightarrow> is_allow r"
  and normAction_Deny [simp]: "normAction (mp_Action (sr_rule r)) = ActionDeny \<longleftrightarrow> is_deny r"
  by (auto simp: normAction_def is_allow_def is_deny_def)

lemma allow_not_deny: "is_allow r \<Longrightarrow> \<not> is_deny r"
  by (auto simp: is_allow_def is_deny_def)

lemma evalTier_eq:
  "evalTier t p m =
     (if tier_rules t = [] then (Abstain, [], [])
      else (case find (\<lambda>r. is_deny r \<and> covers r p m) (tier_rules t) of
              Some r \<Rightarrow> (Deny, [], sr_source r)
            | None \<Rightarrow>
                (case find (\<lambda>r. is_allow r \<and> covers r p m) (tier_rules t) of
                   Some r \<Rightarrow>
                     (Allow, (case mp_CredentialRef (sr_rule r) of None \<Rightarrow> [] | Some c \<Rightarrow> cr_Name c),
                      sr_source r)
                 | None \<Rightarrow> if \<exists>r \<in> set (tier_rules t). is_allow r
                     then (Deny, [], tier_name t @ '' allowlist'') else (Allow, [], []))))"
  by (simp add: evalTier_def Let_def covers_def list_ex_iff split: option.split)

lemma verdict_Abstain_iff [tier_simps]: "verdict t p m = Abstain \<longleftrightarrow> tier_rules t = []"
  by (simp add: verdict_def evalTier_eq split: option.split)

lemma verdict_Deny_iff [tier_simps]:
  "verdict t p m = Deny \<longleftrightarrow>
     (\<exists>r \<in> set (tier_rules t). is_deny r \<and> covers r p m) \<or>
     (\<exists>r \<in> set (tier_rules t). is_allow r) \<and>
       (\<forall>r \<in> set (tier_rules t). is_allow r \<longrightarrow> \<not> covers r p m)"
  by (auto simp: verdict_def evalTier_eq find_None_iff find_Some_iff split: option.split)

lemma evalTier_cong:
  assumes "fold_name p = fold_name p'" "fold_name m = fold_name m'"
  shows "evalTier t p m = evalTier t p' m'"
proof -
  have "covers r p m = covers r p' m'" for r
    using globMatch_cong [OF refl assms(1)] globMatch_cong [OF refl assms(2)]
    by (simp add: covers_def modelMatches_def)
  then show ?thesis by (simp add: evalTier_eq cong: option.case_cong)
qed

text \<open>The source and credential that come with a verdict belong to a rule of the tier.\<close>

lemma evalTier_Allow_cred:
  "evalTier t p m = (Allow, cred, src) \<Longrightarrow> cred \<noteq> [] \<Longrightarrow>
     \<exists>r \<in> set (tier_rules t). is_allow r \<and> covers r p m \<and> sr_source r = src \<and>
        (\<exists>c. mp_CredentialRef (sr_rule r) = Some c \<and> cr_Name c = cred)"
  by (fastforce simp: evalTier_eq find_Some_iff split: option.splits if_splits)

section \<open>Permit\<close>

lemma Permit_Allowed_iff [tier_simps]:
  "md_Allowed (Permit e p m) \<longleftrightarrow>
     verdict (eff_cluster e) p m \<noteq> Deny \<and> verdict (eff_ns e) p m \<noteq> Deny \<and>
     verdict (eff_wl e) p m \<noteq> Deny"
  by (auto simp: Permit_def verdict_def Let_def split: prod.split)

lemma Permit_fields [simp]:
  "md_Provider (Permit e p m) = p" "md_Model (Permit e p m) = m"
  by (auto simp: Permit_def Let_def split: prod.split)

lemma Permit_not_Allowed_cred: "\<not> md_Allowed (Permit e p m) \<Longrightarrow> md_Credential (Permit e p m) = []"
  by (auto simp: Permit_def Let_def split: prod.splits if_splits)

section \<open>The loops of Resolve in closed form\<close>

text \<open>The last setting wins.\<close>

definition last_some :: "'a \<Rightarrow> 'a option list \<Rightarrow> 'a" where
  "last_some d xs = foldl (\<lambda>a x. case x of None \<Rightarrow> a | Some y \<Rightarrow> y) d xs"

lemma last_some_simps [simp]:
  "last_some d [] = d"
  "last_some d (None # xs) = last_some d xs"
  "last_some d (Some y # xs) = last_some y xs"
  "last_some d (xs @ ys) = last_some (last_some d xs) ys"
  by (simp_all add: last_some_def)

lemma last_some_Nones: "\<forall>x \<in> set xs. x = None \<Longrightarrow> last_some d xs = d"
  by (induction xs) auto

lemma last_some_mem: "last_some d xs = y \<Longrightarrow> y \<noteq> d \<Longrightarrow> Some y \<in> set xs"
proof (induction xs arbitrary: d)
  case (Cons x xs)
  then show ?case by (cases x; cases "x = Some y") auto
qed simp

lemma last_some_split:
  "last_some d xs =
     (case filter (\<lambda>x. x \<noteq> None) xs of [] \<Rightarrow> d | ys \<Rightarrow> the (last ys))"
  by (induction xs arbitrary: d) (auto split: list.splits option.splits)

definition set_mode :: "EnforcementMode \<Rightarrow> EnforcementMode option" where
  "set_mode e = (if e = EnforcementUnset then None else Some e)"

definition clusterRules :: "ClusterTokenPolicy \<Rightarrow> sourcedRule list" where
  "clusterRules c =
     map (\<lambda>m. \<lparr>sr_rule = m, sr_source = cluster_src c\<rparr>) (ctps_Models (ctp_Spec c))"

definition policyRules :: "TokenPolicy \<Rightarrow> sourcedRule list" where
  "policyRules p =
     map (\<lambda>m. \<lparr>sr_rule = m, sr_source = policy_src p\<rparr>) (tps_Models (tp_Spec p))"

text \<open>A policy is a source of the decision when it has rules or a quota.\<close>

definition cluster_contrib :: "ClusterTokenPolicy \<Rightarrow> string list" where
  "cluster_contrib c =
     (if ctps_Models (ctp_Spec c) \<noteq> [] \<or> ctps_Quota (ctp_Spec c) \<noteq> None then [cluster_src c] else [])"

definition policy_contrib :: "TokenPolicy \<Rightarrow> string list" where
  "policy_contrib p =
     (if tps_Models (tp_Spec p) \<noteq> [] \<or> tps_Quota (tp_Spec p) \<noteq> None then [policy_src p] else [])"

definition cluster_modes :: "ClusterTokenPolicy list \<Rightarrow> EnforcementMode option list" where
  "cluster_modes cm = map (\<lambda>c. set_mode (ctps_Enforcement (ctp_Spec c))) cm"

definition policy_modes :: "TokenPolicy list \<Rightarrow> EnforcementMode option list" where
  "policy_modes ps = map (\<lambda>p. set_mode (tps_Enforcement (tp_Spec p))) ps"

definition cluster_gateways :: "ClusterTokenPolicy list \<Rightarrow> GatewayIntegration option option list" where
  "cluster_gateways cm = map (\<lambda>c. map_option Some (ctps_Gateway (ctp_Spec c))) cm"

definition policy_gateways :: "TokenPolicy list \<Rightarrow> GatewayIntegration option option list" where
  "policy_gateways ps = map (\<lambda>p. map_option Some (tps_Gateway (tp_Spec p))) ps"

definition cluster_quotas :: "ClusterTokenPolicy list \<Rightarrow> TokenQuota option list" where
  "cluster_quotas cm = map (\<lambda>c. ctps_Quota (ctp_Spec c)) cm"

definition policy_quotas :: "TokenPolicy list \<Rightarrow> TokenQuota option list" where
  "policy_quotas ps = map (\<lambda>p. tps_Quota (tp_Spec p)) ps"

definition default_creds :: "ClusterTokenPolicy list \<Rightarrow> string option list" where
  "default_creds cm = map (\<lambda>c. map_option cr_Name (ctps_DefaultCredentialRef (ctp_Spec c))) cm"

lemmas policy_list_defs =
  cluster_modes_def policy_modes_def cluster_gateways_def policy_gateways_def
  cluster_quotas_def policy_quotas_def default_creds_def

definition add_rules :: "sourcedRule list \<Rightarrow> tier \<Rightarrow> tier" where
  "add_rules rs t = t\<lparr>tier_rules := tier_rules t @ rs\<rparr>"

lemma add_rules_simps [simp]:
  "add_rules [] t = t" "add_rules ss (add_rules rs t) = add_rules (rs @ ss) t"
  "tier_rules (add_rules rs t) = tier_rules t @ rs" "tier_name (add_rules rs t) = tier_name t"
  by (simp_all add: add_rules_def)

lemma minQuota_None_right [simp]: "minQuota a None = a"
  by (simp add: minQuota_def split: option.split)

lemma clusterStep_eq:
  "clusterStep (e, ss) c =
     (e\<lparr>eff_cluster := add_rules (clusterRules c) (eff_cluster e),
        eff_Quota := minQuota (eff_Quota e) (ctps_Quota (ctp_Spec c)),
        eff_Enforcement := last_some (eff_Enforcement e) [set_mode (ctps_Enforcement (ctp_Spec c))],
        eff_Gateway := last_some (eff_Gateway e) [map_option Some (ctps_Gateway (ctp_Spec c))],
        eff_DefaultCredential :=
          last_some (eff_DefaultCredential e)
            [map_option cr_Name (ctps_DefaultCredentialRef (ctp_Spec c))]\<rparr>,
      foldl set_add ss (cluster_contrib c))"
  by (simp add: clusterStep_def Let_def appendRules_def add_rules_def clusterRules_def
      cluster_contrib_def set_mode_def set_add_def split: option.split)

lemma foldl_clusterStep:
  "foldl clusterStep (e, ss) cm =
     (e\<lparr>eff_cluster := add_rules (concat (map clusterRules cm)) (eff_cluster e),
        eff_Quota := foldl minQuota (eff_Quota e) (cluster_quotas cm),
        eff_Enforcement := last_some (eff_Enforcement e) (cluster_modes cm),
        eff_Gateway := last_some (eff_Gateway e) (cluster_gateways cm),
        eff_DefaultCredential := last_some (eff_DefaultCredential e) (default_creds cm)\<rparr>,
      foldl set_add ss (concat (map cluster_contrib cm)))"
proof (induction cm arbitrary: e ss)
  case (Cons c cm)
  have "last_some d (x # xs) = last_some (last_some d [x]) xs" for d :: 'a and x xs
    by (simp add: last_some_def)
  with Cons show ?case
    by (simp add: clusterStep_eq policy_list_defs last_some_def)
qed (simp add: policy_list_defs)

lemma applyNamespaceTier_eq:
  "applyNamespaceTier s (e, ss) p =
     ((set_slot s (add_rules (policyRules p) (slot_tier s e)) e)
        \<lparr>eff_Quota := minQuota (eff_Quota e) (tps_Quota (tp_Spec p)),
         eff_Enforcement := last_some (eff_Enforcement e) [set_mode (tps_Enforcement (tp_Spec p))],
         eff_Gateway := last_some (eff_Gateway e) [map_option Some (tps_Gateway (tp_Spec p))]\<rparr>,
      foldl set_add ss (policy_contrib p))"
  by (cases s)
     (simp_all add: applyNamespaceTier_def Let_def appendRules_def add_rules_def policyRules_def
      policy_contrib_def set_mode_def set_add_def split: option.split)

lemma foldl_applyNamespaceTier:
  "foldl (applyNamespaceTier s) (e, ss) ps =
     ((set_slot s (add_rules (concat (map policyRules ps)) (slot_tier s e)) e)
        \<lparr>eff_Quota := foldl minQuota (eff_Quota e) (policy_quotas ps),
         eff_Enforcement := last_some (eff_Enforcement e) (policy_modes ps),
         eff_Gateway := last_some (eff_Gateway e) (policy_gateways ps)\<rparr>,
      foldl set_add ss (concat (map policy_contrib ps)))"
proof (induction ps arbitrary: e ss)
  case Nil
  show ?case by (cases s) (simp_all add: policy_list_defs)
next
  case (Cons p ps)
  then show ?case
    by (cases s) (simp_all add: applyNamespaceTier_eq policy_list_defs last_some_def)
qed

lemma splitPolicies_eq:
  "splitPolicies asSel inp nd wm tps =
     (let ident = \<not> (ri_PodLabels inp = None \<and> ri_ServiceAccount inp = []) in
      case filterR (\<lambda>tp.
             case workloadMatches asSel (tps_Selector (tp_Spec tp)) (ri_PodLabels inp)
                    (ri_ServiceAccount inp) of
               Inl err \<Rightarrow>
                 Inl (''TokenPolicy '' @ tp_Namespace tp @ ''/'' @ tp_Name tp @ '' selector: '' @ err)
             | Inr ok \<Rightarrow> Inr ok)
           (filter (\<lambda>tp. ident \<and> \<not> IsEmpty (tps_Selector (tp_Spec tp))) tps) of
        Inl err \<Rightarrow> Inl err
      | Inr ms \<Rightarrow>
          Inr (nd @ filter (\<lambda>tp. IsEmpty (tps_Selector (tp_Spec tp))) tps, wm @ ms))"
  by (induction tps arbitrary: nd wm) (simp_all add: Let_def split: sum.split)

section \<open>The closed form of Resolve\<close>

text \<open>Which policies are selected, and that no selector the resolver looks at is invalid.\<close>

definition identified :: "ResolveInput \<Rightarrow> bool" where
  "identified inp \<longleftrightarrow> ri_PodLabels inp \<noteq> None \<or> ri_ServiceAccount inp \<noteq> []"

definition is_default :: "TokenPolicy \<Rightarrow> bool" where
  "is_default p \<longleftrightarrow> IsEmpty (tps_Selector (tp_Spec p))"

definition wl_match :: "selector_api \<Rightarrow> ResolveInput \<Rightarrow> TokenPolicy \<Rightarrow> bool result" where
  "wl_match asSel inp p =
     workloadMatches asSel (tps_Selector (tp_Spec p)) (ri_PodLabels inp) (ri_ServiceAccount inp)"

definition sel_cluster :: "selector_api \<Rightarrow> ResolveInput \<Rightarrow> ClusterTokenPolicy list" where
  "sel_cluster asSel inp = filter (\<lambda>c. okb (clusterMatches asSel inp c)) (ri_ClusterPolicies inp)"

definition sel_default :: "ResolveInput \<Rightarrow> TokenPolicy list" where
  "sel_default inp = filter is_default (ri_NamespacePolicies inp)"

definition sel_workload :: "selector_api \<Rightarrow> ResolveInput \<Rightarrow> TokenPolicy list" where
  "sel_workload asSel inp =
     filter (\<lambda>p. identified inp \<and> \<not> is_default p \<and> okb (wl_match asSel inp p)) (ri_NamespacePolicies inp)"

definition selectors_ok :: "selector_api \<Rightarrow> ResolveInput \<Rightarrow> bool" where
  "selectors_ok asSel inp \<longleftrightarrow>
     (\<forall>c \<in> set (ri_ClusterPolicies inp). \<exists>b. clusterMatches asSel inp c = Inr b) \<and>
     (\<forall>p \<in> set (ri_NamespacePolicies inp).
        identified inp \<longrightarrow> \<not> is_default p \<longrightarrow> (\<exists>b. wl_match asSel inp p = Inr b))"

definition mk_tier :: "string \<Rightarrow> sourcedRule list \<Rightarrow> tier" where
  "mk_tier n rs = \<lparr>tier_name = n, tier_rules = rs\<rparr>"

lemma mk_tier_simps [simp]: "tier_name (mk_tier n rs) = n" "tier_rules (mk_tier n rs) = rs"
  by (simp_all add: mk_tier_def)

definition effective_of ::
  "ClusterTokenPolicy list \<Rightarrow> TokenPolicy list \<Rightarrow> TokenPolicy list \<Rightarrow> Effective" where
  "effective_of cm nd wm =
     (let crs = concat (map clusterRules cm); nrs = concat (map policyRules nd);
          wrs = concat (map policyRules wm)
      in \<lparr>eff_Governed = (cm \<noteq> [] \<or> nd \<noteq> [] \<or> wm \<noteq> []),
          eff_ModelGoverned = (crs \<noteq> [] \<or> nrs \<noteq> [] \<or> wrs \<noteq> []),
          eff_Enforcement =
            last_some EnforcementEnforce (cluster_modes cm @ policy_modes nd @ policy_modes wm),
          eff_Quota =
            foldl minQuota None (cluster_quotas cm @ policy_quotas nd @ policy_quotas wm),
          eff_Gateway =
            last_some None (cluster_gateways cm @ policy_gateways nd @ policy_gateways wm),
          eff_DefaultCredential = last_some [] (default_creds cm),
          eff_Sources =
            sort (remdups (concat (map cluster_contrib cm) @ concat (map policy_contrib nd) @
                           concat (map policy_contrib wm))),
          eff_cluster = mk_tier ''cluster'' crs,
          eff_ns = mk_tier ''namespace'' nrs,
          eff_wl = mk_tier ''workload'' wrs\<rparr>)"

definition effective_for :: "selector_api \<Rightarrow> ResolveInput \<Rightarrow> Effective" where
  "effective_for asSel inp =
     effective_of (sort_key ctp_Name (sel_cluster asSel inp))
       (sortByPriority (sel_default inp)) (sortByPriority (sel_workload asSel inp))"

lemma effective_of_simps [simp]:
  "eff_Governed (effective_of cm nd wm) \<longleftrightarrow> cm \<noteq> [] \<or> nd \<noteq> [] \<or> wm \<noteq> []"
  "eff_Enforcement (effective_of cm nd wm) =
     last_some EnforcementEnforce (cluster_modes cm @ policy_modes nd @ policy_modes wm)"
  "eff_Quota (effective_of cm nd wm) =
     foldl minQuota None (cluster_quotas cm @ policy_quotas nd @ policy_quotas wm)"
  "eff_Gateway (effective_of cm nd wm) =
     last_some None (cluster_gateways cm @ policy_gateways nd @ policy_gateways wm)"
  "eff_DefaultCredential (effective_of cm nd wm) = last_some [] (default_creds cm)"
  "eff_Sources (effective_of cm nd wm) =
     sort (remdups (concat (map cluster_contrib cm) @ concat (map policy_contrib nd) @
                    concat (map policy_contrib wm)))"
  "eff_cluster (effective_of cm nd wm) = mk_tier ''cluster'' (concat (map clusterRules cm))"
  "eff_ns (effective_of cm nd wm) = mk_tier ''namespace'' (concat (map policyRules nd))"
  "eff_wl (effective_of cm nd wm) = mk_tier ''workload'' (concat (map policyRules wm))"
  by (simp_all add: effective_of_def Let_def del: last_some_simps(4))

lemma sort_set_adds: "sort (foldl set_add [] xs) = sort (remdups xs)"
  by (rule sort_set_eq) simp_all

lemma fold_effective:
  assumes "foldl clusterStep (new_effective\<lparr>eff_cluster := (eff_cluster new_effective)\<lparr>tier_name := ''cluster''\<rparr>\<rparr>, [])
             cm = (e1, s1)"
    and "foldl (applyNamespaceTier NsTier) (e1\<lparr>eff_ns := (eff_ns e1)\<lparr>tier_name := ''namespace''\<rparr>\<rparr>, s1) nd = (e2, s2)"
    and "foldl (applyNamespaceTier WlTier) (e2\<lparr>eff_wl := (eff_wl e2)\<lparr>tier_name := ''workload''\<rparr>\<rparr>, s2) wm = (e3, s3)"
  shows "e3\<lparr>eff_ModelGoverned := has_rules e3,
            eff_Governed := length cm > 0 \<or> length nd > 0 \<or> length wm > 0,
            eff_Sources := sort s3\<rparr> = effective_of cm nd wm"
  using assms
  by (auto simp: foldl_clusterStep foldl_applyNamespaceTier effective_of_def Let_def has_rules_def
      new_effective_def empty_tier_def add_rules_def mk_tier_def
      simp flip: sort_set_adds)

lemma clusterMatches_filterR:
  "filterR (clusterMatches asSel inp) (ri_ClusterPolicies inp) = Inr ms \<longleftrightarrow>
     (\<forall>c \<in> set (ri_ClusterPolicies inp). \<exists>b. clusterMatches asSel inp c = Inr b) \<and>
     ms = sel_cluster asSel inp"
  by (simp add: filterR_Inr_iff sel_cluster_def)

lemma splitPolicies_Inr_iff:
  "splitPolicies asSel inp [] [] (ri_NamespacePolicies inp) = Inr r \<longleftrightarrow>
     (\<forall>p \<in> set (ri_NamespacePolicies inp).
        identified inp \<longrightarrow> \<not> is_default p \<longrightarrow> (\<exists>b. wl_match asSel inp p = Inr b)) \<and>
     r = (sel_default inp, sel_workload asSel inp)"
proof -
  let ?q = "\<lambda>tp. case wl_match asSel inp tp of
      Inl err \<Rightarrow> Inl (''TokenPolicy '' @ tp_Namespace tp @ ''/'' @ tp_Name tp @ '' selector: '' @ err)
    | Inr ok \<Rightarrow> Inr ok"
  have q: "(\<exists>b. ?q p = Inr b) \<longleftrightarrow> (\<exists>b. wl_match asSel inp p = Inr b)"
    "okb (?q p) = okb (wl_match asSel inp p)" for p
    by (cases "wl_match asSel inp p"; simp)+
  have "splitPolicies asSel inp [] [] (ri_NamespacePolicies inp) =
      (case filterR ?q (filter (\<lambda>p. identified inp \<and> \<not> is_default p) (ri_NamespacePolicies inp)) of
         Inl err \<Rightarrow> Inl err
       | Inr ms \<Rightarrow> Inr (sel_default inp, ms))"
    by (simp add: splitPolicies_eq Let_def wl_match_def is_default_def [abs_def] sel_default_def
        identified_def cong: sum.case_cong)
  moreover let ?l = "filter (\<lambda>p. identified inp \<and> \<not> is_default p) (ri_NamespacePolicies inp)"
  have "filterR ?q ?l = Inr ms \<longleftrightarrow>
      (\<forall>p \<in> set ?l. \<exists>b. wl_match asSel inp p = Inr b) \<and> ms = sel_workload asSel inp" for ms
    by (simp add: filterR_Inr_iff q sel_workload_def conj_ac)
  moreover have "\<not> (\<forall>p \<in> set ?l. \<exists>b. wl_match asSel inp p = Inr b)" if "filterR ?q ?l = Inl e" for e
    using filterR_Inl_ex [OF that] q(1) by (metis Inr_Inl_False)
  ultimately show ?thesis by (cases "filterR ?q ?l") auto
qed

lemma Resolve_Inr_iff:
  "Resolve asSel inp = Inr eff \<longleftrightarrow> selectors_ok asSel inp \<and> eff = effective_for asSel inp"
proof (cases "filterR (clusterMatches asSel inp) (ri_ClusterPolicies inp)")
  case (Inl e)
  then have "\<not> selectors_ok asSel inp"
    using filterR_Inl_ex [OF Inl] by (metis Inr_Inl_False selectors_ok_def)
  with Inl show ?thesis by (simp add: Resolve_def)
next
  case cm: (Inr ms)
  show ?thesis
  proof (cases "splitPolicies asSel inp [] [] (ri_NamespacePolicies inp)")
    case (Inl e)
    then have "\<not> selectors_ok asSel inp"
      using splitPolicies_Inr_iff [of asSel inp "(sel_default inp, sel_workload asSel inp)"]
      by (auto simp: selectors_ok_def)
    with Inl cm show ?thesis by (simp add: Resolve_def Let_def split: prod.split)
  next
    case (Inr r)
    with cm have ok: "selectors_ok asSel inp" and ms: "ms = sel_cluster asSel inp"
      and r: "r = (sel_default inp, sel_workload asSel inp)"
      by (simp_all add: selectors_ok_def clusterMatches_filterR splitPolicies_Inr_iff)
    let ?cm = "sort_key ctp_Name (sel_cluster asSel inp)"
    let ?nd = "sortByPriority (sel_default inp)" and ?wm = "sortByPriority (sel_workload asSel inp)"
    obtain e1 s1 e2 s2 e3 s3 where
      f: "foldl clusterStep (new_effective\<lparr>eff_cluster :=
            (eff_cluster new_effective)\<lparr>tier_name := ''cluster''\<rparr>\<rparr>, []) ?cm = (e1, s1)"
         "foldl (applyNamespaceTier NsTier)
            (e1\<lparr>eff_ns := (eff_ns e1)\<lparr>tier_name := ''namespace''\<rparr>\<rparr>, s1) ?nd = (e2, s2)"
         "foldl (applyNamespaceTier WlTier)
            (e2\<lparr>eff_wl := (eff_wl e2)\<lparr>tier_name := ''workload''\<rparr>\<rparr>, s2) ?wm = (e3, s3)"
      by (metis surj_pair)
    have "Resolve asSel inp = Inr (effective_for asSel inp)"
      by (simp add: Resolve_def Let_def cm Inr ms r effective_for_def f
          flip: fold_effective [OF f])
    with ok show ?thesis by auto
  qed
qed

lemma Resolve_ok: "selectors_ok asSel inp \<Longrightarrow> Resolve asSel inp = Inr (effective_for asSel inp)"
  by (simp add: Resolve_Inr_iff)

lemma Resolve_error: "\<not> selectors_ok asSel inp \<Longrightarrow> \<exists>e. Resolve asSel inp = Inl e"
  using Resolve_Inr_iff by (cases "Resolve asSel inp") auto

end
