(* ===== verification/Samples.thy ===== *)
theory Samples
  imports Resolver
begin

text \<open>
  The objects of the repository's \<open>examples/\<close> directory as values of the model, and an executable
  selector function to instantiate the parameter \<open>asSel\<close>: the documented semantics of Kubernetes
  label selectors (all \<open>matchLabels\<close> and all \<open>matchExpressions\<close> must hold, an unknown operator is
  an error). They are the inputs at which the properties are evaluated.
\<close>

section \<open>A selector function\<close>

definition requirement_ok :: "LabelSelectorRequirement \<Rightarrow> bool" where
  "requirement_ok r \<longleftrightarrow>
     (if lsr_Operator r = ''In'' \<or> lsr_Operator r = ''NotIn'' then lsr_Values r \<noteq> []
      else if lsr_Operator r = ''Exists'' \<or> lsr_Operator r = ''DoesNotExist'' then lsr_Values r = []
      else False)"

definition requirement_holds :: "LabelSelectorRequirement \<Rightarrow> labels \<Rightarrow> bool" where
  "requirement_holds r ls =
     (case map_of ls (lsr_Key r) of
        None \<Rightarrow> lsr_Operator r = ''NotIn'' \<or> lsr_Operator r = ''DoesNotExist''
      | Some v \<Rightarrow>
          if lsr_Operator r = ''In'' then List.member (lsr_Values r) v
          else if lsr_Operator r = ''NotIn'' then \<not> List.member (lsr_Values r) v
          else lsr_Operator r = ''Exists'')"

definition std_selector :: selector_api where
  "std_selector s =
     (if list_all requirement_ok (ls_MatchExpressions s)
      then Inr (\<lambda>ls. list_all (\<lambda>(k, v). map_of ls k = Some v) (ls_MatchLabels s) \<and>
                      list_all (\<lambda>r. requirement_holds r ls) (ls_MatchExpressions s))
      else Inl ''invalid label selector'')"

definition match_labels :: "labels \<Rightarrow> LabelSelector" where
  "match_labels ls = \<lparr>ls_MatchLabels = ls, ls_MatchExpressions = []\<rparr>"

definition bad_selector :: LabelSelector where
  "bad_selector =
     \<lparr>ls_MatchLabels = [],
      ls_MatchExpressions = [\<lparr>lsr_Key = ''tier'', lsr_Operator = ''Near'', lsr_Values = [''x'']\<rparr>]\<rparr>"

section \<open>Rules, quotas and policies\<close>

definition rule :: "PermissionAction \<Rightarrow> string \<Rightarrow> string \<Rightarrow> string \<Rightarrow> ModelPermission" where
  "rule act p m cred =
     \<lparr>mp_Provider = p, mp_Model = m, mp_Action = act,
      mp_CredentialRef = (if cred = [] then None else Some \<lparr>cr_Name = cred\<rparr>), mp_Quota = None\<rparr>"

definition cluster_status0 :: ClusterTokenPolicyStatus where
  "cluster_status0 =
     \<lparr>ctpst_ObservedGeneration = 0, ctpst_ModelCount = 0, ctpst_AppliedNamespaces = [],
      ctpst_Conditions = []\<rparr>"

definition policy_status0 :: TokenPolicyStatus where
  "policy_status0 =
     \<lparr>tpst_ObservedGeneration = 0, tpst_EffectiveModels = [], tpst_EffectiveQuota = None,
      tpst_Usage = None, tpst_BoundCredentials = [], tpst_GatewayRef = [], tpst_Conditions = []\<rparr>"

definition token_policy ::
  "string \<Rightarrow> string \<Rightarrow> WorkloadSelector option \<Rightarrow> ModelPermission list \<Rightarrow> TokenQuota option \<Rightarrow> int32
     \<Rightarrow> TokenPolicy" where
  "token_policy ns n sel models quota prio =
     \<lparr>tp_Namespace = ns, tp_Name = n, tp_Generation = 1,
      tp_Spec =
        \<lparr>tps_Selector = sel, tps_Models = models, tps_Quota = quota,
         tps_Enforcement = EnforcementUnset, tps_Priority = prio, tps_Gateway = None\<rparr>,
      tp_Status = policy_status0\<rparr>"

text \<open>\<open>examples/01-clustertokenpolicy.yaml\<close>\<close>

definition org_default :: ClusterTokenPolicy where
  "org_default =
     \<lparr>ctp_Name = ''org-default'', ctp_Generation = 1,
      ctp_Spec =
        \<lparr>ctps_NamespaceSelector = Some (match_labels []),
         ctps_Models =
           [rule ActionAllow ''openai'' ''gpt-4o-*'' [],
            rule ActionAllow ''anthropic'' ''claude-3-5-sonnet*'' [],
            rule ActionDeny ''openai'' ''gpt-3.5-*'' []],
         ctps_Quota = Some \<lparr>tq_TokensPerMinute = Some 200000, tq_RequestsPerMinute = Some 1000,
                            tq_TokensPerDay = Some 50000000, tq_TokensPerMonth = None\<rparr>,
         ctps_Enforcement = EnforcementEnforce,
         ctps_DefaultCredentialRef = Some \<lparr>cr_Name = ''openai''\<rparr>,
         ctps_Gateway = None\<rparr>,
      ctp_Status = cluster_status0\<rparr>"

text \<open>\<open>examples/03-tokenpolicy-namespace.yaml\<close> and \<open>examples/04-tokenpolicy-workload.yaml\<close>\<close>

definition ns_default :: TokenPolicy where
  "ns_default =
     token_policy ''team-a'' ''namespace-default'' None
       [rule ActionAllow ''openai'' ''gpt-4o-mini'' ''openai'',
        rule ActionAllow ''openai'' ''gpt-4o'' ''openai'']
       (Some \<lparr>tq_TokensPerMinute = Some 50000, tq_RequestsPerMinute = Some 200,
              tq_TokensPerDay = None, tq_TokensPerMonth = None\<rparr>) 0"

definition batch_selector :: WorkloadSelector where
  "batch_selector =
     \<lparr>ws_PodSelector = Some (match_labels [(''app'', ''batch-worker'')]),
      ws_ServiceAccounts = [''batch-runner'']\<rparr>"

definition batch_workers :: TokenPolicy where
  "batch_workers =
     token_policy ''team-a'' ''batch-workers'' (Some batch_selector)
       [rule ActionAllow ''openai'' ''gpt-4o-mini'' ''openai'']
       (Some \<lparr>tq_TokensPerMinute = Some 10000, tq_RequestsPerMinute = Some 60,
              tq_TokensPerDay = None, tq_TokensPerMonth = None\<rparr>) 10"

definition team_a :: "labels option \<Rightarrow> string \<Rightarrow> ResolveInput" where
  "team_a podLabels sa =
     \<lparr>ri_ClusterPolicies = [org_default], ri_NamespacePolicies = [ns_default, batch_workers],
      ri_Namespace = ''team-a'', ri_NamespaceLabels = Some [],
      ri_PodLabels = podLabels, ri_ServiceAccount = sa\<rparr>"

definition batch_input :: ResolveInput where
  "batch_input = team_a (Some [(''app'', ''batch-worker'')]) ''batch-runner''"

lemmas sample_defs =
  org_default_def ns_default_def batch_selector_def batch_workers_def team_a_def batch_input_def
  rule_def token_policy_def cluster_status0_def policy_status0_def match_labels_def

section \<open>The decision for the batch workers\<close>

definition batch_eff :: Effective where
  "batch_eff = projr (Resolve std_selector batch_input)"

lemma batch_run:
  "(case Resolve std_selector batch_input of
      Inl e \<Rightarrow> False
    | Inr e \<Rightarrow>
        md_Allowed (Permit e ''openai'' ''gpt-4o-mini'') \<and>
        md_Credential (Permit e ''openai'' ''gpt-4o-mini'') = ''openai'' \<and>
        \<not> md_Allowed (Permit e ''openai'' ''gpt-4o'') \<and>
        md_DeniedBy (Permit e ''openai'' ''gpt-4o'') = ''workload allowlist'' \<and>
        eff_Enforcement e = EnforcementEnforce \<and> eff_Governed e \<and>
        qlimit TPM (eff_Quota e) = Some 10000 \<and>
        eff_Sources e = [''ClusterTokenPolicy/org-default'', ''TokenPolicy/team-a/batch-workers'',
          ''TokenPolicy/team-a/namespace-default''])"
  by code_simp

lemma batch_ok: "Resolve std_selector batch_input = Inr batch_eff"
  and batch_facts:
    "md_Allowed (Permit batch_eff ''openai'' ''gpt-4o-mini'')"
    "md_Credential (Permit batch_eff ''openai'' ''gpt-4o-mini'') = ''openai''"
    "\<not> md_Allowed (Permit batch_eff ''openai'' ''gpt-4o'')"
    "md_DeniedBy (Permit batch_eff ''openai'' ''gpt-4o'') = ''workload allowlist''"
    "eff_Enforcement batch_eff = EnforcementEnforce" "eff_Governed batch_eff"
    "qlimit TPM (eff_Quota batch_eff) = Some 10000"
    "eff_Sources batch_eff = [''ClusterTokenPolicy/org-default'', ''TokenPolicy/team-a/batch-workers'',
       ''TokenPolicy/team-a/namespace-default'']"
  using batch_run unfolding batch_eff_def by (auto split: sum.splits)

end
