(* ===== verification/Resolver_Props.thy ===== *)
theory Resolver_Props
  imports Resolver_Facts Samples
begin

text \<open>
  What the resolver promises: narrower tiers only narrow, a Deny rule wins wherever it stands,
  the quota is the greatest lower bound of the applicable ones, the result does not depend on
  the order in which the API server lists the policies, and it fails only on invalid selectors.
\<close>

section \<open>What the tiers of a resolution hold\<close>

lemma set_sortByPriority [simp]: "set (sortByPriority ps) = set ps"
  by (simp add: sortByPriority_def)

lemma sortByPriority_Nil_iff [simp]: "sortByPriority ps = [] \<longleftrightarrow> ps = []"
  by (simp add: sortByPriority_def)

lemma effective_for_tiers [simp]:
  "tier_rules (eff_cluster (effective_for asSel inp)) =
     concat (map clusterRules (sort_key ctp_Name (sel_cluster asSel inp)))"
  "tier_rules (eff_ns (effective_for asSel inp)) =
     concat (map policyRules (sortByPriority (sel_default inp)))"
  "tier_rules (eff_wl (effective_for asSel inp)) =
     concat (map policyRules (sortByPriority (sel_workload asSel inp)))"
  by (simp_all add: effective_for_def)

text \<open>The verdict of a tier depends on its rules only, not on their order.\<close>

lemma verdict_cong_rules:
  assumes "set (tier_rules s) = set (tier_rules t)"
  shows "verdict s p m = verdict t p m"
proof -
  have "verdict s p m = Deny \<longleftrightarrow> verdict t p m = Deny"
    by (simp add: verdict_Deny_iff assms)
  moreover have "verdict s p m = Abstain \<longleftrightarrow> verdict t p m = Abstain"
    using assms by (simp add: verdict_Abstain_iff flip: set_empty)
  ultimately show ?thesis by (metis Decision.exhaust)
qed

lemma verdict_empty: "tier_rules t = [] \<Longrightarrow> verdict t p m = Abstain"
  by (simp add: verdict_Abstain_iff)

text \<open>Dropping the workload identity, or all namespaced policies.\<close>

lemma sel_broader [simp]:
  "sel_cluster asSel (inp\<lparr>ri_NamespacePolicies := ps\<rparr>) = sel_cluster asSel inp"
  "sel_cluster asSel (inp\<lparr>ri_PodLabels := pl, ri_ServiceAccount := sa\<rparr>) = sel_cluster asSel inp"
  "sel_default (inp\<lparr>ri_PodLabels := pl, ri_ServiceAccount := sa\<rparr>) = sel_default inp"
  "sel_default (inp\<lparr>ri_NamespacePolicies := []\<rparr>) = []"
  "sel_workload asSel (inp\<lparr>ri_NamespacePolicies := []\<rparr>) = []"
  "sel_workload asSel (inp\<lparr>ri_PodLabels := None, ri_ServiceAccount := []\<rparr>) = []"
  by (simp_all add: sel_cluster_def sel_default_def sel_workload_def clusterMatches_def identified_def)

lemma selectors_ok_broader:
  assumes "selectors_ok asSel inp"
  shows "selectors_ok asSel (inp\<lparr>ri_NamespacePolicies := []\<rparr>)"
    and "selectors_ok asSel (inp\<lparr>ri_PodLabels := None, ri_ServiceAccount := []\<rparr>)"
  using assms by (simp_all add: selectors_ok_def clusterMatches_def identified_def)

lemma quota_effective_for:
  "eff_Quota (effective_for asSel inp) =
     foldl minQuota None
       (cluster_quotas (sort_key ctp_Name (sel_cluster asSel inp)) @
        policy_quotas (sortByPriority (sel_default inp)) @
        policy_quotas (sortByPriority (sel_workload asSel inp)))"
  by (simp add: effective_for_def)

lemma tightens_fold_append: "tightens (foldl minQuota a (xs @ ys)) (foldl minQuota a xs)"
  unfolding tightens_def min_fold.fold_limit
  by (metis foldl_append map_append tightens1_fold_iff tightens1_refl)

section \<open>The rules and quotas that apply to a scope\<close>

definition cluster_scope_rules :: "selector_api \<Rightarrow> ResolveInput \<Rightarrow> sourcedRule set" where
  "cluster_scope_rules asSel inp = (\<Union>c \<in> set (sel_cluster asSel inp). set (clusterRules c))"

definition default_scope_rules :: "ResolveInput \<Rightarrow> sourcedRule set" where
  "default_scope_rules inp = (\<Union>p \<in> set (sel_default inp). set (policyRules p))"

definition workload_scope_rules :: "selector_api \<Rightarrow> ResolveInput \<Rightarrow> sourcedRule set" where
  "workload_scope_rules asSel inp = (\<Union>p \<in> set (sel_workload asSel inp). set (policyRules p))"

text \<open>What a tier's rules permit: nothing a Deny rule covers, and of an allowlist only its entries.\<close>

definition rules_permit :: "sourcedRule set \<Rightarrow> string \<Rightarrow> string \<Rightarrow> bool" where
  "rules_permit R p m \<longleftrightarrow>
     (\<forall>r \<in> R. is_deny r \<longrightarrow> \<not> covers r p m) \<and>
     ((\<exists>r \<in> R. is_allow r) \<longrightarrow> (\<exists>r \<in> R. is_allow r \<and> covers r p m))"

lemma verdict_permit_iff: "verdict t p m \<noteq> Deny \<longleftrightarrow> rules_permit (set (tier_rules t)) p m"
  by (auto simp: verdict_Deny_iff rules_permit_def)

lemma effective_for_rule_sets [simp]:
  "set (tier_rules (eff_cluster (effective_for asSel inp))) = cluster_scope_rules asSel inp"
  "set (tier_rules (eff_ns (effective_for asSel inp))) = default_scope_rules inp"
  "set (tier_rules (eff_wl (effective_for asSel inp))) = workload_scope_rules asSel inp"
  by (simp_all add: cluster_scope_rules_def default_scope_rules_def workload_scope_rules_def)

declare effective_for_tiers [simp del]

definition applicable_quotas :: "selector_api \<Rightarrow> ResolveInput \<Rightarrow> TokenQuota option set" where
  "applicable_quotas asSel inp =
     (\<lambda>c. ctps_Quota (ctp_Spec c)) ` set (sel_cluster asSel inp) \<union>
     (\<lambda>p. tps_Quota (tp_Spec p)) ` (set (sel_default inp) \<union> set (sel_workload asSel inp))"

lemma quota_effective_limit:
  "\<exists>qs. set qs = applicable_quotas asSel inp \<and>
     (\<forall>w. qlimit w (eff_Quota (effective_for asSel inp)) = foldl minPtr None (map (qlimit w) qs))"
proof -
  let ?qs = "cluster_quotas (sort_key ctp_Name (sel_cluster asSel inp)) @
    policy_quotas (sortByPriority (sel_default inp)) @
    policy_quotas (sortByPriority (sel_workload asSel inp))"
  have "set ?qs = applicable_quotas asSel inp"
    by (auto simp: policy_list_defs applicable_quotas_def)
  moreover have "\<forall>w. qlimit w (eff_Quota (effective_for asSel inp)) = foldl minPtr None (map (qlimit w) ?qs)"
    using min_fold.fold_limit [of _ None ?qs] by (simp add: quota_effective_for del: foldl_append)
  ultimately show ?thesis by blast
qed

section \<open>Properties\<close>

text \<open>
  C1: Narrow, never widen. If a model is permitted for a workload, it is permitted by the broader
  resolutions too: the one of the namespace with no workload identity (cluster and
  namespace-default tiers) and the one with no namespaced policy at all (cluster tier only); and
  every limit of a broader quota is kept or lowered.
\<close>

theorem narrow_never_widen:
  assumes "Resolve asSel inp = Inr eff"
  shows "\<exists>nsEff clEff.
    Resolve asSel (inp\<lparr>ri_PodLabels := None, ri_ServiceAccount := []\<rparr>) = Inr nsEff \<and>
    Resolve asSel (inp\<lparr>ri_NamespacePolicies := []\<rparr>) = Inr clEff \<and>
    (\<forall>p m. md_Allowed (Permit eff p m) \<longrightarrow>
       md_Allowed (Permit nsEff p m) \<and> md_Allowed (Permit clEff p m)) \<and>
    tightens (eff_Quota eff) (eff_Quota nsEff) \<and> tightens (eff_Quota nsEff) (eff_Quota clEff)"
proof -
  let ?nsIn = "inp\<lparr>ri_PodLabels := None, ri_ServiceAccount := []\<rparr>"
  let ?clIn = "inp\<lparr>ri_NamespacePolicies := []\<rparr>"
  have ok: "selectors_ok asSel inp" and eff: "eff = effective_for asSel inp"
    using assms by (simp_all add: Resolve_Inr_iff)
  have "Resolve asSel ?nsIn = Inr (effective_for asSel ?nsIn)"
    and "Resolve asSel ?clIn = Inr (effective_for asSel ?clIn)"
    using selectors_ok_broader [OF ok] by (auto intro: Resolve_ok)
  moreover have "md_Allowed (Permit (effective_for asSel ?nsIn) p m) \<and>
      md_Allowed (Permit (effective_for asSel ?clIn) p m)" if "md_Allowed (Permit eff p m)" for p m
    using that by (auto simp: Permit_Allowed_iff eff effective_for_def verdict_Deny_iff)
  moreover have "tightens (eff_Quota eff) (eff_Quota (effective_for asSel ?nsIn))"
    unfolding eff quota_effective_for
    by (simp add: policy_quotas_def sortByPriority_def)
      (metis foldl_append tightens_fold_append)
  moreover have "tightens (eff_Quota (effective_for asSel ?nsIn)) (eff_Quota (effective_for asSel ?clIn))"
    unfolding quota_effective_for
    by (simp add: policy_quotas_def sortByPriority_def)
      (metis foldl_append tightens_fold_append)
  ultimately show ?thesis by blast
qed

theorem narrow_never_widen_witness:
  "Resolve std_selector batch_input = Inr batch_eff \<and>
     (\<exists>nsEff clEff.
       Resolve std_selector (batch_input\<lparr>ri_PodLabels := None, ri_ServiceAccount := []\<rparr>) = Inr nsEff \<and>
       Resolve std_selector (batch_input\<lparr>ri_NamespacePolicies := []\<rparr>) = Inr clEff \<and>
       md_Allowed (Permit nsEff ''openai'' ''gpt-4o-mini'') \<and>
       md_Allowed (Permit clEff ''openai'' ''gpt-4o-mini'') \<and>
       tightens (eff_Quota batch_eff) (eff_Quota nsEff) \<and> tightens (eff_Quota nsEff) (eff_Quota clEff))"
  using narrow_never_widen [OF batch_ok] batch_ok batch_facts(1) by blast

text \<open>
  C2: Deny wins. A model is permitted exactly when no tier forbids it: in each of the three tiers
  (all matching cluster policies, all namespace defaults, all workload policies that match the
  pod) no Deny rule covers it, and, where the tier has an Allow rule at all, an Allow rule does.
\<close>

theorem permit_iff_no_tier_denies:
  assumes "Resolve asSel inp = Inr eff"
  shows "md_Allowed (Permit eff p m) \<longleftrightarrow>
    rules_permit (cluster_scope_rules asSel inp) p m \<and>
    rules_permit (default_scope_rules inp) p m \<and>
    rules_permit (workload_scope_rules asSel inp) p m"
  using assms by (simp add: Resolve_Inr_iff Permit_Allowed_iff verdict_permit_iff)

theorem permit_iff_no_tier_denies_witness:
  "Resolve std_selector batch_input = Inr batch_eff \<and>
     rules_permit (cluster_scope_rules std_selector batch_input) ''openai'' ''gpt-4o-mini'' \<and>
     rules_permit (default_scope_rules batch_input) ''openai'' ''gpt-4o-mini'' \<and>
     rules_permit (workload_scope_rules std_selector batch_input) ''openai'' ''gpt-4o-mini''"
  using permit_iff_no_tier_denies [OF batch_ok] batch_ok batch_facts(1) by blast

text \<open>
  C3: The effective quota is the greatest lower bound of the quotas of all applicable policies:
  the quotas that tighten it are those that tighten every one of them, and each limit it sets is
  set by one of them. So it is never looser than any tier, and no tighter than they require.
\<close>

theorem quota_greatest_lower_bound:
  assumes "Resolve asSel inp = Inr eff"
  shows "(\<forall>q. tightens q (eff_Quota eff) \<longleftrightarrow> (\<forall>q' \<in> applicable_quotas asSel inp. tightens q q')) \<and>
    (\<forall>w x. qlimit w (eff_Quota eff) = Some x \<longrightarrow>
       (\<exists>q' \<in> applicable_quotas asSel inp. qlimit w q' = Some x))"
proof -
  obtain qs where qs: "set qs = applicable_quotas asSel inp"
    and lim: "\<And>w. qlimit w (eff_Quota eff) = foldl minPtr None (map (qlimit w) qs)"
    using assms quota_effective_limit [of asSel inp] by (auto simp: Resolve_Inr_iff)
  have "tightens q (eff_Quota eff) \<longleftrightarrow> (\<forall>q' \<in> set qs. tightens q q')" for q
    by (auto simp: tightens_def lim tightens1_fold_iff)
  moreover have "\<exists>q' \<in> set qs. qlimit w q' = Some x" if "qlimit w (eff_Quota eff) = Some x" for w x
    using fold_minPtr_mem [of None "map (qlimit w) qs"] that by (auto simp: lim)
  ultimately show ?thesis by (simp add: qs)
qed

theorem quota_greatest_lower_bound_witness:
  "Resolve std_selector batch_input = Inr batch_eff \<and>
     (\<exists>q' \<in> applicable_quotas std_selector batch_input. qlimit TPM q' = Some 10000)"
  using quota_greatest_lower_bound [OF batch_ok] batch_ok batch_facts(7) by blast

lemma filter_sort_perm:
  assumes "mset xs = mset ys" and "distinct (map k xs)"
  shows "sort_key k (filter f xs) = sort_key k (filter f ys)"
proof (rule sort_key_perm)
  show "mset (filter f xs) = mset (filter f ys)" using assms(1) by simp
  show "inj_on k (set (filter f xs))"
    using assms(2) by (auto simp: distinct_map intro: inj_on_subset)
qed

lemma priority_key_distinct: "distinct (map tp_Name ps) \<Longrightarrow> distinct (map priority_key ps)"
  by (induction ps) (auto simp: priority_key_def image_iff)

lemma effective_for_perm:
  assumes "mset cps = mset (ri_ClusterPolicies inp)" "mset tps = mset (ri_NamespacePolicies inp)"
    and "distinct (map ctp_Name cps)" "distinct (map tp_Name tps)"
  shows "selectors_ok asSel (inp\<lparr>ri_ClusterPolicies := cps, ri_NamespacePolicies := tps\<rparr>) =
      selectors_ok asSel inp"
    and "effective_for asSel (inp\<lparr>ri_ClusterPolicies := cps, ri_NamespacePolicies := tps\<rparr>) =
      effective_for asSel inp"
proof -
  let ?inp = "inp\<lparr>ri_ClusterPolicies := cps, ri_NamespacePolicies := tps\<rparr>"
  have sets: "set cps = set (ri_ClusterPolicies inp)" "set tps = set (ri_NamespacePolicies inp)"
    using assms(1,2) by (auto dest: mset_eq_setD)
  show "selectors_ok asSel ?inp = selectors_ok asSel inp"
    by (simp add: selectors_ok_def sets clusterMatches_def identified_def wl_match_def)
  have "sort_key ctp_Name (sel_cluster asSel ?inp) = sort_key ctp_Name (sel_cluster asSel inp)"
    using filter_sort_perm [OF assms(1,3)] by (simp add: sel_cluster_def clusterMatches_def)
  moreover have "sortByPriority (sel_default ?inp) = sortByPriority (sel_default inp)"
    and "sortByPriority (sel_workload asSel ?inp) = sortByPriority (sel_workload asSel inp)"
    using filter_sort_perm [OF assms(2) priority_key_distinct [OF assms(4)]]
    by (simp_all add: sortByPriority_def sel_default_def sel_workload_def identified_def wl_match_def)
  ultimately show "effective_for asSel ?inp = effective_for asSel inp"
    by (simp add: effective_for_def)
qed

text \<open>
  C13: The resolution does not depend on the order in which the API server lists the policies, as
  long as names are unique (which Kubernetes guarantees per kind and namespace): the same
  decision, field by field, or an error in both cases.
\<close>

theorem resolve_order_independent:
  assumes "mset cps = mset (ri_ClusterPolicies inp)" "mset tps = mset (ri_NamespacePolicies inp)"
    and "distinct (map ctp_Name cps)" "distinct (map tp_Name tps)"
  shows "Resolve asSel (inp\<lparr>ri_ClusterPolicies := cps, ri_NamespacePolicies := tps\<rparr>) = Inr eff \<longleftrightarrow>
    Resolve asSel inp = Inr eff"
  by (simp add: Resolve_Inr_iff effective_for_perm [OF assms])

theorem resolve_order_independent_witness:
  "\<forall>eff. Resolve std_selector
     (batch_input\<lparr>ri_ClusterPolicies := [org_default],
                  ri_NamespacePolicies := [batch_workers, ns_default]\<rparr>) = Inr eff \<longleftrightarrow>
   Resolve std_selector batch_input = Inr eff"
  by (intro allI resolve_order_independent) (simp_all add: sample_defs)

text \<open>
  C24: Resolve fails exactly when a selector it has to evaluate is invalid: the namespace selector
  of any cluster policy, or, when a workload identity is given, the pod selector of a
  workload-scoped policy whose service accounts do not rule the workload out before.
\<close>

theorem resolve_error_iff:
  "(\<exists>e. Resolve asSel inp = Inl e) \<longleftrightarrow>
     (\<exists>c \<in> set (ri_ClusterPolicies inp). \<exists>s e.
        ctps_NamespaceSelector (ctp_Spec c) = Some s \<and> asSel s = Inl e) \<or>
     identified inp \<and>
     (\<exists>p \<in> set (ri_NamespacePolicies inp). \<exists>w s e.
        tps_Selector (tp_Spec p) = Some w \<and>
        (ws_ServiceAccounts w = [] \<or> ri_ServiceAccount inp \<in> set (ws_ServiceAccounts w)) \<and>
        \<not> is_default p \<and> ws_PodSelector w = Some s \<and> asSel s = Inl e)"
proof -
  have c: "(\<forall>b. clusterMatches asSel inp c \<noteq> Inr b) \<longleftrightarrow>
      (\<exists>s e. ctps_NamespaceSelector (ctp_Spec c) = Some s \<and> asSel s = Inl e)" for c
    by (auto simp: clusterMatches_def selectorMatches_def split: option.splits sum.splits)
  have w: "(\<forall>b. wl_match asSel inp p \<noteq> Inr b) \<longleftrightarrow>
      (\<exists>w s e. tps_Selector (tp_Spec p) = Some w \<and>
         (ws_ServiceAccounts w = [] \<or> ri_ServiceAccount inp \<in> set (ws_ServiceAccounts w)) \<and>
         ws_PodSelector w = Some s \<and> asSel s = Inl e)" for p
    by (auto simp: wl_match_def workloadMatches_def split: option.splits sum.splits)
  have "(\<exists>e. Resolve asSel inp = Inl e) \<longleftrightarrow> \<not> selectors_ok asSel inp"
    using Resolve_ok [of asSel inp] Resolve_error [of asSel inp] by auto
  then show ?thesis
    unfolding selectors_ok_def using c w by (auto; blast)
qed

end
