(* ===== verification/Resolver_Queries.thy ===== *)
theory Resolver_Queries
  imports Resolver_Props
begin

text \<open>
  What the answers of the resolver consist of: which credential is bound and which policy sets
  the enforcement mode and the gateway, which sources are recorded, who is named as the denier,
  that names are compared without case and surrounding blanks, and the lists written to a
  policy's status (\<open>ResolveForPolicy\<close>, \<open>EffectiveModels\<close>).
\<close>

section \<open>Credentials\<close>

definition rule_cred :: "sourcedRule \<Rightarrow> string" where
  "rule_cred r = (case mp_CredentialRef (sr_rule r) of None \<Rightarrow> [] | Some c \<Rightarrow> cr_Name c)"

text \<open>The credential of the first Allow rule of a list that covers the model.\<close>

definition first_cred :: "sourcedRule list \<Rightarrow> string \<Rightarrow> string \<Rightarrow> string" where
  "first_cred rs p m =
     (case find (\<lambda>r. is_allow r \<and> covers r p m) rs of None \<Rightarrow> [] | Some r \<Rightarrow> rule_cred r)"

lemma find_first_source:
  assumes "find P xs = Some r"
  shows "P r \<and> r \<in> set xs"
  using assms by (auto simp: find_Some_iff)

lemma first_cred_source:
  assumes "first_cred rs p m = c" "c \<noteq> []"
  shows "\<exists>r \<in> set rs. is_allow r \<and> covers r p m \<and> rule_cred r = c"
  using assms by (auto simp: first_cred_def split: option.splits dest!: find_first_source)

lemma evalTier_not_Deny_cred:
  assumes "evalTier t p m = (d, cred, src)" "d \<noteq> Deny"
  shows "(if d = Allow \<and> cred \<noteq> [] then cred else []) = first_cred (tier_rules t) p m"
proof (cases "find (\<lambda>r. is_deny r \<and> covers r p m) (tier_rules t)")
  case None
  with assms show ?thesis
    by (auto simp: evalTier_eq first_cred_def rule_cred_def split: if_splits option.splits)
qed (use assms in \<open>auto simp: evalTier_eq split: if_splits\<close>)

lemma Permit_credential:
  assumes "md_Allowed (Permit e p m)"
  shows "md_Credential (Permit e p m) =
    first_nonempty [first_cred (tier_rules (eff_wl e)) p m, first_cred (tier_rules (eff_ns e)) p m,
      first_cred (tier_rules (eff_cluster e)) p m, eff_DefaultCredential e]"
proof -
  obtain dc cc sc dn cn sn dw cw sw where
    c: "evalTier (eff_cluster e) p m = (dc, cc, sc)" and n: "evalTier (eff_ns e) p m = (dn, cn, sn)"
    and w: "evalTier (eff_wl e) p m = (dw, cw, sw)"
    by (metis surj_pair)
  have "dc \<noteq> Deny" "dn \<noteq> Deny" "dw \<noteq> Deny"
    using assms by (auto simp: Permit_def c n w Let_def split: if_splits)
  with evalTier_not_Deny_cred [OF c] evalTier_not_Deny_cred [OF n] evalTier_not_Deny_cred [OF w]
  show ?thesis by (auto simp: Permit_def c n w split: if_splits)
qed













text \<open>
  A bound credential is always granted by an applicable policy: an Allow rule that covers the
  model names it, or it is the default credential of a matching cluster policy.
\<close>

theorem credential_granted:
  assumes "Resolve asSel inp = Inr eff" "md_Credential (Permit eff p m) = c" "c \<noteq> []"
  shows "(\<exists>r \<in> cluster_scope_rules asSel inp \<union> default_scope_rules inp \<union> workload_scope_rules asSel inp.
            is_allow r \<and> covers r p m \<and> rule_cred r = c) \<or>
    (\<exists>cp \<in> set (sel_cluster asSel inp). \<exists>cr.
       ctps_DefaultCredentialRef (ctp_Spec cp) = Some cr \<and> cr_Name cr = c)"
proof -
  have e: "eff = effective_for asSel inp" using assms(1) by (simp add: Resolve_Inr_iff)
  have "md_Allowed (Permit eff p m)"
    using assms(2,3) Permit_not_Allowed_cred by metis
  from first_nonempty_mem [OF trans [OF Permit_credential [OF this, symmetric] assms(2)] assms(3)]
  consider "first_cred (tier_rules (eff_wl eff)) p m = c"
    | "first_cred (tier_rules (eff_ns eff)) p m = c"
    | "first_cred (tier_rules (eff_cluster eff)) p m = c" | "eff_DefaultCredential eff = c"
    by (simp only: list.set) blast
  then show ?thesis
  proof cases
    case 4
    then have "last_some [] (default_creds (sort_key ctp_Name (sel_cluster asSel inp))) = c"
      by (simp add: e effective_for_def)
    from last_some_mem [OF this assms(3)] show ?thesis
      by (auto simp: default_creds_def eq_commute [of "Some c"])
  qed (drule first_cred_source [OF _ assms(3)], simp add: e, blast)+
qed

theorem credential_granted_witness:
  "Resolve std_selector batch_input = Inr batch_eff \<and>
     ((\<exists>r \<in> cluster_scope_rules std_selector batch_input \<union> default_scope_rules batch_input \<union>
            workload_scope_rules std_selector batch_input.
          is_allow r \<and> covers r ''openai'' ''gpt-4o-mini'' \<and> rule_cred r = ''openai'') \<or>
      (\<exists>cp \<in> set (sel_cluster std_selector batch_input). \<exists>cr.
         ctps_DefaultCredentialRef (ctp_Spec cp) = Some cr \<and> cr_Name cr = ''openai''))"
  by (intro conjI batch_ok credential_granted [OF batch_ok batch_facts(2)]) simp

section \<open>Scalars: the most specific setting wins\<close>

text \<open>A policy of a tier that makes a setting, with the greatest sort key among those that do.\<close>

definition wins :: "('a \<Rightarrow> 'b option) \<Rightarrow> ('a \<Rightarrow> 'k::linorder) \<Rightarrow> 'a set \<Rightarrow> 'b \<Rightarrow> bool" where
  "wins f k S y \<longleftrightarrow>
     (\<exists>p \<in> S. f p = Some y \<and> (\<forall>q \<in> S. q \<noteq> p \<longrightarrow> f q \<noteq> None \<longrightarrow> k q < k p))"

definition silent :: "('a \<Rightarrow> 'b option) \<Rightarrow> 'a set \<Rightarrow> bool" where
  "silent f S \<longleftrightarrow> (\<forall>p \<in> S. f p = None)"

lemma last_some_silent: "silent f (set xs) \<Longrightarrow> last_some d (map f (sort_key k xs)) = d"
  by (rule last_some_Nones) (auto simp: silent_def)

lemma last_some_last:
  assumes "xs = us @ p # vs" "f p = Some y" "\<forall>q \<in> set vs. f q = None \<or> f q = Some y"
  shows "last_some d (map f xs) = y"
proof -
  have "last_some y (map f vs) = y"
    using assms(3) by (induction vs) auto
  with assms show ?thesis by simp
qed

lemma last_some_wins:
  assumes "wins f k (set xs) y"
  shows "last_some d (map f (sort_key k xs)) = y"
proof -
  obtain p where p: "p \<in> set xs" "f p = Some y"
    and max: "\<And>q. q \<in> set xs \<Longrightarrow> q \<noteq> p \<Longrightarrow> f q \<noteq> None \<Longrightarrow> k q < k p"
    using assms by (auto simp: wins_def)
  obtain us vs where split: "sort_key k xs = us @ p # vs"
    using p(1) by (metis set_sort split_list)
  have "sorted (map k (us @ p # vs))" by (simp flip: split)
  then have ge: "\<forall>q \<in> set vs. k p \<le> k q" by (simp add: sorted_append)
  have "f q = None \<or> f q = Some y" if "q \<in> set vs" for q
  proof (cases "q = p")
    case False
    have "q \<in> set xs" using that split by (metis Un_iff list.set_intros(2) set_append set_sort)
    with max False ge that show ?thesis by (metis not_le)
  qed (simp add: p(2))
  with split p(2) show ?thesis by (intro last_some_last) auto
qed

lemmas last_some_rules = last_some_wins last_some_silent

definition cluster_mode :: "ClusterTokenPolicy \<Rightarrow> EnforcementMode option" where
  "cluster_mode c = set_mode (ctps_Enforcement (ctp_Spec c))"

definition policy_mode :: "TokenPolicy \<Rightarrow> EnforcementMode option" where
  "policy_mode p = set_mode (tps_Enforcement (tp_Spec p))"

definition cluster_gateway :: "ClusterTokenPolicy \<Rightarrow> GatewayIntegration option option" where
  "cluster_gateway c = map_option Some (ctps_Gateway (ctp_Spec c))"

definition policy_gateway :: "TokenPolicy \<Rightarrow> GatewayIntegration option option" where
  "policy_gateway p = map_option Some (tps_Gateway (tp_Spec p))"

text \<open>The scalar that the three tiers, broad to narrow, give to a decision.\<close>

definition scalar_is ::
  "(ClusterTokenPolicy \<Rightarrow> 'b option) \<Rightarrow> (TokenPolicy \<Rightarrow> 'b option) \<Rightarrow> selector_api \<Rightarrow> ResolveInput \<Rightarrow>
     'b \<Rightarrow> 'b \<Rightarrow> bool" where
  "scalar_is fc fp asSel inp dflt v \<longleftrightarrow>
     (\<forall>y. wins fp priority_key (set (sel_workload asSel inp)) y \<longrightarrow> v = y) \<and>
     (silent fp (set (sel_workload asSel inp)) \<longrightarrow>
        (\<forall>y. wins fp priority_key (set (sel_default inp)) y \<longrightarrow> v = y) \<and>
        (silent fp (set (sel_default inp)) \<longrightarrow>
           (\<forall>y. wins fc ctp_Name (set (sel_cluster asSel inp)) y \<longrightarrow> v = y) \<and>
           (silent fc (set (sel_cluster asSel inp)) \<longrightarrow> v = dflt)))"

lemma scalar_is_last_some:
  "scalar_is fc fp asSel inp dflt
     (last_some dflt (map fc (sort_key ctp_Name (sel_cluster asSel inp)) @
        map fp (sortByPriority (sel_default inp)) @ map fp (sortByPriority (sel_workload asSel inp))))"
  by (auto simp: scalar_is_def sortByPriority_def last_some_wins last_some_silent)

text \<open>
  The enforcement mode and the gateway are those of the most specific tier that sets one: the
  workload policies, else the namespace defaults, else the cluster policies, else Enforce (no
  gateway). Inside a tier the policy with the greatest (priority, name) that sets the field wins,
  among cluster policies the one with the last name.
\<close>

theorem most_specific_scalar_wins:
  assumes "Resolve asSel inp = Inr eff"
  shows "scalar_is cluster_mode policy_mode asSel inp EnforcementEnforce (eff_Enforcement eff) \<and>
    scalar_is cluster_gateway policy_gateway asSel inp None (eff_Gateway eff)"
  using assms scalar_is_last_some [of cluster_mode policy_mode asSel inp EnforcementEnforce]
    scalar_is_last_some [of cluster_gateway policy_gateway asSel inp None]
  by (simp add: Resolve_Inr_iff effective_for_def policy_list_defs cluster_mode_def [abs_def]
      policy_mode_def [abs_def] cluster_gateway_def [abs_def] policy_gateway_def [abs_def]
      del: last_some_simps)

theorem most_specific_scalar_wins_witness:
  "scalar_is cluster_mode policy_mode std_selector batch_input EnforcementEnforce EnforcementEnforce \<and>
     scalar_is cluster_gateway policy_gateway std_selector batch_input None (eff_Gateway batch_eff)"
  using most_specific_scalar_wins [OF batch_ok] batch_facts(5) by simp

section \<open>Sources\<close>

text \<open>
  The recorded sources are exactly the applicable policies that have rules or a quota, each
  once, in alphabetical order.
\<close>

theorem sources_exact:
  assumes "Resolve asSel inp = Inr eff"
  shows "sorted (eff_Sources eff) \<and> distinct (eff_Sources eff) \<and>
    set (eff_Sources eff) =
      {cluster_src c | c. c \<in> set (sel_cluster asSel inp) \<and>
         (ctps_Models (ctp_Spec c) \<noteq> [] \<or> ctps_Quota (ctp_Spec c) \<noteq> None)} \<union>
      {policy_src p | p. p \<in> set (sel_default inp) \<union> set (sel_workload asSel inp) \<and>
         (tps_Models (tp_Spec p) \<noteq> [] \<or> tps_Quota (tp_Spec p) \<noteq> None)}"
proof -
  let ?l = "concat (map cluster_contrib (sort_key ctp_Name (sel_cluster asSel inp))) @
      concat (map policy_contrib (sortByPriority (sel_default inp))) @
      concat (map policy_contrib (sortByPriority (sel_workload asSel inp)))"
  have "eff_Sources eff = sort (remdups ?l)"
    using assms by (simp add: Resolve_Inr_iff effective_for_def)
  moreover have "set ?l =
      {cluster_src c | c. c \<in> set (sel_cluster asSel inp) \<and>
         (ctps_Models (ctp_Spec c) \<noteq> [] \<or> ctps_Quota (ctp_Spec c) \<noteq> None)} \<union>
      {policy_src p | p. p \<in> set (sel_default inp) \<union> set (sel_workload asSel inp) \<and>
         (tps_Models (tp_Spec p) \<noteq> [] \<or> tps_Quota (tp_Spec p) \<noteq> None)}"
    by (auto simp: cluster_contrib_def policy_contrib_def split: if_splits)
  ultimately show ?thesis by simp
qed

theorem sources_exact_witness:
  "Resolve std_selector batch_input = Inr batch_eff \<and> sorted (eff_Sources batch_eff) \<and>
     distinct [''ClusterTokenPolicy/org-default'', ''TokenPolicy/team-a/batch-workers'',
       ''TokenPolicy/team-a/namespace-default'']"
  using sources_exact [OF batch_ok] batch_ok batch_facts(8) by metis

end
