(* ===== verification/Resolver_Status.thy ===== *)
theory Resolver_Status
  imports Resolver_Queries
begin

text \<open>
  Who is named as the denier, names up to case and surrounding blanks, and what the controllers
  write into a policy's status: \<open>ResolveForPolicy\<close> gives the decision that pods get at admission,
  and \<open>EffectiveModels\<close> lists every model an Allow rule names with its verdict.
\<close>

section \<open>Denials\<close>

text \<open>The narrowest tier that denies.\<close>

definition denying_tier :: "Effective \<Rightarrow> string \<Rightarrow> string \<Rightarrow> tier" where
  "denying_tier e p m =
     (if verdict (eff_wl e) p m = Deny then eff_wl e
      else if verdict (eff_ns e) p m = Deny then eff_ns e
      else eff_cluster e)"

lemma evalTier_Deny_source:
  assumes "evalTier t p m = (Deny, cred, src)"
  shows "(\<exists>r \<in> set (tier_rules t). is_deny r \<and> covers r p m \<and> sr_source r = src) \<or>
    (\<forall>r \<in> set (tier_rules t). is_deny r \<longrightarrow> \<not> covers r p m) \<and>
      (\<exists>r \<in> set (tier_rules t). is_allow r) \<and> src = tier_name t @ '' allowlist''"
proof (cases "find (\<lambda>r. is_deny r \<and> covers r p m) (tier_rules t)")
  case None
  then have "\<forall>r \<in> set (tier_rules t). is_deny r \<longrightarrow> \<not> covers r p m"
    by (auto simp: find_None_iff)
  with assms None show ?thesis by (auto simp: evalTier_eq split: if_splits option.splits)
next
  case (Some r)
  with assms show ?thesis
    by (auto simp: evalTier_eq dest!: find_first_source split: if_splits)
qed

lemma Permit_DeniedBy:
  assumes "\<not> md_Allowed (Permit e p m)"
  shows "\<exists>cred. evalTier (denying_tier e p m) p m = (Deny, cred, md_DeniedBy (Permit e p m))"
proof -
  obtain dc cc sc dn cn sn dw cw sw where
    c: "evalTier (eff_cluster e) p m = (dc, cc, sc)" and n: "evalTier (eff_ns e) p m = (dn, cn, sn)"
    and w: "evalTier (eff_wl e) p m = (dw, cw, sw)"
    by (metis surj_pair)
  with assms show ?thesis
    by (auto simp: Permit_def denying_tier_def verdict_def Let_def split: if_splits)
qed

text \<open>
  A denial names its cause in the narrowest tier that denies the model: the policy of a Deny
  rule of that tier that covers the model, or, when no Deny rule of the tier covers it, the
  tier's allowlist; a denied model carries no credential.
\<close>

theorem denial_names_narrowest_cause:
  assumes "\<not> md_Allowed (Permit e p m)"
  shows "md_Credential (Permit e p m) = [] \<and>
    (let t = denying_tier e p m; src = md_DeniedBy (Permit e p m) in
       (\<exists>r \<in> set (tier_rules t). is_deny r \<and> covers r p m \<and> sr_source r = src) \<or>
       (\<forall>r \<in> set (tier_rules t). is_deny r \<longrightarrow> \<not> covers r p m) \<and>
         (\<exists>r \<in> set (tier_rules t). is_allow r) \<and> src = tier_name t @ '' allowlist'')"
  using Permit_not_Allowed_cred [OF assms] Permit_DeniedBy [OF assms] evalTier_Deny_source
  unfolding Let_def by blast

theorem denial_names_narrowest_cause_witness:
  "md_Credential (Permit batch_eff ''openai'' ''gpt-4o'') = [] \<and>
   md_DeniedBy (Permit batch_eff ''openai'' ''gpt-4o'') = ''workload allowlist''"
  using denial_names_narrowest_cause [OF batch_facts(3)] batch_facts(4) by blast

section \<open>Names up to case and blanks\<close>

lemma denying_tier_cong:
  "fold_name p = fold_name p' \<Longrightarrow> fold_name m = fold_name m' \<Longrightarrow>
     denying_tier e p m = denying_tier e p' m'"
  by (simp add: denying_tier_def verdict_def evalTier_cong [of p p' m m'])

text \<open>
  Provider and model names are compared without regard to case and surrounding blanks: names
  that agree up to those get the same verdict, credential and denier.
\<close>

theorem permit_folds_names:
  assumes "fold_name p = fold_name p'" "fold_name m = fold_name m'"
  shows "md_Allowed (Permit e p m) = md_Allowed (Permit e p' m') \<and>
    md_Credential (Permit e p m) = md_Credential (Permit e p' m') \<and>
    md_DeniedBy (Permit e p m) = md_DeniedBy (Permit e p' m')"
  by (auto simp: Permit_def evalTier_cong [OF assms] Let_def split: prod.split)

theorem permit_folds_names_witness:
  "md_Allowed (Permit batch_eff '' OpenAI'' ''GPT-4o-mini '') \<and>
   md_Credential (Permit batch_eff '' OpenAI'' ''GPT-4o-mini '') = ''openai''"
proof -
  have "fold_name '' OpenAI'' = fold_name ''openai''"
    and "fold_name ''GPT-4o-mini '' = fold_name ''gpt-4o-mini''"
    by code_simp+
  from permit_folds_names [OF this, of batch_eff] batch_facts(1,2) show ?thesis by simp
qed

section \<open>The resolution of one policy\<close>

lemma foldl_appendUnique: "foldl appendUnique xs ys = foldl set_add xs ys"
  by (induction ys arbitrary: xs) (simp_all add: appendUnique_def set_add_def list_ex_iff Bex_def)

text \<open>Adding one workload policy to a decision that has none.\<close>

lemma effective_of_workload1:
  "(let (base, sset) = applyNamespaceTier WlTier (effective_of cm nd [], []) tp;
        base = base\<lparr>eff_wl := (eff_wl base)\<lparr>tier_name := ''workload''\<rparr>\<rparr>;
        base = base\<lparr>eff_ModelGoverned := has_rules base, eff_Governed := True\<rparr>;
        base = base\<lparr>eff_Sources := foldl appendUnique (eff_Sources base) sset\<rparr>
    in base\<lparr>eff_Sources := sort (eff_Sources base)\<rparr>) = effective_of cm nd [tp]"
proof -
  have "sort (foldl set_add (sort (remdups xs)) ys) = sort (remdups (xs @ ys))" for xs ys :: "string list"
    using key_set.keys_fold_set [OF TrueI, of "sort (remdups xs)" ys]
      key_set.keys_fold_distinct [OF TrueI, of "sort (remdups xs)" ys]
    by (intro sort_set_eq) auto
  note src = this [where ys = "policy_contrib tp"]
  have "foldl set_add [] (policy_contrib tp) = policy_contrib tp"
    by (simp add: policy_contrib_def set_add_def)
  then show ?thesis
    by (simp add: applyNamespaceTier_eq Let_def effective_of_def has_rules_def foldl_appendUnique
        mk_tier_def add_rules_def policy_list_defs src)
qed

text \<open>What the decision depends on.\<close>

lemma sel_cluster_cong:
  "ri_ClusterPolicies i = ri_ClusterPolicies j \<Longrightarrow> ri_NamespaceLabels i = ri_NamespaceLabels j \<Longrightarrow>
     sel_cluster asSel i = sel_cluster asSel j"
  by (simp add: sel_cluster_def clusterMatches_def cong: filter_cong)

lemma policies_without_target:
  assumes "\<forall>p \<in> set ps. same_policy p target \<longrightarrow> p = target"
  shows "filter (\<lambda>p. \<not> same_policy p target) ps = filter (\<lambda>p. p \<noteq> target) ps"
  using assms by (intro filter_cong) (auto simp: same_policy_def)

lemma sel_default_without:
  assumes "\<forall>p \<in> set (ri_NamespacePolicies inp). same_policy p target \<longrightarrow> p = target"
    and "\<not> is_default target"
  shows "sel_default (inp\<lparr>ri_NamespacePolicies :=
      filter (\<lambda>p. \<not> same_policy p target) (ri_NamespacePolicies inp)\<rparr>) = sel_default inp"
  unfolding policies_without_target [OF assms(1)] sel_default_def
  using assms(2) by (auto intro!: filter_cong)

text \<open>
  C12: The status preview of a workload-scoped policy is the decision its pods get: for every pod
  of the namespace that the policy selects and no other workload-scoped policy does,
  \<open>ResolveForPolicy\<close> returns what \<open>Resolve\<close> returns at admission, every field included.
\<close>

theorem preview_is_admission_decision:
  assumes "Resolve asSel inp = Inr eff"
    and "sel_workload asSel inp = [target]"
    and "\<forall>p \<in> set (ri_NamespacePolicies inp). same_policy p target \<longrightarrow> p = target"
  shows "ResolveForPolicy asSel (ri_ClusterPolicies inp) (ri_NamespacePolicies inp)
    (ri_NamespaceLabels inp) target = Inr eff"
proof -
  have "target \<in> set (sel_workload asSel inp)" by (simp add: assms(2))
  then have target: "\<not> is_default target" by (simp add: sel_workload_def)
  let ?in = "\<lparr>ri_ClusterPolicies = ri_ClusterPolicies inp,
      ri_NamespacePolicies = filter (\<lambda>p. \<not> same_policy p target) (ri_NamespacePolicies inp),
      ri_Namespace = tp_Namespace target, ri_NamespaceLabels = ri_NamespaceLabels inp,
      ri_PodLabels = None, ri_ServiceAccount = []\<rparr>"
  have ok: "selectors_ok asSel inp" and eff: "eff = effective_for asSel inp"
    using assms(1) by (simp_all add: Resolve_Inr_iff)
  have "selectors_ok asSel ?in"
    using ok by (simp add: selectors_ok_def clusterMatches_def identified_def)
  moreover have "sel_cluster asSel ?in = sel_cluster asSel inp"
    by (rule sel_cluster_cong) simp_all
  moreover have "sel_default ?in = sel_default inp"
    using sel_default_without [OF assms(3) target] by (simp add: sel_default_def)
  moreover have "sel_workload asSel ?in = []"
    by (simp add: sel_workload_def identified_def)
  ultimately have "Resolve asSel ?in =
      Inr (effective_of (sort_key ctp_Name (sel_cluster asSel inp)) (sortByPriority (sel_default inp)) [])"
    by (simp add: Resolve_ok effective_for_def sortByPriority_def)
  then show ?thesis
    using target
    by (simp add: ResolveForPolicy_def is_default_def [abs_def] eff effective_for_def assms(2)
        sortByPriority_def Let_def split_def flip: effective_of_workload1)
qed

theorem preview_is_admission_decision_witness:
  "sel_workload std_selector batch_input = [batch_workers] \<and>
   ResolveForPolicy std_selector [org_default] [ns_default, batch_workers] (Some []) batch_workers =
     Inr batch_eff"
proof -
  have sel: "sel_workload std_selector batch_input = [batch_workers]"
    by (simp add: sel_workload_def batch_input_def team_a_def identified_def is_default_def
        wl_match_def IsEmpty_def ns_default_def batch_workers_def token_policy_def batch_selector_def
        workloadMatches_def std_selector_def match_labels_def label_set_def)
  have "\<forall>p \<in> set (ri_NamespacePolicies batch_input). same_policy p batch_workers \<longrightarrow> p = batch_workers"
    by (simp add: batch_input_def team_a_def same_policy_def ns_default_def batch_workers_def
        token_policy_def)
  from preview_is_admission_decision [OF batch_ok sel this] sel show ?thesis
    by (simp add: batch_input_def team_a_def)
qed

lemma mset_filter_snoc:
  assumes "distinct xs" "x \<in> set xs"
  shows "mset (filter (\<lambda>y. y \<noteq> x) xs @ [x]) = mset xs"
proof -
  obtain us vs where xs: "xs = us @ x # vs" using assms(2) by (meson split_list)
  with assms(1) have "\<forall>y \<in> set us. y \<noteq> x" "\<forall>y \<in> set vs. y \<noteq> x" by auto
  with xs have "filter (\<lambda>y. y \<noteq> x) xs = us @ vs" by simp
  with xs show ?thesis by simp
qed

text \<open>
  The status of a namespace-default policy shows the decision of its namespace: resolving it
  in place is resolving the namespace without a workload identity.
\<close>

theorem default_preview_is_namespace_decision:
  assumes "IsEmpty (tps_Selector (tp_Spec target))" "target \<in> set ps"
    and "distinct (map tp_Name ps)" "distinct (map ctp_Name cps)"
  shows "ResolveForPolicy asSel cps ps nsl target = Inr eff \<longleftrightarrow>
    Resolve asSel
      \<lparr>ri_ClusterPolicies = cps, ri_NamespacePolicies = ps, ri_Namespace = tp_Namespace target,
       ri_NamespaceLabels = nsl, ri_PodLabels = None, ri_ServiceAccount = []\<rparr> = Inr eff"
proof -
  let ?inp = "\<lparr>ri_ClusterPolicies = cps, ri_NamespacePolicies = ps, ri_Namespace = tp_Namespace target,
       ri_NamespaceLabels = nsl, ri_PodLabels = None, ri_ServiceAccount = []\<rparr>"
  let ?rest = "filter (\<lambda>p. p \<noteq> target) ps @ [target]"
  have "p = target" if "p \<in> set ps" "same_policy p target" for p
    using assms(2,3) that by (auto simp: same_policy_def distinct_map dest: inj_onD)
  then have "filter (\<lambda>p. \<not> same_policy p target) ps = filter (\<lambda>p. p \<noteq> target) ps"
    by (intro policies_without_target) blast
  then have "ResolveForPolicy asSel cps ps nsl target =
      Resolve asSel (?inp\<lparr>ri_ClusterPolicies := cps, ri_NamespacePolicies := ?rest\<rparr>)"
    using assms(1) by (simp add: ResolveForPolicy_def)
  moreover have "distinct ps" using assms(3) by (simp add: distinct_map)
  with assms(2) have perm: "mset ?rest = mset ps"
    by (intro mset_filter_snoc)
  then have "mset (map tp_Name ?rest) = mset (map tp_Name ps)"
    by (simp only: mset_map)
  from mset_eq_imp_distinct_iff [OF this] assms(3) have "distinct (map tp_Name ?rest)"
    by blast
  ultimately show ?thesis
    using effective_for_perm [of cps ?inp ?rest asSel] perm assms(4)
    by (simp add: Resolve_Inr_iff del: map_append filter_append mset_append)
qed

theorem default_preview_is_namespace_decision_witness:
  "\<forall>eff. ResolveForPolicy std_selector [org_default] [ns_default, batch_workers] (Some []) ns_default =
       Inr eff \<longleftrightarrow>
     Resolve std_selector
      \<lparr>ri_ClusterPolicies = [org_default], ri_NamespacePolicies = [ns_default, batch_workers],
       ri_Namespace = tp_Namespace ns_default,
       ri_NamespaceLabels = Some [], ri_PodLabels = None, ri_ServiceAccount = []\<rparr> = Inr eff"
  by (intro allI default_preview_is_namespace_decision) (simp_all add: sample_defs IsEmpty_def)

section \<open>The listed models\<close>

definition rule_key :: "sourcedRule \<Rightarrow> model_key option" where
  "rule_key r =
     (if is_allow r
      then Some (ToLower (mp_Provider (sr_rule r)), ToLower (mp_Model (sr_rule r))) else None)"

text \<open>The loop's map knows exactly the listed keys.\<close>

definition collect_inv :: "(model_key \<rightharpoonup> string) \<times> model_key list \<Rightarrow> bool" where
  "collect_inv st \<longleftrightarrow> dom (fst st) = set (snd st)"

lemma collectRule_eq:
  "collectRule st r =
     (case rule_key r of
        None \<Rightarrow> st
      | Some k \<Rightarrow> if k \<in> dom (fst st) then st
          else ((fst st)(k \<mapsto> sr_source r), snd st @ [k]))"
  by (auto simp: collectRule_def rule_key_def Let_def split: prod.splits option.splits)

interpretation collect: dedup_loop collect_inv snd rule_key collectRule
  by unfold_locales (simp_all add: collect_inv_def collectRule_eq split: option.split)

text \<open>The recorded source is that of the first Allow rule with the key.\<close>

lemma collect_source: "fst st k = Some s \<Longrightarrow> fst (foldl collectRule st rs) k = Some s"
proof (induction rs arbitrary: st)
  case (Cons r rs)
  then have "fst (collectRule st r) k = Some s" by (auto simp: collectRule_eq split: option.split)
  then show ?case by (simp add: Cons.IH)
qed simp

lemma collect_first:
  "fst st k = None \<Longrightarrow>
     fst (foldl collectRule st rs) k = map_option sr_source (find (\<lambda>r. rule_key r = Some k) rs)"
  by (induction rs arbitrary: st) (auto simp: collectRule_eq collect_source split: option.split)

definition all_rules :: "Effective \<Rightarrow> sourcedRule list" where
  "all_rules e = tier_rules (eff_cluster e) @ tier_rules (eff_ns e) @ tier_rules (eff_wl e)"

definition model_entry :: "Effective \<Rightarrow> model_key \<Rightarrow> EffectiveModel" where
  "model_entry e k =
     (let d = Permit e (fst k) (snd k) in
      \<lparr>em_Provider = fst k, em_Model = snd k,
       em_Action = (if md_Allowed d then ActionAllow else ActionDeny),
       em_Credential = md_Credential d,
       em_Source = (case find (\<lambda>r. rule_key r = Some k) (all_rules e) of
                      None \<Rightarrow> [] | Some r \<Rightarrow> sr_source r)\<rparr>)"

lemma EffectiveModels_eq:
  "EffectiveModels e = map (model_entry e) (snd (foldl collectRule (Map.empty, []) (all_rules e)))"
proof -
  let ?st = "foldl collectRule (Map.empty, []) (all_rules e)"
  have "fst ?st k = map_option sr_source (find (\<lambda>r. rule_key r = Some k) (all_rules e))" for k
    by (rule collect_first) simp
  then show ?thesis
    unfolding EffectiveModels_def foldl_append [symmetric] all_rules_def [symmetric] append_assoc
    by (auto simp: split_def Let_def model_entry_def split: option.splits)
qed

text \<open>
  The models listed in a policy's status: one entry per distinct provider and model named,
  in any case, by an Allow rule of any tier, with the verdict and the credential that \<open>Permit\<close>
  gives for it, and as its source the policy of the first such rule, broad to narrow.
\<close>

theorem effective_models_complete:
  "EffectiveModels e = map (\<lambda>m. model_entry e (em_Provider m, em_Model m)) (EffectiveModels e) \<and>
   distinct (map (\<lambda>m. (em_Provider m, em_Model m)) (EffectiveModels e)) \<and>
   (\<lambda>m. (em_Provider m, em_Model m)) ` set (EffectiveModels e) =
     {(ToLower (mp_Provider (sr_rule r)), ToLower (mp_Model (sr_rule r))) | r.
        r \<in> set (all_rules e) \<and> is_allow r}"
proof -
  let ?keys = "snd (foldl collectRule (Map.empty, []) (all_rules e))"
  have key: "(em_Provider (model_entry e k), em_Model (model_entry e k)) = k" for k
    by (simp add: model_entry_def Let_def)
  have inv: "collect_inv (Map.empty, [])" by (simp add: collect_inv_def)
  have "distinct ?keys" using collect.keys_fold_distinct [OF inv] by simp
  moreover have "set ?keys = {(ToLower (mp_Provider (sr_rule r)), ToLower (mp_Model (sr_rule r))) | r.
        r \<in> set (all_rules e) \<and> is_allow r}"
    using collect.keys_fold_set [OF inv, of "all_rules e"] by (auto simp: rule_key_def)
  moreover have "map (\<lambda>m. (em_Provider m, em_Model m)) (EffectiveModels e) = ?keys"
    by (simp add: EffectiveModels_eq comp_def key)
  moreover have "EffectiveModels e = map (\<lambda>m. model_entry e (em_Provider m, em_Model m)) (EffectiveModels e)"
    by (simp add: EffectiveModels_eq key)
  ultimately show ?thesis by (metis list.set_map)
qed

end
