(* ===== verification/Kube.thy ===== *)
theory Kube
  imports Api_Types "HOL-Library.AList"
begin

text \<open>
  What the program uses of Kubernetes: errors and the predicates on them, the metadata and pod
  fields it reads and writes, admission objects, and the client it reads cluster state through.
  The API server is not part of the repository: it is the record \<open>client\<close> of its answers, an
  argument of every handler. One run of a handler sees one answer per read, as it does when it
  reads the informer cache between two updates of it.
\<close>

section \<open>Errors\<close>

text \<open>
  The errors the program tells apart (\<open>apierrors.IsNotFound\<close>, \<open>meta.IsNoMatchError\<close>) and those it
  builds (\<open>NewForbidden\<close>, \<open>NewBadRequest\<close>); every other one is its text.
\<close>

datatype api_error =
    NotFound error
  | NoMatch error
  | Forbidden string string error
  | BadRequest error
  | OtherError error

fun Error :: "api_error \<Rightarrow> error" where
  "Error (NotFound e) = e"
| "Error (NoMatch e) = e"
| "Error (Forbidden res n e) = res @ '' '' @ quote n @ '' is forbidden: '' @ e"
| "Error (BadRequest e) = e"
| "Error (OtherError e) = e"

fun IsNotFound :: "api_error \<Rightarrow> bool" where
  "IsNotFound (NotFound e) = True"
| "IsNotFound _ = False"

fun IsNoMatchError :: "api_error \<Rightarrow> bool" where
  "IsNoMatchError (NoMatch e) = True"
| "IsNoMatchError _ = False"

text \<open>\<open>client.IgnoreNotFound\<close>\<close>

definition IgnoreNotFound :: "api_error \<Rightarrow> api_error option" where
  "IgnoreNotFound err = (if IsNotFound err then None else Some err)"

section \<open>String maps\<close>

text \<open>Reading \<open>m[k]\<close> of a possibly nil map, and \<open>m[k] = v\<close> after the nil check.\<close>

definition map_get :: "labels option \<Rightarrow> string \<Rightarrow> string" where
  "map_get m k = (case map_of (case m of None \<Rightarrow> [] | Some l \<Rightarrow> l) k of None \<Rightarrow> [] | Some v \<Rightarrow> v)"

definition map_put :: "string \<Rightarrow> string \<Rightarrow> labels option \<Rightarrow> labels option" where
  "map_put k v m = Some (AList.update k v (case m of None \<Rightarrow> [] | Some l \<Rightarrow> l))"

lemma map_get_put [simp]: "map_get (map_put k v m) k' = (if k' = k then v else map_get m k')"
  by (simp add: map_get_def map_put_def update_conv')

lemma map_put_not_None [simp]: "map_put k v m \<noteq> None"
  by (simp add: map_put_def)

lemma AList_update_known: "map_of al k = Some v \<Longrightarrow> AList.update k v al = al"
  by (induction al) auto

lemma map_put_known:
  "map_of (case m of None \<Rightarrow> [] | Some l \<Rightarrow> l) k = Some v \<Longrightarrow> map_put k v m = m"
  by (cases m) (simp_all add: map_put_def AList_update_known)

lemma map_of_put [simp]:
  "map_of (case map_put k v m of None \<Rightarrow> [] | Some l \<Rightarrow> l) k' =
     (if k' = k then Some v else map_of (case m of None \<Rightarrow> [] | Some l \<Rightarrow> l) k')"
  by (simp add: map_put_def update_conv')

lemma map_put_again [simp]: "map_put k v (map_put k v m) = map_put k v m"
  by (rule map_put_known) simp

section \<open>Core objects\<close>

record Namespace =
  ns_Name :: string
  ns_Labels :: "labels option"

text \<open>\<open>EnvVarSource\<close>: the secret references the program writes, or any other source.\<close>

datatype EnvVarSource = SecretKeyRef string string | OtherEnvSource string

record EnvVar =
  ev_Name :: string
  ev_Value :: string
  ev_ValueFrom :: "EnvVarSource option"

datatype VolumeSource = SecretVolume string "(string \<times> string) list" | OtherVolumeSource string

record Volume =
  vol_Name :: string
  vol_Source :: VolumeSource

record VolumeMount =
  vm_Name :: string
  vm_MountPath :: string
  vm_ReadOnly :: bool

record Container =
  ct_Name :: string
  ct_Env :: "EnvVar list"
  ct_VolumeMounts :: "VolumeMount list"

record Pod =
  pod_Namespace :: string
  pod_Name :: string
  pod_Labels :: "labels option"
  pod_Annotations :: "labels option"
  pod_ServiceAccountName :: string
  pod_Containers :: "Container list"
  pod_InitContainers :: "Container list"
  pod_Volumes :: "Volume list"

record Secret =
  sec_Namespace :: string
  sec_Name :: string
  sec_Labels :: "labels option"
  sec_Annotations :: "labels option"
  sec_Type :: string
  sec_Data :: "(string \<times> string) list"
  sec_Owner :: "string option"

text \<open>\<open>runtime.Object\<close>: what an admission handler may be given.\<close>

datatype api_object =
    PodObject Pod
  | TokenPolicyObject TokenPolicy
  | ClusterTokenPolicyObject ClusterTokenPolicy
  | ModelClaimObject ModelClaim
  | ModelCredentialObject ModelCredential
  | OtherObject string

text \<open>\<open>%T\<close>\<close>

fun object_type :: "api_object \<Rightarrow> string" where
  "object_type (PodObject _) = ''*v1.Pod''"
| "object_type (TokenPolicyObject _) = ''*v1alpha1.TokenPolicy''"
| "object_type (ClusterTokenPolicyObject _) = ''*v1alpha1.ClusterTokenPolicy''"
| "object_type (ModelClaimObject _) = ''*v1alpha1.ModelClaim''"
| "object_type (ModelCredentialObject _) = ''*v1alpha1.ModelCredential''"
| "object_type (OtherObject t) = t"

section \<open>The client\<close>

record client =
  list_ClusterTokenPolicies :: "api_error + ClusterTokenPolicy list"
  list_TokenPolicies :: "string \<Rightarrow> api_error + TokenPolicy list"
  list_AllTokenPolicies :: "api_error + TokenPolicy list"
  list_ModelClaims :: "string \<Rightarrow> api_error + ModelClaim list"
  list_Namespaces :: "api_error + Namespace list"
  get_Namespace :: "string \<Rightarrow> api_error + Namespace"
  get_ModelCredential :: "string \<Rightarrow> api_error + ModelCredential"
  get_Secret :: "string \<Rightarrow> string \<Rightarrow> api_error + Secret"

end
