(* ===== verification/Gateway.thy ===== *)
theory Gateway
  imports Kube
begin

text \<open>
  The gateway artifacts (\<open>internal/gateway/gateway.go\<close>): which object a policy's gateway integration
  asks for, and its content, as a JSON value (\<open>unstructured.Unstructured\<close> holds nested
  \<open>map[string]interface\<close> values; a map is the list of its entries). \<open>show_int (sint v)\<close> is
  \<open>fmt.Sprintf("%d", v)\<close>.
\<close>

section \<open>Unstructured objects\<close>

datatype json =
    JStr string
  | JInt int64
  | JArr "json list"
  | JObj "(string \<times> json) list"

record GroupVersionKind =
  gvk_Group :: string
  gvk_Version :: string
  gvk_Kind :: string

record Unstructured =
  u_GVK :: GroupVersionKind
  u_Name :: string
  u_Namespace :: string
  u_Labels :: "(string \<times> string) list"
  u_Annotations :: "(string \<times> string) list"
  u_Owner :: "string option"
  u_Spec :: "json option"

definition EnvoyBackendTrafficPolicyGVK :: GroupVersionKind where
  "EnvoyBackendTrafficPolicyGVK =
     \<lparr>gvk_Group = ''gateway.envoyproxy.io'', gvk_Version = ''v1alpha1'', gvk_Kind = ''BackendTrafficPolicy''\<rparr>"

definition KuadrantTokenRateLimitPolicyGVK :: GroupVersionKind where
  "KuadrantTokenRateLimitPolicyGVK =
     \<lparr>gvk_Group = ''kuadrant.io'', gvk_Version = ''v1alpha1'', gvk_Kind = ''TokenRateLimitPolicy''\<rparr>"

definition ArtifactName :: "string \<Rightarrow> string" where
  "ArtifactName policyName = ''tc-'' @ policyName"

section \<open>Building\<close>

definition baseMeta :: "GroupVersionKind \<Rightarrow> TokenPolicy \<Rightarrow> Unstructured" where
  "baseMeta gvk tp =
     \<lparr>u_GVK = gvk, u_Name = ArtifactName (tp_Name tp), u_Namespace = tp_Namespace tp,
      u_Labels = [(LabelManagedBy, ManagedByValue), (''governance.tokencontrol.io/policy'', tp_Name tp)],
      u_Annotations = [], u_Owner = None, u_Spec = None\<rparr>"

definition targetRef :: "GatewayTargetRef \<Rightarrow> (string \<times> json) list" where
  "targetRef t =
     (let m = [(''kind'', JStr (gt_Kind t)), (''name'', JStr (gt_Name t))] in
      if gt_Group t \<noteq> [] then AList.update ''group'' (JStr (gt_Group t)) m else m)"

definition annotateQuota :: "Unstructured \<Rightarrow> TokenQuota option \<Rightarrow> Unstructured" where
  "annotateQuota u quota =
     (let ann = [];
          ann = (case quota of
                   None \<Rightarrow> ann
                 | Some q \<Rightarrow>
                     (let ann = (case tq_TokensPerMinute q of None \<Rightarrow> ann
                                 | Some v \<Rightarrow> AList.update ''governance.tokencontrol.io/tpm'' (show_int (sint v)) ann);
                          ann = (case tq_TokensPerDay q of None \<Rightarrow> ann
                                 | Some v \<Rightarrow> AList.update ''governance.tokencontrol.io/tokens-per-day'' (show_int (sint v)) ann)
                      in (case tq_TokensPerMonth q of None \<Rightarrow> ann
                          | Some v \<Rightarrow> AList.update ''governance.tokencontrol.io/tokens-per-month'' (show_int (sint v)) ann)))
      in if length ann > 0 then u\<lparr>u_Annotations := ann\<rparr> else u)"

definition limit_rule :: "int64 \<Rightarrow> json" where
  "limit_rule v = JObj [(''requests'', JInt v), (''unit'', JStr ''Minute'')]"

definition cost_rule :: json where
  "cost_rule =
     JObj [(''response'', JObj [(''metadata'',
        JObj [(''namespace'', JStr ''io.envoy.ai_gateway''), (''key'', JStr ''llm_total_token'')])])]"

text \<open>The caller has checked \<open>gw.TargetRef\<close>; it is passed as \<open>tref\<close>.\<close>

definition buildEnvoyBackendTrafficPolicy ::
  "GatewayTargetRef \<Rightarrow> TokenPolicy \<Rightarrow> TokenQuota option \<Rightarrow> Unstructured" where
  "buildEnvoyBackendTrafficPolicy tref tp quota =
     (let u = baseMeta EnvoyBackendTrafficPolicyGVK tp;
          rules = [];
          rules = (case quota of None \<Rightarrow> rules
                   | Some q \<Rightarrow> (case tq_RequestsPerMinute q of None \<Rightarrow> rules
                               | Some v \<Rightarrow> rules @ [JObj [(''limit'', limit_rule v)]]));
          rules = (case quota of None \<Rightarrow> rules
                   | Some q \<Rightarrow> (case tq_TokensPerMinute q of None \<Rightarrow> rules
                               | Some v \<Rightarrow> rules @ [JObj [(''limit'', limit_rule v), (''cost'', cost_rule)]]));
          rules = (if length rules = 0 then rules @ [JObj [(''limit'', limit_rule 0)]] else rules);
          u = u\<lparr>u_Spec := Some (JObj
                [(''targetRefs'', JArr [JObj (targetRef tref)]),
                 (''rateLimit'', JObj
                    [(''type'', JStr ''Global''), (''global'', JObj [(''rules'', JArr rules)])])])\<rparr>
      in annotateQuota u quota)"

definition rate :: "int64 \<Rightarrow> string \<Rightarrow> json" where
  "rate v window = JObj [(''limit'', JInt v), (''window'', JStr window)]"

definition buildKuadrantTokenRateLimitPolicy ::
  "GatewayTargetRef \<Rightarrow> TokenPolicy \<Rightarrow> TokenQuota option \<Rightarrow> Unstructured" where
  "buildKuadrantTokenRateLimitPolicy ref tp quota =
     (let u = baseMeta KuadrantTokenRateLimitPolicyGVK tp;
          rates = [];
          rates = (case quota of None \<Rightarrow> rates
                   | Some q \<Rightarrow>
                       (let rates = (case tq_TokensPerMinute q of None \<Rightarrow> rates
                                     | Some v \<Rightarrow> rates @ [rate v ''1m''])
                        in (case tq_TokensPerDay q of None \<Rightarrow> rates
                            | Some v \<Rightarrow> rates @ [rate v ''24h''])));
          rates = (if length rates = 0 then rates @ [rate 0 ''1m''] else rates);
          tref = targetRef ref;
          tref = (if map_of tref ''group'' = None
                  then AList.update ''group'' (JStr ''gateway.networking.k8s.io'') tref else tref);
          u = u\<lparr>u_Spec := Some (JObj
                [(''targetRef'', JObj tref),
                 (''limits'', JObj [(''tokens'', JObj [(''rates'', JArr rates)])])])\<rparr>
      in annotateQuota u quota)"

text \<open>\<open>For\<close>: the artifact of the requested type, \<open>None\<close> being \<open>nil\<close>.\<close>

definition gateway_For ::
  "GatewayIntegration option \<Rightarrow> TokenPolicy \<Rightarrow> TokenQuota option \<Rightarrow> Unstructured option result" where
  "gateway_For gw tp quota =
     (case gw of
        None \<Rightarrow> Inr None
      | Some gw \<Rightarrow>
          if gi_Type gw = GatewayNone \<or> gi_Type gw = GatewayUnset then Inr None
          else (case gi_TargetRef gw of
                  None \<Rightarrow>
                    Inl (''gateway integration '' @ quote (gateway_string (gi_Type gw)) @
                         '' requires spec.gateway.targetRef'')
                | Some tref \<Rightarrow>
                    if gi_Type gw = GatewayEnvoyAIGateway
                    then Inr (Some (buildEnvoyBackendTrafficPolicy tref tp quota))
                    else if gi_Type gw = GatewayKuadrant
                    then Inr (Some (buildKuadrantTokenRateLimitPolicy tref tp quota))
                    else Inl (''unsupported gateway type '' @ quote (gateway_string (gi_Type gw)))))"

end
