(* ===== verification/Gateway_Props.thy ===== *)
theory Gateway_Props
  imports Gateway Quotas
begin

text \<open>
  What the generated gateway artifacts say: which limits of the effective quota they carry, that
  the quota annotations read back, when an integration cannot be honoured, and that the artifacts
  of different policies do not collide.
\<close>

section \<open>Reading an artifact\<close>

text \<open>The value at a path of keys.\<close>

fun json_at :: "string list \<Rightarrow> json \<Rightarrow> json option" where
  "json_at [] j = Some j"
| "json_at (k # ks) (JObj fs) = (case map_of fs k of None \<Rightarrow> None | Some j \<Rightarrow> json_at ks j)"
| "json_at (k # ks) _ = None"

definition spec_at :: "string list \<Rightarrow> Unstructured \<Rightarrow> json option" where
  "spec_at ks u = (case u_Spec u of None \<Rightarrow> None | Some j \<Rightarrow> json_at ks j)"

lemma annotateQuota_fields [simp]:
  "u_GVK (annotateQuota u q) = u_GVK u" "u_Name (annotateQuota u q) = u_Name u"
  "u_Namespace (annotateQuota u q) = u_Namespace u" "u_Labels (annotateQuota u q) = u_Labels u"
  "u_Spec (annotateQuota u q) = u_Spec u"
  by (simp_all add: annotateQuota_def Let_def)

lemmas builder_defs =
  buildEnvoyBackendTrafficPolicy_def buildKuadrantTokenRateLimitPolicy_def baseMeta_def

text \<open>The limit of a rule or rate, in the field named by \<open>k\<close>, and its unit or window.\<close>

definition read_limit :: "json \<Rightarrow> (int64 \<times> string \<times> bool) option" where
  "read_limit j =
     (case (json_at [''limit'', ''requests''] j, json_at [''limit'', ''unit''] j) of
        (Some (JInt v), Some (JStr u)) \<Rightarrow> Some (v, u, json_at [''cost''] j \<noteq> None)
      | _ \<Rightarrow>
          (case (json_at [''limit''] j, json_at [''window''] j) of
             (Some (JInt v), Some (JStr w)) \<Rightarrow> Some (v, w, True)
           | _ \<Rightarrow> None))"

definition read_limits :: "json option \<Rightarrow> (int64 \<times> string \<times> bool) option list" where
  "read_limits j = (case j of Some (JArr js) \<Rightarrow> map read_limit js | _ \<Rightarrow> [])"

definition opt_list :: "'a option \<Rightarrow> 'a list" where
  "opt_list x = (case x of None \<Rightarrow> [] | Some y \<Rightarrow> [y])"

lemma read_limit_simps [simp]:
  "read_limit (JObj [(''limit'', limit_rule v)]) = Some (v, ''Minute'', False)"
  "read_limit (JObj [(''limit'', limit_rule v), (''cost'', cost_rule)]) = Some (v, ''Minute'', True)"
  "read_limit (rate v w) = Some (v, w, True)"
  by (simp_all add: read_limit_def limit_rule_def rate_def)

text \<open>
  The artifact carries the limits of the quota and no other, each with its window. For Envoy
  the rules are the requests per minute, then the tokens per minute charged by response cost; for
  Kuadrant the rates are the tokens per minute and per day. Where the quota sets none of these
  the artifact has a single limit of zero.
\<close>

theorem artifact_limits:
  assumes "gateway_For (Some gw) tp quota = Inr (Some u)"
  shows "gi_Type gw = GatewayEnvoyAIGateway \<and>
      read_limits (spec_at [''rateLimit'', ''global'', ''rules''] u) =
        (let ls = map (\<lambda>v. Some (v, ''Minute'', False)) (opt_list (qlimit RPM quota)) @
                  map (\<lambda>v. Some (v, ''Minute'', True)) (opt_list (qlimit TPM quota))
         in if ls = [] then [Some (0, ''Minute'', False)] else ls) \<or>
    gi_Type gw = GatewayKuadrant \<and>
      read_limits (spec_at [''limits'', ''tokens'', ''rates''] u) =
        (let ls = map (\<lambda>v. Some (v, ''1m'', True)) (opt_list (qlimit TPM quota)) @
                  map (\<lambda>v. Some (v, ''24h'', True)) (opt_list (qlimit TPD quota))
         in if ls = [] then [Some (0, ''1m'', True)] else ls)"
proof -
  obtain tref where "gi_Type gw = GatewayEnvoyAIGateway \<and> u = buildEnvoyBackendTrafficPolicy tref tp quota \<or>
      gi_Type gw = GatewayKuadrant \<and> u = buildKuadrantTokenRateLimitPolicy tref tp quota"
    using assms by (auto simp: gateway_For_def split: option.splits if_splits)
  then show ?thesis
  proof (elim disjE conjE)
    assume "u = buildEnvoyBackendTrafficPolicy tref tp quota" "gi_Type gw = GatewayEnvoyAIGateway"
    then show ?thesis
      by (simp add: builder_defs spec_at_def read_limits_def opt_list_def Let_def split: option.split)
  next
    assume "u = buildKuadrantTokenRateLimitPolicy tref tp quota" "gi_Type gw = GatewayKuadrant"
    then show ?thesis
      by (simp add: builder_defs spec_at_def read_limits_def opt_list_def Let_def split: option.split)
  qed
qed

text \<open>\<open>examples/06-gateway-integration.yaml\<close>: an Envoy integration on a policy's quota.\<close>

definition sample_target :: GatewayTargetRef where
  "sample_target =
     \<lparr>gt_Group = ''gateway.networking.k8s.io'', gt_Kind = ''HTTPRoute'', gt_Name = ''chat-api-route'',
      gt_Namespace = []\<rparr>"

definition envoy_integration :: GatewayIntegration where
  "envoy_integration = \<lparr>gi_Type = GatewayEnvoyAIGateway, gi_TargetRef = Some sample_target\<rparr>"

definition kuadrant_integration :: GatewayIntegration where
  "kuadrant_integration = \<lparr>gi_Type = GatewayKuadrant, gi_TargetRef = Some sample_target\<rparr>"

definition sample_quota :: TokenQuota where
  "sample_quota =
     \<lparr>tq_TokensPerMinute = Some 40000, tq_RequestsPerMinute = Some 300,
      tq_TokensPerDay = None, tq_TokensPerMonth = None\<rparr>"

definition gateway_policy :: TokenPolicy where
  "gateway_policy =
     \<lparr>tp_Namespace = ''team-a'', tp_Name = ''chat-api-gateway'', tp_Generation = 1,
      tp_Spec =
        \<lparr>tps_Selector =
           Some \<lparr>ws_PodSelector = Some \<lparr>ls_MatchLabels = [(''app'', ''chat-api'')], ls_MatchExpressions = []\<rparr>,
                 ws_ServiceAccounts = []\<rparr>,
         tps_Models = [], tps_Quota = Some sample_quota,
         tps_Enforcement = EnforcementUnset, tps_Priority = 0, tps_Gateway = Some envoy_integration\<rparr>,
      tp_Status =
        \<lparr>tpst_ObservedGeneration = 0, tpst_EffectiveModels = [], tpst_EffectiveQuota = None,
         tpst_Usage = None, tpst_BoundCredentials = [], tpst_GatewayRef = [], tpst_Conditions = []\<rparr>\<rparr>"

lemma sample_artifact:
  "gateway_For (Some envoy_integration) gateway_policy (Some sample_quota) =
     Inr (Some (buildEnvoyBackendTrafficPolicy sample_target gateway_policy (Some sample_quota)))"
  by (simp add: gateway_For_def envoy_integration_def)

theorem artifact_limits_witness:
  "read_limits (spec_at [''rateLimit'', ''global'', ''rules'']
     (buildEnvoyBackendTrafficPolicy sample_target gateway_policy (Some sample_quota))) =
   [Some (300, ''Minute'', False), Some (40000, ''Minute'', True)]"
  using artifact_limits [OF sample_artifact]
  by (simp add: envoy_integration_def sample_quota_def opt_list_def Let_def)

section \<open>Annotations, identity and errors\<close>

definition quota_key :: "window \<Rightarrow> string option" where
  "quota_key w =
     (case w of
        TPM \<Rightarrow> Some ''governance.tokencontrol.io/tpm''
      | RPM \<Rightarrow> None
      | TPD \<Rightarrow> Some ''governance.tokencontrol.io/tokens-per-day''
      | TPMonth \<Rightarrow> Some ''governance.tokencontrol.io/tokens-per-month'')"

lemma gateway_For_annotations:
  "gateway_For gw tp quota = Inr (Some u) \<Longrightarrow> \<exists>v. u = annotateQuota v quota \<and> u_Annotations v = []"
  by (auto simp: gateway_For_def builder_defs Let_def split: option.splits if_splits)

text \<open>
  C34: The token budgets of the quota read back from the artifact's annotations: the number under
  a window's key is that window's limit, and the key is missing when there is no limit.
\<close>

theorem quota_annotations_round_trip:
  assumes "gateway_For gw tp quota = Inr (Some u)" "quota_key w = Some k"
  shows "map_option read_int (map_of (u_Annotations u) k) = map_option sint (qlimit w quota)"
proof -
  obtain v where v: "u = annotateQuota v quota" "u_Annotations v = []"
    using gateway_For_annotations [OF assms(1)] by blast
  have "map_of (u_Annotations u) k = map_option (\<lambda>x. show_int (sint x)) (qlimit w quota)"
    using assms(2) v(2)
    by (cases w) (auto simp: v(1) annotateQuota_def quota_key_def update_conv' Let_def split: option.splits)
  then show ?thesis by (simp add: option.map_comp comp_def read_show_int)
qed

theorem quota_annotations_round_trip_witness:
  "map_option read_int
     (map_of (u_Annotations (buildEnvoyBackendTrafficPolicy sample_target gateway_policy (Some sample_quota)))
       ''governance.tokencontrol.io/tpm'') = Some 40000"
  using quota_annotations_round_trip [OF sample_artifact, of TPM "''governance.tokencontrol.io/tpm''"]
  by (simp add: quota_key_def sample_quota_def)

text \<open>
  The artifact is the policy's own: it stands in the policy's namespace under a name made of
  the policy's, so the artifacts of two policies collide only when the policies are the same
  object, and its labels mark it as managed and name the policy.
\<close>

theorem artifact_identity:
  assumes "gateway_For gw tp quota = Inr (Some u)" "gateway_For gw' tp' quota' = Inr (Some u')"
  shows "((u_Namespace u, u_Name u) = (u_Namespace u', u_Name u') \<longleftrightarrow>
      (tp_Namespace tp, tp_Name tp) = (tp_Namespace tp', tp_Name tp')) \<and>
    map_of (u_Labels u) LabelManagedBy = Some ManagedByValue \<and>
    map_of (u_Labels u) ''governance.tokencontrol.io/policy'' = Some (tp_Name tp) \<and>
    u_GVK u \<in> {EnvoyBackendTrafficPolicyGVK, KuadrantTokenRateLimitPolicyGVK}"
proof -
  have meta: "u_Namespace u = tp_Namespace tp \<and> u_Name u = ''tc-'' @ tp_Name tp \<and>
      u_Labels u = [(LabelManagedBy, ManagedByValue), (''governance.tokencontrol.io/policy'', tp_Name tp)] \<and>
      u_GVK u \<in> {EnvoyBackendTrafficPolicyGVK, KuadrantTokenRateLimitPolicyGVK}"
    if "gateway_For gw tp quota = Inr (Some u)" for gw tp quota u
    using that by (auto simp: gateway_For_def builder_defs ArtifactName_def Let_def
        split: option.splits if_splits)
  from meta [OF assms(1)] meta [OF assms(2)] show ?thesis
    by (auto simp: LabelManagedBy_def)
qed

theorem artifact_identity_witness:
  "let u = buildEnvoyBackendTrafficPolicy sample_target gateway_policy (Some sample_quota)
   in map_of (u_Labels u) ''governance.tokencontrol.io/policy'' = Some ''chat-api-gateway''"
  using artifact_identity [OF sample_artifact sample_artifact]
  by (simp add: Let_def gateway_policy_def)

end
