(* ===== verification/Glob_Props.thy ===== *)
theory Glob_Props
  imports Selectors
begin

text \<open>
  Patterns are checked at admission as written and matched after trimming and lower-casing.
  Lower-casing maps only letters, and no character with a meaning in a pattern is a letter: so a
  pattern that passed \<open>ValidGlob\<close> stays well-formed. Trimming can break one that ends in an
  escaped blank.
\<close>

section \<open>Lower-casing keeps the syntax of a pattern\<close>

abbreviation "L \<equiv> map lower_char"

lemma meta_lower [simp]:
  "lower_char c = CHR ''*'' \<longleftrightarrow> c = CHR ''*''" "lower_char c = CHR ''['' \<longleftrightarrow> c = CHR ''[''"
  "lower_char c = CHR '']'' \<longleftrightarrow> c = CHR '']''" "lower_char c = CHR ''-'' \<longleftrightarrow> c = CHR ''-''"
  "lower_char c = CHR ''^'' \<longleftrightarrow> c = CHR ''^''" "lower_char c = CHR ''?'' \<longleftrightarrow> c = CHR ''?''"
  "lower_char c = backslash \<longleftrightarrow> c = backslash" "lower_char c = CHR ''/'' \<longleftrightarrow> c = CHR ''/''"
  by (rule lower_char_fix; simp add: byte_def backslash_def)+

lemma hd_L [simp]: "cs \<noteq> [] \<Longrightarrow> hd (L cs) = lower_char (hd cs)"
  and tl_L [simp]: "tl (L cs) = L (tl cs)"
  by (simp_all add: hd_map map_tl)

lemma getEsc_L: "getEsc (L cs) = map_sum (\<lambda>e. e) (map_prod lower_char L) (getEsc cs)"
  by (cases cs) (auto split: list.split)

lemma getRange_L:
  "getRange (L cs) = map_sum (\<lambda>e. e) (map_prod lower_char (map_prod lower_char L)) (getRange cs)"
proof (cases "getEsc cs")
  case (Inr r)
  obtain lo ds where r: "r = (lo, ds)" by (cases r)
  with Inr have "ds \<noteq> []" using getEsc_shorter by blast
  with Inr r show ?thesis
    by (cases "getEsc (tl ds)") (auto simp: getRange_def getEsc_L)
qed (simp add: getRange_def getEsc_L)

text \<open>What a class leaves of the chunk, or its error.\<close>

lemma classLoop_L:
  "map_sum (\<lambda>e. e) snd (classLoop r' m' n (L cs)) = map_sum (\<lambda>e. e) (\<lambda>x. L (snd x)) (classLoop r m n cs)"
proof (induction r m n cs arbitrary: m' rule: classLoop.induct)
  case (1 r m n cs)
  show ?case
  proof (cases "cs \<noteq> [] \<and> hd cs = CHR '']'' \<and> n > 0")
    case True
    then show ?thesis by (simp add: classLoop.simps [of r m n cs] classLoop.simps [of r' m' n "L cs"])
  next
    case False
    then have "\<not> (L cs \<noteq> [] \<and> hd (L cs) = CHR '']'' \<and> n > 0)" by (cases cs) auto
    with False 1 show ?thesis
      by (simp add: classLoop.simps [of r m n cs] classLoop.simps [of r' m' n "L cs"] getRange_L)
        (auto split: sum.split)
  qed
qed

lemma matchClass_L:
  "map_sum (\<lambda>e. e) snd (matchClass r' (L cs)) = map_sum (\<lambda>e. e) (\<lambda>x. L (snd x)) (matchClass r cs)"
proof -
  let ?neg = "cs \<noteq> [] \<and> hd cs = CHR ''^''"
  have neg: "(L cs \<noteq> [] \<and> hd (L cs) = CHR ''^'') = ?neg" by (cases cs) auto
  have "(if ?neg then tl (L cs) else L cs) = L (if ?neg then tl cs else cs)" by simp
  then show ?thesis
    using classLoop_L [of r' False 0 "if ?neg then tl cs else cs" r False]
    unfolding matchClass_def Let_def neg
    by (cases "classLoop r False 0 (if ?neg then tl cs else cs)";
        cases "classLoop r' False 0 (L (if ?neg then tl cs else cs))") auto
qed

lemma matchClass_L_cases:
  obtains (bad) e where "matchClass r cs = Inl e" "matchClass r' (L cs) = Inl e"
  | (good) b b' ds where "matchClass r cs = Inr (b, ds)" "matchClass r' (L cs) = Inr (b', L ds)"
  using matchClass_L [of r' cs r] by (cases "matchClass r cs"; cases "matchClass r' (L cs)") auto

lemma chunkLoop_L: "err_of (chunkLoop f (L cs) s) = err_of (chunkLoop f' cs s')"
proof (induction cs arbitrary: f s f' s' rule: length_induct)
  case (1 cs)
  show ?case
  proof (cases cs)
    case (Cons c cs')
    let ?r = "\<lambda>f s. if f \<or> s = [] then CHR 0x00 else hd s"
    show ?thesis
    proof (cases rule: matchClass_L_cases [of "?r f' s'" cs' "?r f s"])
      case bad
      with 1 Cons show ?thesis by (auto simp: chunkLoop.simps(2) Let_def split: list.splits)
    next
      case (good b b' ds)
      then have "length ds < length cs" using Cons matchClass_shorter by fastforce
      with 1 Cons good show ?thesis by (auto simp: chunkLoop.simps(2) Let_def split: list.splits)
    qed
  qed simp
qed

lemma scanTo_L: "scanTo i (L p) = map_prod L L (scanTo i p)"
proof (induction i p rule: scanTo.induct)
  case (2 i c cs)
  show ?case
  proof (cases "c = backslash")
    case True
    with 2(1) show ?thesis
      using scanTo.simps(2) [of i c cs] scanTo.simps(2) [of i "lower_char c" "L cs"]
      by (simp del: scanTo.simps(2) split: list.split prod.split)
  next
    case False
    with 2(2) show ?thesis
      using scanTo.simps(2) [of i c cs] scanTo.simps(2) [of i "lower_char c" "L cs"]
      by (cases "c = CHR ''[''"; cases "c = CHR '']''"; cases "c = CHR ''*''"; cases i)
        (simp_all del: scanTo.simps(2) add: Let_def split: prod.split)
  qed
qed simp

lemma scanChunk_L: "scanChunk (L p) = map_prod (\<lambda>b. b) (map_prod L L) (scanChunk p)"
proof -
  have "dropWhile (\<lambda>c. c = CHR ''*'') (L p) = L (dropWhile (\<lambda>c. c = CHR ''*'') p)"
    by (simp add: dropWhile_map comp_def)
  then show ?thesis by (simp add: scanChunk_def scanTo_L Let_def split: prod.split)
qed

lemma checkRest_L: "err_of (checkRest (L p)) = err_of (checkRest p)"
proof (induction p rule: length_induct)
  case (1 p)
  show ?case
  proof (cases "p = []")
    case False
    obtain star chunk rest where sc: "scanChunk p = (star, chunk, rest)" by (metis prod_cases3)
    have "err_of (matchChunk (L chunk) []) = err_of (matchChunk chunk [])"
      unfolding matchChunk_def by (rule chunkLoop_L)
    moreover have "err_of (checkRest (L rest)) = err_of (checkRest rest)"
      using 1 scanChunk_shorter [OF sc False] by blast
    ultimately show ?thesis
      using False sc checkRest.simps [of p] checkRest.simps [of "L p"]
      by (auto simp: scanChunk_L split: sum.split)
  qed simp
qed

lemma ValidGlob_eq: "ValidGlob p = err_of (checkRest p)"
  by (simp add: ValidGlob_def path_Match_err)

section \<open>Properties\<close>

text \<open>
  A pattern accepted at admission is never malformed when a name is matched against it, as
  long as it has no blank at either end: the comparison of \<open>globMatch\<close> then never falls back to
  ``no match'' because of an error, so no accepted Deny rule is ignored for its syntax.
\<close>

theorem accepted_glob_never_malformed:
  assumes "ValidGlob p = None" "TrimSpace p = p"
  shows "\<exists>b. path_Match (ToLower (TrimSpace p)) v = Inr b \<and>
    globMatch p v = (ToLower (TrimSpace p) = ''*'' \<or> ToLower (TrimSpace p) = ToLower (TrimSpace v) \<or>
      path_Match (ToLower (TrimSpace p)) (ToLower (TrimSpace v)) = Inr True)"
proof -
  have "err_of (path_Match (ToLower p) w) = None" for w
    using assms(1) unfolding path_Match_err ToLower_def checkRest_L ValidGlob_eq .
  then have "\<exists>b. path_Match (ToLower p) w = Inr b" for w by (simp add: err_of_None_iff)
  then show ?thesis
    by (auto simp: assms(2) globMatch_def Let_def split: sum.splits)
qed

theorem accepted_glob_never_malformed_witness:
  "globMatch ''GPT-4o-*'' ''gpt-4o-mini'' \<and>
   (\<exists>b. path_Match (ToLower (TrimSpace ''GPT-4o-*'')) ''gpt-4o-mini'' = Inr b)"
proof -
  have "ValidGlob ''GPT-4o-*'' = None" "TrimSpace ''GPT-4o-*'' = ''GPT-4o-*''"
    and "globMatch ''GPT-4o-*'' ''gpt-4o-mini''"
    by code_simp+
  with accepted_glob_never_malformed [of "''GPT-4o-*''" "''gpt-4o-mini''"] show ?thesis by blast
qed

text \<open>With a blank at the end it can be: the escaped blank loses its blank, the rule never matches.\<close>

lemma trimmed_pattern_malformed:
  "ValidGlob (''gpt'' @ [backslash] @ '' '') = None \<and>
   path_Match (TrimSpace (''gpt'' @ [backslash] @ '' '')) ''gpt '' = Inl ErrBadPattern \<and>
   \<not> globMatch (''gpt'' @ [backslash] @ '' '') ''gpt ''"
  by code_simp

end
