(* ===== verification/Metrics.thy ===== *)
theory Metrics
  imports Kube Go_Float
begin

text \<open>
  The collectors of \<open>internal/metrics/metrics.go\<close> with their label names, and the updates that the
  handlers make to them, as events in program order. \<open>WithLabelValues\<close> panics when it is not given
  one value per label; \<open>event_ok\<close> says it is, and that the collector has the operation (which the
  Go compiler checks). Gauge values are \<open>float64\<close>.
\<close>

datatype metric_kind = Counter | Gauge

record metric_vec =
  mv_Kind :: metric_kind
  mv_Name :: string
  mv_Labels :: "string list"

definition NewCounterVec :: "string \<Rightarrow> string list \<Rightarrow> metric_vec" where
  "NewCounterVec n ls = \<lparr>mv_Kind = Counter, mv_Name = n, mv_Labels = ls\<rparr>"

definition NewGaugeVec :: "string \<Rightarrow> string list \<Rightarrow> metric_vec" where
  "NewGaugeVec n ls = \<lparr>mv_Kind = Gauge, mv_Name = n, mv_Labels = ls\<rparr>"

definition AdmissionDecisions :: metric_vec where
  "AdmissionDecisions =
     NewCounterVec ''tokencontrol_admission_decisions_total'' [''decision'', ''namespace'', ''enforcement'']"

definition ModelViolations :: metric_vec where
  "ModelViolations =
     NewCounterVec ''tokencontrol_model_violations_total'' [''namespace'', ''provider'', ''model'', ''enforcement'']"

definition CredentialsInjected :: metric_vec where
  "CredentialsInjected = NewCounterVec ''tokencontrol_credentials_injected_total'' [''namespace'', ''credential'']"

definition CredentialSyncedNamespaces :: metric_vec where
  "CredentialSyncedNamespaces = NewGaugeVec ''tokencontrol_credential_synced_namespaces'' [''credential'']"

definition CredentialCapacityTPM :: metric_vec where
  "CredentialCapacityTPM = NewGaugeVec ''tokencontrol_credential_capacity_tokens_per_minute'' [''credential'']"

definition CredentialAllocatedTPM :: metric_vec where
  "CredentialAllocatedTPM = NewGaugeVec ''tokencontrol_credential_allocated_tokens_per_minute'' [''credential'']"

definition CredentialOversubscribed :: metric_vec where
  "CredentialOversubscribed = NewGaugeVec ''tokencontrol_credential_oversubscribed'' [''credential'']"

definition EffectiveModelsGauge :: metric_vec where
  "EffectiveModelsGauge = NewGaugeVec ''tokencontrol_effective_models'' [''namespace'', ''policy'']"

definition ModelClaimAllowedModels :: metric_vec where
  "ModelClaimAllowedModels = NewGaugeVec ''tokencontrol_modelclaim_allowed_models'' [''namespace'', ''claim'']"

definition GatewayArtifacts :: metric_vec where
  "GatewayArtifacts = NewGaugeVec ''tokencontrol_gateway_artifacts'' [''namespace'', ''type'']"

definition TokensConsumed :: metric_vec where
  "TokensConsumed =
     NewCounterVec ''tokencontrol_tokens_consumed_total'' [''namespace'', ''workload'', ''provider'', ''model'']"

lemmas metric_defs =
  AdmissionDecisions_def ModelViolations_def CredentialsInjected_def CredentialSyncedNamespaces_def
  CredentialCapacityTPM_def CredentialAllocatedTPM_def CredentialOversubscribed_def
  EffectiveModelsGauge_def ModelClaimAllowedModels_def GatewayArtifacts_def TokensConsumed_def
  NewCounterVec_def NewGaugeVec_def

text \<open>\<open>WithLabelValues(...).Inc()\<close> and \<open>WithLabelValues(...).Set(x)\<close>\<close>

datatype metric_event =
    CounterInc metric_vec "string list"
  | GaugeSet metric_vec "string list" float64

fun event_ok :: "metric_event \<Rightarrow> bool" where
  "event_ok (CounterInc v ls) = (mv_Kind v = Counter \<and> length ls = length (mv_Labels v))"
| "event_ok (GaugeSet v ls x) = (mv_Kind v = Gauge \<and> length ls = length (mv_Labels v))"

text \<open>The registry holds every collector once.\<close>

definition registered :: "metric_vec list" where
  "registered =
     [AdmissionDecisions, ModelViolations, CredentialsInjected, CredentialSyncedNamespaces,
      CredentialCapacityTPM, CredentialAllocatedTPM, CredentialOversubscribed, EffectiveModelsGauge,
      GatewayArtifacts, TokensConsumed, ModelClaimAllowedModels]"

lemma registered_distinct: "distinct (map mv_Name registered)"
  by (simp add: registered_def metric_defs)

end
