(* ===== verification/Webhook_Common.thy ===== *)
theory Webhook_Common
  imports Resolver Kube Metrics
begin

text \<open>
  What the webhooks share (\<open>internal/webhook/v1alpha1/webhook_common.go\<close>): the namespaces they skip,
  the models a pod declares through claims and its annotation, the reads that feed the resolver,
  and who may bind a credential.
\<close>

section \<open>Configuration\<close>

record Config =
  cfg_OperatorNamespace :: string
  cfg_ExemptNamespaces :: "string list"

definition exempt :: "Config \<Rightarrow> string \<Rightarrow> bool" where
  "exempt c ns =
     (if ns = [] then True
      else if ns = cfg_OperatorNamespace c then True
      else List.member (cfg_ExemptNamespaces c) ns)"

lemma exempt_iff:
  "exempt c ns \<longleftrightarrow> ns = [] \<or> ns = cfg_OperatorNamespace c \<or> ns \<in> set (cfg_ExemptNamespaces c)"
  by (simp add: exempt_def)

section \<open>Declared models\<close>

record declaredModel =
  dm_Provider :: string
  dm_Model :: string
  dm_Credential :: string

text \<open>One token of the annotation: \<open>None\<close> when it is skipped.\<close>

definition parseToken :: "string \<Rightarrow> declaredModel option" where
  "parseToken tok =
     (let tok = TrimSpace tok in
      if tok = [] then None
      else (let parts = SplitN2 (CHR ''/'') tok in
            if length parts \<noteq> 2 \<or> parts ! 0 = [] \<or> parts ! 1 = [] then None
            else Some \<lparr>dm_Provider = TrimSpace (parts ! 0), dm_Model = TrimSpace (parts ! 1),
                       dm_Credential = []\<rparr>))"

definition parseModels :: "Pod \<Rightarrow> declaredModel list" where
  "parseModels pod =
     (let raw = map_get (pod_Annotations pod) AnnotationModels in
      if TrimSpace raw = [] then []
      else List.map_filter parseToken (Split (CHR '','') raw))"

text \<open>The closure \<open>add\<close>; its state is \<open>seen\<close> and \<open>out\<close>.\<close>

definition addDeclared ::
  "(model_key \<rightharpoonup> nat) \<times> declaredModel list \<Rightarrow> string \<times> string \<times> string
     \<Rightarrow> (model_key \<rightharpoonup> nat) \<times> declaredModel list" where
  "addDeclared st x =
     (let (seen, out) = st;
          (provider, model, cred) = x;
          provider = TrimSpace provider;
          model = TrimSpace model
      in if provider = [] \<or> model = [] then (seen, out)
         else (let k = (ToLower provider, ToLower model)
               in case seen k of
                    Some idx \<Rightarrow>
                      if dm_Credential (out ! idx) = [] \<and> cred \<noteq> []
                      then (seen, out[idx := (out ! idx)\<lparr>dm_Credential := cred\<rparr>])
                      else (seen, out)
                  | None \<Rightarrow>
                      (seen(k \<mapsto> length out),
                       out @ [\<lparr>dm_Provider = provider, dm_Model = model, dm_Credential = cred\<rparr>])))"

definition saOf :: "Pod \<Rightarrow> string" where
  "saOf pod = (if pod_ServiceAccountName pod \<noteq> [] then pod_ServiceAccountName pod else ''default'')"

text \<open>The requests of one claim, each with its credential preference.\<close>

definition claimRequests :: "ModelClaim \<Rightarrow> (string \<times> string \<times> string) list" where
  "claimRequests cl =
     map (\<lambda>m. (mr_Provider m, mr_Model m,
                case mr_CredentialRef m of None \<Rightarrow> [] | Some c \<Rightarrow> cr_Name c))
       (mcls_Models (mcl_Spec cl))"

text \<open>A claim whose selector fails to evaluate is skipped, like one that does not match.\<close>

definition claimMatches :: "selector_api \<Rightarrow> Pod \<Rightarrow> ModelClaim \<Rightarrow> bool" where
  "claimMatches asSel pod cl =
     (case WorkloadSelectorMatches asSel (mcls_Selector (mcl_Spec cl)) (pod_Labels pod) (saOf pod) of
        Inl err \<Rightarrow> False
      | Inr match \<Rightarrow> match)"

definition declaredModelsForPod ::
  "selector_api \<Rightarrow> client \<Rightarrow> string \<Rightarrow> Pod \<Rightarrow> api_error + declaredModel list" where
  "declaredModelsForPod asSel c namespace pod =
     (case list_ModelClaims c namespace of
        Inl err \<Rightarrow> Inl err
      | Inr items \<Rightarrow>
          (let claims = sort_key mcl_Name items;
               st = foldl (\<lambda>st cl.
                      if \<not> claimMatches asSel pod cl then st
                      else foldl addDeclared st (claimRequests cl)) (Map.empty, []) claims;
               st = foldl addDeclared st
                      (map (\<lambda>dm. (dm_Provider dm, dm_Model dm, [])) (parseModels pod))
           in Inr (snd st)))"

section \<open>Reads\<close>

text \<open>The namespace of the admission request in the context, when there is one.\<close>

definition namespaceFromCtx :: "string option \<Rightarrow> string \<Rightarrow> string" where
  "namespaceFromCtx ctx fallback =
     (case ctx of None \<Rightarrow> fallback | Some ns \<Rightarrow> if ns \<noteq> [] then ns else fallback)"

text \<open>\<open>namespaceLabels\<close> of the webhooks: a namespace that does not exist has no labels.\<close>

definition namespaceLabels :: "client \<Rightarrow> string \<Rightarrow> api_error + labels option" where
  "namespaceLabels c namespace =
     (case get_Namespace c namespace of
        Inl err \<Rightarrow> if IsNotFound err then Inr (Some []) else Inl err
      | Inr ns \<Rightarrow> Inr (ns_Labels ns))"

definition resolveEffective ::
  "selector_api \<Rightarrow> client \<Rightarrow> string \<Rightarrow> labels option \<Rightarrow> string \<Rightarrow> api_error + Effective" where
  "resolveEffective asSel c namespace podLabels sa =
     (case list_ClusterTokenPolicies c of
        Inl err \<Rightarrow> Inl err
      | Inr ctpl \<Rightarrow>
          (case list_TokenPolicies c namespace of
             Inl err \<Rightarrow> Inl err
           | Inr tpl \<Rightarrow>
               (case namespaceLabels c namespace of
                  Inl err \<Rightarrow> Inl err
                | Inr nsLabels \<Rightarrow>
                    (case Resolve asSel
                            \<lparr>ri_ClusterPolicies = ctpl, ri_NamespacePolicies = tpl,
                             ri_Namespace = namespace, ri_NamespaceLabels = nsLabels,
                             ri_PodLabels = podLabels, ri_ServiceAccount = sa\<rparr> of
                       Inl err \<Rightarrow> Inl (OtherError err)
                     | Inr eff \<Rightarrow> Inr eff))))"

definition credentialAuthorizes ::
  "selector_api \<Rightarrow> client \<Rightarrow> ModelCredential \<Rightarrow> string \<Rightarrow> api_error + bool" where
  "credentialAuthorizes asSel c mc namespace =
     (if List.member (mcs_AllowedNamespaces (mc_Spec mc)) namespace then Inr True
      else if mcs_NamespaceSelector (mc_Spec mc) \<noteq> None
      then (case namespaceLabels c namespace of
              Inl err \<Rightarrow> Inl err
            | Inr lbls \<Rightarrow>
                (case NamespaceSelectorMatches asSel (mcs_NamespaceSelector (mc_Spec mc)) lbls of
                   Inl err \<Rightarrow> Inl (OtherError err)
                 | Inr ok \<Rightarrow> Inr ok))
      else Inr False)"

definition defaultEnvName :: "string \<Rightarrow> string" where
  "defaultEnvName provider =
     (let p = ToLower provider in
      if p = ''openai'' \<or> p = ''azure-openai'' \<or> p = ''azureopenai'' then ''OPENAI_API_KEY''
      else if p = ''anthropic'' then ''ANTHROPIC_API_KEY''
      else if p = ''google'' \<or> p = ''gemini'' \<or> p = ''vertex'' \<or> p = ''vertexai'' then ''GOOGLE_API_KEY''
      else if p = ''bedrock'' \<or> p = ''aws'' then ''AWS_BEARER_TOKEN_BEDROCK''
      else if p = ''cohere'' then ''COHERE_API_KEY''
      else if p = ''mistral'' then ''MISTRAL_API_KEY''
      else if p = ''groq'' then ''GROQ_API_KEY''
      else ToUpper (ReplaceChar provider (CHR ''-'') (CHR ''_'')) @ ''_API_KEY'')"

definition setAnnotation :: "Pod \<Rightarrow> string \<Rightarrow> string \<Rightarrow> Pod" where
  "setAnnotation pod key val = pod\<lparr>pod_Annotations := map_put key val (pod_Annotations pod)\<rparr>"

definition invalid :: "string \<Rightarrow> string \<Rightarrow> string list \<Rightarrow> api_error" where
  "invalid kind n msgs =
     BadRequest (kind @ '' '' @ quote n @ '' is invalid: '' @ Join msgs ''; '')"

section \<open>The declarations are a set of models\<close>

definition request_key :: "string \<times> string \<times> string \<Rightarrow> model_key option" where
  "request_key x =
     (let p = TrimSpace (fst x); m = TrimSpace (fst (snd x))
      in if p = [] \<or> m = [] then None else Some (ToLower p, ToLower m))"

definition dm_key :: "declaredModel \<Rightarrow> model_key" where
  "dm_key d = (ToLower (dm_Provider d), ToLower (dm_Model d))"

text \<open>The map knows the index of each listed key.\<close>

definition index_map :: "('k \<rightharpoonup> nat) \<Rightarrow> 'k list \<Rightarrow> bool" where
  "index_map f ks \<longleftrightarrow>
     (\<forall>k. f k = None \<longleftrightarrow> k \<notin> set ks) \<and> (\<forall>k i. f k = Some i \<longrightarrow> i < length ks \<and> ks ! i = k)"

lemma index_mapD:
  assumes "index_map f ks"
  shows "f k = None \<longleftrightarrow> k \<notin> set ks" and "f k = Some i \<Longrightarrow> i < length ks \<and> ks ! i = k"
  using assms unfolding index_map_def by blast+

lemma index_map_add:
  assumes "index_map f ks" "f k = None"
  shows "index_map (f(k \<mapsto> length ks)) (ks @ [k])"
  unfolding index_map_def using index_mapD [OF assms(1)] assms(2)
  by (auto simp: nth_append split: if_splits) (metis less_SucI)+

definition declared_inv :: "(model_key \<rightharpoonup> nat) \<times> declaredModel list \<Rightarrow> bool" where
  "declared_inv st \<longleftrightarrow> index_map (fst st) (map dm_key (snd st))"

lemma declared_inv_init [simp]: "declared_inv (Map.empty, [])"
  by (simp add: declared_inv_def index_map_def)

lemma addDeclared_eq:
  "addDeclared (seen, out) (p, m, cred) =
     (case request_key (p, m, cred) of
        None \<Rightarrow> (seen, out)
      | Some k \<Rightarrow>
          (case seen k of
             Some i \<Rightarrow>
               (seen, if dm_Credential (out ! i) = [] \<and> cred \<noteq> []
                      then out[i := (out ! i)\<lparr>dm_Credential := cred\<rparr>] else out)
           | None \<Rightarrow>
               (seen(k \<mapsto> length out),
                out @ [\<lparr>dm_Provider = TrimSpace p, dm_Model = TrimSpace m, dm_Credential = cred\<rparr>])))"
  by (simp add: addDeclared_def request_key_def Let_def split: option.split)

lemma dm_key_update [simp]: "dm_key (d\<lparr>dm_Credential := c\<rparr>) = dm_key d"
  by (simp add: dm_key_def)

lemma map_key_update [simp]:
  "i < length out \<Longrightarrow> map dm_key (out[i := (out ! i)\<lparr>dm_Credential := c\<rparr>]) = map dm_key out"
  by (simp add: map_update) (metis list_update_id map_update nth_map)

lemma addDeclared_new:
  assumes "declared_inv (seen, out)" "seen k = None" "request_key (p, m, cred) = Some k"
  shows "declared_inv (addDeclared (seen, out) (p, m, cred))"
    and "map dm_key (snd (addDeclared (seen, out) (p, m, cred))) = map dm_key out @ [k]"
proof -
  have k: "dm_key \<lparr>dm_Provider = TrimSpace p, dm_Model = TrimSpace m, dm_Credential = cred\<rparr> = k"
    using assms(3) by (auto simp: request_key_def dm_key_def Let_def split: if_splits)
  with assms show "map dm_key (snd (addDeclared (seen, out) (p, m, cred))) = map dm_key out @ [k]"
    by (simp add: addDeclared_eq)
  show "declared_inv (addDeclared (seen, out) (p, m, cred))"
    using index_map_add [of seen "map dm_key out" k] assms k
    by (simp add: addDeclared_eq declared_inv_def)
qed

lemma addDeclared_seen:
  assumes "declared_inv (seen, out)" "seen k = Some i" "request_key (p, m, cred) = Some k"
  shows "declared_inv (addDeclared (seen, out) (p, m, cred))"
    and "map dm_key (snd (addDeclared (seen, out) (p, m, cred))) = map dm_key out"
proof -
  have i: "i < length out" 
    using assms(1,2) index_mapD(2) [of seen "map dm_key out" k i] by (simp add: declared_inv_def)
  with assms show keys: "map dm_key (snd (addDeclared (seen, out) (p, m, cred))) = map dm_key out"
    by (simp add: addDeclared_eq)
  show "declared_inv (addDeclared (seen, out) (p, m, cred))"
    using assms(1) keys by (simp add: declared_inv_def addDeclared_eq assms(2,3))
qed

lemma addDeclared_skip:
  "request_key (p, m, cred) = None \<Longrightarrow> addDeclared (seen, out) (p, m, cred) = (seen, out)"
  by (simp add: addDeclared_eq)

interpretation declared: dedup_loop declared_inv "\<lambda>st. map dm_key (snd st)" request_key addDeclared
proof
  fix st :: "(model_key \<rightharpoonup> nat) \<times> declaredModel list" and x :: "string \<times> string \<times> string"
  assume inv: "declared_inv st"
  obtain seen out p m cred where st: "st = (seen, out)" and x: "x = (p, m, cred)"
    by (cases st; cases x) auto
  have "k \<in> set (map dm_key out) \<longleftrightarrow> seen k \<noteq> None" for k
    using inv index_mapD(1) [of seen "map dm_key out" k] by (auto simp: st declared_inv_def)
  then show "map dm_key (snd (addDeclared st x)) =
      (case request_key x of
         None \<Rightarrow> map dm_key (snd st)
       | Some k \<Rightarrow> if k \<in> set (map dm_key (snd st)) then map dm_key (snd st) else map dm_key (snd st) @ [k])"
    using inv addDeclared_new(2) addDeclared_seen(2)
    by (auto simp: st x addDeclared_skip split: option.split)
  show "declared_inv (addDeclared st x)"
    using inv addDeclared_new(1) addDeclared_seen(1)
    by (cases "request_key x"; cases "seen (the (request_key x))") (auto simp: st x addDeclared_skip)
qed

text \<open>All requests in the order in which \<open>declaredModelsForPod\<close> takes them.\<close>

definition podRequests :: "selector_api \<Rightarrow> ModelClaim list \<Rightarrow> Pod \<Rightarrow> (string \<times> string \<times> string) list" where
  "podRequests asSel items pod =
     concat (map claimRequests (filter (claimMatches asSel pod) (sort_key mcl_Name items))) @
     map (\<lambda>dm. (dm_Provider dm, dm_Model dm, [])) (parseModels pod)"

lemma foldl_claims:
  "foldl (\<lambda>st cl. if \<not> claimMatches asSel pod cl then st else foldl addDeclared st (claimRequests cl)) st cls =
     foldl addDeclared st (concat (map claimRequests (filter (claimMatches asSel pod) cls)))"
  by (induction cls arbitrary: st) simp_all

lemma declaredModelsForPod_eq:
  "declaredModelsForPod asSel c namespace pod =
     (case list_ModelClaims c namespace of
        Inl err \<Rightarrow> Inl err
      | Inr items \<Rightarrow> Inr (snd (foldl addDeclared (Map.empty, []) (podRequests asSel items pod))))"
  by (simp add: declaredModelsForPod_def podRequests_def foldl_claims Let_def split: sum.split)

lemma declared_keys:
  "set (map dm_key (snd (foldl addDeclared (Map.empty, []) reqs))) =
     {k. \<exists>x \<in> set reqs. request_key x = Some k}"
  "distinct (map dm_key (snd (foldl addDeclared (Map.empty, []) reqs)))"
  using declared.keys_fold_set [OF declared_inv_init, of reqs]
    declared.keys_fold_distinct [OF declared_inv_init, of reqs]
  by simp_all

text \<open>Declared names are trimmed and not empty.\<close>

definition dm_ok :: "declaredModel \<Rightarrow> bool" where
  "dm_ok d \<longleftrightarrow> dm_Provider d \<noteq> [] \<and> dm_Model d \<noteq> [] \<and>
     TrimSpace (dm_Provider d) = dm_Provider d \<and> TrimSpace (dm_Model d) = dm_Model d"

lemma addDeclared_dm_ok:
  assumes "list_all dm_ok (snd st)"
  shows "list_all dm_ok (snd (addDeclared st x))"
proof -
  obtain seen out p m cred where st: "st = (seen, out)" and x: "x = (p, m, cred)"
    by (cases st; cases x) auto
  have upd: "list_all dm_ok (out[i := (out ! i)\<lparr>dm_Credential := cred\<rparr>])" for i
  proof (cases "i < length out")
    case True
    with assms have "dm_ok (out ! i)" by (simp add: st list_all_length)
    then have "dm_ok ((out ! i)\<lparr>dm_Credential := cred\<rparr>)" by (simp add: dm_ok_def)
    with assms True show ?thesis
      by (auto simp: st list_all_iff dest!: set_update_subset_insert [THEN subsetD])
  qed (use assms in \<open>simp add: st list_update_beyond\<close>)
  with assms show ?thesis
    by (auto simp: st x addDeclared_eq request_key_def dm_ok_def Let_def
        split: option.splits if_splits)
qed

lemma declared_dm_ok: "list_all dm_ok (snd st) \<Longrightarrow> list_all dm_ok (snd (foldl addDeclared st reqs))"
  by (induction reqs arbitrary: st) (simp_all add: addDeclared_dm_ok)

text \<open>
  The credential preference of an entry is the first one named by a request for the model, in the
  order of the requests.
\<close>

definition preferred_cred :: "model_key \<Rightarrow> (string \<times> string \<times> string) list \<Rightarrow> string" where
  "preferred_cred k reqs =
     first_nonempty (map (\<lambda>x. snd (snd x)) (filter (\<lambda>x. request_key x = Some k) reqs))"

lemma preferred_cred_snoc:
  "preferred_cred k (reqs @ [x]) =
     (if request_key x = Some k \<and> preferred_cred k reqs = [] then snd (snd x) else preferred_cred k reqs)"
  by (simp add: preferred_cred_def first_nonempty_append)

lemma preferred_cred_none: "\<forall>x \<in> set reqs. request_key x \<noteq> Some k \<Longrightarrow> preferred_cred k reqs = []"
  by (simp add: preferred_cred_def)

text \<open>An entry after the update of entry \<open>i\<close>: the updated one, or an old one it does not concern.\<close>

lemma updated_entry:
  assumes "distinct (map dm_key out)" "i < length out"
    and mem: "d \<in> set (if dm_Credential (out ! i) = [] \<and> cred \<noteq> []
          then out[i := (out ! i)\<lparr>dm_Credential := cred\<rparr>] else out)"
  shows "d = (out ! i)\<lparr>dm_Credential := cred\<rparr> \<and> dm_Credential (out ! i) = [] \<or>
    d \<in> set out \<and> (dm_key d \<noteq> dm_key (out ! i) \<or> dm_Credential d \<noteq> [] \<or> cred = [])"
proof -
  have uniq: "j = i" if "j < length out" "dm_key (out ! j) = dm_key (out ! i)" for j
    using that assms(1,2) by (simp add: distinct_conv_nth) blast
  show ?thesis
  proof (cases "dm_Credential (out ! i) = [] \<and> cred \<noteq> []")
    case True
    with mem obtain j where "j < length out" "d = out[i := (out ! i)\<lparr>dm_Credential := cred\<rparr>] ! j"
      by (auto simp: in_set_conv_nth)
    moreover from this have "d = (if j = i then (out ! i)\<lparr>dm_Credential := cred\<rparr> else out ! j)"
      by (simp add: nth_list_update)
    ultimately show ?thesis using True uniq [of j] nth_mem [of j out] by metis
  next
    case False
    with mem obtain j where "j < length out" "d = out ! j"
      by (auto simp: in_set_conv_nth)
    with False uniq [of j] nth_mem [of j out] show ?thesis by metis
  qed
qed

lemma declared_preference:
  "d \<in> set (snd (foldl addDeclared (Map.empty, []) reqs)) \<Longrightarrow>
     dm_Credential d = preferred_cred (dm_key d) reqs"
proof (induction reqs arbitrary: d rule: rev_induct)
  case (snoc x reqs)
  let ?st = "foldl addDeclared (Map.empty, []) reqs"
  obtain seen out where st: "?st = (seen, out)" by (cases ?st)
  have inv: "index_map seen (map dm_key out)"
    using declared.inv_fold [OF declared_inv_init, of reqs] by (simp add: st declared_inv_def)
  obtain p m cred where x: "x = (p, m, cred)" by (cases x) auto
  from snoc.prems have d: "d \<in> set (snd (addDeclared (seen, out) (p, m, cred)))"
    by (simp add: st x)
  have IH: "dm_Credential e = preferred_cred (dm_key e) reqs" if "e \<in> set out" for e
    using snoc.IH that by (simp add: st)
  show ?case
  proof (cases "request_key x")
    case None
    with d IH show ?thesis by (simp add: x addDeclared_skip preferred_cred_snoc)
  next
    case (Some k)
    show ?thesis
    proof (cases "seen k")
      case None
      then have "k \<notin> set (map dm_key out)" using index_mapD(1) [OF inv] by simp
      moreover from this have "\<forall>y \<in> set reqs. request_key y \<noteq> Some k"
        using declared_keys(1) [of reqs] by (auto simp: st)
      ultimately show ?thesis
        using d IH None Some addDeclared_new(2) [of seen out k p m cred] inv
        by (fastforce simp: x addDeclared_eq preferred_cred_snoc preferred_cred_none declared_inv_def
            image_iff)
    next
      case i: (Some i)
      then have i': "i < length out" "dm_key (out ! i) = k"
        using index_mapD(2) [OF inv i] by auto
      have "distinct (map dm_key out)" using declared_keys(2) [of reqs] by (simp add: st)
      moreover from d Some i have "d \<in> set (if dm_Credential (out ! i) = [] \<and> cred \<noteq> []
          then out[i := (out ! i)\<lparr>dm_Credential := cred\<rparr>] else out)"
        by (simp add: x addDeclared_eq)
      ultimately have upd: "d = (out ! i)\<lparr>dm_Credential := cred\<rparr> \<and> dm_Credential (out ! i) = [] \<or>
          d \<in> set out \<and> (dm_key d \<noteq> k \<or> dm_Credential d \<noteq> [] \<or> cred = [])"
        using updated_entry [OF _ i'(1)] i'(2) by simp
      from upd show ?thesis
      proof (elim disjE conjE)
        assume "d = (out ! i)\<lparr>dm_Credential := cred\<rparr>" and "dm_Credential (out ! i) = []"
        moreover from this have "preferred_cred k reqs = []"
          using IH [OF nth_mem [OF i'(1)]] i'(2) by simp
        ultimately show ?thesis using Some i'(2) by (simp add: x preferred_cred_snoc)
      qed (use IH [of d] Some in \<open>auto simp: x preferred_cred_snoc\<close>)
    qed
  qed
qed simp

end
