(* ===== verification/CRD_Webhooks.thy ===== *)
theory CRD_Webhooks
  imports Webhook_Common
begin

text \<open>
  The validators of the four governance kinds (\<open>tokenpolicy_webhook.go\<close>,
  \<open>clustertokenpolicy_webhook.go\<close>, \<open>modelclaim_webhook.go\<close> and \<open>modelcredential_webhook.go\<close> in
  \<open>internal/webhook/v1alpha1\<close>). A run returns the warnings and the error. \<open>ValidateCreate\<close> and
  \<open>ValidateUpdate\<close> of each kind call \<open>validate\<close> on the (new) object, \<open>ValidateDelete\<close> admits.
\<close>

type_synonym verdicts = "string list \<times> api_error option"

definition wrong_type :: "string \<Rightarrow> api_object \<Rightarrow> verdicts" where
  "wrong_type kind obj =
     ([], Some (OtherError (''expected a '' @ kind @ '' but got a '' @ object_type obj)))"

section \<open>Shared checks\<close>

text \<open>An invalid glob of entry \<open>i\<close>, in the field \<open>f\<close> (with its dot), as a list of at most one message.\<close>

definition glob_error :: "nat \<Rightarrow> string \<Rightarrow> string \<Rightarrow> string list" where
  "glob_error i f pattern =
     (case ValidGlob pattern of
        None \<Rightarrow> []
      | Some err \<Rightarrow>
          [''spec.models['' @ show_nat i @ '']'' @ f @ '' '' @ quote pattern @
           '' is not a valid pattern: '' @ err])"

definition validateModelRules :: "ModelPermission list \<Rightarrow> string list" where
  "validateModelRules models =
     concat (map (\<lambda>(i, m). glob_error i ''.provider'' (mp_Provider m) @ glob_error i ''.model'' (mp_Model m))
       (enumerate 0 models))"

definition equalFold :: "string \<Rightarrow> string \<Rightarrow> bool" where
  "equalFold a b =
     (if length a \<noteq> length b then False
      else list_all (\<lambda>(ca, cb). lower_char ca = lower_char cb) (zip a b))"

text \<open>\<open>metav1.LabelSelectorAsSelector\<close> of an optional selector: the error message, if any.\<close>

definition selector_error :: "selector_api \<Rightarrow> string \<Rightarrow> LabelSelector option \<Rightarrow> string list" where
  "selector_error asSel field sel =
     (case sel of
        None \<Rightarrow> []
      | Some s \<Rightarrow>
          (case asSel s of
             Inl err \<Rightarrow> [field @ '' is invalid: '' @ err]
           | Inr _ \<Rightarrow> []))"

definition gateway_error :: "GatewayIntegration option \<Rightarrow> string list" where
  "gateway_error gw =
     (case gw of
        None \<Rightarrow> []
      | Some g \<Rightarrow>
          if gi_Type g \<noteq> GatewayNone \<and> gi_Type g \<noteq> GatewayUnset \<and> gi_TargetRef g = None
          then [''spec.gateway.targetRef is required when spec.gateway.type is '' @
                quote (gateway_string (gi_Type g))]
          else [])"

definition workload_pod_selector :: "WorkloadSelector option \<Rightarrow> LabelSelector option" where
  "workload_pod_selector w = (case w of None \<Rightarrow> None | Some s \<Rightarrow> ws_PodSelector s)"

text \<open>One rule of the loop in \<open>credentialWarnings\<close>.\<close>

definition credentialWarning :: "client \<Rightarrow> string \<Rightarrow> ModelPermission \<Rightarrow> string list" where
  "credentialWarning c fieldPath m =
     (case mp_CredentialRef m of
        None \<Rightarrow> []
      | Some cref \<Rightarrow>
          (case get_ModelCredential c (cr_Name cref) of
             Inl err \<Rightarrow>
               [fieldPath @ '' references ModelCredential '' @ quote (cr_Name cref) @ '' which was not found'']
           | Inr mc \<Rightarrow>
               if mcs_Provider (mc_Spec mc) \<noteq> [] \<and> mp_Provider m \<noteq> ''*'' \<and>
                  \<not> equalFold (mcs_Provider (mc_Spec mc)) (mp_Provider m)
               then [fieldPath @ '' binds credential '' @ quote (cr_Name cref) @ '' (provider '' @
                     quote (mcs_Provider (mc_Spec mc)) @ '') to provider '' @ quote (mp_Provider m)]
               else []))"

definition credentialWarnings :: "client \<Rightarrow> ModelPermission list \<Rightarrow> string \<Rightarrow> string list" where
  "credentialWarnings c models fieldPath = concat (map (credentialWarning c fieldPath) models)"

text \<open>\<open>nsLabels, _ := namespaceLabels(...)\<close>: nil when the read fails.\<close>

definition namespaceLabels_or_nil :: "client \<Rightarrow> string \<Rightarrow> labels option" where
  "namespaceLabels_or_nil c namespace =
     (case namespaceLabels c namespace of Inl err \<Rightarrow> None | Inr l \<Rightarrow> l)"

section \<open>TokenPolicy\<close>

definition broader_input :: "ClusterTokenPolicy list \<Rightarrow> TokenPolicy list \<Rightarrow> string \<Rightarrow> labels option \<Rightarrow> ResolveInput" where
  "broader_input ctpl tpl namespace nsLabels =
     \<lparr>ri_ClusterPolicies = ctpl, ri_NamespacePolicies = tpl, ri_Namespace = namespace,
      ri_NamespaceLabels = nsLabels, ri_PodLabels = None, ri_ServiceAccount = []\<rparr>"

definition hierarchyWarnings :: "selector_api \<Rightarrow> client \<Rightarrow> TokenPolicy \<Rightarrow> string list" where
  "hierarchyWarnings asSel c tp =
     (case list_ClusterTokenPolicies c of
        Inl err \<Rightarrow> []
      | Inr ctpl \<Rightarrow>
          (case list_TokenPolicies c (tp_Namespace tp) of
             Inl err \<Rightarrow> []
           | Inr tpl \<Rightarrow>
               (let nsLabels = namespaceLabels_or_nil c (tp_Namespace tp);
                    rest = filter (\<lambda>p. tp_Name p \<noteq> tp_Name tp) tpl
                in case Resolve asSel (broader_input ctpl rest (tp_Namespace tp) nsLabels) of
                     Inl err \<Rightarrow> []
                   | Inr base \<Rightarrow>
                       if \<not> eff_ModelGoverned base then []
                       else concat (map (\<lambda>m.
                              if mp_Action m = ActionDeny then []
                              else (let d = Permit base (mp_Provider m) (mp_Model m) in
                                    if \<not> md_Allowed d
                                    then [''Allow rule '' @ mp_Provider m @ ''/'' @ mp_Model m @
                                          '' has no effect: '' @ md_Reason d @
                                          ''. A TokenPolicy can only narrow, never widen, the inherited permission set.'']
                                    else []))
                              (tps_Models (tp_Spec tp))))))"

definition TokenPolicy_validate :: "selector_api \<Rightarrow> client \<Rightarrow> api_object \<Rightarrow> verdicts" where
  "TokenPolicy_validate asSel c obj =
     (case obj of
        TokenPolicyObject tp \<Rightarrow>
          (let hard = selector_error asSel ''spec.selector.podSelector''
                        (workload_pod_selector (tps_Selector (tp_Spec tp)));
               hard = hard @ validateModelRules (tps_Models (tp_Spec tp));
               hard = hard @ gateway_error (tps_Gateway (tp_Spec tp))
           in if length hard > 0 then ([], Some (invalid ''TokenPolicy'' (tp_Name tp) hard))
              else (credentialWarnings c (tps_Models (tp_Spec tp)) ''spec.models'' @
                    hierarchyWarnings asSel c tp, None))
      | _ \<Rightarrow> wrong_type ''TokenPolicy'' obj)"

section \<open>ClusterTokenPolicy\<close>

definition ClusterTokenPolicy_validate :: "selector_api \<Rightarrow> client \<Rightarrow> api_object \<Rightarrow> verdicts" where
  "ClusterTokenPolicy_validate asSel c obj =
     (case obj of
        ClusterTokenPolicyObject ctp \<Rightarrow>
          (let hard = selector_error asSel ''spec.namespaceSelector'' (ctps_NamespaceSelector (ctp_Spec ctp));
               hard = hard @ validateModelRules (ctps_Models (ctp_Spec ctp));
               hard = hard @ gateway_error (ctps_Gateway (ctp_Spec ctp))
           in if length hard > 0 then ([], Some (invalid ''ClusterTokenPolicy'' (ctp_Name ctp) hard))
              else (let warnings = credentialWarnings c (ctps_Models (ctp_Spec ctp)) ''spec.models'';
                        warnings = (case ctps_DefaultCredentialRef (ctp_Spec ctp) of
                                      None \<Rightarrow> warnings
                                    | Some cref \<Rightarrow>
                                        (case get_ModelCredential c (cr_Name cref) of
                                           Inl err \<Rightarrow> warnings @
                                             [''spec.defaultCredentialRef references ModelCredential '' @
                                              quote (cr_Name cref) @ '' which was not found'']
                                         | Inr mc \<Rightarrow> warnings))
                    in (warnings, None)))
      | _ \<Rightarrow> wrong_type ''ClusterTokenPolicy'' obj)"

section \<open>ModelClaim\<close>

definition permitWarnings :: "selector_api \<Rightarrow> client \<Rightarrow> ModelClaim \<Rightarrow> string list" where
  "permitWarnings asSel c mc =
     (case list_ClusterTokenPolicies c of
        Inl err \<Rightarrow> []
      | Inr ctpl \<Rightarrow>
          (case list_TokenPolicies c (mcl_Namespace mc) of
             Inl err \<Rightarrow> []
           | Inr tpl \<Rightarrow>
               (let nsLabels = namespaceLabels_or_nil c (mcl_Namespace mc)
                in case Resolve asSel (broader_input ctpl tpl (mcl_Namespace mc) nsLabels) of
                     Inl err \<Rightarrow> []
                   | Inr eff \<Rightarrow>
                       if \<not> eff_ModelGoverned eff then []
                       else concat (map (\<lambda>m.
                              let d = Permit eff (mr_Provider m) (mr_Model m) in
                              if \<not> md_Allowed d
                              then [''requested model '' @ mr_Provider m @ ''/'' @ mr_Model m @
                                    '' will not bind: '' @ md_Reason d]
                              else [])
                              (mcls_Models (mcl_Spec mc))))))"

definition ModelClaim_validate :: "selector_api \<Rightarrow> client \<Rightarrow> api_object \<Rightarrow> verdicts" where
  "ModelClaim_validate asSel c obj =
     (case obj of
        ModelClaimObject mc \<Rightarrow>
          (let models = enumerate 0 (mcls_Models (mcl_Spec mc));
               hard = selector_error asSel ''spec.selector.podSelector''
                        (workload_pod_selector (mcls_Selector (mcl_Spec mc)));
               hard = hard @ concat (map (\<lambda>(i, m).
                        glob_error i ''.provider'' (mr_Provider m) @ glob_error i ''.model'' (mr_Model m)) models)
           in if length hard > 0 then ([], Some (invalid ''ModelClaim'' (mcl_Name mc) hard))
              else (let warnings = concat (map (\<lambda>(i, m).
                          case mr_CredentialRef m of
                            None \<Rightarrow> []
                          | Some cref \<Rightarrow>
                              (case get_ModelCredential c (cr_Name cref) of
                                 Inl err \<Rightarrow> [''spec.models['' @ show_nat i @ ''] references ModelCredential '' @
                                             quote (cr_Name cref) @ '' which was not found'']
                               | Inr cred \<Rightarrow> [])) models)
                    in (warnings @ permitWarnings asSel c mc, None)))
      | _ \<Rightarrow> wrong_type ''ModelClaim'' obj)"

section \<open>ModelCredential\<close>

definition ModelCredential_validate :: "selector_api \<Rightarrow> client \<Rightarrow> string \<Rightarrow> api_object \<Rightarrow> verdicts" where
  "ModelCredential_validate asSel c operatorNamespace obj =
     (case obj of
        ModelCredentialObject mc \<Rightarrow>
          (let spec = mc_Spec mc;
               hard = selector_error asSel ''spec.namespaceSelector'' (mcs_NamespaceSelector spec);
               hard = hard @ concat (map (\<lambda>(i, m). glob_error i [] m) (enumerate 0 (mcs_Models spec)))
           in if length hard > 0 then ([], Some (invalid ''ModelCredential'' (mc_Name mc) hard))
              else (let warnings = (if length (mcs_AllowedNamespaces spec) = 0 \<and> mcs_NamespaceSelector spec = None
                          then [''no namespace can bind this credential: set spec.allowedNamespaces or spec.namespaceSelector'']
                          else []);
                        sref = mcs_SecretRef spec;
                        secretNS = (if sks_Namespace sref = [] then operatorNamespace else sks_Namespace sref);
                        source = ''source Secret '' @ secretNS @ ''/'' @ sks_Name sref;
                        warnings = (case get_Secret c secretNS (sks_Name sref) of
                                      Inl err \<Rightarrow>
                                        if IsNotFound err
                                        then warnings @ [source @ '' not found; credential will not be synced until it exists'']
                                        else warnings
                                    | Inr secret \<Rightarrow>
                                        if map_of (sec_Data secret) (sks_Key sref) = None
                                        then warnings @ [source @ '' has no key '' @ quote (sks_Key sref)]
                                        else warnings)
                    in (warnings, None)))
      | _ \<Rightarrow> wrong_type ''ModelCredential'' obj)"

section \<open>Entry points\<close>

text \<open>The three methods of \<open>admission.CustomValidator\<close> per kind; an update looks at the new object.\<close>

definition TokenPolicy_ValidateCreate :: "selector_api \<Rightarrow> client \<Rightarrow> api_object \<Rightarrow> verdicts" where
  "TokenPolicy_ValidateCreate asSel c obj = TokenPolicy_validate asSel c obj"

definition TokenPolicy_ValidateUpdate :: "selector_api \<Rightarrow> client \<Rightarrow> api_object \<Rightarrow> api_object \<Rightarrow> verdicts" where
  "TokenPolicy_ValidateUpdate asSel c oldObj newObj = TokenPolicy_validate asSel c newObj"

definition TokenPolicy_ValidateDelete :: "selector_api \<Rightarrow> client \<Rightarrow> api_object \<Rightarrow> verdicts" where
  "TokenPolicy_ValidateDelete asSel c obj = ([], None)"

definition ClusterTokenPolicy_ValidateCreate :: "selector_api \<Rightarrow> client \<Rightarrow> api_object \<Rightarrow> verdicts" where
  "ClusterTokenPolicy_ValidateCreate asSel c obj = ClusterTokenPolicy_validate asSel c obj"

definition ClusterTokenPolicy_ValidateUpdate :: "selector_api \<Rightarrow> client \<Rightarrow> api_object \<Rightarrow> api_object \<Rightarrow> verdicts" where
  "ClusterTokenPolicy_ValidateUpdate asSel c oldObj newObj = ClusterTokenPolicy_validate asSel c newObj"

definition ClusterTokenPolicy_ValidateDelete :: "selector_api \<Rightarrow> client \<Rightarrow> api_object \<Rightarrow> verdicts" where
  "ClusterTokenPolicy_ValidateDelete asSel c obj = ([], None)"

definition ModelClaim_ValidateCreate :: "selector_api \<Rightarrow> client \<Rightarrow> api_object \<Rightarrow> verdicts" where
  "ModelClaim_ValidateCreate asSel c obj = ModelClaim_validate asSel c obj"

definition ModelClaim_ValidateUpdate :: "selector_api \<Rightarrow> client \<Rightarrow> api_object \<Rightarrow> api_object \<Rightarrow> verdicts" where
  "ModelClaim_ValidateUpdate asSel c oldObj newObj = ModelClaim_validate asSel c newObj"

definition ModelClaim_ValidateDelete :: "selector_api \<Rightarrow> client \<Rightarrow> api_object \<Rightarrow> verdicts" where
  "ModelClaim_ValidateDelete asSel c obj = ([], None)"

definition ModelCredential_ValidateCreate :: "selector_api \<Rightarrow> client \<Rightarrow> string \<Rightarrow> api_object \<Rightarrow> verdicts" where
  "ModelCredential_ValidateCreate asSel c opns obj = ModelCredential_validate asSel c opns obj"

definition ModelCredential_ValidateUpdate :: "selector_api \<Rightarrow> client \<Rightarrow> string \<Rightarrow> api_object \<Rightarrow> api_object \<Rightarrow> verdicts" where
  "ModelCredential_ValidateUpdate asSel c opns oldObj newObj = ModelCredential_validate asSel c opns newObj"

definition ModelCredential_ValidateDelete :: "selector_api \<Rightarrow> client \<Rightarrow> string \<Rightarrow> api_object \<Rightarrow> verdicts" where
  "ModelCredential_ValidateDelete asSel c opns obj = ([], None)"

section \<open>Accepted objects\<close>

lemma glob_error_Nil_iff [simp]: "glob_error i f p = [] \<longleftrightarrow> ValidGlob p = None"
  by (simp add: glob_error_def split: option.split)

lemma concat_enumerate_Nil:
  "(\<And>i m. f i m = [] \<longleftrightarrow> P m) \<Longrightarrow>
     concat (map (\<lambda>(i, m). f i m) (enumerate k xs)) = [] \<longleftrightarrow> (\<forall>m \<in> set xs. P m)"
  by (induction xs arbitrary: k) simp_all

lemma validateModelRules_Nil_iff:
  "validateModelRules models = [] \<longleftrightarrow>
     (\<forall>m \<in> set models. ValidGlob (mp_Provider m) = None \<and> ValidGlob (mp_Model m) = None)"
  unfolding validateModelRules_def by (rule concat_enumerate_Nil) simp

lemma selector_error_Nil_iff:
  "selector_error asSel f sel = [] \<longleftrightarrow> (\<forall>s. sel = Some s \<longrightarrow> (\<exists>m. asSel s = Inr m))"
  by (auto simp: selector_error_def split: option.split sum.split)

lemma gateway_error_Nil_iff:
  "gateway_error gw = [] \<longleftrightarrow>
     (\<forall>g. gw = Some g \<longrightarrow> gi_Type g = GatewayNone \<or> gi_Type g = GatewayUnset \<or> gi_TargetRef g \<noteq> None)"
  by (auto simp: gateway_error_def split: option.split)

text \<open>What the structural part of the validators accepts.\<close>

definition policy_accepted :: "selector_api \<Rightarrow> client \<Rightarrow> TokenPolicy \<Rightarrow> bool" where
  "policy_accepted asSel c tp \<longleftrightarrow> snd (TokenPolicy_validate asSel c (TokenPolicyObject tp)) = None"

definition cluster_accepted :: "selector_api \<Rightarrow> client \<Rightarrow> ClusterTokenPolicy \<Rightarrow> bool" where
  "cluster_accepted asSel c ctp \<longleftrightarrow>
     snd (ClusterTokenPolicy_validate asSel c (ClusterTokenPolicyObject ctp)) = None"

lemma policy_accepted_iff:
  "policy_accepted asSel c tp \<longleftrightarrow>
     (\<forall>s. workload_pod_selector (tps_Selector (tp_Spec tp)) = Some s \<longrightarrow> (\<exists>m. asSel s = Inr m)) \<and>
     (\<forall>m \<in> set (tps_Models (tp_Spec tp)). ValidGlob (mp_Provider m) = None \<and> ValidGlob (mp_Model m) = None) \<and>
     (\<forall>g. tps_Gateway (tp_Spec tp) = Some g \<longrightarrow>
        gi_Type g = GatewayNone \<or> gi_Type g = GatewayUnset \<or> gi_TargetRef g \<noteq> None)"
  by (auto simp: policy_accepted_def TokenPolicy_validate_def Let_def validateModelRules_Nil_iff
      selector_error_Nil_iff gateway_error_Nil_iff)

lemma cluster_accepted_iff:
  "cluster_accepted asSel c ctp \<longleftrightarrow>
     (\<forall>s. ctps_NamespaceSelector (ctp_Spec ctp) = Some s \<longrightarrow> (\<exists>m. asSel s = Inr m)) \<and>
     (\<forall>m \<in> set (ctps_Models (ctp_Spec ctp)). ValidGlob (mp_Provider m) = None \<and> ValidGlob (mp_Model m) = None) \<and>
     (\<forall>g. ctps_Gateway (ctp_Spec ctp) = Some g \<longrightarrow>
        gi_Type g = GatewayNone \<or> gi_Type g = GatewayUnset \<or> gi_TargetRef g \<noteq> None)"
  by (auto simp: cluster_accepted_def ClusterTokenPolicy_validate_def Let_def validateModelRules_Nil_iff
      selector_error_Nil_iff gateway_error_Nil_iff)

end
