(* ===== verification/Cluster_Samples.thy ===== *)
theory Cluster_Samples
  imports Samples Kube
begin

text \<open>
  A client that answers from lists of objects, to instantiate the client parameter, and a cluster
  that holds the objects of \<open>examples/\<close>: the credential \<open>openai\<close>, the policies of \<open>team-a\<close>, and the
  batch worker pod.
\<close>

record cluster =
  cl_ClusterPolicies :: "ClusterTokenPolicy list"
  cl_Policies :: "TokenPolicy list"
  cl_Claims :: "ModelClaim list"
  cl_Namespaces :: "Namespace list"
  cl_Credentials :: "ModelCredential list"
  cl_Secrets :: "Secret list"

definition answer :: "string \<Rightarrow> 'a option \<Rightarrow> api_error + 'a" where
  "answer n r = (case r of None \<Rightarrow> Inl (NotFound (n @ '' not found'')) | Some x \<Rightarrow> Inr x)"

definition client_of :: "cluster \<Rightarrow> client" where
  "client_of cl =
     \<lparr>list_ClusterTokenPolicies = Inr (cl_ClusterPolicies cl),
      list_TokenPolicies = (\<lambda>ns. Inr (filter (\<lambda>p. tp_Namespace p = ns) (cl_Policies cl))),
      list_AllTokenPolicies = Inr (cl_Policies cl),
      list_ModelClaims = (\<lambda>ns. Inr (filter (\<lambda>m. mcl_Namespace m = ns) (cl_Claims cl))),
      list_Namespaces = Inr (cl_Namespaces cl),
      get_Namespace = (\<lambda>n. answer n (find (\<lambda>x. ns_Name x = n) (cl_Namespaces cl))),
      get_ModelCredential = (\<lambda>n. answer n (find (\<lambda>x. mc_Name x = n) (cl_Credentials cl))),
      get_Secret = (\<lambda>ns n. answer n (find (\<lambda>x. sec_Namespace x = ns \<and> sec_Name x = n) (cl_Secrets cl)))\<rparr>"

definition credential_status0 :: ModelCredentialStatus where
  "credential_status0 =
     \<lparr>mcst_ObservedGeneration = 0, mcst_SecretResolved = False, mcst_SyncedNamespaces = [],
      mcst_ReferencingPolicies = [], mcst_Allocated = None, mcst_Available = None,
      mcst_Conditions = []\<rparr>"

text \<open>\<open>examples/02-modelcredential.yaml\<close>\<close>

definition openai_credential :: ModelCredential where
  "openai_credential =
     \<lparr>mc_Name = ''openai'', mc_Generation = 1,
      mc_Spec =
        \<lparr>mcs_Provider = ''openai'', mcs_Models = [''gpt-4o-*''],
         mcs_SecretRef = \<lparr>sks_Name = ''openai'', sks_Namespace = [], sks_Key = ''apiKey''\<rparr>,
         mcs_AllowedNamespaces = [''team-a''],
         mcs_NamespaceSelector = Some (match_labels [(''tokencontrol.io/team'', ''ml-platform'')]),
         mcs_Injection = Some \<lparr>ci_Mode = InjectEnv, ci_EnvName = [], ci_MountPath = []\<rparr>,
         mcs_Capacity = Some \<lparr>tq_TokensPerMinute = Some 1000000, tq_RequestsPerMinute = Some 10000,
                              tq_TokensPerDay = None, tq_TokensPerMonth = None\<rparr>\<rparr>,
      mc_Status = credential_status0\<rparr>"

definition worker :: Container where
  "worker = \<lparr>ct_Name = ''worker'', ct_Env = [\<lparr>ev_Name = ''MODE'', ev_Value = ''batch'', ev_ValueFrom = None\<rparr>],
     ct_VolumeMounts = []\<rparr>"

definition worker_pod :: "string \<Rightarrow> Pod" where
  "worker_pod models =
     \<lparr>pod_Namespace = ''team-a'', pod_Name = ''batch-worker-0'',
      pod_Labels = Some [(''app'', ''batch-worker'')],
      pod_Annotations = Some [(AnnotationModels, models)],
      pod_ServiceAccountName = ''batch-runner'', pod_Containers = [worker], pod_InitContainers = [],
      pod_Volumes = []\<rparr>"

definition sample_cluster :: cluster where
  "sample_cluster =
     \<lparr>cl_ClusterPolicies = [org_default], cl_Policies = [ns_default, batch_workers], cl_Claims = [],
      cl_Namespaces = [\<lparr>ns_Name = ''team-a'', ns_Labels = Some []\<rparr>],
      cl_Credentials = [openai_credential], cl_Secrets = []\<rparr>"

definition sample_client :: client where
  "sample_client = client_of sample_cluster"

end
