(* ===== verification/CRD_Props.thy ===== *)
theory CRD_Props
  imports CRD_Webhooks Resolver_Status Cluster_Samples
begin

text \<open>
  What admission of the governance objects guarantees: a hierarchy of accepted policies always
  resolves, and the warnings about rules and requests without effect are right about what every
  workload of the namespace will get.
\<close>

section \<open>Accepted policies resolve\<close>

lemma admitted_resolves:
  assumes "\<forall>ctp \<in> set (ri_ClusterPolicies inp). \<exists>c. cluster_accepted asSel c ctp"
    and "\<forall>tp \<in> set (ri_NamespacePolicies inp). \<exists>c. policy_accepted asSel c tp"
  shows "\<exists>eff. Resolve asSel inp = Inr eff"
proof -
  have "\<exists>b. clusterMatches asSel inp ctp = Inr b" if "ctp \<in> set (ri_ClusterPolicies inp)" for ctp
  proof -
    have "\<forall>s. ctps_NamespaceSelector (ctp_Spec ctp) = Some s \<longrightarrow> (\<exists>m. asSel s = Inr m)"
      using assms(1) that by (auto simp: cluster_accepted_iff)
    then show ?thesis
      by (auto simp: clusterMatches_def selectorMatches_def split: option.splits sum.splits)
  qed
  moreover have "\<exists>b. wl_match asSel inp tp = Inr b" if "tp \<in> set (ri_NamespacePolicies inp)" for tp
  proof -
    have "\<forall>s. workload_pod_selector (tps_Selector (tp_Spec tp)) = Some s \<longrightarrow> (\<exists>m. asSel s = Inr m)"
      using assms(2) that by (auto simp: policy_accepted_iff)
    then show ?thesis
      by (auto simp: wl_match_def workloadMatches_def workload_pod_selector_def
          split: option.splits sum.splits)
  qed
  ultimately have "selectors_ok asSel inp" by (simp add: selectors_ok_def)
  then show ?thesis using Resolve_ok by blast
qed

text \<open>
  C25: When every cluster policy and every policy of the namespace has passed admission, at
  whatever time and against whatever cluster, resolving never fails, whatever the namespace's
  labels and the workload: pods are then never admitted because the resolver gave up on an
  invalid selector.
\<close>

theorem accepted_hierarchy_resolves:
  assumes "\<forall>ctp \<in> set (ri_ClusterPolicies inp). \<exists>c. cluster_accepted asSel c ctp"
    and "\<forall>tp \<in> set (ri_NamespacePolicies inp). \<exists>c. policy_accepted asSel c tp"
  shows "\<exists>eff. Resolve asSel inp = Inr eff"
  by (rule admitted_resolves [OF assms])

theorem accepted_hierarchy_resolves_witness:
  "\<exists>eff. Resolve std_selector (team_a (Some [(''app'', ''chat'')]) ''default'') = Inr eff"
proof -
  have "cluster_accepted std_selector sample_client org_default"
    and "policy_accepted std_selector sample_client ns_default"
    and "policy_accepted std_selector sample_client batch_workers"
    by code_simp+
  then show ?thesis
    by (intro accepted_hierarchy_resolves) (auto simp: team_a_def)
qed

section \<open>Warnings about what a broader scope denies\<close>

text \<open>A denial by the cluster and namespace-default tiers holds for every workload.\<close>

lemma broader_denial:
  assumes base: "Resolve asSel (broader_input ctpl tpl ns nsLabels) = Inr base"
    and denied: "\<not> md_Allowed (Permit base p m)"
    and eff: "Resolve asSel inp = Inr eff"
    and inp: "ri_ClusterPolicies inp = ctpl" "ri_NamespaceLabels inp = nsLabels"
    and defaults: "set (filter is_default (ri_NamespacePolicies inp)) = set (filter is_default tpl)"
  shows "\<not> md_Allowed (Permit eff p m)"
proof -
  let ?b = "broader_input ctpl tpl ns nsLabels"
  have b: "base = effective_for asSel ?b" and e: "eff = effective_for asSel inp"
    using base eff by (simp_all add: Resolve_Inr_iff)
  have "cluster_scope_rules asSel ?b = cluster_scope_rules asSel inp"
    using inp sel_cluster_cong [of ?b inp asSel] by (simp add: cluster_scope_rules_def broader_input_def)
  moreover have "default_scope_rules ?b = default_scope_rules inp"
    using defaults by (simp add: default_scope_rules_def sel_default_def broader_input_def)
  moreover have "workload_scope_rules asSel ?b = {}"
    by (simp add: workload_scope_rules_def sel_workload_def identified_def broader_input_def)
  ultimately show ?thesis
    using denied by (auto simp: b e Permit_Allowed_iff verdict_permit_iff) (auto simp: rules_permit_def)
qed

definition dead_rule_warning :: "ModelPermission \<Rightarrow> ModelDecision \<Rightarrow> string" where
  "dead_rule_warning m d =
     ''Allow rule '' @ mp_Provider m @ ''/'' @ mp_Model m @ '' has no effect: '' @ md_Reason d @
     ''. A TokenPolicy can only narrow, never widen, the inherited permission set.''"

definition dead_request_warning :: "ModelRequest \<Rightarrow> ModelDecision \<Rightarrow> string" where
  "dead_request_warning m d =
     ''requested model '' @ mr_Provider m @ ''/'' @ mr_Model m @ '' will not bind: '' @ md_Reason d"

lemma hierarchyWarnings_eq:
  assumes "list_ClusterTokenPolicies c = Inr ctpl" "list_TokenPolicies c (tp_Namespace tp) = Inr tpl"
    and "namespaceLabels c (tp_Namespace tp) = Inr nsLabels"
  shows "hierarchyWarnings asSel c tp =
    (case Resolve asSel (broader_input ctpl (filter (\<lambda>p. tp_Name p \<noteq> tp_Name tp) tpl) (tp_Namespace tp) nsLabels) of
       Inl err \<Rightarrow> []
     | Inr base \<Rightarrow>
         if \<not> eff_ModelGoverned base then []
         else map (\<lambda>m. dead_rule_warning m (Permit base (mp_Provider m) (mp_Model m)))
                (filter (\<lambda>m. mp_Action m \<noteq> ActionDeny \<and> \<not> md_Allowed (Permit base (mp_Provider m) (mp_Model m)))
                  (tps_Models (tp_Spec tp))))"
proof -
  have "concat (map (\<lambda>m. if mp_Action m = ActionDeny then []
        else (let d = Permit base (mp_Provider m) (mp_Model m) in
              if \<not> md_Allowed d then [dead_rule_warning m d] else [])) ms) =
      map (\<lambda>m. dead_rule_warning m (Permit base (mp_Provider m) (mp_Model m)))
        (filter (\<lambda>m. mp_Action m \<noteq> ActionDeny \<and> \<not> md_Allowed (Permit base (mp_Provider m) (mp_Model m))) ms)"
    for base ms
    by (induction ms) (simp_all add: Let_def)
  then show ?thesis
    unfolding hierarchyWarnings_def dead_rule_warning_def [symmetric] assms namespaceLabels_or_nil_def
    by (simp add: Let_def split: sum.split)
qed

lemma permitWarnings_eq:
  assumes "list_ClusterTokenPolicies c = Inr ctpl" "list_TokenPolicies c (mcl_Namespace mc) = Inr tpl"
    and "namespaceLabels c (mcl_Namespace mc) = Inr nsLabels"
  shows "permitWarnings asSel c mc =
    (case Resolve asSel (broader_input ctpl tpl (mcl_Namespace mc) nsLabels) of
       Inl err \<Rightarrow> []
     | Inr base \<Rightarrow>
         if \<not> eff_ModelGoverned base then []
         else map (\<lambda>m. dead_request_warning m (Permit base (mr_Provider m) (mr_Model m)))
                (filter (\<lambda>m. \<not> md_Allowed (Permit base (mr_Provider m) (mr_Model m))) (mcls_Models (mcl_Spec mc))))"
proof -
  have "concat (map (\<lambda>m. let d = Permit base (mr_Provider m) (mr_Model m) in
              if \<not> md_Allowed d then [dead_request_warning m d] else []) ms) =
      map (\<lambda>m. dead_request_warning m (Permit base (mr_Provider m) (mr_Model m)))
        (filter (\<lambda>m. \<not> md_Allowed (Permit base (mr_Provider m) (mr_Model m))) ms)"
    for base ms
    by (induction ms) (simp_all add: Let_def)
  then show ?thesis
    unfolding permitWarnings_def dead_request_warning_def [symmetric] assms namespaceLabels_or_nil_def
    by (simp add: Let_def split: sum.split)
qed

text \<open>
  The ``no effect'' warning on a workload-scoped policy is right: it names an Allow rule of
  the policy whose model, once the policy is stored, is denied to every workload of the namespace.
\<close>

theorem dead_rule_warning_sound:
  assumes "list_ClusterTokenPolicies c = Inr ctpl" "list_TokenPolicies c (tp_Namespace tp) = Inr tpl"
    and "namespaceLabels c (tp_Namespace tp) = Inr nsLabels"
    and "\<not> IsEmpty (tps_Selector (tp_Spec tp))" "w \<in> set (hierarchyWarnings asSel c tp)"
    and "Resolve asSel
      \<lparr>ri_ClusterPolicies = ctpl,
       ri_NamespacePolicies = filter (\<lambda>p. tp_Name p \<noteq> tp_Name tp) tpl @ [tp],
       ri_Namespace = tp_Namespace tp, ri_NamespaceLabels = nsLabels,
       ri_PodLabels = podLabels, ri_ServiceAccount = sa\<rparr> = Inr eff"
  shows "\<exists>m \<in> set (tps_Models (tp_Spec tp)). mp_Action m \<noteq> ActionDeny \<and>
    (\<exists>d. w = dead_rule_warning m d) \<and> \<not> md_Allowed (Permit eff (mp_Provider m) (mp_Model m))"
proof -
  let ?rest = "filter (\<lambda>p. tp_Name p \<noteq> tp_Name tp) tpl"
  obtain base m where base: "Resolve asSel (broader_input ctpl ?rest (tp_Namespace tp) nsLabels) = Inr base"
    and m: "m \<in> set (tps_Models (tp_Spec tp))" "mp_Action m \<noteq> ActionDeny"
    and denied: "\<not> md_Allowed (Permit base (mp_Provider m) (mp_Model m))"
    and w: "\<exists>d. w = dead_rule_warning m d"
    using assms(5) by (auto simp: hierarchyWarnings_eq [OF assms(1-3)] split: sum.splits if_splits) metis
  have "\<not> md_Allowed (Permit eff (mp_Provider m) (mp_Model m))"
    by (rule broader_denial [OF base denied assms(6)]) (use assms(4) in \<open>simp_all add: is_default_def\<close>)
  with m w show ?thesis by blast
qed

text \<open>
  The ``will not bind'' warning on a claim is right: the model it names is denied to every
  workload of the namespace.
\<close>

theorem dead_request_warning_sound:
  assumes "list_ClusterTokenPolicies c = Inr ctpl" "list_TokenPolicies c (mcl_Namespace mc) = Inr tpl"
    and "namespaceLabels c (mcl_Namespace mc) = Inr nsLabels"
    and "w \<in> set (permitWarnings asSel c mc)"
    and "Resolve asSel
      \<lparr>ri_ClusterPolicies = ctpl, ri_NamespacePolicies = tpl, ri_Namespace = mcl_Namespace mc,
       ri_NamespaceLabels = nsLabels, ri_PodLabels = podLabels, ri_ServiceAccount = sa\<rparr> = Inr eff"
  shows "\<exists>m \<in> set (mcls_Models (mcl_Spec mc)).
    (\<exists>d. w = dead_request_warning m d) \<and> \<not> md_Allowed (Permit eff (mr_Provider m) (mr_Model m))"
proof -
  obtain base m where base: "Resolve asSel (broader_input ctpl tpl (mcl_Namespace mc) nsLabels) = Inr base"
    and m: "m \<in> set (mcls_Models (mcl_Spec mc))"
    and denied: "\<not> md_Allowed (Permit base (mr_Provider m) (mr_Model m))"
    and w: "\<exists>d. w = dead_request_warning m d"
    using assms(4) by (auto simp: permitWarnings_eq [OF assms(1-3)] split: sum.splits if_splits) metis
  have "\<not> md_Allowed (Permit eff (mr_Provider m) (mr_Model m))"
    by (rule broader_denial [OF base denied assms(5)]) simp_all
  with m w show ?thesis by blast
qed

section \<open>Witnesses\<close>

text \<open>A policy for the batch workers with a rule the cluster's allowlist does not cover.\<close>

definition greedy_workers :: TokenPolicy where
  "greedy_workers =
     token_policy ''team-a'' ''greedy'' (Some batch_selector)
       [rule ActionAllow ''openai'' ''gpt-4o-mini'' [], rule ActionAllow ''anthropic'' ''claude-3-opus'' []] None 0"

definition greedy_input :: ResolveInput where
  "greedy_input =
     \<lparr>ri_ClusterPolicies = [org_default],
      ri_NamespacePolicies = filter (\<lambda>p. tp_Name p \<noteq> tp_Name greedy_workers) [ns_default, batch_workers] @ [greedy_workers],
      ri_Namespace = tp_Namespace greedy_workers, ri_NamespaceLabels = Some [],
      ri_PodLabels = Some [(''app'', ''batch-worker'')], ri_ServiceAccount = ''batch-runner''\<rparr>"

definition greedy_claim :: ModelClaim where
  "greedy_claim =
     \<lparr>mcl_Namespace = ''team-a'', mcl_Name = ''greedy'', mcl_Generation = 1,
      mcl_Spec =
        \<lparr>mcls_Selector = Some batch_selector,
         mcls_Models = [\<lparr>mr_Provider = ''anthropic'', mr_Model = ''claude-3-opus'', mr_CredentialRef = None\<rparr>],
         mcls_Purpose = []\<rparr>,
      mcl_Status = \<lparr>mclst_ObservedGeneration = 0, mclst_Phase = PhaseUnset, mclst_ResolvedModels = [],
                    mclst_BoundCredentials = [], mclst_Conditions = []\<rparr>\<rparr>"

lemma sample_reads:
  "list_ClusterTokenPolicies sample_client = Inr [org_default]"
  "list_TokenPolicies sample_client ''team-a'' = Inr [ns_default, batch_workers]"
  "namespaceLabels sample_client ''team-a'' = Inr (Some [])"
  by code_simp+

lemma greedy_facts:
  "tp_Namespace greedy_workers = ''team-a''" "mcl_Namespace greedy_claim = ''team-a''"
  "\<not> IsEmpty (tps_Selector (tp_Spec greedy_workers))"
  "hierarchyWarnings std_selector sample_client greedy_workers \<noteq> []"
  "permitWarnings std_selector sample_client greedy_claim \<noteq> []"
  by code_simp+

lemma greedy_ok: "\<exists>eff. Resolve std_selector greedy_input = Inr eff"
proof -
  have "case Resolve std_selector greedy_input of Inl e \<Rightarrow> False | Inr e \<Rightarrow> True" by code_simp
  then show ?thesis by (auto split: sum.splits)
qed

theorem dead_rule_warning_sound_witness:
  "\<exists>eff. Resolve std_selector greedy_input = Inr eff \<and>
     (\<exists>m \<in> set (tps_Models (tp_Spec greedy_workers)). mp_Action m \<noteq> ActionDeny \<and>
        \<not> md_Allowed (Permit eff (mp_Provider m) (mp_Model m)))"
proof -
  obtain eff where eff: "Resolve std_selector greedy_input = Inr eff" using greedy_ok by blast
  have "hd (hierarchyWarnings std_selector sample_client greedy_workers) \<in>
      set (hierarchyWarnings std_selector sample_client greedy_workers)"
    using greedy_facts(4) by simp
  from dead_rule_warning_sound [OF sample_reads(1) sample_reads(2,3) [folded greedy_facts(1)]
      greedy_facts(3) this eff [unfolded greedy_input_def]] eff
  show ?thesis by blast
qed

theorem dead_request_warning_sound_witness:
  "\<exists>m \<in> set (mcls_Models (mcl_Spec greedy_claim)).
     \<not> md_Allowed (Permit batch_eff (mr_Provider m) (mr_Model m))"
proof -
  have "hd (permitWarnings std_selector sample_client greedy_claim) \<in>
      set (permitWarnings std_selector sample_client greedy_claim)"
    using greedy_facts(5) by simp
  moreover have "Resolve std_selector
      \<lparr>ri_ClusterPolicies = [org_default], ri_NamespacePolicies = [ns_default, batch_workers],
       ri_Namespace = mcl_Namespace greedy_claim, ri_NamespaceLabels = Some [],
       ri_PodLabels = Some [(''app'', ''batch-worker'')], ri_ServiceAccount = ''batch-runner''\<rparr> = Inr batch_eff"
    using batch_ok by (simp add: batch_input_def team_a_def greedy_facts(2))
  ultimately show ?thesis
    using dead_request_warning_sound [OF sample_reads(1) sample_reads(2,3) [folded greedy_facts(2)]]
    by blast
qed

section \<open>Comparing providers\<close>

text \<open>\<open>equalFold\<close> is equality up to the case of ASCII letters, as lower-casing both gives.\<close>

theorem equalFold_iff: "equalFold a b \<longleftrightarrow> ToLower a = ToLower b"
proof -
  have "list_all (\<lambda>(x, y). lower_char x = lower_char y) (zip a b) \<longleftrightarrow> map lower_char a = map lower_char b"
    if "length a = length b"
    using that by (induction a b rule: list_induct2) auto
  moreover have "map lower_char a \<noteq> map lower_char b" if "length a \<noteq> length b"
    using that by (metis length_map)
  ultimately show ?thesis by (auto simp: equalFold_def ToLower_def)
qed

section \<open>A warning that is wrong\<close>

text \<open>
  Namespace defaults are merged, so an Allow rule of one extends the allowlist of another. The
  ``no effect'' warning of a namespace default leaves its own tier's union out of account: here
  the rule is warned about, and permits the model once the policy is stored.
\<close>

definition extra_default :: TokenPolicy where
  "extra_default = token_policy ''team-a'' ''extra'' None [rule ActionAllow ''openai'' ''gpt-4o-2024'' []] None 0"

lemma default_rule_warned_but_effective:
  "hierarchyWarnings std_selector sample_client extra_default \<noteq> [] \<and>
   (case Resolve std_selector ((team_a None [])\<lparr>ri_NamespacePolicies := [ns_default, batch_workers, extra_default]\<rparr>) of
      Inl e \<Rightarrow> False
    | Inr eff \<Rightarrow> md_Allowed (Permit eff ''openai'' ''gpt-4o-2024''))"
  by code_simp

end
