(* ===== verification/Controller_Common.thy ===== *)
theory Controller_Common
  imports Resolver Kube Metrics
begin

text \<open>
  What the reconcilers share (\<open>internal/controller/helpers.go\<close> and the \<open>namespaceLabels\<close> methods):
  conditions, the credentials and the number of permitted models of a resolved list, and what one
  run of \<open>Reconcile\<close> returns. \<open>meta.SetStatusCondition\<close> is a library function, the parameter
  \<open>setCond\<close>; \<open>condition_setter\<close> is what the controllers rely on.
\<close>

section \<open>Conditions\<close>

type_synonym set_condition = "Condition list \<Rightarrow> Condition \<Rightarrow> Condition list"

definition setCondition ::
  "set_condition \<Rightarrow> Condition list \<Rightarrow> string \<Rightarrow> ConditionStatus \<Rightarrow> string \<Rightarrow> string \<Rightarrow> int64 \<Rightarrow> Condition list" where
  "setCondition setCond conds condType status reason msg gen =
     setCond conds
       \<lparr>cond_Type = condType, cond_Status = status, cond_Reason = reason, cond_Message = msg,
        cond_ObservedGeneration = gen\<rparr>"

definition find_condition :: "string \<Rightarrow> Condition list \<Rightarrow> Condition option" where
  "find_condition t conds = find (\<lambda>c. cond_Type c = t) conds"

text \<open>
  The contract of the library function: the condition of the given type is the given one, the
  conditions of other types are what they were, and setting the same condition again changes
  nothing.
\<close>

locale condition_setter =
  fixes setCond :: set_condition
  assumes find_set: "find_condition t (setCond conds c) = (if t = cond_Type c then Some c else find_condition t conds)"
    and set_known: "find_condition (cond_Type c) conds = Some c \<Longrightarrow> setCond conds c = conds"
begin

lemma find_setCondition:
  "find_condition t (setCondition setCond conds ct st r m g) =
     (if t = ct
      then Some \<lparr>cond_Type = ct, cond_Status = st, cond_Reason = r, cond_Message = m, cond_ObservedGeneration = g\<rparr>
      else find_condition t conds)"
  by (simp add: setCondition_def find_set)

lemma setCondition_known:
  "find_condition ct conds =
     Some \<lparr>cond_Type = ct, cond_Status = st, cond_Reason = r, cond_Message = m, cond_ObservedGeneration = g\<rparr> \<Longrightarrow>
   setCondition setCond conds ct st r m g = conds"
  by (simp add: setCondition_def set_known)

end

text \<open>The documented behaviour of \<open>SetStatusCondition\<close>: replace in place, or append.\<close>

primrec replace_or_append :: "Condition list \<Rightarrow> Condition \<Rightarrow> Condition list" where
  "replace_or_append [] c = [c]"
| "replace_or_append (d # ds) c =
     (if cond_Type d = cond_Type c then c # ds else d # replace_or_append ds c)"

lemma find_replace:
  "find_condition t (replace_or_append conds c) =
     (if t = cond_Type c then Some c else find_condition t conds)"
  by (induction conds) (auto simp: find_condition_def)

lemma replace_known: "find_condition (cond_Type c) conds = Some c \<Longrightarrow> replace_or_append conds c = conds"
  by (induction conds) (auto simp: find_condition_def split: if_splits)

interpretation std_conditions: condition_setter replace_or_append
  by unfold_locales (simp_all add: find_replace replace_known)

section \<open>Resolved models\<close>

text \<open>The loop of \<open>distinctAllowedCredentials\<close>; \<open>seen\<close> holds the entries of \<open>out\<close>.\<close>

definition distinctAllowedCredentials :: "EffectiveModel list \<Rightarrow> string list" where
  "distinctAllowedCredentials models =
     foldl (\<lambda>out m.
        if em_Action m \<noteq> ActionAllow \<or> em_Credential m = [] then out
        else if \<not> List.member out (em_Credential m) then out @ [em_Credential m] else out) [] models"

definition countAllowed :: "EffectiveModel list \<Rightarrow> float64" where
  "countAllowed models =
     foldl (\<lambda>n m. if em_Action m = ActionAllow then float64_inc n else n) 0 models"

lemma distinctAllowedCredentials_fold:
  "distinctAllowedCredentials models =
     foldl set_add [] (map em_Credential (filter (\<lambda>m. em_Action m = ActionAllow \<and> em_Credential m \<noteq> []) models))"
proof -
  have "foldl (\<lambda>out m.
        if em_Action m \<noteq> ActionAllow \<or> em_Credential m = [] then out
        else if \<not> List.member out (em_Credential m) then out @ [em_Credential m] else out) out models =
      foldl set_add out
        (map em_Credential (filter (\<lambda>m. em_Action m = ActionAllow \<and> em_Credential m \<noteq> []) models))" for out
    by (induction models arbitrary: out) (auto simp: set_add_def)
  then show ?thesis by (simp add: distinctAllowedCredentials_def)
qed

lemma distinctAllowedCredentials_exact:
  "distinct (distinctAllowedCredentials models)"
  "set (distinctAllowedCredentials models) =
     {em_Credential m | m. m \<in> set models \<and> em_Action m = ActionAllow \<and> em_Credential m \<noteq> []}"
  by (auto simp: distinctAllowedCredentials_fold)

lemma countAllowed_eq:
  "countAllowed models = min (2 ^ 53) (int (length (filter (\<lambda>m. em_Action m = ActionAllow) models)))"
proof -
  have "foldl (\<lambda>n m. if em_Action m = ActionAllow then float64_inc n else n) k models =
      min (2 ^ 53) (k + int (length (filter (\<lambda>m. em_Action m = ActionAllow) models)))"
    if "0 \<le> k" "k \<le> 2 ^ 53" for k
    using that
  proof (induction models arbitrary: k)
    case (Cons m models)
    then show ?case
      using Cons.IH [of "float64_inc k"] Cons.IH [of k]
      by (cases "k = 2 ^ 53") (auto simp: float64_inc)
  qed simp
  then show ?thesis by (simp add: countAllowed_def)
qed

section \<open>Reads and results of a reconciler\<close>

text \<open>\<open>namespaceLabels\<close> of the reconcilers: an empty map, and no error when the namespace is gone.\<close>

definition reconciler_namespaceLabels :: "client \<Rightarrow> string \<Rightarrow> api_error + labels option" where
  "reconciler_namespaceLabels c n =
     (case get_Namespace c n of
        Inl err \<Rightarrow> (case IgnoreNotFound err of None \<Rightarrow> Inr (Some []) | Some e \<Rightarrow> Inl e)
      | Inr ns \<Rightarrow> Inr (ns_Labels ns))"

text \<open>
  The result of \<open>Reconcile\<close>: after how many seconds to run again (0: not asked for), the error
  returned, the object handed to \<open>Status().Update\<close> if that point was reached, and the metrics.
\<close>

record 'a outcome =
  oc_RequeueAfter :: nat
  oc_Err :: "api_error option"
  oc_Written :: "'a option"
  oc_Metrics :: "metric_event list"

definition failed :: "api_error option \<Rightarrow> 'a outcome" where
  "failed err = \<lparr>oc_RequeueAfter = 0, oc_Err = err, oc_Written = None, oc_Metrics = []\<rparr>"

text \<open>\<open>return ..., r.Status().Update(ctx, obj)\<close>; \<open>upd\<close> is the answer of the API server.\<close>

definition write_status :: "('a \<Rightarrow> api_error option) \<Rightarrow> 'a \<Rightarrow> nat \<Rightarrow> metric_event list \<Rightarrow> 'a outcome" where
  "write_status upd obj after ev =
     \<lparr>oc_RequeueAfter = after, oc_Err = upd obj, oc_Written = Some obj, oc_Metrics = ev\<rparr>"

lemma write_status_simps [simp]:
  "oc_RequeueAfter (write_status upd obj after ev) = after" "oc_Err (write_status upd obj after ev) = upd obj"
  "oc_Written (write_status upd obj after ev) = Some obj" "oc_Metrics (write_status upd obj after ev) = ev"
  by (simp_all add: write_status_def)

lemma failed_simps [simp]:
  "oc_RequeueAfter (failed err) = 0" "oc_Err (failed err) = err" "oc_Written (failed err) = None"
  "oc_Metrics (failed err) = []"
  by (simp_all add: failed_def)

end
