(* ===== verification/Policy_Controllers.thy ===== *)
theory Policy_Controllers
  imports Controller_Common Gateway
begin

text \<open>
  The reconcilers of the two policy kinds (\<open>internal/controller/clustertokenpolicy_controller.go\<close>
  and \<open>tokenpolicy_controller.go\<close>). The uncached client the gateway artifacts are written with is
  a parameter: the record of its two operations on a state of its own type.
\<close>

section \<open>ClusterTokenPolicy\<close>

text \<open>One namespace of the loop.\<close>

definition namespaceMatches :: "selector_api \<Rightarrow> ClusterTokenPolicy \<Rightarrow> Namespace \<Rightarrow> bool result" where
  "namespaceMatches asSel ctp ns =
     NamespaceSelectorMatches asSel (ctps_NamespaceSelector (ctp_Spec ctp)) (ns_Labels ns)"

definition ClusterTokenPolicy_Reconcile ::
  "selector_api \<Rightarrow> set_condition \<Rightarrow> client \<Rightarrow> (ClusterTokenPolicy \<Rightarrow> api_error option)
     \<Rightarrow> api_error + ClusterTokenPolicy \<Rightarrow> ClusterTokenPolicy outcome" where
  "ClusterTokenPolicy_Reconcile asSel setCond c upd got =
     (case got of
        Inl err \<Rightarrow> failed (IgnoreNotFound err)
      | Inr ctp \<Rightarrow>
     (case list_Namespaces c of
        Inl err \<Rightarrow> failed (Some err)
      | Inr items \<Rightarrow>
          (let status = ctp_Status ctp;
               gen = ctp_Generation ctp;
               cond = (\<lambda>t st r m cs. setCondition setCond cs t st r m gen)
           in case filterR (namespaceMatches asSel ctp) items of
                Inl err \<Rightarrow>
                  (let status = status\<lparr>ctpst_Conditions :=
                         cond ConditionValid ConditionFalse ''BadSelector'' err (ctpst_Conditions status)\<rparr>
                   in write_status upd (ctp\<lparr>ctp_Status := status\<rparr>) 0 [])
              | Inr matched \<Rightarrow>
                  (let names = sort (map ns_Name matched);
                       conds = cond ConditionValid ConditionTrue ''Validated'' ''spec is valid''
                                 (ctpst_Conditions status);
                       conds = cond ConditionReady ConditionTrue ''Reconciled'' ''applied to selected namespaces'' conds;
                       status = status\<lparr>ctpst_ObservedGeneration := gen,
                                       ctpst_ModelCount := length (ctps_Models (ctp_Spec ctp)),
                                       ctpst_AppliedNamespaces := names,
                                       ctpst_Conditions := conds\<rparr>
                   in write_status upd (ctp\<lparr>ctp_Status := status\<rparr>) 0 []))))"

section \<open>The gateway artifact of a TokenPolicy\<close>

type_synonym artifact_key = "GroupVersionKind \<times> string \<times> string"

text \<open>
  \<open>r.Apply\<close>: \<open>Delete\<close> of an object by kind, namespace and name (its error is dropped) and the
  server-side apply.
\<close>

record 's apply_client =
  ap_Delete :: "'s \<Rightarrow> artifact_key \<Rightarrow> 's"
  ap_Patch :: "'s \<Rightarrow> Unstructured \<Rightarrow> 's \<times> api_error option"

text \<open>\<open>controllerutil.SetControllerReference\<close> on the artifact, a library function.\<close>

type_synonym set_owner = "TokenPolicy \<Rightarrow> Unstructured \<Rightarrow> api_error + Unstructured"

definition deleteArtifact ::
  "'s apply_client \<Rightarrow> 's \<Rightarrow> GroupVersionKind \<Rightarrow> string \<Rightarrow> string \<Rightarrow> 's" where
  "deleteArtifact ap s gvk ns n = ap_Delete ap s (gvk, ns, n)"

definition policy_condition ::
  "set_condition \<Rightarrow> string \<Rightarrow> ConditionStatus \<Rightarrow> string \<Rightarrow> string \<Rightarrow> TokenPolicy \<Rightarrow> TokenPolicy" where
  "policy_condition setCond t st r m tp =
     tp\<lparr>tp_Status := (tp_Status tp)
       \<lparr>tpst_Conditions := setCondition setCond (tpst_Conditions (tp_Status tp)) t st r m (tp_Generation tp)\<rparr>\<rparr>"

definition set_GatewayRef :: "string \<Rightarrow> TokenPolicy \<Rightarrow> TokenPolicy" where
  "set_GatewayRef ref tp = tp\<lparr>tp_Status := (tp_Status tp)\<lparr>tpst_GatewayRef := ref\<rparr>\<rparr>"

text \<open>The result: the artifact store, the policy with its status, the metrics and the error.\<close>

definition reconcileGateway ::
  "set_condition \<Rightarrow> 's apply_client \<Rightarrow> set_owner \<Rightarrow> 's \<Rightarrow> TokenPolicy \<Rightarrow> Effective
     \<Rightarrow> 's \<times> TokenPolicy \<times> metric_event list \<times> api_error option" where
  "reconcileGateway setCond ap own s tp eff =
     (let gw = eff_Gateway eff;
          cond = policy_condition setCond ConditionGatewaySynced
      in case gateway_For gw tp (eff_Quota eff) of
           Inl err \<Rightarrow> (s, cond ConditionFalse ''InvalidConfig'' err tp, [], Some (OtherError err))
         | Inr desired \<Rightarrow>
             (let keep = map_option u_GVK desired;
                  s = foldl (\<lambda>s gvk. if Some gvk = keep then s
                                    else deleteArtifact ap s gvk (tp_Namespace tp) (ArtifactName (tp_Name tp)))
                        s [EnvoyBackendTrafficPolicyGVK, KuadrantTokenRateLimitPolicyGVK]
              in case desired of
                   None \<Rightarrow>
                     (s,
                      cond ConditionTrue ''Disabled'' ''no gateway integration configured'' (set_GatewayRef [] tp),
                      [GaugeSet GatewayArtifacts [tp_Namespace tp, ''None''] 0], None)
                 | Some u \<Rightarrow>
                     (case own tp u of
                        Inl err \<Rightarrow> (s, tp, [], Some err)
                      | Inr u \<Rightarrow>
                          (case ap_Patch ap s u of
                             (s, Some err) \<Rightarrow>
                               (s,
                                cond ConditionFalse
                                  (if IsNoMatchError err then ''GatewayCRDNotInstalled'' else ''ApplyFailed'')
                                  (Error err) tp,
                                [], Some err)
                           | (s, None) \<Rightarrow>
                               (s,
                                cond ConditionTrue ''Synced'' ''gateway artifact applied''
                                  (set_GatewayRef (gvk_Kind (u_GVK u) @ ''/'' @ u_Name u) tp),
                                [GaugeSet GatewayArtifacts
                                   [tp_Namespace tp,
                                    case gw of None \<Rightarrow> [] | Some g \<Rightarrow> gateway_string (gi_Type g)] 1],
                                None)))))"

section \<open>TokenPolicy\<close>

definition TokenPolicy_namespaceLabels :: "client \<Rightarrow> string \<Rightarrow> api_error + labels option" where
  "TokenPolicy_namespaceLabels c n =
     (case get_Namespace c n of
        Inl err \<Rightarrow> (case IgnoreNotFound err of None \<Rightarrow> Inr (Some []) | Some e \<Rightarrow> Inl e)
      | Inr ns \<Rightarrow> Inr (ns_Labels ns))"

definition TokenPolicy_updateStatus :: "(TokenPolicy \<Rightarrow> api_error option) \<Rightarrow> TokenPolicy \<Rightarrow> api_error option" where
  "TokenPolicy_updateStatus upd tp = upd tp"

lemma TokenPolicy_methods [simp]:
  "TokenPolicy_namespaceLabels = reconciler_namespaceLabels" "TokenPolicy_updateStatus upd = upd"
  by (simp_all add: fun_eq_iff TokenPolicy_namespaceLabels_def reconciler_namespaceLabels_def TokenPolicy_updateStatus_def)

definition TokenPolicy_Reconcile ::
  "selector_api \<Rightarrow> set_condition \<Rightarrow> client \<Rightarrow> 's apply_client \<Rightarrow> set_owner
     \<Rightarrow> (TokenPolicy \<Rightarrow> api_error option) \<Rightarrow> api_error + TokenPolicy \<Rightarrow> 's \<Rightarrow> 's \<times> TokenPolicy outcome" where
  "TokenPolicy_Reconcile asSel setCond c ap own upd got s =
     (case got of
        Inl err \<Rightarrow> (s, failed (IgnoreNotFound err))
      | Inr tp \<Rightarrow>
     (case list_ClusterTokenPolicies c of
        Inl err \<Rightarrow> (s, failed (Some err))
      | Inr ctpl \<Rightarrow>
     (case list_TokenPolicies c (tp_Namespace tp) of
        Inl err \<Rightarrow> (s, failed (Some err))
      | Inr tpl \<Rightarrow>
     (case TokenPolicy_namespaceLabels c (tp_Namespace tp) of
        Inl err \<Rightarrow> (s, failed (Some err))
      | Inr nsLabels \<Rightarrow>
          (case ResolveForPolicy asSel ctpl tpl nsLabels tp of
             Inl err \<Rightarrow>
               (let tp = policy_condition setCond ConditionValid ConditionFalse ''ResolveError'' err tp;
                    tp = policy_condition setCond ConditionReady ConditionFalse ''ResolveError'' err tp
                in (s, write_status (TokenPolicy_updateStatus upd) tp 0 []))
           | Inr eff \<Rightarrow>
               (let models = EffectiveModels eff;
                    tp = tp\<lparr>tp_Status := (tp_Status tp)
                           \<lparr>tpst_EffectiveModels := models,
                            tpst_EffectiveQuota := eff_Quota eff,
                            tpst_BoundCredentials := distinctAllowedCredentials models,
                            tpst_ObservedGeneration := tp_Generation tp\<rparr>\<rparr>;
                    tp = policy_condition setCond ConditionValid ConditionTrue ''Resolved''
                           ''policy resolved against the hierarchy'' tp;
                    tp = policy_condition setCond ConditionReady ConditionTrue ''Reconciled''
                           ''effective policy computed'' tp;
                    ev = [GaugeSet EffectiveModelsGauge [tp_Namespace tp, tp_Name tp] (countAllowed models)];
                    (s, tp, gev, gerr) = reconcileGateway setCond ap own s tp eff
                in (s, write_status (TokenPolicy_updateStatus upd) tp 0 (ev @ gev))))))))"

end
