(* ===== verification/Claim_Controller.thy ===== *)
theory Claim_Controller
  imports Controller_Common
begin

text \<open>
  The claim reconciler (\<open>internal/controller/modelclaim_controller.go\<close>): the representative
  identities of a claim, its verdict per requested model, and the status it writes. \<open>got\<close> is the
  answer to the read of the claim, \<open>upd\<close> the answer to the status update.
\<close>

record claimIdentity =
  id_podLabels :: "labels option"
  id_sa :: string

definition claimIdentities :: "WorkloadSelector option \<Rightarrow> claimIdentity list" where
  "claimIdentities sel =
     (case sel of
        None \<Rightarrow> [\<lparr>id_podLabels = None, id_sa = []\<rparr>]
      | Some s \<Rightarrow>
          (let podLabels = (case ws_PodSelector s of
                              None \<Rightarrow> None
                            | Some ps \<Rightarrow> if length (ls_MatchLabels ps) > 0 then Some (ls_MatchLabels ps) else None)
           in if length (ws_ServiceAccounts s) = 0 then [\<lparr>id_podLabels = podLabels, id_sa = []\<rparr>]
              else map (\<lambda>sa. \<lparr>id_podLabels = podLabels, id_sa = sa\<rparr>) (ws_ServiceAccounts s)))"

definition identity_input ::
  "ModelClaim \<Rightarrow> ClusterTokenPolicy list \<Rightarrow> TokenPolicy list \<Rightarrow> labels option \<Rightarrow> claimIdentity \<Rightarrow> ResolveInput" where
  "identity_input mcl cluster ns nsLabels ident =
     \<lparr>ri_ClusterPolicies = cluster, ri_NamespacePolicies = ns, ri_Namespace = mcl_Namespace mcl,
      ri_NamespaceLabels = nsLabels, ri_PodLabels = id_podLabels ident, ri_ServiceAccount = id_sa ident\<rparr>"

text \<open>The loop over the identities' decisions for one request: \<open>allowed\<close>, \<open>credential\<close>, \<open>source\<close>.\<close>

definition combineDecision ::
  "ModelRequest \<Rightarrow> bool \<times> string \<times> string \<Rightarrow> Effective \<Rightarrow> bool \<times> string \<times> string" where
  "combineDecision m st eff =
     (let (allowed, credential, source) = st;
          dec = Permit eff (mr_Provider m) (mr_Model m)
      in if \<not> md_Allowed dec
         then (False, credential, if source = [] then md_DeniedBy dec else source)
         else (allowed,
               (if credential = [] \<and> md_Credential dec \<noteq> [] then md_Credential dec else credential),
               source))"

definition resolveRequest :: "Effective list \<Rightarrow> ModelRequest \<Rightarrow> EffectiveModel" where
  "resolveRequest effs m =
     (let (allowed, credential, source) = foldl (combineDecision m) (True, [], []) effs;
          (action, credential) =
            (if \<not> allowed then (ActionDeny, [])
             else (ActionAllow,
                   (case mr_CredentialRef m of
                      Some cref \<Rightarrow> if credential = [] then cr_Name cref else credential
                    | None \<Rightarrow> credential)))
      in \<lparr>em_Provider = mr_Provider m, em_Model = mr_Model m, em_Action = action,
          em_Credential = credential, em_Source = source\<rparr>)"

definition resolveClaim ::
  "selector_api \<Rightarrow> ModelClaim \<Rightarrow> ClusterTokenPolicy list \<Rightarrow> TokenPolicy list \<Rightarrow> labels option
     \<Rightarrow> EffectiveModel list result" where
  "resolveClaim asSel mcl cluster ns nsLabels =
     (case mapR (\<lambda>ident. Resolve asSel (identity_input mcl cluster ns nsLabels ident))
             (claimIdentities (mcls_Selector (mcl_Spec mcl))) of
        Inl err \<Rightarrow> Inl err
      | Inr effs \<Rightarrow> Inr (map (resolveRequest effs) (mcls_Models (mcl_Spec mcl))))"

definition with_conditions :: "(Condition list \<Rightarrow> Condition list) \<Rightarrow> ModelClaim \<Rightarrow> ModelClaim" where
  "with_conditions f mcl =
     mcl\<lparr>mcl_Status := (mcl_Status mcl)\<lparr>mclst_Conditions := f (mclst_Conditions (mcl_Status mcl))\<rparr>\<rparr>"

definition ModelClaim_Reconcile ::
  "selector_api \<Rightarrow> set_condition \<Rightarrow> client \<Rightarrow> (ModelClaim \<Rightarrow> api_error option) \<Rightarrow> api_error + ModelClaim
     \<Rightarrow> ModelClaim outcome" where
  "ModelClaim_Reconcile asSel setCond c upd got =
     (case got of
        Inl err \<Rightarrow> failed (IgnoreNotFound err)
      | Inr mcl \<Rightarrow>
     (case list_ClusterTokenPolicies c of
        Inl err \<Rightarrow> failed (Some err)
      | Inr ctpl \<Rightarrow>
     (case list_TokenPolicies c (mcl_Namespace mcl) of
        Inl err \<Rightarrow> failed (Some err)
      | Inr tpl \<Rightarrow>
     (case reconciler_namespaceLabels c (mcl_Namespace mcl) of
        Inl err \<Rightarrow> failed (Some err)
      | Inr nsLabels \<Rightarrow>
          (let gen = mcl_Generation mcl;
               cond = (\<lambda>t st r m. with_conditions (\<lambda>cs. setCondition setCond cs t st r m gen))
           in case resolveClaim asSel mcl ctpl tpl nsLabels of
                Inl err \<Rightarrow>
                  (let mcl = cond ConditionValid ConditionFalse ''ResolveError'' err mcl;
                       mcl = cond ConditionReady ConditionFalse ''ResolveError'' err mcl
                   in write_status upd mcl 0 [])
              | Inr resolved \<Rightarrow>
                  (let denied = length (filter (\<lambda>m. em_Action m = ActionDeny) resolved);
                       mcl = mcl\<lparr>mcl_Status := (mcl_Status mcl)
                         \<lparr>mclst_ResolvedModels := resolved,
                          mclst_BoundCredentials := distinctAllowedCredentials resolved,
                          mclst_ObservedGeneration := mcl_Generation mcl\<rparr>\<rparr>;
                       mcl = (if denied > 0
                              then cond ConditionBound ConditionFalse ''ModelsDenied''
                                     ''one or more requested models are not permitted by the effective policy''
                                     (mcl\<lparr>mcl_Status := (mcl_Status mcl)\<lparr>mclst_Phase := ClaimDenied\<rparr>\<rparr>)
                              else cond ConditionBound ConditionTrue ''AllModelsPermitted''
                                     ''every requested model is permitted by the effective policy''
                                     (mcl\<lparr>mcl_Status := (mcl_Status mcl)\<lparr>mclst_Phase := ClaimBound\<rparr>\<rparr>));
                       mcl = cond ConditionValid ConditionTrue ''Resolved'' ''claim resolved against the hierarchy'' mcl;
                       mcl = cond ConditionReady ConditionTrue ''Reconciled'' ''claim binding computed'' mcl
                   in write_status upd mcl 0
                        [GaugeSet ModelClaimAllowedModels [mcl_Namespace mcl, mcl_Name mcl] (countAllowed resolved)]))))))"

section \<open>The verdict of a request\<close>

definition permits :: "ModelRequest \<Rightarrow> Effective \<Rightarrow> bool" where
  "permits m eff \<longleftrightarrow> md_Allowed (Permit eff (mr_Provider m) (mr_Model m))"

lemma fold_combineDecision:
  "foldl (combineDecision m) (a, c, s) effs =
     (a \<and> list_all (permits m) effs,
      first_nonempty (c # map (\<lambda>eff. md_Credential (Permit eff (mr_Provider m) (mr_Model m)))
        (filter (permits m) effs)),
      first_nonempty (s # map (\<lambda>eff. md_DeniedBy (Permit eff (mr_Provider m) (mr_Model m)))
        (filter (\<lambda>eff. \<not> permits m eff) effs)))"
  by (induction effs arbitrary: a c s) (auto simp: combineDecision_def permits_def Let_def)

lemma resolveRequest_eq:
  "resolveRequest effs m =
     \<lparr>em_Provider = mr_Provider m, em_Model = mr_Model m,
      em_Action = (if list_all (permits m) effs then ActionAllow else ActionDeny),
      em_Credential =
        (if list_all (permits m) effs
         then first_nonempty (map (\<lambda>eff. md_Credential (Permit eff (mr_Provider m) (mr_Model m))) effs @
                [case mr_CredentialRef m of None \<Rightarrow> [] | Some cref \<Rightarrow> cr_Name cref])
         else []),
      em_Source =
        first_nonempty (map (\<lambda>eff. md_DeniedBy (Permit eff (mr_Provider m) (mr_Model m)))
          (filter (\<lambda>eff. \<not> permits m eff) effs))\<rparr>"
proof (cases "list_all (permits m) effs")
  case True
  then have "filter (permits m) effs = effs" by (simp add: list_all_iff)
  with True show ?thesis
    by (auto simp: resolveRequest_def fold_combineDecision first_nonempty_append split: option.split)
qed (simp add: resolveRequest_def fold_combineDecision)

end
