(* ===== verification/Pod_Webhook.thy ===== *)
theory Pod_Webhook
  imports Webhook_Common
begin

text \<open>
  The pod webhooks (\<open>internal/webhook/v1alpha1/pod_webhook.go\<close>): the validator that gates a pod on the
  models declared for it, and the defaulter that injects the bound credentials. Log output is left
  out; the metrics a run updates are listed in order. \<open>ctx\<close> is the namespace of the admission
  request, when the context carries one.
\<close>

record admission_result =
  ar_Warnings :: "string list"
  ar_Err :: "api_error option"
  ar_Metrics :: "metric_event list"

definition admit :: admission_result where
  "admit = \<lparr>ar_Warnings = [], ar_Err = None, ar_Metrics = []\<rparr>"

section \<open>The validator\<close>

text \<open>The loop over the declared models; its state is the warnings, the violations and the metrics.\<close>

definition checkDeclared ::
  "string \<Rightarrow> Effective \<Rightarrow> string list \<times> string list \<times> metric_event list \<Rightarrow> declaredModel
     \<Rightarrow> string list \<times> string list \<times> metric_event list" where
  "checkDeclared namespace eff st dm =
     (let (warnings, violations, ev) = st;
          dec = Permit eff (dm_Provider dm) (dm_Model dm)
      in if md_Allowed dec then (warnings, violations, ev)
         else (let ev = ev @ [CounterInc ModelViolations
                        [namespace, dm_Provider dm, dm_Model dm, enforcement_string (eff_Enforcement eff)]]
               in if eff_Enforcement eff = EnforcementEnforce
                  then (warnings, violations @ [md_Reason dec], ev)
                  else (warnings @ [''token-control(audit): '' @ md_Reason dec], violations, ev)))"

definition pod_validate ::
  "selector_api \<Rightarrow> Config \<Rightarrow> client \<Rightarrow> string option \<Rightarrow> api_object \<Rightarrow> admission_result" where
  "pod_validate asSel cfg c ctx obj =
     (case obj of
        PodObject pod \<Rightarrow>
          (let namespace = namespaceFromCtx ctx (pod_Namespace pod) in
           if exempt cfg namespace then admit
           else (case declaredModelsForPod asSel c namespace pod of
                   Inl err \<Rightarrow> admit
                 | Inr declared \<Rightarrow>
                     if length declared = 0 then admit
                     else (case resolveEffective asSel c namespace (pod_Labels pod) (saOf pod) of
                             Inl err \<Rightarrow> admit
                           | Inr eff \<Rightarrow>
                               if \<not> eff_Governed eff \<or> eff_Enforcement eff = EnforcementDisabled
                               then admit
                               else (let (warnings, violations, ev) =
                                       foldl (checkDeclared namespace eff) ([], [], []) declared;
                                     mode = enforcement_string (eff_Enforcement eff)
                                 in if length violations > 0
                                    then \<lparr>ar_Warnings = warnings,
                                          ar_Err = Some (Forbidden ''pods'' (pod_Name pod)
                                            (''token-control: '' @ Join violations ''; '')),
                                          ar_Metrics = ev @
                                            [CounterInc AdmissionDecisions [''deny'', namespace, mode]]\<rparr>
                                    else \<lparr>ar_Warnings = warnings, ar_Err = None,
                                          ar_Metrics = ev @
                                            [CounterInc AdmissionDecisions [''allow'', namespace, mode]]\<rparr>))))
      | _ \<Rightarrow>
          \<lparr>ar_Warnings = [],
           ar_Err = Some (OtherError (''expected a Pod but got a '' @ object_type obj)),
           ar_Metrics = []\<rparr>)"

definition pod_ValidateCreate ::
  "selector_api \<Rightarrow> Config \<Rightarrow> client \<Rightarrow> string option \<Rightarrow> api_object \<Rightarrow> admission_result" where
  "pod_ValidateCreate asSel cfg c ctx obj = pod_validate asSel cfg c ctx obj"

definition pod_ValidateUpdate ::
  "selector_api \<Rightarrow> Config \<Rightarrow> client \<Rightarrow> string option \<Rightarrow> api_object \<Rightarrow> api_object \<Rightarrow> admission_result" where
  "pod_ValidateUpdate asSel cfg c ctx oldObj newObj = pod_validate asSel cfg c ctx newObj"

definition pod_ValidateDelete ::
  "selector_api \<Rightarrow> Config \<Rightarrow> client \<Rightarrow> string option \<Rightarrow> api_object \<Rightarrow> admission_result" where
  "pod_ValidateDelete asSel cfg c ctx obj = admit"

section \<open>Injection\<close>

definition hasEnv :: "EnvVar list \<Rightarrow> string \<Rightarrow> bool" where
  "hasEnv env n = list_ex (\<lambda>e. ev_Name e = n) env"

definition hasVolume :: "Volume list \<Rightarrow> string \<Rightarrow> bool" where
  "hasVolume vols n = list_ex (\<lambda>v. vol_Name v = n) vols"

definition hasMount :: "VolumeMount list \<Rightarrow> string \<Rightarrow> bool" where
  "hasMount mounts n = list_ex (\<lambda>m. vm_Name m = n) mounts"

text \<open>
  The closure \<open>apply\<close> of both injectors: \<open>has\<close> says that a container already carries the name,
  \<open>put\<close> appends the entry; the flag is \<open>changed\<close>.
\<close>

primrec apply_containers ::
  "(Container \<Rightarrow> bool) \<Rightarrow> (Container \<Rightarrow> Container) \<Rightarrow> bool \<Rightarrow> Container list \<Rightarrow> Container list \<times> bool" where
  "apply_containers has put changed [] = ([], changed)"
| "apply_containers has put changed (c # cs) =
     (if has c
      then (let (cs', changed) = apply_containers has put changed cs in (c # cs', changed))
      else (let (cs', changed) = apply_containers has put True cs in (put c # cs', changed)))"

definition putEnv :: "EnvVar \<Rightarrow> Container \<Rightarrow> Container" where
  "putEnv v c = c\<lparr>ct_Env := ct_Env c @ [v]\<rparr>"

definition putMount :: "VolumeMount \<Rightarrow> Container \<Rightarrow> Container" where
  "putMount m c = c\<lparr>ct_VolumeMounts := ct_VolumeMounts c @ [m]\<rparr>"

definition injectEnv :: "Pod \<Rightarrow> string \<Rightarrow> string \<Rightarrow> string \<Rightarrow> Pod \<times> bool" where
  "injectEnv pod envName secretName key =
     (let envVar = \<lparr>ev_Name = envName, ev_Value = [], ev_ValueFrom = Some (SecretKeyRef secretName key)\<rparr>;
          has = (\<lambda>c. hasEnv (ct_Env c) envName);
          (cs, changed) = apply_containers has (putEnv envVar) False (pod_Containers pod);
          (ics, changed) = apply_containers has (putEnv envVar) changed (pod_InitContainers pod)
      in (pod\<lparr>pod_Containers := cs, pod_InitContainers := ics\<rparr>, changed))"

definition injectVolume :: "Pod \<Rightarrow> ModelCredential \<Rightarrow> string \<Rightarrow> string \<Rightarrow> Pod \<times> bool" where
  "injectVolume pod mc secretName key =
     (let volName = ''tc-cred-'' @ mc_Name mc;
          mountPath = ''/var/run/secrets/tokencontrol/'' @ mcs_Provider (mc_Spec mc);
          mountPath = (case mcs_Injection (mc_Spec mc) of
                         Some ij \<Rightarrow> if ci_MountPath ij \<noteq> [] then ci_MountPath ij else mountPath
                       | None \<Rightarrow> mountPath);
          pod = (if \<not> hasVolume (pod_Volumes pod) volName
                 then pod\<lparr>pod_Volumes := pod_Volumes pod @
                        [\<lparr>vol_Name = volName, vol_Source = SecretVolume secretName [(key, ''apikey'')]\<rparr>]\<rparr>
                 else pod);
          mount = \<lparr>vm_Name = volName, vm_MountPath = mountPath, vm_ReadOnly = True\<rparr>;
          has = (\<lambda>c. hasMount (ct_VolumeMounts c) volName);
          (cs, changed) = apply_containers has (putMount mount) False (pod_Containers pod);
          (ics, changed) = apply_containers has (putMount mount) changed (pod_InitContainers pod)
      in (pod\<lparr>pod_Containers := cs, pod_InitContainers := ics\<rparr>, changed))"

definition injectCredential :: "Pod \<Rightarrow> ModelCredential \<Rightarrow> Pod \<times> bool" where
  "injectCredential pod mc =
     (let mode = (case mcs_Injection (mc_Spec mc) of
                    Some ij \<Rightarrow> if ci_Mode ij \<noteq> InjectUnset then ci_Mode ij else InjectEnv
                  | None \<Rightarrow> InjectEnv);
          secretName = ManagedSecretPrefix @ mc_Name mc;
          key = sks_Key (mcs_SecretRef (mc_Spec mc))
      in if mode = InjectNone then (pod, False)
         else if mode = InjectProjectedVolume then injectVolume pod mc secretName key
         else (let envName = defaultEnvName (mcs_Provider (mc_Spec mc));
                   envName = (case mcs_Injection (mc_Spec mc) of
                                Some ij \<Rightarrow> if ci_EnvName ij \<noteq> [] then ci_EnvName ij else envName
                              | None \<Rightarrow> envName)
               in injectEnv pod envName secretName key))"

section \<open>The defaulter\<close>

text \<open>The credential of one declared model, empty when it is denied or has none.\<close>

definition wantedCredential :: "Effective \<Rightarrow> declaredModel \<Rightarrow> string" where
  "wantedCredential eff dm =
     (let dec = Permit eff (dm_Provider dm) (dm_Model dm) in
      if \<not> md_Allowed dec then []
      else (let cred = md_Credential dec in if cred = [] then dm_Credential dm else cred))"

text \<open>The loop that collects \<open>credOrder\<close>; \<open>seen\<close> holds the entries of \<open>credOrder\<close>.\<close>

definition credentialOrder :: "Effective \<Rightarrow> declaredModel list \<Rightarrow> string list" where
  "credentialOrder eff declared =
     foldl (\<lambda>credOrder dm.
        let cred = wantedCredential eff dm in
        if cred \<noteq> [] \<and> \<not> List.member credOrder cred then credOrder @ [cred] else credOrder)
       [] declared"

text \<open>The loop over \<open>credOrder\<close>: the pod, the bound credentials, the metrics and the error returned.\<close>

primrec bindCredentials ::
  "selector_api \<Rightarrow> client \<Rightarrow> string \<Rightarrow> Pod \<Rightarrow> string list \<Rightarrow> metric_event list \<Rightarrow> string list
     \<Rightarrow> Pod \<times> string list \<times> metric_event list \<times> api_error option" where
  "bindCredentials asSel c namespace pod bound ev [] = (pod, bound, ev, None)"
| "bindCredentials asSel c namespace pod bound ev (credName # rest) =
     (case get_ModelCredential c credName of
        Inl err \<Rightarrow>
          if IsNotFound err then bindCredentials asSel c namespace pod bound ev rest
          else (pod, bound, ev, Some err)
      | Inr mc \<Rightarrow>
          (case credentialAuthorizes asSel c mc namespace of
             Inl err \<Rightarrow> (pod, bound, ev, Some err)
           | Inr authorized \<Rightarrow>
               if \<not> authorized then bindCredentials asSel c namespace pod bound ev rest
               else (let (pod, changed) = injectCredential pod mc in
                     if changed
                     then bindCredentials asSel c namespace pod (bound @ [credName])
                            (ev @ [CounterInc CredentialsInjected [namespace, credName]]) rest
                     else bindCredentials asSel c namespace pod bound ev rest)))"

record default_result =
  dr_Object :: api_object
  dr_Err :: "api_error option"
  dr_Metrics :: "metric_event list"

definition pod_Default ::
  "selector_api \<Rightarrow> Config \<Rightarrow> client \<Rightarrow> string option \<Rightarrow> api_object \<Rightarrow> default_result" where
  "pod_Default asSel cfg c ctx obj =
     (let unchanged = \<lparr>dr_Object = obj, dr_Err = None, dr_Metrics = []\<rparr> in
      case obj of
        PodObject pod \<Rightarrow>
          (let namespace = namespaceFromCtx ctx (pod_Namespace pod) in
           if exempt cfg namespace then unchanged
           else if map_get (pod_Annotations pod) AnnotationInjectionDisabled = ''true'' then unchanged
           else (case declaredModelsForPod asSel c namespace pod of
                   Inl err \<Rightarrow> unchanged
                 | Inr declared \<Rightarrow>
                     if length declared = 0 then unchanged
                     else (case resolveEffective asSel c namespace (pod_Labels pod) (saOf pod) of
                             Inl err \<Rightarrow> unchanged
                           | Inr eff \<Rightarrow>
                               if \<not> eff_Governed eff then unchanged
                               else (case bindCredentials asSel c namespace pod [] []
                                            (credentialOrder eff declared) of
                                       (pod, bound, ev, err) \<Rightarrow>
                                 if err \<noteq> None
                                 then \<lparr>dr_Object = PodObject pod, dr_Err = err, dr_Metrics = ev\<rparr>
                                 else (let pod = (if length bound > 0
                                              then setAnnotation pod AnnotationCredentialsBound (Join bound '','')
                                              else pod);
                                           pod = (if length (eff_Sources eff) > 0
                                              then setAnnotation pod AnnotationEffectivePolicy
                                                     (Join (eff_Sources eff) '','')
                                              else pod)
                                   in \<lparr>dr_Object = PodObject pod, dr_Err = None, dr_Metrics = ev\<rparr>)))))
      | _ \<Rightarrow>
          unchanged\<lparr>dr_Err := Some (OtherError (''expected a Pod but got a '' @ object_type obj))\<rparr>)"

end
