(* ===== verification/Pod_Facts.thy ===== *)
theory Pod_Facts
  imports Pod_Webhook
begin

text \<open>
  Lemmas on the pod webhooks: the interface of an injector that adds one named entry to every
  container (provided by the environment and the volume-mount injectors), pods that only grow,
  injections that have nothing left to do, and the two loops of the handlers in closed form.
\<close>

section \<open>Growing containers and pods\<close>

text \<open>New entries are appended, under names that were not there before.\<close>

definition fresh_append :: "('a \<Rightarrow> string) \<Rightarrow> 'a list \<Rightarrow> 'a list \<Rightarrow> bool" where
  "fresh_append name xs ys \<longleftrightarrow>
     (\<exists>new. ys = xs @ new \<and> distinct (map name new) \<and> name ` set new \<inter> name ` set xs = {})"

lemma fresh_append_refl [simp]: "fresh_append name xs xs"
  by (simp add: fresh_append_def)

lemma fresh_append_trans:
  "fresh_append name xs ys \<Longrightarrow> fresh_append name ys zs \<Longrightarrow> fresh_append name xs zs"
  unfolding fresh_append_def by (elim exE conjE, rule_tac x = "new @ newa" in exI) auto

lemma fresh_append_one: "name x \<notin> name ` set xs \<Longrightarrow> fresh_append name xs (xs @ [x])"
  unfolding fresh_append_def by (intro exI [of _ "[x]"]) auto

lemma fresh_append_mono: "fresh_append name xs ys \<Longrightarrow> set xs \<subseteq> set ys"
  by (auto simp: fresh_append_def)

lemma fresh_append_distinct:
  "fresh_append name xs ys \<Longrightarrow> distinct (map name xs) \<Longrightarrow> distinct (map name ys)"
  by (clarsimp simp: fresh_append_def) blast

definition extends :: "Container \<Rightarrow> Container \<Rightarrow> bool" where
  "extends c d \<longleftrightarrow> ct_Name d = ct_Name c \<and>
     fresh_append ev_Name (ct_Env c) (ct_Env d) \<and>
     fresh_append vm_Name (ct_VolumeMounts c) (ct_VolumeMounts d)"

lemma extends_refl [simp]: "extends c c"
  by (simp add: extends_def)

lemma extends_trans: "extends a b \<Longrightarrow> extends b c \<Longrightarrow> extends a c"
  unfolding extends_def using fresh_append_trans by metis

definition pod_extends :: "Pod \<Rightarrow> Pod \<Rightarrow> bool" where
  "pod_extends p q \<longleftrightarrow>
     pod_Namespace q = pod_Namespace p \<and> pod_Name q = pod_Name p \<and>
     pod_Labels q = pod_Labels p \<and> pod_ServiceAccountName q = pod_ServiceAccountName p \<and>
     list_all2 extends (pod_Containers p) (pod_Containers q) \<and>
     list_all2 extends (pod_InitContainers p) (pod_InitContainers q) \<and>
     fresh_append vol_Name (pod_Volumes p) (pod_Volumes q)"

lemma list_all2_extends_refl [simp]: "list_all2 extends cs cs"
  by (simp add: list_all2_refl)

lemma pod_extends_refl [simp]: "pod_extends p p"
  by (simp add: pod_extends_def)

lemma extends_list_trans:
  "list_all2 extends as bs \<Longrightarrow> list_all2 extends bs cs \<Longrightarrow> list_all2 extends as cs"
  by (rule list_all2_trans [OF extends_trans])

lemma pod_extends_trans: "pod_extends p q \<Longrightarrow> pod_extends q r \<Longrightarrow> pod_extends p r"
  unfolding pod_extends_def
  by (elim conjE, intro conjI)
    (erule (1) extends_list_trans | erule (1) fresh_append_trans | simp)+

lemma pod_extends_annotated [simp]: "pod_extends p (setAnnotation q k v) = pod_extends p q"
  by (simp add: pod_extends_def setAnnotation_def)

lemma hasEnv_iff: "hasEnv env n \<longleftrightarrow> n \<in> ev_Name ` set env"
  and hasVolume_iff: "hasVolume vols n \<longleftrightarrow> n \<in> vol_Name ` set vols"
  and hasMount_iff: "hasMount ms n \<longleftrightarrow> n \<in> vm_Name ` set ms"
  by (auto simp: hasEnv_def hasVolume_def hasMount_def list_ex_iff)

section \<open>The interface of a container injector\<close>

text \<open>
  \<open>injectEnv\<close> and \<open>injectVolume\<close> run the same loop over an injector of one named entry. They rely
  on three laws: adding the entry makes the test true, adds nothing but a fresh entry, and the
  test stays true when the container grows.
\<close>

locale container_injector =
  fixes has :: "Container \<Rightarrow> bool" and put :: "Container \<Rightarrow> Container"
  assumes has_put: "has (put c)"
    and put_extends: "\<not> has c \<Longrightarrow> extends c (put c)"
    and has_mono: "has c \<Longrightarrow> extends c d \<Longrightarrow> has d"
begin

lemma apply_eq:
  "apply_containers has put ch cs =
     (map (\<lambda>c. if has c then c else put c) cs, ch \<or> (\<exists>c \<in> set cs. \<not> has c))"
  by (induction cs arbitrary: ch) auto

lemma apply_extends: "list_all2 extends cs (fst (apply_containers has put ch cs))"
  by (auto simp: apply_eq list_all2_map2 intro!: list_all2I put_extends simp: set_zip)

lemma apply_has: "\<forall>c \<in> set (fst (apply_containers has put ch cs)). has c"
  by (auto simp: apply_eq has_put)

lemma apply_done: "\<forall>c \<in> set cs. has c \<Longrightarrow> apply_containers has put ch cs = (cs, ch)"
  by (simp add: apply_eq map_idI)

lemma all_has_mono: "list_all2 extends cs ds \<Longrightarrow> \<forall>c \<in> set cs. has c \<Longrightarrow> \<forall>d \<in> set ds. has d"
  by (metis has_mono list_all2_conv_all_nth in_set_conv_nth)

lemma apply_changed_iff:
  "snd (apply_containers has put ch cs) \<longleftrightarrow> ch \<or> (\<exists>c \<in> set cs. \<not> has c)"
  by (simp add: apply_eq)

text \<open>What was not there before is the one entry.\<close>

lemma apply_member:
  "d \<in> set (fst (apply_containers has put ch cs)) \<Longrightarrow> \<exists>c \<in> set cs. d = c \<or> d = put c"
  by (auto simp: apply_eq)

end

interpretation env_injector: container_injector "\<lambda>c. hasEnv (ct_Env c) (ev_Name v)" "putEnv v" for v
  by unfold_locales
     (auto simp: hasEnv_iff putEnv_def extends_def intro: fresh_append_one dest: fresh_append_mono)

interpretation mount_injector:
  container_injector "\<lambda>c. hasMount (ct_VolumeMounts c) (vm_Name m)" "putMount m" for m
  by unfold_locales
     (auto simp: hasMount_iff putMount_def extends_def intro: fresh_append_one dest: fresh_append_mono)

section \<open>Injecting one credential\<close>

definition injection_mode :: "ModelCredential \<Rightarrow> InjectionMode" where
  "injection_mode mc =
     (case mcs_Injection (mc_Spec mc) of
        Some ij \<Rightarrow> if ci_Mode ij \<noteq> InjectUnset then ci_Mode ij else InjectEnv
      | None \<Rightarrow> InjectEnv)"

definition credential_env :: "ModelCredential \<Rightarrow> EnvVar" where
  "credential_env mc =
     \<lparr>ev_Name =
        (case mcs_Injection (mc_Spec mc) of
           Some ij \<Rightarrow> if ci_EnvName ij \<noteq> [] then ci_EnvName ij else defaultEnvName (mcs_Provider (mc_Spec mc))
         | None \<Rightarrow> defaultEnvName (mcs_Provider (mc_Spec mc))),
      ev_Value = [],
      ev_ValueFrom =
        Some (SecretKeyRef (ManagedSecretPrefix @ mc_Name mc) (sks_Key (mcs_SecretRef (mc_Spec mc))))\<rparr>"

definition credential_volume :: "ModelCredential \<Rightarrow> Volume" where
  "credential_volume mc =
     \<lparr>vol_Name = ''tc-cred-'' @ mc_Name mc,
      vol_Source =
        SecretVolume (ManagedSecretPrefix @ mc_Name mc) [(sks_Key (mcs_SecretRef (mc_Spec mc)), ''apikey'')]\<rparr>"

definition credential_mount :: "ModelCredential \<Rightarrow> VolumeMount" where
  "credential_mount mc =
     \<lparr>vm_Name = ''tc-cred-'' @ mc_Name mc,
      vm_MountPath =
        (case mcs_Injection (mc_Spec mc) of
           Some ij \<Rightarrow> if ci_MountPath ij \<noteq> [] then ci_MountPath ij
                     else ''/var/run/secrets/tokencontrol/'' @ mcs_Provider (mc_Spec mc)
         | None \<Rightarrow> ''/var/run/secrets/tokencontrol/'' @ mcs_Provider (mc_Spec mc)),
      vm_ReadOnly = True\<rparr>"

definition lacks_env :: "EnvVar \<Rightarrow> Container \<Rightarrow> bool" where
  "lacks_env v c \<longleftrightarrow> \<not> hasEnv (ct_Env c) (ev_Name v)"

definition lacks_mount :: "VolumeMount \<Rightarrow> Container \<Rightarrow> bool" where
  "lacks_mount m c \<longleftrightarrow> \<not> hasMount (ct_VolumeMounts c) (vm_Name m)"

definition all_containers :: "Pod \<Rightarrow> Container list" where
  "all_containers pod = pod_Containers pod @ pod_InitContainers pod"

definition addVolume :: "Volume \<Rightarrow> Pod \<Rightarrow> Pod" where
  "addVolume v pod =
     (if hasVolume (pod_Volumes pod) (vol_Name v) then pod
      else pod\<lparr>pod_Volumes := pod_Volumes pod @ [v]\<rparr>)"

definition map_containers :: "(Container \<Rightarrow> Container) \<Rightarrow> Pod \<Rightarrow> Pod" where
  "map_containers f pod =
     pod\<lparr>pod_Containers := map f (pod_Containers pod), pod_InitContainers := map f (pod_InitContainers pod)\<rparr>"

lemma env_apply:
  "ev_Name v = n \<Longrightarrow> apply_containers (\<lambda>c. hasEnv (ct_Env c) n) (putEnv v) ch cs =
     (map (\<lambda>c. if lacks_env v c then putEnv v c else c) cs, ch \<or> list_ex (lacks_env v) cs)"
  using env_injector.apply_eq [of v ch cs] by (auto simp: lacks_env_def list_ex_iff)

lemma mount_apply:
  "vm_Name m = n \<Longrightarrow> apply_containers (\<lambda>c. hasMount (ct_VolumeMounts c) n) (putMount m) ch cs =
     (map (\<lambda>c. if lacks_mount m c then putMount m c else c) cs, ch \<or> list_ex (lacks_mount m) cs)"
  using mount_injector.apply_eq [of m ch cs] by (auto simp: lacks_mount_def list_ex_iff)

lemma map_containers_fields [simp]:
  "pod_Containers (map_containers f pod) = map f (pod_Containers pod)"
  "pod_InitContainers (map_containers f pod) = map f (pod_InitContainers pod)"
  "pod_Volumes (map_containers f pod) = pod_Volumes pod"
  "pod_Annotations (map_containers f pod) = pod_Annotations pod"
  "pod_Containers (addVolume v pod) = pod_Containers pod"
  "pod_InitContainers (addVolume v pod) = pod_InitContainers pod"
  "pod_Annotations (addVolume v pod) = pod_Annotations pod"
  by (simp_all add: map_containers_def addVolume_def)

text \<open>The three ways of delivering a credential.\<close>

lemma injectVolume_gen:
  assumes "m = \<lparr>vm_Name = ''tc-cred-'' @ mc_Name mc,
      vm_MountPath =
        (case mcs_Injection (mc_Spec mc) of
           Some ij \<Rightarrow> if ci_MountPath ij \<noteq> [] then ci_MountPath ij
                     else ''/var/run/secrets/tokencontrol/'' @ mcs_Provider (mc_Spec mc)
         | None \<Rightarrow> ''/var/run/secrets/tokencontrol/'' @ mcs_Provider (mc_Spec mc)),
      vm_ReadOnly = True\<rparr>"
    and "v = \<lparr>vol_Name = ''tc-cred-'' @ mc_Name mc, vol_Source = SecretVolume sec [(key, ''apikey'')]\<rparr>"
  shows "injectVolume pod mc sec key =
    (map_containers (\<lambda>c. if lacks_mount m c then putMount m c else c) (addVolume v pod),
     list_ex (lacks_mount m) (all_containers pod))"
proof -
  have "vm_Name m = ''tc-cred-'' @ mc_Name mc" "vol_Name v = ''tc-cred-'' @ mc_Name mc"
    by (simp_all add: assms)
  then show ?thesis
    unfolding injectVolume_def Let_def assms [symmetric]
    by (simp add: mount_apply map_containers_def addVolume_def all_containers_def)
qed

lemmas injectVolume_eq = injectVolume_gen [OF credential_mount_def credential_volume_def]

lemma injectEnv_eq:
  assumes "v = \<lparr>ev_Name = n, ev_Value = [], ev_ValueFrom = Some (SecretKeyRef sec key)\<rparr>"
  shows "injectEnv pod n sec key =
    (map_containers (\<lambda>c. if lacks_env v c then putEnv v c else c) pod,
     list_ex (lacks_env v) (all_containers pod))"
proof -
  have "ev_Name v = n" by (simp add: assms)
  then show ?thesis
    unfolding injectEnv_def assms [symmetric] Let_def
    by (simp add: env_apply map_containers_def all_containers_def)
qed

lemma injectCredential_eq:
  "injectCredential pod mc =
     (if injection_mode mc = InjectNone then (pod, False)
      else if injection_mode mc = InjectProjectedVolume
      then (map_containers
              (\<lambda>c. if lacks_mount (credential_mount mc) c then putMount (credential_mount mc) c else c)
              (addVolume (credential_volume mc) pod),
            list_ex (lacks_mount (credential_mount mc)) (all_containers pod))
      else (map_containers (\<lambda>c. if lacks_env (credential_env mc) c then putEnv (credential_env mc) c else c) pod,
            list_ex (lacks_env (credential_env mc)) (all_containers pod)))"
  unfolding injectCredential_def injection_mode_def [symmetric] Let_def injectVolume_eq
    injectEnv_eq [OF credential_env_def] ..

text \<open>An injection only extends the pod, and leaves nothing to inject.\<close>

lemma injectCredential_extends: "pod_extends pod (fst (injectCredential pod mc))"
proof -
  have env: "list_all2 extends cs (map (\<lambda>c. if lacks_env v c then putEnv v c else c) cs)" for v cs
    using env_injector.apply_extends [of cs v False] by (simp add: env_apply)
  have mount: "list_all2 extends cs (map (\<lambda>c. if lacks_mount m c then putMount m c else c) cs)" for m cs
    using mount_injector.apply_extends [of cs m False] by (simp add: mount_apply)
  have "fresh_append vol_Name (pod_Volumes pod) (pod_Volumes (addVolume v pod))" for v
    by (auto simp: addVolume_def hasVolume_iff intro: fresh_append_one)
  with env mount show ?thesis
    by (simp add: injectCredential_eq pod_extends_def map_containers_def addVolume_def)
qed

text \<open>Nothing to inject: the pod carries the credential, or its mode is \<open>None\<close>.\<close>

definition injected :: "Pod \<Rightarrow> ModelCredential \<Rightarrow> bool" where
  "injected pod mc \<longleftrightarrow>
     (if injection_mode mc = InjectNone then True
      else if injection_mode mc = InjectProjectedVolume
      then hasVolume (pod_Volumes pod) (vol_Name (credential_volume mc)) \<and>
        list_all (\<lambda>c. hasMount (ct_VolumeMounts c) (vm_Name (credential_mount mc))) (all_containers pod)
      else list_all (\<lambda>c. hasEnv (ct_Env c) (ev_Name (credential_env mc))) (all_containers pod))"

lemma injected_noop: "injected pod mc \<Longrightarrow> injectCredential pod mc = (pod, False)"
  by (auto simp: injected_def injectCredential_eq lacks_env_def lacks_mount_def all_containers_def
      map_containers_def addVolume_def list_all_iff list_ex_iff map_idI)

lemma has_after:
  "hasEnv (ct_Env (if lacks_env v c then putEnv v c else c)) (ev_Name v)"
  "hasMount (ct_VolumeMounts (if lacks_mount m c then putMount m c else c)) (vm_Name m)"
  "hasVolume (pod_Volumes (addVolume w pod)) (vol_Name w)"
  by (simp_all add: lacks_env_def lacks_mount_def addVolume_def hasVolume_iff
      env_injector.has_put mount_injector.has_put)

lemma injected_after: "injected (fst (injectCredential pod mc)) mc"
  by (simp add: injected_def injectCredential_eq all_containers_def list.pred_map comp_def has_after
      list.pred_True)

lemma list_all_mono_rel:
  "list_all2 R xs ys \<Longrightarrow> list_all P xs \<Longrightarrow> (\<And>x y. P x \<Longrightarrow> R x y \<Longrightarrow> P y) \<Longrightarrow> list_all P ys"
  by (induction rule: list_all2_induct) auto

lemma injected_mono:
  assumes "injected pod mc" "pod_extends pod pod'"
  shows "injected pod' mc"
proof -
  have cs: "list_all2 extends (all_containers pod) (all_containers pod')"
    and vs: "fresh_append vol_Name (pod_Volumes pod) (pod_Volumes pod')"
    using assms(2) by (simp_all add: pod_extends_def all_containers_def list_all2_appendI)
  have "hasVolume (pod_Volumes pod) n \<Longrightarrow> hasVolume (pod_Volumes pod') n" for n
    using fresh_append_mono [OF vs] by (auto simp: hasVolume_iff)
  moreover note list_all_mono_rel [OF cs _ env_injector.has_mono [of _ "credential_env mc"]]
    list_all_mono_rel [OF cs _ mount_injector.has_mono [of _ "credential_mount mc"]]
  ultimately show ?thesis using assms(1) by (simp add: injected_def split: if_splits)
qed

section \<open>The loop of the defaulter\<close>

text \<open>A credential that exists and that the namespace may bind; a failed read ends the loop.\<close>

definition lookup_credential ::
  "selector_api \<Rightarrow> client \<Rightarrow> string \<Rightarrow> string \<Rightarrow> api_error + ModelCredential option" where
  "lookup_credential asSel c namespace cred =
     (case get_ModelCredential c cred of
        Inl err \<Rightarrow> if IsNotFound err then Inr None else Inl err
      | Inr mc \<Rightarrow>
          (case credentialAuthorizes asSel c mc namespace of
             Inl err \<Rightarrow> Inl err
           | Inr b \<Rightarrow> Inr (if b then Some mc else None)))"

definition usable :: "selector_api \<Rightarrow> client \<Rightarrow> string \<Rightarrow> string \<Rightarrow> ModelCredential \<Rightarrow> bool" where
  "usable asSel c namespace cred mc \<longleftrightarrow>
     get_ModelCredential c cred = Inr mc \<and> credentialAuthorizes asSel c mc namespace = Inr True"

lemma usable_lookup: "usable asSel c ns cred mc \<longleftrightarrow> lookup_credential asSel c ns cred = Inr (Some mc)"
  by (auto simp: usable_def lookup_credential_def split: sum.split)

definition pod_env :: "Pod \<Rightarrow> EnvVar set" where
  "pod_env pod = (\<Union>c \<in> set (all_containers pod). set (ct_Env c))"

definition pod_mounts :: "Pod \<Rightarrow> VolumeMount set" where
  "pod_mounts pod = (\<Union>c \<in> set (all_containers pod). set (ct_VolumeMounts c))"

lemma inject_entries:
  "pod_env (fst (injectCredential pod mc)) \<subseteq> insert (credential_env mc) (pod_env pod)"
  "pod_mounts (fst (injectCredential pod mc)) \<subseteq> insert (credential_mount mc) (pod_mounts pod)"
  "set (pod_Volumes (fst (injectCredential pod mc))) \<subseteq> insert (credential_volume mc) (set (pod_Volumes pod))"
  "pod_Annotations (fst (injectCredential pod mc)) = pod_Annotations pod"
  by (auto simp: injectCredential_eq pod_env_def pod_mounts_def all_containers_def putEnv_def
      putMount_def addVolume_def split: if_splits)

lemma bind_Cons:
  "bindCredentials asSel c ns pod bound ev (cred # rest) =
     (case lookup_credential asSel c ns cred of
        Inl err \<Rightarrow> (pod, bound, ev, Some err)
      | Inr None \<Rightarrow> bindCredentials asSel c ns pod bound ev rest
      | Inr (Some mc) \<Rightarrow>
          (let changed = snd (injectCredential pod mc) in
           bindCredentials asSel c ns (fst (injectCredential pod mc))
             (if changed then bound @ [cred] else bound)
             (if changed then ev @ [CounterInc CredentialsInjected [ns, cred]] else ev) rest))"
  by (simp add: lookup_credential_def split_def Let_def split: sum.split)

declare bindCredentials.simps(2) [simp del]

lemma bind_extends:
  assumes "bindCredentials asSel c ns pod bound ev creds = (pod', bound', ev', err)"
  shows "pod_extends pod pod' \<and> pod_Annotations pod' = pod_Annotations pod"
  using assms
proof (induction creds arbitrary: pod bound ev)
  case (Cons cred rest)
  show ?case
  proof (cases "lookup_credential asSel c ns cred")
    case (Inr mco)
    show ?thesis
    proof (cases mco)
      case None
      with Inr Cons show ?thesis by (simp add: bind_Cons)
    next
      case (Some mc)
      with Inr Cons.prems obtain b e where
        "bindCredentials asSel c ns (fst (injectCredential pod mc)) b e rest = (pod', bound', ev', err)"
        by (simp add: bind_Cons Let_def)
      from Cons.IH [OF this] show ?thesis
        using pod_extends_trans [OF injectCredential_extends] inject_entries(4) [of pod mc]
        by (metis (no_types))
    qed
  qed (use Cons.prems in \<open>simp add: bind_Cons\<close>)
qed simp

text \<open>What the loop adds comes from usable credentials of the list.\<close>

definition granted_by :: "selector_api \<Rightarrow> client \<Rightarrow> string \<Rightarrow> string list \<Rightarrow> ModelCredential set" where
  "granted_by asSel c ns creds = {mc. \<exists>cred \<in> set creds. usable asSel c ns cred mc}"

lemma bind_entries:
  assumes "bindCredentials asSel c ns pod bound ev creds = (pod', bound', ev', err)"
  shows "pod_env pod' \<subseteq> pod_env pod \<union> credential_env ` granted_by asSel c ns creds \<and>
    pod_mounts pod' \<subseteq> pod_mounts pod \<union> credential_mount ` granted_by asSel c ns creds \<and>
    set (pod_Volumes pod') \<subseteq> set (pod_Volumes pod) \<union> credential_volume ` granted_by asSel c ns creds"
  using assms
proof (induction creds arbitrary: pod bound ev)
  case (Cons cred rest)
  have mono: "granted_by asSel c ns rest \<subseteq> granted_by asSel c ns (cred # rest)"
    by (auto simp: granted_by_def)
  show ?case
  proof (cases "lookup_credential asSel c ns cred")
    case (Inr mco)
    show ?thesis
    proof (cases mco)
      case None
      with Inr Cons.prems Cons.IH mono show ?thesis by (simp add: bind_Cons) blast
    next
      case (Some mc)
      with Inr have "mc \<in> granted_by asSel c ns (cred # rest)"
        by (auto simp: granted_by_def usable_lookup)
      moreover obtain b e where
        "bindCredentials asSel c ns (fst (injectCredential pod mc)) b e rest = (pod', bound', ev', err)"
        using Cons.prems Inr Some by (simp add: bind_Cons Let_def)
      note Cons.IH [OF this] inject_entries [of pod mc]
      ultimately show ?thesis using mono by blast
    qed
  qed (use Cons.prems in \<open>auto simp: bind_Cons\<close>)
qed simp

text \<open>Without an error every usable credential has been delivered.\<close>

lemma bind_injected:
  assumes "bindCredentials asSel c ns pod bound ev creds = (pod', bound', ev', None)"
    and "cred \<in> set creds" "usable asSel c ns cred mc"
  shows "injected pod' mc"
  using assms
proof (induction creds arbitrary: pod bound ev)
  case (Cons k rest)
  show ?case
  proof (cases "lookup_credential asSel c ns k")
    case (Inr mco)
    show ?thesis
    proof (cases mco)
      case None
      with Inr Cons show ?thesis by (auto simp: bind_Cons usable_lookup)
    next
      case (Some mc')
      with Inr Cons.prems(1) obtain b e where
        r: "bindCredentials asSel c ns (fst (injectCredential pod mc')) b e rest = (pod', bound', ev', None)"
        by (simp add: bind_Cons Let_def)
      from bind_extends [OF r] have "injected pod' mc'"
        using injected_after injected_mono by blast
      with Cons.IH [OF r] Cons.prems(2,3) Inr Some show ?thesis by (auto simp: usable_lookup)
    qed
  qed (use Cons.prems in \<open>simp add: bind_Cons\<close>)
qed simp

text \<open>A second run finds nothing to do, and ends as the first one did.\<close>

lemma bind_again:
  assumes "bindCredentials asSel c ns pod bound ev creds = (pod', bound', ev', err)"
    and "pod_extends pod' q"
  shows "bindCredentials asSel c ns q b e creds = (q, b, e, err)"
  using assms
proof (induction creds arbitrary: pod bound ev)
  case (Cons k rest)
  show ?case
  proof (cases "lookup_credential asSel c ns k")
    case (Inr mco)
    show ?thesis
    proof (cases mco)
      case None
      with Inr Cons show ?thesis by (simp add: bind_Cons)
    next
      case (Some mc)
      with Inr Cons.prems(1) obtain b' e' where
        r: "bindCredentials asSel c ns (fst (injectCredential pod mc)) b' e' rest = (pod', bound', ev', err)"
        by (simp add: bind_Cons Let_def)
      have "injected q mc"
        using injected_after injected_mono bind_extends [OF r] Cons.prems(2) by blast
      with Inr Some Cons.IH [OF r Cons.prems(2)] show ?thesis
        by (simp add: bind_Cons injected_noop)
    qed
  qed (use Cons.prems in \<open>auto simp: bind_Cons\<close>)
qed simp

section \<open>The handlers in closed form\<close>

definition gate ::
  "selector_api \<Rightarrow> Config \<Rightarrow> client \<Rightarrow> string option \<Rightarrow> Pod \<Rightarrow> (string \<times> declaredModel list \<times> Effective) option" where
  "gate asSel cfg c ctx pod =
     (let ns = namespaceFromCtx ctx (pod_Namespace pod) in
      if exempt cfg ns then None
      else (case declaredModelsForPod asSel c ns pod of
              Inl _ \<Rightarrow> None
            | Inr ds \<Rightarrow>
                if ds = [] then None
                else (case resolveEffective asSel c ns (pod_Labels pod) (saOf pod) of
                        Inl _ \<Rightarrow> None
                      | Inr eff \<Rightarrow> if eff_Governed eff then Some (ns, ds, eff) else None)))"

lemma gate_Some_iff:
  "gate asSel cfg c ctx pod = Some (ns, ds, eff) \<longleftrightarrow>
     ns = namespaceFromCtx ctx (pod_Namespace pod) \<and> \<not> exempt cfg ns \<and>
     declaredModelsForPod asSel c ns pod = Inr ds \<and> ds \<noteq> [] \<and>
     resolveEffective asSel c ns (pod_Labels pod) (saOf pod) = Inr eff \<and> eff_Governed eff"
  by (auto simp: gate_def Let_def split: sum.splits)

definition denied :: "Effective \<Rightarrow> declaredModel \<Rightarrow> bool" where
  "denied eff dm \<longleftrightarrow> \<not> md_Allowed (Permit eff (dm_Provider dm) (dm_Model dm))"

definition reason :: "Effective \<Rightarrow> declaredModel \<Rightarrow> string" where
  "reason eff dm = md_Reason (Permit eff (dm_Provider dm) (dm_Model dm))"

lemma foldl_checkDeclared:
  "foldl (checkDeclared ns eff) (w, v, ev) ds =
     (w @ (if eff_Enforcement eff = EnforcementEnforce then []
           else map (\<lambda>dm. ''token-control(audit): '' @ reason eff dm) (filter (denied eff) ds)),
      v @ (if eff_Enforcement eff = EnforcementEnforce then map (reason eff) (filter (denied eff) ds) else []),
      ev @ map (\<lambda>dm. CounterInc ModelViolations
                  [ns, dm_Provider dm, dm_Model dm, enforcement_string (eff_Enforcement eff)])
             (filter (denied eff) ds))"
  by (induction ds arbitrary: w v ev)
    (auto simp: checkDeclared_def denied_def reason_def Let_def)

lemma pod_validate_eq:
  "pod_validate asSel cfg c ctx (PodObject pod) =
     (case gate asSel cfg c ctx pod of
        None \<Rightarrow> admit
      | Some (ns, ds, eff) \<Rightarrow>
          if eff_Enforcement eff = EnforcementDisabled then admit
          else (let bad = filter (denied eff) ds; enf = (eff_Enforcement eff = EnforcementEnforce);
                    mode = enforcement_string (eff_Enforcement eff)
                in \<lparr>ar_Warnings =
                      (if enf then [] else map (\<lambda>dm. ''token-control(audit): '' @ reason eff dm) bad),
                    ar_Err =
                      (if enf \<and> bad \<noteq> []
                       then Some (Forbidden ''pods'' (pod_Name pod)
                              (''token-control: '' @ Join (map (reason eff) bad) ''; ''))
                       else None),
                    ar_Metrics =
                      map (\<lambda>dm. CounterInc ModelViolations [ns, dm_Provider dm, dm_Model dm, mode]) bad @
                      [CounterInc AdmissionDecisions [if enf \<and> bad \<noteq> [] then ''deny'' else ''allow'', ns, mode]]\<rparr>))"
  by (auto simp: pod_validate_def gate_def foldl_checkDeclared Let_def filter_empty_conv
      split: sum.split)

lemma credentialOrder_fold:
  "credentialOrder eff ds =
     foldl set_add [] (filter (\<lambda>cr. cr \<noteq> []) (map (wantedCredential eff) ds))"
proof -
  have "foldl (\<lambda>cs dm. let cred = wantedCredential eff dm in
        if cred \<noteq> [] \<and> \<not> List.member cs cred then cs @ [cred] else cs) cs0 ds =
      foldl set_add cs0 (filter (\<lambda>cr. cr \<noteq> []) (map (wantedCredential eff) ds))" for cs0
    by (induction ds arbitrary: cs0) (auto simp: set_add_def Let_def)
  then show ?thesis by (simp add: credentialOrder_def)
qed

lemma set_credentialOrder:
  "set (credentialOrder eff ds) = wantedCredential eff ` set ds - {[]}"
  by (auto simp: credentialOrder_fold)

lemma distinct_credentialOrder: "distinct (credentialOrder eff ds)"
  by (simp add: credentialOrder_fold)

text \<open>The annotations written at the end of a run without error.\<close>

definition annotate :: "Effective \<Rightarrow> string list \<Rightarrow> Pod \<Rightarrow> Pod" where
  "annotate eff bound q =
     (let q = (if bound \<noteq> [] then setAnnotation q AnnotationCredentialsBound (Join bound '','') else q)
      in if eff_Sources eff \<noteq> []
         then setAnnotation q AnnotationEffectivePolicy (Join (eff_Sources eff) '','') else q)"

lemma pod_Default_eq:
  "pod_Default asSel cfg c ctx (PodObject pod) =
     (case (if map_get (pod_Annotations pod) AnnotationInjectionDisabled = ''true'' then None
            else gate asSel cfg c ctx pod) of
        None \<Rightarrow> \<lparr>dr_Object = PodObject pod, dr_Err = None, dr_Metrics = []\<rparr>
      | Some (ns, ds, eff) \<Rightarrow>
          (case bindCredentials asSel c ns pod [] [] (credentialOrder eff ds) of
             (q, bound, ev, err) \<Rightarrow>
               \<lparr>dr_Object = PodObject (if err = None then annotate eff bound q else q),
                dr_Err = err, dr_Metrics = ev\<rparr>))"
  by (auto simp: pod_Default_def gate_def annotate_def Let_def split: sum.split prod.split)

text \<open>Either nothing happened, or the loop ran and annotations were written.\<close>

lemma pod_Default_cases:
  assumes "pod_Default asSel cfg c ctx (PodObject pod) = r"
  obtains (idle) "r = \<lparr>dr_Object = PodObject pod, dr_Err = None, dr_Metrics = []\<rparr>"
      "map_get (pod_Annotations pod) AnnotationInjectionDisabled = ''true'' \<or> gate asSel cfg c ctx pod = None"
    | (run) ns ds eff q bound ev err where
        "map_get (pod_Annotations pod) AnnotationInjectionDisabled \<noteq> ''true''"
        "gate asSel cfg c ctx pod = Some (ns, ds, eff)"
        "bindCredentials asSel c ns pod [] [] (credentialOrder eff ds) = (q, bound, ev, err)"
        "r = \<lparr>dr_Object = PodObject (if err = None then annotate eff bound q else q),
              dr_Err = err, dr_Metrics = ev\<rparr>"
proof (cases "map_get (pod_Annotations pod) AnnotationInjectionDisabled = ''true''")
  case True
  with assms that(1) show ?thesis by (simp add: pod_Default_eq)
next
  case False
  show ?thesis
  proof (cases "gate asSel cfg c ctx pod")
    case None
    with assms False that(1) show ?thesis by (simp add: pod_Default_eq)
  next
    case (Some g)
    obtain ns ds eff where g: "g = (ns, ds, eff)" by (cases g) auto
    obtain q bound ev err where
      b: "bindCredentials asSel c ns pod [] [] (credentialOrder eff ds) = (q, bound, ev, err)"
      by (metis prod_cases4)
    show ?thesis
      by (rule that(2) [OF False Some [unfolded g] b]) (use assms False Some in \<open>simp add: pod_Default_eq g b\<close>)
  qed
qed

lemma setAnnotation_fields [simp]:
  "all_containers (setAnnotation p k v) = all_containers p"
  "pod_Volumes (setAnnotation p k v) = pod_Volumes p"
  "pod_env (setAnnotation p k v) = pod_env p" "pod_mounts (setAnnotation p k v) = pod_mounts p"
  "injected (setAnnotation p k v) mc = injected p mc"
  "pod_Annotations (setAnnotation p k v) = map_put k v (pod_Annotations p)"
  by (simp_all add: setAnnotation_def all_containers_def pod_env_def pod_mounts_def injected_def)

lemma annotate_fields [simp]:
  "pod_Volumes (annotate eff bound p) = pod_Volumes p"
  "pod_env (annotate eff bound p) = pod_env p" "pod_mounts (annotate eff bound p) = pod_mounts p"
  "injected (annotate eff bound p) mc = injected p mc"
  "pod_extends q (annotate eff bound p) = pod_extends q p"
  by (simp_all add: annotate_def Let_def)

lemma annotate_other:
  "k \<noteq> AnnotationCredentialsBound \<Longrightarrow> k \<noteq> AnnotationEffectivePolicy \<Longrightarrow>
     map_get (pod_Annotations (annotate eff bound p)) k = map_get (pod_Annotations p) k"
  by (simp add: annotate_def Let_def)

end
