(* ===== verification/Claim_Props.thy ===== *)
theory Claim_Props
  imports Claim_Controller Pod_Facts Resolver_Facts Cluster_Samples
begin

text \<open>
  The claim reconciler and its relation to admission: what makes a claim Bound, what its status
  lists, and that the verdict in a claim's status is the decision the pod webhook takes for a pod
  with the claim's identity.
\<close>

section \<open>The runs of the reconciler\<close>

lemma with_conditions_simps [simp]:
  "mclst_Phase (mcl_Status (with_conditions f mcl)) = mclst_Phase (mcl_Status mcl)"
  "mclst_ResolvedModels (mcl_Status (with_conditions f mcl)) = mclst_ResolvedModels (mcl_Status mcl)"
  "mclst_BoundCredentials (mcl_Status (with_conditions f mcl)) = mclst_BoundCredentials (mcl_Status mcl)"
  "mclst_ObservedGeneration (mcl_Status (with_conditions f mcl)) = mclst_ObservedGeneration (mcl_Status mcl)"
  "mclst_Conditions (mcl_Status (with_conditions f mcl)) = f (mclst_Conditions (mcl_Status mcl))"
  by (simp_all add: with_conditions_def)

text \<open>The status of a condition, when it is present.\<close>

definition condition_is :: "string \<Rightarrow> ConditionStatus \<Rightarrow> Condition list \<Rightarrow> bool" where
  "condition_is t st conds \<longleftrightarrow>
     (case find_condition t conds of None \<Rightarrow> False | Some c \<Rightarrow> cond_Status c = st)"

lemma condition_is_set:
  assumes "condition_setter setCond"
  shows "condition_is t st (setCondition setCond conds ct st' r m g) \<longleftrightarrow>
    (if t = ct then st = st' else condition_is t st conds)"
  using condition_setter.find_setCondition [OF assms] by (auto simp: condition_is_def)

text \<open>
  A written status comes from a resolved claim, or it is not Ready: in the first case the status
  lists one verdict per requested model, and the phase follows the verdicts.
\<close>

lemma ModelClaim_written:
  assumes "condition_setter setCond"
    and "oc_Written (ModelClaim_Reconcile asSel setCond c upd (Inr mcl)) = Some mcl'"
  obtains (unresolved) "\<not> condition_is ConditionReady ConditionTrue (mclst_Conditions (mcl_Status mcl'))"
    | (resolved) ctpl tpl nsLabels resolved where
      "list_ClusterTokenPolicies c = Inr ctpl" "list_TokenPolicies c (mcl_Namespace mcl) = Inr tpl"
      "reconciler_namespaceLabels c (mcl_Namespace mcl) = Inr nsLabels"
      "resolveClaim asSel mcl ctpl tpl nsLabels = Inr resolved"
      "mclst_ResolvedModels (mcl_Status mcl') = resolved"
      "mclst_BoundCredentials (mcl_Status mcl') = distinctAllowedCredentials resolved"
      "mclst_Phase (mcl_Status mcl') =
         (if \<exists>m \<in> set resolved. em_Action m = ActionDeny then ClaimDenied else ClaimBound)"
      "condition_is ConditionReady ConditionTrue (mclst_Conditions (mcl_Status mcl'))"
proof -
  obtain ctpl tpl nsLabels where reads: "list_ClusterTokenPolicies c = Inr ctpl"
    "list_TokenPolicies c (mcl_Namespace mcl) = Inr tpl"
    "reconciler_namespaceLabels c (mcl_Namespace mcl) = Inr nsLabels"
    using assms(2) by (auto simp: ModelClaim_Reconcile_def split: sum.splits)
  show thesis
  proof (cases "resolveClaim asSel mcl ctpl tpl nsLabels")
    case (Inl err)
    with assms(2) reads show ?thesis
      by (intro unresolved) (auto simp: ModelClaim_Reconcile_def condition_is_set [OF assms(1)] Let_def)
  next
    case (Inr res)
    have "length (filter (\<lambda>m. em_Action m = ActionDeny) res) > 0 \<longleftrightarrow> (\<exists>m \<in> set res. em_Action m = ActionDeny)"
      by (auto simp: filter_empty_conv)
    with assms(2) reads Inr show ?thesis
      by (intro resolved [OF reads Inr])
        (auto simp: ModelClaim_Reconcile_def condition_is_set [OF assms(1)] Let_def split: if_splits)
  qed
qed

section \<open>Identities and admission\<close>

text \<open>The reconciler reads the same namespace labels as the webhooks.\<close>

lemma namespaceLabels_agree: "reconciler_namespaceLabels c n = namespaceLabels c n"
  by (auto simp: reconciler_namespaceLabels_def namespaceLabels_def IgnoreNotFound_def split: sum.splits)

lemma identity_resolve:
  assumes "list_ClusterTokenPolicies c = Inr ctpl" "list_TokenPolicies c (mcl_Namespace mcl) = Inr tpl"
    and "reconciler_namespaceLabels c (mcl_Namespace mcl) = Inr nsLabels"
  shows "resolveEffective asSel c (mcl_Namespace mcl) (id_podLabels ident) (id_sa ident) =
    (case Resolve asSel (identity_input mcl ctpl tpl nsLabels ident) of
       Inl err \<Rightarrow> Inl (OtherError err) | Inr eff \<Rightarrow> Inr eff)"
  using assms
  by (simp add: resolveEffective_def namespaceLabels_agree identity_input_def split: sum.split)

definition identity_eff :: "selector_api \<Rightarrow> client \<Rightarrow> ModelClaim \<Rightarrow> claimIdentity \<Rightarrow> api_error + Effective" where
  "identity_eff asSel c mcl ident =
     resolveEffective asSel c (mcl_Namespace mcl) (id_podLabels ident) (id_sa ident)"

text \<open>The verdicts of a resolved claim, from what admission would resolve for its identities.\<close>

lemma resolveClaim_effs:
  assumes "list_ClusterTokenPolicies c = Inr ctpl" "list_TokenPolicies c (mcl_Namespace mcl) = Inr tpl"
    and "reconciler_namespaceLabels c (mcl_Namespace mcl) = Inr nsLabels"
    and "resolveClaim asSel mcl ctpl tpl nsLabels = Inr resolved"
  obtains effs where
    "list_all2 (\<lambda>ident eff. identity_eff asSel c mcl ident = Inr eff)
       (claimIdentities (mcls_Selector (mcl_Spec mcl))) effs"
    "resolved = map (resolveRequest effs) (mcls_Models (mcl_Spec mcl))"
proof -
  obtain effs where "list_all2 (\<lambda>ident eff. Resolve asSel (identity_input mcl ctpl tpl nsLabels ident) = Inr eff)
      (claimIdentities (mcls_Selector (mcl_Spec mcl))) effs"
    and "resolved = map (resolveRequest effs) (mcls_Models (mcl_Spec mcl))"
    using assms(4) by (auto simp: resolveClaim_def mapR_Inr_iff split: sum.splits)
  moreover from this have "list_all2 (\<lambda>ident eff. identity_eff asSel c mcl ident = Inr eff)
      (claimIdentities (mcls_Selector (mcl_Spec mcl))) effs"
    by (elim list_all2_mono) (simp add: identity_eff_def identity_resolve [OF assms(1-3)])
  ultimately show thesis using that by blast
qed

lemma resolveRequest_Deny: "em_Action (resolveRequest effs m) = ActionDeny \<longleftrightarrow> \<not> list_all (permits m) effs"
  by (simp add: resolveRequest_eq)

text \<open>A model is permitted or denied whatever the case and the blanks around its names.\<close>

lemma permits_fold:
  assumes "fold_name p = fold_name (mr_Provider m)" "fold_name q = fold_name (mr_Model m)"
  shows "md_Allowed (Permit eff p q) = permits m eff"
  using evalTier_cong [OF assms] by (simp add: permits_def Permit_Allowed_iff verdict_def)

lemma declared_of_pod:
  assumes "list_ModelClaims c ns = Inr items" "declaredModelsForPod asSel c ns pod = Inr ds"
  shows "(\<exists>d \<in> set ds. dm_key d = k) \<longleftrightarrow> (\<exists>x \<in> set (podRequests asSel items pod). request_key x = Some k)"
    and "d \<in> set ds \<Longrightarrow> dm_ok d"
proof -
  have ds: "ds = snd (foldl addDeclared (Map.empty, []) (podRequests asSel items pod))"
    using assms by (simp add: declaredModelsForPod_eq)
  have "k \<in> dm_key ` set ds \<longleftrightarrow> (\<exists>x \<in> set (podRequests asSel items pod). request_key x = Some k)"
    using declared_keys(1) [of "podRequests asSel items pod"] unfolding ds set_map by blast
  then show "(\<exists>d \<in> set ds. dm_key d = k) \<longleftrightarrow> (\<exists>x \<in> set (podRequests asSel items pod). request_key x = Some k)"
    by blast
  show "d \<in> set ds \<Longrightarrow> dm_ok d"
    using declared_dm_ok [of "(Map.empty, [])" "podRequests asSel items pod"] by (simp add: ds list_all_iff)
qed

text \<open>The models of the matching claims are declared for the pod, and no others without an annotation.\<close>

lemma claim_declares:
  assumes "list_ModelClaims c ns = Inr items" "parseModels pod = []"
    and "declaredModelsForPod asSel c ns pod = Inr ds" "d \<in> set ds"
  obtains cl m where "cl \<in> set items" "claimMatches asSel pod cl" "m \<in> set (mcls_Models (mcl_Spec cl))"
    "fold_name (dm_Provider d) = fold_name (mr_Provider m)" "fold_name (dm_Model d) = fold_name (mr_Model m)"
proof -
  obtain x where x: "x \<in> set (podRequests asSel items pod)" "request_key x = Some (dm_key d)"
    using declared_of_pod(1) [OF assms(1,3), of "dm_key d"] assms(4) by blast
  have ok: "dm_ok d" by (rule declared_of_pod(2) [OF assms(1,3,4)])
  from x(1) assms(2) obtain cl m where cl: "cl \<in> set items" "claimMatches asSel pod cl"
    "m \<in> set (mcls_Models (mcl_Spec cl))" and "fst x = mr_Provider m" "fst (snd x) = mr_Model m"
    by (auto simp: podRequests_def claimRequests_def)
  with x(2) ok have "fold_name (dm_Provider d) = fold_name (mr_Provider m)" "fold_name (dm_Model d) = fold_name (mr_Model m)"
    by (auto simp: request_key_def dm_key_def dm_ok_def fold_name_def Let_def split: if_splits)
  with cl that show thesis by blast
qed

lemma claim_declared:
  assumes "list_ModelClaims c ns = Inr items" "declaredModelsForPod asSel c ns pod = Inr ds"
    and "cl \<in> set items" "claimMatches asSel pod cl" "m \<in> set (mcls_Models (mcl_Spec cl))"
    and "TrimSpace (mr_Provider m) \<noteq> []" "TrimSpace (mr_Model m) \<noteq> []"
  obtains d where "d \<in> set ds"
    "fold_name (dm_Provider d) = fold_name (mr_Provider m)" "fold_name (dm_Model d) = fold_name (mr_Model m)"
proof -
  let ?x = "(mr_Provider m, mr_Model m, case mr_CredentialRef m of None \<Rightarrow> [] | Some c \<Rightarrow> cr_Name c)"
  have "?x \<in> set (podRequests asSel items pod)"
    using assms(3-5) by (auto simp: podRequests_def claimRequests_def)
  moreover have "request_key ?x = Some (fold_name (mr_Provider m), fold_name (mr_Model m))"
    using assms(6,7) by (simp add: request_key_def fold_name_def)
  ultimately obtain d where "d \<in> set ds" "dm_key d = (fold_name (mr_Provider m), fold_name (mr_Model m))"
    using declared_of_pod(1) [OF assms(1,2)] by blast
  moreover from this have "dm_ok d" using declared_of_pod(2) [OF assms(1,2)] by blast
  ultimately show thesis using that by (auto simp: dm_key_def dm_ok_def fold_name_def)
qed

text \<open>What the status says of each identity, when it says Ready.\<close>

lemma claim_verdicts:
  assumes "condition_setter setCond"
    and "oc_Written (ModelClaim_Reconcile asSel setCond c upd (Inr mcl)) = Some mcl'"
    and "condition_is ConditionReady ConditionTrue (mclst_Conditions (mcl_Status mcl'))"
  obtains effs where
    "list_all2 (\<lambda>ident eff. identity_eff asSel c mcl ident = Inr eff)
       (claimIdentities (mcls_Selector (mcl_Spec mcl))) effs"
    "mclst_ResolvedModels (mcl_Status mcl') = map (resolveRequest effs) (mcls_Models (mcl_Spec mcl))"
    "mclst_BoundCredentials (mcl_Status mcl') = distinctAllowedCredentials (mclst_ResolvedModels (mcl_Status mcl'))"
    "mclst_Phase (mcl_Status mcl') =
       (if \<forall>m \<in> set (mcls_Models (mcl_Spec mcl)). list_all (permits m) effs then ClaimBound else ClaimDenied)"
proof (cases rule: ModelClaim_written [OF assms(1,2)])
  case 1
  with assms(3) show ?thesis by simp
next
  case (2 ctpl tpl nsLabels resolved)
  obtain effs where effs: "list_all2 (\<lambda>ident eff. identity_eff asSel c mcl ident = Inr eff)
       (claimIdentities (mcls_Selector (mcl_Spec mcl))) effs"
    "resolved = map (resolveRequest effs) (mcls_Models (mcl_Spec mcl))"
    by (rule resolveClaim_effs [OF 2(1-4)])
  have "(\<exists>m \<in> set resolved. em_Action m = ActionDeny) \<longleftrightarrow>
      \<not> (\<forall>m \<in> set (mcls_Models (mcl_Spec mcl)). list_all (permits m) effs)"
    by (auto simp: effs(2) resolveRequest_Deny)
  with 2 effs show ?thesis by (intro that [OF effs(1)]) simp_all
qed

lemma identity_eff_mem:
  assumes "list_all2 (\<lambda>ident eff. identity_eff asSel c mcl ident = Inr eff) ids effs"
    and "ident \<in> set ids" "identity_eff asSel c mcl ident = Inr eff"
  shows "eff \<in> set effs"
  using assms by (fastforce simp: list_all2_conv_all_nth in_set_conv_nth)

lemma resolved_verdicts:
  "map (\<lambda>e. (em_Provider e, em_Model e, em_Action e)) (map (resolveRequest effs) ms) =
     map (\<lambda>m. (mr_Provider m, mr_Model m,
                if list_all (permits m) effs then ActionAllow else ActionDeny)) ms"
  by (simp add: resolveRequest_eq)

section \<open>Sample claims\<close>

definition sample_claim :: "string \<Rightarrow> string \<Rightarrow> ModelClaim" where
  "sample_claim n m =
     \<lparr>mcl_Namespace = ''team-a'', mcl_Name = n, mcl_Generation = 1,
      mcl_Spec = \<lparr>mcls_Selector = Some batch_selector,
                  mcls_Models = [\<lparr>mr_Provider = ''OpenAI'', mr_Model = m, mr_CredentialRef = None\<rparr>],
                  mcls_Purpose = []\<rparr>,
      mcl_Status = \<lparr>mclst_ObservedGeneration = 0, mclst_Phase = ClaimPending, mclst_ResolvedModels = [],
                    mclst_BoundCredentials = [], mclst_Conditions = []\<rparr>\<rparr>"

definition good_claim :: ModelClaim where "good_claim = sample_claim ''summaries'' ''gpt-4o-mini''"

definition bad_claim :: ModelClaim where "bad_claim = sample_claim ''drafts'' ''gpt-4o''"

definition claims_client :: "ModelClaim list \<Rightarrow> client" where
  "claims_client cls = client_of (sample_cluster\<lparr>cl_Claims := cls\<rparr>)"

definition claim_config :: Config where
  "claim_config = \<lparr>cfg_OperatorNamespace = ''token-control-system'', cfg_ExemptNamespaces = []\<rparr>"

definition claim_run :: "ModelClaim \<Rightarrow> ModelClaim outcome" where
  "claim_run cl =
     ModelClaim_Reconcile std_selector replace_or_append (claims_client [cl]) (\<lambda>_. None) (Inr cl)"

definition claim_after :: "ModelClaim \<Rightarrow> ModelClaim" where
  "claim_after cl = the (oc_Written (claim_run cl))"

lemma claim_samples:
  "oc_Written (claim_run good_claim) \<noteq> None" "oc_Written (claim_run bad_claim) \<noteq> None"
  "condition_is ConditionReady ConditionTrue (mclst_Conditions (mcl_Status (claim_after good_claim)))"
  "condition_is ConditionReady ConditionTrue (mclst_Conditions (mcl_Status (claim_after bad_claim)))"
  "mclst_Phase (mcl_Status (claim_after good_claim)) = ClaimBound"
  "mclst_Phase (mcl_Status (claim_after bad_claim)) = ClaimDenied"
  by code_simp+

lemma claim_written:
  "oc_Written (claim_run good_claim) = Some (claim_after good_claim)"
  "oc_Written (claim_run bad_claim) = Some (claim_after bad_claim)"
  using claim_samples(1,2) by (simp_all add: claim_after_def)

lemma claim_pod:
  "pod_Namespace (worker_pod []) = ''team-a''" "parseModels (worker_pod []) = []"
  "list_ModelClaims (claims_client [cl]) ''team-a'' =
     Inr (filter (\<lambda>m. mcl_Namespace m = ''team-a'') [cl])"
  "claimIdentities (Some batch_selector) =
     [\<lparr>id_podLabels = pod_Labels (worker_pod []), id_sa = saOf (worker_pod [])\<rparr>]"
  by (simp_all add: worker_pod_def parseModels_def claims_client_def client_of_def map_get_def sample_defs
      claimIdentities_def saOf_def TrimSpace_def)

lemma claim_matches: "claimMatches std_selector (worker_pod []) bad_claim"
  by code_simp

section \<open>Properties\<close>

text \<open>
  C18: A claim is Bound exactly when every model it requests is permitted for every identity its
  selector stands for, as admission would resolve that identity, and Denied otherwise. The status
  lists one verdict per request, in order; the verdict is Allow exactly when every identity
  permits the model, and the bound credentials are those of the allowed models, without
  duplicates.
\<close>

theorem claim_bound_iff_permitted:
  assumes "condition_setter setCond"
    and "oc_Written (ModelClaim_Reconcile asSel setCond c upd (Inr mcl)) = Some mcl'"
    and "condition_is ConditionReady ConditionTrue (mclst_Conditions (mcl_Status mcl'))"
  shows "\<exists>effs.
    list_all2 (\<lambda>ident eff. resolveEffective asSel c (mcl_Namespace mcl) (id_podLabels ident) (id_sa ident) = Inr eff)
      (claimIdentities (mcls_Selector (mcl_Spec mcl))) effs \<and>
    mclst_Phase (mcl_Status mcl') =
      (if \<forall>m \<in> set (mcls_Models (mcl_Spec mcl)). \<forall>eff \<in> set effs.
            md_Allowed (Permit eff (mr_Provider m) (mr_Model m))
       then ClaimBound else ClaimDenied) \<and>
    map (\<lambda>e. (em_Provider e, em_Model e, em_Action e)) (mclst_ResolvedModels (mcl_Status mcl')) =
      map (\<lambda>m. (mr_Provider m, mr_Model m,
                 if \<forall>eff \<in> set effs. md_Allowed (Permit eff (mr_Provider m) (mr_Model m))
                 then ActionAllow else ActionDeny)) (mcls_Models (mcl_Spec mcl)) \<and>
    distinct (mclst_BoundCredentials (mcl_Status mcl')) \<and>
    set (mclst_BoundCredentials (mcl_Status mcl')) =
      {em_Credential e | e. e \<in> set (mclst_ResolvedModels (mcl_Status mcl')) \<and>
         em_Action e = ActionAllow \<and> em_Credential e \<noteq> []}"
proof -
  obtain effs where effs: "list_all2 (\<lambda>ident eff. identity_eff asSel c mcl ident = Inr eff)
       (claimIdentities (mcls_Selector (mcl_Spec mcl))) effs"
    and st: "mclst_ResolvedModels (mcl_Status mcl') = map (resolveRequest effs) (mcls_Models (mcl_Spec mcl))"
      "mclst_BoundCredentials (mcl_Status mcl') = distinctAllowedCredentials (mclst_ResolvedModels (mcl_Status mcl'))"
      "mclst_Phase (mcl_Status mcl') =
       (if \<forall>m \<in> set (mcls_Models (mcl_Spec mcl)). list_all (permits m) effs then ClaimBound else ClaimDenied)"
    by (rule claim_verdicts [OF assms])
  show ?thesis
  proof (intro exI [of _ effs] conjI)
    show "distinct (mclst_BoundCredentials (mcl_Status mcl'))"
      and "set (mclst_BoundCredentials (mcl_Status mcl')) =
        {em_Credential e | e. e \<in> set (mclst_ResolvedModels (mcl_Status mcl')) \<and>
           em_Action e = ActionAllow \<and> em_Credential e \<noteq> []}"
      unfolding st(2) by (rule distinctAllowedCredentials_exact)+
    show "map (\<lambda>e. (em_Provider e, em_Model e, em_Action e)) (mclst_ResolvedModels (mcl_Status mcl')) =
      map (\<lambda>m. (mr_Provider m, mr_Model m,
                 if \<forall>eff \<in> set effs. md_Allowed (Permit eff (mr_Provider m) (mr_Model m))
                 then ActionAllow else ActionDeny)) (mcls_Models (mcl_Spec mcl))"
      unfolding st(1) resolved_verdicts by (simp add: list_all_iff permits_def)
  qed (use effs st(3) in \<open>simp_all add: identity_eff_def list_all_iff permits_def\<close>)
qed

theorem claim_bound_iff_permitted_witness:
  "mclst_Phase (mcl_Status (claim_after good_claim)) = ClaimBound \<and>
   (\<exists>eff. resolveEffective std_selector (claims_client [good_claim]) ''team-a'' (Some [(''app'', ''batch-worker'')])
            ''batch-runner'' = Inr eff \<and> md_Allowed (Permit eff ''OpenAI'' ''gpt-4o-mini''))"
  using claim_bound_iff_permitted
    [OF std_conditions.condition_setter_axioms claim_written(1) [unfolded claim_run_def] claim_samples(3)]
    claim_samples(5)
  by (auto simp: good_claim_def sample_claim_def claim_pod(4) worker_pod_def saOf_def list_all2_Cons1 split: if_splits)

text \<open>
  A pod of a Bound claim is admitted. When every claim that matches a pod has been reconciled
  to Ready and Bound against the same cluster state, the pod's labels and service account are one
  of the claim's identities, and the pod declares nothing more by annotation, the pod webhook
  admits it without a warning.
\<close>

theorem bound_claims_admit:
  assumes "condition_setter setCond"
    and ns: "ns = namespaceFromCtx ctx (pod_Namespace pod)" "list_ModelClaims c ns = Inr items"
      "\<forall>cl \<in> set items. mcl_Namespace cl = ns"
    and "parseModels pod = []"
    and bound: "\<forall>cl \<in> set items. claimMatches asSel pod cl \<longrightarrow>
      (\<exists>cl'. oc_Written (ModelClaim_Reconcile asSel setCond c upd (Inr cl)) = Some cl' \<and>
             condition_is ConditionReady ConditionTrue (mclst_Conditions (mcl_Status cl')) \<and>
             mclst_Phase (mcl_Status cl') = ClaimBound) \<and>
      \<lparr>id_podLabels = pod_Labels pod, id_sa = saOf pod\<rparr> \<in> set (claimIdentities (mcls_Selector (mcl_Spec cl)))"
  shows "ar_Err (pod_validate asSel cfg c ctx (PodObject pod)) = None \<and>
    ar_Warnings (pod_validate asSel cfg c ctx (PodObject pod)) = []"
proof (cases "gate asSel cfg c ctx pod")
  case None
  then show ?thesis by (simp add: pod_validate_eq admit_def)
next
  case (Some g)
  then obtain ds eff where g: "gate asSel cfg c ctx pod = Some (ns, ds, eff)"
    using ns(1) by (cases g) (auto simp: gate_Some_iff)
  then have ds: "declaredModelsForPod asSel c ns pod = Inr ds"
    and eff: "resolveEffective asSel c ns (pod_Labels pod) (saOf pod) = Inr eff"
    by (auto simp: gate_Some_iff)
  have "\<not> denied eff d" if mem: "d \<in> set ds" for d
  proof -
    obtain cl m where cl: "cl \<in> set items" "claimMatches asSel pod cl" "m \<in> set (mcls_Models (mcl_Spec cl))"
      and fold: "fold_name (dm_Provider d) = fold_name (mr_Provider m)"
        "fold_name (dm_Model d) = fold_name (mr_Model m)"
      by (rule claim_declares [OF ns(2) assms(5) ds mem])
    obtain cl' where run: "oc_Written (ModelClaim_Reconcile asSel setCond c upd (Inr cl)) = Some cl'"
        "condition_is ConditionReady ConditionTrue (mclst_Conditions (mcl_Status cl'))"
      and ph: "mclst_Phase (mcl_Status cl') = ClaimBound"
      and id: "\<lparr>id_podLabels = pod_Labels pod, id_sa = saOf pod\<rparr> \<in> set (claimIdentities (mcls_Selector (mcl_Spec cl)))"
      using bound cl(1,2) by blast
    obtain effs where effs: "list_all2 (\<lambda>ident eff. identity_eff asSel c cl ident = Inr eff)
         (claimIdentities (mcls_Selector (mcl_Spec cl))) effs"
      and "mclst_Phase (mcl_Status cl') =
         (if \<forall>m \<in> set (mcls_Models (mcl_Spec cl)). list_all (permits m) effs then ClaimBound else ClaimDenied)"
      using claim_verdicts [OF assms(1) run] by metis
    with ph cl(3) have "list_all (permits m) effs" by (auto split: if_splits)
    moreover have "eff \<in> set effs"
      using eff ns(3) cl(1) by (intro identity_eff_mem [OF effs id]) (simp add: identity_eff_def)
    ultimately show ?thesis
      using permits_fold [OF fold, of eff] by (simp add: list_all_iff denied_def)
  qed
  then have "filter (denied eff) ds = []" by (simp add: filter_empty_conv)
  then show ?thesis by (simp add: pod_validate_eq g admit_def Let_def)
qed

theorem bound_claims_admit_witness:
  "ar_Err (pod_validate std_selector claim_config (claims_client [good_claim]) None (PodObject (worker_pod []))) = None \<and>
    ar_Warnings (pod_validate std_selector claim_config (claims_client [good_claim]) None (PodObject (worker_pod []))) = []"
  by (rule bound_claims_admit
        [OF std_conditions.condition_setter_axioms, where ns = "''team-a''" and items = "[good_claim]" and
           upd = "\<lambda>_. None"])
     (use claim_written(1) claim_samples(3,5) in
       \<open>auto simp: namespaceFromCtx_def claim_pod claim_run_def good_claim_def sample_claim_def\<close>)

text \<open>
  C17: A Denied claim means that pods are rejected. When a claim with no blank names has been
  reconciled to Ready and Denied, there is an identity among those its selector stands for (that
  one, if it stands for only one) such that every pod with exactly that identity, in the claim's
  namespace, that the claim matches is rejected by the pod webhook whenever the policies that
  apply to it enforce.
\<close>

theorem denied_claim_rejects:
  assumes "condition_setter setCond"
    and names: "\<forall>m \<in> set (mcls_Models (mcl_Spec cl)). TrimSpace (mr_Provider m) \<noteq> [] \<and> TrimSpace (mr_Model m) \<noteq> []"
    and run: "oc_Written (ModelClaim_Reconcile asSel setCond c upd (Inr cl)) = Some cl'"
      "condition_is ConditionReady ConditionTrue (mclst_Conditions (mcl_Status cl'))"
      "mclst_Phase (mcl_Status cl') = ClaimDenied"
  shows "\<exists>ident \<in> set (claimIdentities (mcls_Selector (mcl_Spec cl))).
    \<forall>cfg ctx pod items eff.
      namespaceFromCtx ctx (pod_Namespace pod) = mcl_Namespace cl \<and> \<not> exempt cfg (mcl_Namespace cl) \<and>
      \<lparr>id_podLabels = pod_Labels pod, id_sa = saOf pod\<rparr> = ident \<and>
      list_ModelClaims c (mcl_Namespace cl) = Inr items \<and> cl \<in> set items \<and> claimMatches asSel pod cl \<and>
      resolveEffective asSel c (mcl_Namespace cl) (pod_Labels pod) (saOf pod) = Inr eff \<and>
      eff_Governed eff \<and> eff_Enforcement eff = EnforcementEnforce \<longrightarrow>
        ar_Err (pod_validate asSel cfg c ctx (PodObject pod)) \<noteq> None"
proof -
  obtain effs where effs: "list_all2 (\<lambda>ident eff. identity_eff asSel c cl ident = Inr eff)
         (claimIdentities (mcls_Selector (mcl_Spec cl))) effs"
    and "mclst_Phase (mcl_Status cl') =
         (if \<forall>m \<in> set (mcls_Models (mcl_Spec cl)). list_all (permits m) effs then ClaimBound else ClaimDenied)"
    using claim_verdicts [OF assms(1) run(1,2)] by metis
  then obtain m eff where m: "m \<in> set (mcls_Models (mcl_Spec cl))" "eff \<in> set effs" "\<not> permits m eff"
    using run(3) by (auto simp: list_all_iff split: if_splits)
  then obtain ident where ident: "ident \<in> set (claimIdentities (mcls_Selector (mcl_Spec cl)))"
    "identity_eff asSel c cl ident = Inr eff"
    using effs by (fastforce simp: list_all2_conv_all_nth in_set_conv_nth)
  show ?thesis
  proof (intro bexI [OF _ ident(1)] allI impI, elim conjE)
    fix cfg ctx pod items eff'
    assume ns: "namespaceFromCtx ctx (pod_Namespace pod) = mcl_Namespace cl" "\<not> exempt cfg (mcl_Namespace cl)"
      and id: "\<lparr>id_podLabels = pod_Labels pod, id_sa = saOf pod\<rparr> = ident"
      and items: "list_ModelClaims c (mcl_Namespace cl) = Inr items" "cl \<in> set items" "claimMatches asSel pod cl"
      and eff': "resolveEffective asSel c (mcl_Namespace cl) (pod_Labels pod) (saOf pod) = Inr eff'"
        "eff_Governed eff'" "eff_Enforcement eff' = EnforcementEnforce"
    have eq: "eff' = eff" using ident(2) eff'(1) by (simp add: identity_eff_def flip: id)
    obtain ds where ds: "declaredModelsForPod asSel c (mcl_Namespace cl) pod = Inr ds"
      using items(1) by (simp add: declaredModelsForPod_eq)
    obtain d where d: "d \<in> set ds" "fold_name (dm_Provider d) = fold_name (mr_Provider m)"
      "fold_name (dm_Model d) = fold_name (mr_Model m)"
      using claim_declared [OF items(1) ds items(2,3) m(1)] names m(1) by metis
    then have "denied eff d" using m(3) permits_fold [OF d(2,3), of eff] by (simp add: denied_def)
    with d(1) have "filter (denied eff) ds \<noteq> []" by (auto simp: filter_empty_conv)
    moreover have "gate asSel cfg c ctx pod = Some (mcl_Namespace cl, ds, eff)"
      using ns ds eff'(1,2) d(1) eq by (auto simp: gate_Some_iff)
    ultimately show "ar_Err (pod_validate asSel cfg c ctx (PodObject pod)) \<noteq> None"
      using eff'(3) eq by (simp add: pod_validate_eq Let_def)
  qed
qed

lemma claims_client_resolve: "resolveEffective asSel (claims_client cls) = resolveEffective asSel sample_client"
  by (simp add: resolveEffective_def fun_eq_iff claims_client_def sample_client_def client_of_def
      namespaceLabels_def)

lemma claims_resolve:
  "resolveEffective std_selector (claims_client cls) ''team-a'' (pod_Labels (worker_pod [])) (saOf (worker_pod [])) =
     Inr batch_eff"
  unfolding claims_client_resolve using batch_ok
  by (simp add: resolveEffective_def sample_client_def client_of_def sample_cluster_def namespaceLabels_def
      answer_def batch_input_def team_a_def ns_default_def batch_workers_def token_policy_def worker_pod_def saOf_def)

theorem denied_claim_rejects_witness:
  "ar_Err (pod_validate std_selector claim_config (claims_client [bad_claim]) None (PodObject (worker_pod []))) \<noteq> None"
proof -
  have claim: "claimIdentities (mcls_Selector (mcl_Spec bad_claim)) =
      [\<lparr>id_podLabels = pod_Labels (worker_pod []), id_sa = saOf (worker_pod [])\<rparr>]"
    "mcl_Namespace bad_claim = ''team-a''"
    "\<forall>m \<in> set (mcls_Models (mcl_Spec bad_claim)). TrimSpace (mr_Provider m) \<noteq> [] \<and> TrimSpace (mr_Model m) \<noteq> []"
    by (simp_all add: claim_pod bad_claim_def sample_claim_def TrimSpace_def is_space_def byte_def)
  have "list_ModelClaims (claims_client [bad_claim]) ''team-a'' = Inr [bad_claim]"
    by (simp add: claim_pod claim(2))
  with denied_claim_rejects [OF std_conditions.condition_setter_axioms claim(3)
      claim_written(2) [unfolded claim_run_def] claim_samples(4,6)] claims_resolve claim_matches
  show ?thesis
    by (auto simp: claim namespaceFromCtx_def claim_pod exempt_def claim_config_def batch_facts)
qed

end
