(* ===== verification/Policy_Props.thy ===== *)
theory Policy_Props
  imports Policy_Controllers Resolver_Facts Cluster_Samples Claim_Props
begin

text \<open>
  The policy reconcilers: what a TokenPolicy's status says, which gateway artifacts its reconciler
  leaves and touches, and which namespaces a ClusterTokenPolicy reports. The client the artifacts
  are written with is only known by the laws of \<open>artifact_store\<close>.
\<close>

section \<open>The interface of the artifact client\<close>

definition artifact_key_of :: "Unstructured \<Rightarrow> artifact_key" where
  "artifact_key_of u = (u_GVK u, u_Namespace u, u_Name u)"

text \<open>
  A deletion concerns its key and may fail without a trace; a successful server-side apply leaves
  an object under the key of the applied one, a failed one changes nothing. Setting the owner
  reference keeps the key.
\<close>

locale artifact_store =
  fixes ap :: "'s apply_client" and view :: "'s \<Rightarrow> artifact_key \<Rightarrow> Unstructured option" and own :: set_owner
  assumes delete_other: "k' \<noteq> k \<Longrightarrow> view (ap_Delete ap s k) k' = view s k'"
    and delete_self: "view (ap_Delete ap s k) k = None \<or> view (ap_Delete ap s k) k = view s k"
    and patch_ok: "ap_Patch ap s u = (s', None) \<Longrightarrow> \<exists>x. view s' = (view s)(artifact_key_of u \<mapsto> x)"
    and patch_fail: "ap_Patch ap s u = (s', Some e) \<Longrightarrow> view s' = view s"
    and own_key: "own tp u = Inr v \<Longrightarrow> artifact_key_of v = artifact_key_of u"
begin

text \<open>The deletion loop of \<open>reconcileGateway\<close>.\<close>

lemma cleanup_frame:
  "k \<notin> (\<lambda>gvk. (gvk, ns, n)) ` set gvks \<Longrightarrow>
     view (foldl (\<lambda>s gvk. if Some gvk = keep then s else deleteArtifact ap s gvk ns n) s gvks) k = view s k"
  by (induction gvks arbitrary: s) (auto simp: deleteArtifact_def delete_other)

lemma cleanup_None:
  "view s k = None \<Longrightarrow>
     view (foldl (\<lambda>s gvk. if Some gvk = keep then s else deleteArtifact ap s gvk ns n) s gvks) k = None"
proof (induction gvks arbitrary: s)
  case (Cons g gvks)
  have "view (deleteArtifact ap s g ns n) k = None"
    using Cons.prems delete_other [of k "(g, ns, n)" s] delete_self [of s "(g, ns, n)"]
    by (cases "k = (g, ns, n)") (auto simp: deleteArtifact_def)
  with Cons show ?case by simp
qed simp

lemma cleanup_gone:
  assumes "\<forall>s k. view (ap_Delete ap s k) k = None" "gvk \<in> set gvks" "Some gvk \<noteq> keep"
  shows "view (foldl (\<lambda>s gvk. if Some gvk = keep then s else deleteArtifact ap s gvk ns n) s gvks) (gvk, ns, n) = None"
  using assms(2)
proof (induction gvks arbitrary: s)
  case (Cons g gvks)
  show ?case
  proof (cases "g = gvk")
    case True
    with assms(1,3) show ?thesis by (auto intro!: cleanup_None simp: deleteArtifact_def)
  qed (use Cons in auto)
qed simp

end

text \<open>A store: the list of the objects it holds; \<open>fails\<close> says which applies fail.\<close>

definition find_artifact :: "Unstructured list \<Rightarrow> artifact_key \<Rightarrow> Unstructured option" where
  "find_artifact s k = find (\<lambda>u. artifact_key_of u = k) s"

definition list_artifacts :: "(artifact_key \<Rightarrow> api_error option) \<Rightarrow> (Unstructured list) apply_client" where
  "list_artifacts fails =
     \<lparr>ap_Delete = (\<lambda>s k. filter (\<lambda>u. artifact_key_of u \<noteq> k) s),
      ap_Patch = (\<lambda>s u.
        case fails (artifact_key_of u) of
          Some e \<Rightarrow> (s, Some e)
        | None \<Rightarrow> (u # filter (\<lambda>v. artifact_key_of v \<noteq> artifact_key_of u) s, None))\<rparr>"

definition policy_owner :: set_owner where
  "policy_owner tp u = Inr (u\<lparr>u_Owner := Some (tp_Name tp)\<rparr>)"

lemma find_artifact_remove:
  "find_artifact (filter (\<lambda>u. artifact_key_of u \<noteq> k) s) = (find_artifact s)(k := None)"
proof -
  have "find P (filter Q xs) = find (\<lambda>x. Q x \<and> P x) xs" for P Q and xs :: "Unstructured list"
    by (induction xs) auto
  then show ?thesis
    by (intro ext) (auto simp: find_artifact_def find_None_iff intro!: find_cong)
qed

interpretation list_artifact_store: artifact_store "list_artifacts fails" find_artifact policy_owner for fails
proof
  have cons: "find_artifact (u # s) = (find_artifact s)(artifact_key_of u \<mapsto> u)" for u s
    by (auto simp: find_artifact_def)
  show "ap_Patch (list_artifacts fails) s u = (s', None) \<Longrightarrow>
      \<exists>x. find_artifact s' = (find_artifact s)(artifact_key_of u \<mapsto> x)" for s u s'
    by (auto simp: list_artifacts_def cons find_artifact_remove split: option.splits)
  show "policy_owner tp u = Inr v \<Longrightarrow> artifact_key_of v = artifact_key_of u" for tp u v
    by (auto simp: policy_owner_def artifact_key_of_def)
qed (simp_all add: list_artifacts_def find_artifact_remove split: option.splits)

section \<open>Lemmas\<close>

lemma policy_condition_simps [simp]:
  "tp_Name (policy_condition f t st r m tp) = tp_Name tp"
  "tp_Namespace (policy_condition f t st r m tp) = tp_Namespace tp"
  "tp_Generation (policy_condition f t st r m tp) = tp_Generation tp"
  "tp_Spec (policy_condition f t st r m tp) = tp_Spec tp"
  "tpst_EffectiveModels (tp_Status (policy_condition f t st r m tp)) = tpst_EffectiveModels (tp_Status tp)"
  "tpst_EffectiveQuota (tp_Status (policy_condition f t st r m tp)) = tpst_EffectiveQuota (tp_Status tp)"
  "tpst_BoundCredentials (tp_Status (policy_condition f t st r m tp)) = tpst_BoundCredentials (tp_Status tp)"
  "tpst_ObservedGeneration (tp_Status (policy_condition f t st r m tp)) = tpst_ObservedGeneration (tp_Status tp)"
  "tpst_GatewayRef (tp_Status (policy_condition f t st r m tp)) = tpst_GatewayRef (tp_Status tp)"
  "tpst_Conditions (tp_Status (policy_condition f t st r m tp)) =
     setCondition f (tpst_Conditions (tp_Status tp)) t st r m (tp_Generation tp)"
  "tp_Name (set_GatewayRef ref tp) = tp_Name tp" "tp_Namespace (set_GatewayRef ref tp) = tp_Namespace tp"
  "tp_Generation (set_GatewayRef ref tp) = tp_Generation tp"
  "tpst_EffectiveModels (tp_Status (set_GatewayRef ref tp)) = tpst_EffectiveModels (tp_Status tp)"
  "tpst_EffectiveQuota (tp_Status (set_GatewayRef ref tp)) = tpst_EffectiveQuota (tp_Status tp)"
  "tpst_BoundCredentials (tp_Status (set_GatewayRef ref tp)) = tpst_BoundCredentials (tp_Status tp)"
  "tpst_ObservedGeneration (tp_Status (set_GatewayRef ref tp)) = tpst_ObservedGeneration (tp_Status tp)"
  "tpst_Conditions (tp_Status (set_GatewayRef ref tp)) = tpst_Conditions (tp_Status tp)"
  "tpst_GatewayRef (tp_Status (set_GatewayRef ref tp)) = ref"
  by (simp_all add: policy_condition_def set_GatewayRef_def)

text \<open>The artifact depends on the policy's name and namespace only.\<close>

lemma gateway_For_cong:
  assumes "tp_Name tp = tp_Name tp'" "tp_Namespace tp = tp_Namespace tp'"
  shows "gateway_For gw tp q = gateway_For gw tp' q"
proof -
  have "baseMeta gvk tp = baseMeta gvk tp'" for gvk
    using assms by (simp add: baseMeta_def)
  then have "buildEnvoyBackendTrafficPolicy tref tp q = buildEnvoyBackendTrafficPolicy tref tp' q"
    and "buildKuadrantTokenRateLimitPolicy tref tp q = buildKuadrantTokenRateLimitPolicy tref tp' q" for tref
    by (simp_all add: buildEnvoyBackendTrafficPolicy_def buildKuadrantTokenRateLimitPolicy_def)
  then show ?thesis by (simp add: gateway_For_def split: option.split)
qed

lemma annotateQuota_key [simp]:
  "u_GVK (annotateQuota u q) = u_GVK u" "u_Name (annotateQuota u q) = u_Name u"
  "u_Namespace (annotateQuota u q) = u_Namespace u"
  by (simp_all add: annotateQuota_def Let_def)

lemma built_key:
  "u_GVK (buildEnvoyBackendTrafficPolicy tref tp q) = EnvoyBackendTrafficPolicyGVK"
  "u_GVK (buildKuadrantTokenRateLimitPolicy tref tp q) = KuadrantTokenRateLimitPolicyGVK"
  "u_Name (buildEnvoyBackendTrafficPolicy tref tp q) = ArtifactName (tp_Name tp)"
  "u_Name (buildKuadrantTokenRateLimitPolicy tref tp q) = ArtifactName (tp_Name tp)"
  "u_Namespace (buildEnvoyBackendTrafficPolicy tref tp q) = tp_Namespace tp"
  "u_Namespace (buildKuadrantTokenRateLimitPolicy tref tp q) = tp_Namespace tp"
  by (simp_all only: buildEnvoyBackendTrafficPolicy_def buildKuadrantTokenRateLimitPolicy_def Let_def
      annotateQuota_key) (simp_all add: baseMeta_def)

lemma gateway_For_key:
  "gateway_For gw tp q = Inr (Some u) \<Longrightarrow>
     u_GVK u \<in> {EnvoyBackendTrafficPolicyGVK, KuadrantTokenRateLimitPolicyGVK} \<and>
     u_Name u = ArtifactName (tp_Name tp) \<and> u_Namespace u = tp_Namespace tp"
  by (auto simp: gateway_For_def built_key split: option.splits if_splits)

text \<open>The run of \<open>TokenPolicy_Reconcile\<close> up to the gateway step.\<close>

definition policy_resolved :: "set_condition \<Rightarrow> TokenPolicy \<Rightarrow> Effective \<Rightarrow> TokenPolicy" where
  "policy_resolved setCond tp eff =
     policy_condition setCond ConditionReady ConditionTrue ''Reconciled'' ''effective policy computed''
       (policy_condition setCond ConditionValid ConditionTrue ''Resolved'' ''policy resolved against the hierarchy''
          (tp\<lparr>tp_Status := (tp_Status tp)
             \<lparr>tpst_EffectiveModels := EffectiveModels eff, tpst_EffectiveQuota := eff_Quota eff,
              tpst_BoundCredentials := distinctAllowedCredentials (EffectiveModels eff),
              tpst_ObservedGeneration := tp_Generation tp\<rparr>\<rparr>))"

lemma policy_resolved_simps [simp]:
  "tp_Name (policy_resolved f tp eff) = tp_Name tp" "tp_Namespace (policy_resolved f tp eff) = tp_Namespace tp"
  "tpst_EffectiveModels (tp_Status (policy_resolved f tp eff)) = EffectiveModels eff"
  "tpst_EffectiveQuota (tp_Status (policy_resolved f tp eff)) = eff_Quota eff"
  "tpst_BoundCredentials (tp_Status (policy_resolved f tp eff)) = distinctAllowedCredentials (EffectiveModels eff)"
  by (simp_all add: policy_resolved_def)

lemma gateway_For_resolved [simp]: "gateway_For gw (policy_resolved f tp eff) q = gateway_For gw tp q"
  by (rule gateway_For_cong) simp_all

lemma TokenPolicy_run:
  assumes "list_ClusterTokenPolicies c = Inr ctpl" "list_TokenPolicies c (tp_Namespace tp) = Inr tpl"
    and "reconciler_namespaceLabels c (tp_Namespace tp) = Inr nsLabels"
    and "ResolveForPolicy asSel ctpl tpl nsLabels tp = Inr eff"
    and "reconcileGateway setCond ap own s (policy_resolved setCond tp eff) eff = (s', tp', gev, gerr)"
  shows "TokenPolicy_Reconcile asSel setCond c ap own upd (Inr tp) s =
    (s', write_status upd tp' 0
       (GaugeSet EffectiveModelsGauge [tp_Namespace tp, tp_Name tp] (countAllowed (EffectiveModels eff)) # gev))"
  using assms by (simp add: TokenPolicy_Reconcile_def policy_resolved_def Let_def)

text \<open>What the gateway step keeps of the status.\<close>

lemma reconcileGateway_status:
  assumes "reconcileGateway setCond ap own s tp eff = (s', tp', gev, gerr)"
  shows "tpst_EffectiveModels (tp_Status tp') = tpst_EffectiveModels (tp_Status tp)"
    and "tpst_EffectiveQuota (tp_Status tp') = tpst_EffectiveQuota (tp_Status tp)"
    and "tpst_BoundCredentials (tp_Status tp') = tpst_BoundCredentials (tp_Status tp)"
  using assms
  by (auto simp: reconcileGateway_def Let_def split: sum.splits option.splits prod.splits)

text \<open>The keys a policy's artifacts may have.\<close>

definition own_keys :: "TokenPolicy \<Rightarrow> artifact_key set" where
  "own_keys tp =
     (\<lambda>gvk. (gvk, tp_Namespace tp, ArtifactName (tp_Name tp))) `
       {EnvoyBackendTrafficPolicyGVK, KuadrantTokenRateLimitPolicyGVK}"

text \<open>The store after the artifacts of the kinds that are not wanted have been deleted.\<close>

definition cleaned :: "'s apply_client \<Rightarrow> TokenPolicy \<Rightarrow> GroupVersionKind option \<Rightarrow> 's \<Rightarrow> 's" where
  "cleaned ap tp keep s =
     foldl (\<lambda>s gvk. if Some gvk = keep then s
                    else deleteArtifact ap s gvk (tp_Namespace tp) (ArtifactName (tp_Name tp)))
       s [EnvoyBackendTrafficPolicyGVK, KuadrantTokenRateLimitPolicyGVK]"

lemmas reconcileGateway_steps = reconcileGateway_def [unfolded Let_def, folded cleaned_def]

context artifact_store
begin

lemma cleaned_frame: "k \<notin> own_keys tp \<Longrightarrow> view (cleaned ap tp keep s) k = view s k"
  unfolding cleaned_def own_keys_def by (rule cleanup_frame) simp

lemma cleaned_gone:
  assumes "\<forall>s k. view (ap_Delete ap s k) k = None" "k \<in> own_keys tp" "Some (fst k) \<noteq> keep"
  shows "view (cleaned ap tp keep s) k = None"
proof -
  obtain gvk where k: "k = (gvk, tp_Namespace tp, ArtifactName (tp_Name tp))"
    and mem: "gvk \<in> set [EnvoyBackendTrafficPolicyGVK, KuadrantTokenRateLimitPolicyGVK]"
    using assms(2) by (auto simp: own_keys_def)
  show ?thesis
    unfolding cleaned_def k by (rule cleanup_gone [OF assms(1) mem]) (use assms(3) k in simp)
qed

text \<open>The store after the gateway step: cleaned up, and with the desired artifact unless applying failed.\<close>

lemma gateway_cases:
  assumes run: "reconcileGateway setCond ap own s tp eff = (s', tp', gev, gerr)"
  obtains (invalid) err where "gateway_For (eff_Gateway eff) tp (eff_Quota eff) = Inl err" "s' = s" "gerr \<noteq> None"
    | (kept) desired where "gateway_For (eff_Gateway eff) tp (eff_Quota eff) = Inr desired"
        "view s' = view (cleaned ap tp (map_option u_GVK desired) s)" "desired = None \<or> gerr \<noteq> None"
    | (applied) u x where "gateway_For (eff_Gateway eff) tp (eff_Quota eff) = Inr (Some u)"
        "view s' = (view (cleaned ap tp (Some (u_GVK u)) s))(artifact_key_of u \<mapsto> x)" "gerr = None"
        "tpst_GatewayRef (tp_Status tp') = gvk_Kind (u_GVK u) @ ''/'' @ u_Name u"
proof (cases "gateway_For (eff_Gateway eff) tp (eff_Quota eff)")
  case (Inl err)
  with run show ?thesis by (intro invalid [OF Inl]) (auto simp: reconcileGateway_steps)
next
  case (Inr desired)
  show ?thesis
  proof (cases desired)
    case None
    with run Inr show ?thesis by (intro kept [OF Inr]) (auto simp: reconcileGateway_steps)
  next
    case (Some u)
    show ?thesis
    proof (cases "own tp u")
      case (Inl e)
      with run Inr Some show ?thesis by (intro kept [OF Inr]) (auto simp: reconcileGateway_steps)
    next
      case v: (Inr v)
      note key = own_key [OF v]
      obtain s2 e where p: "ap_Patch ap (cleaned ap tp (Some (u_GVK u)) s) v = (s2, e)" by fastforce
      show ?thesis
      proof (cases e)
        case None
        with run Inr Some v p have "s2 = s'" "gerr = None"
          "tpst_GatewayRef (tp_Status tp') = gvk_Kind (u_GVK v) @ ''/'' @ u_Name v"
          by (auto simp: reconcileGateway_steps)
        with p None patch_ok key Inr Some applied show ?thesis by (fastforce simp: artifact_key_of_def)
      next
        case e: (Some e')
        with run Inr Some v p have "s2 = s'" "gerr \<noteq> None" by (auto simp: reconcileGateway_steps)
        with p e patch_fail kept [OF Inr] Some show ?thesis by simp
      qed
    qed
  qed
qed

end

text \<open>The condition the gateway step leaves is true exactly when the step succeeded.\<close>

lemma reconcileGateway_condition:
  assumes "condition_setter setCond" "\<forall>tp u. \<exists>v. own tp u = Inr v"
    and run: "reconcileGateway setCond ap own s tp eff = (s', tp', gev, gerr)"
  shows "condition_is ConditionGatewaySynced ConditionTrue (tpst_Conditions (tp_Status tp')) \<longleftrightarrow> gerr = None"
proof (cases "gateway_For (eff_Gateway eff) tp (eff_Quota eff)")
  case (Inl err)
  with run show ?thesis by (auto simp: reconcileGateway_steps condition_is_set [OF assms(1)])
next
  case (Inr desired)
  show ?thesis
  proof (cases desired)
    case None
    with Inr run show ?thesis by (auto simp: reconcileGateway_steps condition_is_set [OF assms(1)])
  next
    case (Some u)
    obtain v where v: "own tp u = Inr v" using assms(2) by blast
    obtain s2 e where "ap_Patch ap (cleaned ap tp (Some (u_GVK u)) s) v = (s2, e)" by fastforce
    with Inr Some v run show ?thesis
      by (cases e) (auto simp: reconcileGateway_steps condition_is_set [OF assms(1)])
  qed
qed

section \<open>Properties\<close>

text \<open>A policy that asks for a gateway, and a store with the artifact of the kind it used before.\<close>

definition gateway_policy :: TokenPolicy where
  "gateway_policy =
     ns_default\<lparr>tp_Spec := (tp_Spec ns_default)
       \<lparr>tps_Gateway := Some \<lparr>gi_Type = GatewayKuadrant,
          gi_TargetRef = Some \<lparr>gt_Group = [], gt_Kind = ''Gateway'', gt_Name = ''ai'', gt_Namespace = []\<rparr>\<rparr>\<rparr>\<rparr>"

definition old_artifact :: Unstructured where
  "old_artifact = baseMeta EnvoyBackendTrafficPolicyGVK gateway_policy"

definition policy_client :: client where
  "policy_client = client_of (sample_cluster\<lparr>cl_Policies := [gateway_policy, batch_workers]\<rparr>)"

definition policy_run :: "Unstructured list \<times> TokenPolicy outcome" where
  "policy_run =
     TokenPolicy_Reconcile std_selector replace_or_append policy_client (list_artifacts (\<lambda>_. None)) policy_owner
       (\<lambda>_. None) (Inr gateway_policy) [old_artifact]"

definition policy_eff :: Effective where
  "policy_eff =
     projr (ResolveForPolicy std_selector [org_default] [gateway_policy, batch_workers] (Some []) gateway_policy)"

lemma policy_reads:
  "list_ClusterTokenPolicies policy_client = Inr [org_default]"
  "list_TokenPolicies policy_client (tp_Namespace gateway_policy) = Inr [gateway_policy, batch_workers]"
  "reconciler_namespaceLabels policy_client (tp_Namespace gateway_policy) = Inr (Some [])"
  by (simp_all add: policy_client_def client_of_def sample_cluster_def gateway_policy_def sample_defs
      reconciler_namespaceLabels_def answer_def)

lemma policy_sample:
  "case ResolveForPolicy std_selector [org_default] [gateway_policy, batch_workers] (Some []) gateway_policy of
     Inl e \<Rightarrow> False | Inr e \<Rightarrow> eff_Gateway e = tps_Gateway (tp_Spec gateway_policy)"
  by code_simp

lemma policy_resolves:
  "ResolveForPolicy std_selector [org_default] [gateway_policy, batch_workers] (Some []) gateway_policy = Inr policy_eff"
  "eff_Gateway policy_eff = tps_Gateway (tp_Spec gateway_policy)"
  using policy_sample by (auto simp: policy_eff_def split: sum.splits)

lemma policy_artifact:
  "gateway_For (eff_Gateway policy_eff) gateway_policy (eff_Quota policy_eff) =
     Inr (Some (buildKuadrantTokenRateLimitPolicy
       \<lparr>gt_Group = [], gt_Kind = ''Gateway'', gt_Name = ''ai'', gt_Namespace = []\<rparr> gateway_policy (eff_Quota policy_eff)))"
  by (simp add: policy_resolves(2) gateway_For_def gateway_policy_def)

lemma list_artifacts_delete: "find_artifact (ap_Delete (list_artifacts fails) s k) k = None"
  by (simp add: list_artifacts_def find_artifact_remove)

text \<open>
  C22: A policy's reconciler keeps at most the artifact that is asked for, and touches no other
  object. After a run in which deletions work and the hierarchy resolves to a valid gateway
  integration, each of the two keys that the policy's artifacts may have is free, except possibly
  the one of the desired artifact (so none is left when no gateway is configured or the kind has
  changed); every other stored object is what it was, and so are all when the integration is invalid.
\<close>

theorem only_desired_artifact:
  assumes "artifact_store ap view own" "\<forall>s k. view (ap_Delete ap s k) k = None"
    and reads: "list_ClusterTokenPolicies c = Inr ctpl" "list_TokenPolicies c (tp_Namespace tp) = Inr tpl"
      "reconciler_namespaceLabels c (tp_Namespace tp) = Inr nsLabels"
    and eff: "ResolveForPolicy asSel ctpl tpl nsLabels tp = Inr eff"
    and run: "TokenPolicy_Reconcile asSel setCond c ap own upd (Inr tp) s = (s', out)"
  shows "(\<forall>k. k \<notin> own_keys tp \<longrightarrow> view s' k = view s k) \<and>
    (case gateway_For (eff_Gateway eff) tp (eff_Quota eff) of
       Inl err \<Rightarrow> s' = s
     | Inr None \<Rightarrow> \<forall>k \<in> own_keys tp. view s' k = None
     | Inr (Some u) \<Rightarrow> artifact_key_of u \<in> own_keys tp \<and>
         (\<forall>k \<in> own_keys tp. k \<noteq> artifact_key_of u \<longrightarrow> view s' k = None))"
proof -
  let ?tp = "policy_resolved setCond tp eff"
  obtain s1 tp' gev gerr where g: "reconcileGateway setCond ap own s ?tp eff = (s1, tp', gev, gerr)"
    by (metis prod_cases4)
  have s1: "s1 = s'" using run TokenPolicy_run [OF reads eff g, of upd] by simp
  have keys: "own_keys ?tp = own_keys tp" by (simp add: own_keys_def)
  have own: "artifact_key_of u \<in> own_keys tp"
    "k \<in> own_keys tp \<Longrightarrow> k \<noteq> artifact_key_of u \<Longrightarrow> fst k \<noteq> u_GVK u"
    if "gateway_For (eff_Gateway eff) tp (eff_Quota eff) = Inr (Some u)" for u k
    using gateway_For_key [OF that] by (auto simp: own_keys_def artifact_key_of_def)
  note gone = artifact_store.cleaned_gone [OF assms(1,2), of _ ?tp, unfolded keys]
  note frame = artifact_store.cleaned_frame [OF assms(1), of _ ?tp, unfolded keys]
  show ?thesis
  proof (cases rule: artifact_store.gateway_cases [OF assms(1) g])
    case (1 err)
    with s1 show ?thesis by simp
  next
    case (2 desired)
    with s1 gone frame own show ?thesis by (cases desired) auto
  next
    case (3 u x)
    with s1 gone frame own [of u] show ?thesis by auto
  qed
qed

lemma old_artifact_key:
  "artifact_key_of old_artifact \<in> own_keys gateway_policy"
  "artifact_key_of old_artifact \<noteq> artifact_key_of (buildKuadrantTokenRateLimitPolicy t gateway_policy q)"
  by (simp_all add: old_artifact_def own_keys_def artifact_key_of_def baseMeta_def
      buildKuadrantTokenRateLimitPolicy_def EnvoyBackendTrafficPolicyGVK_def KuadrantTokenRateLimitPolicyGVK_def Let_def)

lemma policy_run_eq:
  "TokenPolicy_Reconcile std_selector replace_or_append policy_client (list_artifacts (\<lambda>_. None)) policy_owner
     (\<lambda>_. None) (Inr gateway_policy) [old_artifact] = (fst policy_run, snd policy_run)"
  by (simp add: policy_run_def)

theorem only_desired_artifact_witness:
  "find_artifact [old_artifact] (artifact_key_of old_artifact) = Some old_artifact \<and>
   find_artifact (fst policy_run) (artifact_key_of old_artifact) = None"
  using only_desired_artifact
        [OF list_artifact_store.artifact_store_axioms _ policy_reads policy_resolves(1) policy_run_eq]
    list_artifacts_delete old_artifact_key
  by (auto simp: policy_artifact find_artifact_def)

text \<open>
  The gateway part of the status is what happened. When setting the owner reference does not
  fail, the GatewaySynced condition of the written status is true exactly when the gateway step
  succeeded; with a gateway asked for, it is then backed by an object in the store, under the kind
  and name that the status gives as its reference.
\<close>

theorem gateway_status_truthful:
  assumes "artifact_store ap view own" "condition_setter setCond"
    and owns: "\<forall>tp u. \<exists>v. own tp u = Inr v"
    and reads: "list_ClusterTokenPolicies c = Inr ctpl" "list_TokenPolicies c (tp_Namespace tp) = Inr tpl"
      "reconciler_namespaceLabels c (tp_Namespace tp) = Inr nsLabels"
    and eff: "ResolveForPolicy asSel ctpl tpl nsLabels tp = Inr eff"
    and run: "TokenPolicy_Reconcile asSel setCond c ap own upd (Inr tp) s = (s', out)"
    and written: "oc_Written out = Some tp'"
    and synced: "condition_is ConditionGatewaySynced ConditionTrue (tpst_Conditions (tp_Status tp'))"
  shows "case gateway_For (eff_Gateway eff) tp (eff_Quota eff) of
       Inl err \<Rightarrow> False
     | Inr None \<Rightarrow> tpst_GatewayRef (tp_Status tp') = []
     | Inr (Some u) \<Rightarrow> view s' (artifact_key_of u) \<noteq> None \<and>
         tpst_GatewayRef (tp_Status tp') = gvk_Kind (u_GVK u) @ ''/'' @ ArtifactName (tp_Name tp)"
proof -
  let ?tp = "policy_resolved setCond tp eff"
  obtain s1 tp1 gev gerr where g: "reconcileGateway setCond ap own s ?tp eff = (s1, tp1, gev, gerr)"
    by (metis prod_cases4)
  have s1: "s1 = s'" "tp1 = tp'" using run written TokenPolicy_run [OF reads eff g, of upd] by auto
  have ok: "gerr = None" using synced s1 reconcileGateway_condition [OF assms(2) owns g] by simp
  show ?thesis
  proof (cases rule: artifact_store.gateway_cases [OF assms(1) g])
    case (1 err)
    with ok show ?thesis by simp
  next
    case (2 desired)
    with ok g s1 show ?thesis by (auto simp: reconcileGateway_steps)
  next
    case (3 u x)
    with s1 gateway_For_key [of "eff_Gateway eff" tp "eff_Quota eff" u] show ?thesis by simp
  qed
qed

lemma policy_after:
  "oc_Written (snd policy_run) = Some (the (oc_Written (snd policy_run)))"
  "condition_is ConditionGatewaySynced ConditionTrue
     (tpst_Conditions (tp_Status (the (oc_Written (snd policy_run)))))"
proof -
  let ?tp = "policy_resolved replace_or_append gateway_policy policy_eff"
  obtain s1 tp1 gev gerr where g: "reconcileGateway replace_or_append (list_artifacts (\<lambda>_. None)) policy_owner
      [old_artifact] ?tp policy_eff = (s1, tp1, gev, gerr)"
    by (metis prod_cases4)
  have w: "oc_Written (snd policy_run) = Some tp1"
    by (simp add: policy_run_def TokenPolicy_run [OF policy_reads policy_resolves(1) g])
  have "gerr = None"
    using g by (auto simp: reconcileGateway_steps policy_artifact policy_owner_def list_artifacts_def)
  with w reconcileGateway_condition [OF std_conditions.condition_setter_axioms _ g]
  show "oc_Written (snd policy_run) = Some (the (oc_Written (snd policy_run)))"
    "condition_is ConditionGatewaySynced ConditionTrue
       (tpst_Conditions (tp_Status (the (oc_Written (snd policy_run)))))"
    by (simp_all add: policy_owner_def)
qed

theorem gateway_status_truthful_witness:
  "case gateway_For (eff_Gateway policy_eff) gateway_policy (eff_Quota policy_eff) of
       Inl err \<Rightarrow> False
     | Inr None \<Rightarrow> tpst_GatewayRef (tp_Status (the (oc_Written (snd policy_run)))) = []
     | Inr (Some u) \<Rightarrow> find_artifact (fst policy_run) (artifact_key_of u) \<noteq> None \<and>
         tpst_GatewayRef (tp_Status (the (oc_Written (snd policy_run)))) =
           gvk_Kind (u_GVK u) @ ''/'' @ ArtifactName (tp_Name gateway_policy)"
  by (rule gateway_status_truthful
        [OF list_artifact_store.artifact_store_axioms std_conditions.condition_setter_axioms _
            policy_reads policy_resolves(1) policy_run_eq policy_after])
     (simp add: policy_owner_def)

text \<open>
  The namespaces a cluster policy reports are those it applies to. The reported list is
  sorted, and holds exactly the names of the existing namespaces for which the resolver would
  take the policy into account, as many times as there are such namespaces; the model count is
  the number of its rules.
\<close>

theorem applied_namespaces_exact:
  assumes "list_Namespaces c = Inr items"
    and "\<forall>ns \<in> set items. \<exists>b. namespaceMatches asSel ctp ns = Inr b"
    and "oc_Written (ClusterTokenPolicy_Reconcile asSel setCond c upd (Inr ctp)) = Some ctp'"
  shows "sorted (ctpst_AppliedNamespaces (ctp_Status ctp')) \<and>
    mset (ctpst_AppliedNamespaces (ctp_Status ctp')) =
      image_mset ns_Name (mset (filter (\<lambda>ns. \<forall>inp. ri_NamespaceLabels inp = ns_Labels ns \<longrightarrow>
        clusterMatches asSel inp ctp = Inr True) items)) \<and>
    ctpst_ModelCount (ctp_Status ctp') = length (ctps_Models (ctp_Spec ctp))"
proof -
  have same: "okb (namespaceMatches asSel ctp ns) \<longleftrightarrow>
      (\<forall>inp. ri_NamespaceLabels inp = ns_Labels ns \<longrightarrow> clusterMatches asSel inp ctp = Inr True)" for ns
  proof -
    have inp: "ri_NamespaceLabels \<lparr>ri_ClusterPolicies = [], ri_NamespacePolicies = [], ri_Namespace = [],
        ri_NamespaceLabels = ns_Labels ns, ri_PodLabels = None, ri_ServiceAccount = []\<rparr> = ns_Labels ns"
      by simp
    show ?thesis
      using inp
      by (fastforce simp: namespaceMatches_def clusterMatches_def NamespaceSelectorMatches_def okb_def
          split: sum.splits)
  qed
  have "filterR (namespaceMatches asSel ctp) items = Inr (filter (\<lambda>ns. okb (namespaceMatches asSel ctp ns)) items)"
    using assms(2) by (simp add: filterR_Inr_iff)
  with assms(1,3) show ?thesis
    by (auto simp: ClusterTokenPolicy_Reconcile_def Let_def same)
qed

lemma org_default_matches: "namespaceMatches std_selector org_default ns = Inr True"
  by (simp add: namespaceMatches_def NamespaceSelectorMatches_def selectorMatches_def sample_defs std_selector_def)

theorem applied_namespaces_exact_witness:
  "sorted (ctpst_AppliedNamespaces (ctp_Status (the (oc_Written
     (ClusterTokenPolicy_Reconcile std_selector replace_or_append sample_client (\<lambda>_. None) (Inr org_default))))))"
  by (rule applied_namespaces_exact
        [THEN conjunct1, of sample_client "[\<lparr>ns_Name = ''team-a'', ns_Labels = Some []\<rparr>]" std_selector
           org_default replace_or_append "\<lambda>_. None"])
     (simp_all add: sample_client_def client_of_def sample_cluster_def org_default_matches ex_bool_eq
        ClusterTokenPolicy_Reconcile_def Let_def)

end
