(* ===== verification/Credential_Controller.thy ===== *)
theory Credential_Controller
  imports Controller_Common Quotas
begin

text \<open>
  The credential reconciler (\<open>internal/controller/modelcredential_controller.go\<close>): it replicates the
  source Secret into the authorized namespaces, removes the replicas from the others, and records
  which policies bind the credential and how their budgets compare with its capacity. The uncached
  \<open>SecretClient\<close> is the record of its operations on a state of its own type; \<open>order\<close> is the order
  in which Go's \<open>range\<close> happens to visit a map's keys.
\<close>

record 's secret_client =
  sc_Get :: "'s \<Rightarrow> string \<Rightarrow> string \<Rightarrow> api_error + Secret"
  sc_List :: "'s \<Rightarrow> string \<Rightarrow> api_error + Secret list"
  sc_Delete :: "'s \<Rightarrow> string \<times> string \<Rightarrow> 's \<times> api_error option"
  sc_CreateOrUpdate :: "'s \<Rightarrow> Secret \<Rightarrow> (Secret \<Rightarrow> api_error + Secret) \<Rightarrow> 's \<times> api_error option"

definition firstNonEmpty :: "string \<Rightarrow> string \<Rightarrow> string" where
  "firstNonEmpty a b = (if a \<noteq> [] then a else b)"

section \<open>Authorized namespaces\<close>

text \<open>The keys of the returned map.\<close>

definition authorizedNamespaces ::
  "selector_api \<Rightarrow> client \<Rightarrow> ModelCredential \<Rightarrow> api_error + string list" where
  "authorizedNamespaces asSel c mc =
     (let out = foldl set_add [] (mcs_AllowedNamespaces (mc_Spec mc)) in
      case mcs_NamespaceSelector (mc_Spec mc) of
        None \<Rightarrow> Inr out
      | Some sel \<Rightarrow>
          (case list_Namespaces c of
             Inl err \<Rightarrow> Inl err
           | Inr items \<Rightarrow>
               (case filterR (\<lambda>ns. NamespaceSelectorMatches asSel (Some sel) (ns_Labels ns)) items of
                  Inl err \<Rightarrow> Inl (OtherError err)
                | Inr matched \<Rightarrow> Inr (foldl set_add out (map ns_Name matched)))))"

section \<open>Replicas\<close>

text \<open>\<open>controllerutil.SetControllerReference\<close> on the replica, a library function.\<close>

type_synonym set_secret_owner = "ModelCredential \<Rightarrow> Secret \<Rightarrow> api_error + Secret"

definition new_secret :: "string \<Rightarrow> string \<Rightarrow> Secret" where
  "new_secret ns n =
     \<lparr>sec_Namespace = ns, sec_Name = n, sec_Labels = None, sec_Annotations = None, sec_Type = [],
      sec_Data = [], sec_Owner = None\<rparr>"

text \<open>The closure given to \<open>CreateOrUpdate\<close>, up to the owner reference.\<close>

definition fill_replica :: "string \<Rightarrow> ModelCredential \<Rightarrow> string \<Rightarrow> Secret \<Rightarrow> Secret" where
  "fill_replica operatorNamespace mc data managed =
     managed
       \<lparr>sec_Labels := map_put LabelCredential (mc_Name mc) (map_put LabelManagedBy ManagedByValue (sec_Labels managed)),
        sec_Annotations :=
          map_put ''governance.tokencontrol.io/source''
            (firstNonEmpty (sks_Namespace (mcs_SecretRef (mc_Spec mc))) operatorNamespace @ ''/'' @
             sks_Name (mcs_SecretRef (mc_Spec mc)))
            (sec_Annotations managed),
        sec_Type := ''Opaque'',
        sec_Data := [(sks_Key (mcs_SecretRef (mc_Spec mc)), data)]\<rparr>"

definition syncSecret ::
  "'s secret_client \<Rightarrow> set_secret_owner \<Rightarrow> string \<Rightarrow> ModelCredential \<Rightarrow> string \<Rightarrow> 's \<Rightarrow> string
     \<Rightarrow> 's \<times> api_error option" where
  "syncSecret sc own operatorNamespace mc data s ns =
     sc_CreateOrUpdate sc s (new_secret ns (ManagedSecretPrefix @ mc_Name mc))
       (\<lambda>managed. own mc (fill_replica operatorNamespace mc data managed))"

text \<open>The replication loop: a failure is logged and the namespace left out of \<open>synced\<close>.\<close>

primrec syncAll ::
  "'s secret_client \<Rightarrow> set_secret_owner \<Rightarrow> string \<Rightarrow> ModelCredential \<Rightarrow> string \<Rightarrow> 's \<Rightarrow> string list
     \<Rightarrow> string list \<Rightarrow> 's \<times> string list" where
  "syncAll sc own opns mc data s synced [] = (s, synced)"
| "syncAll sc own opns mc data s synced (ns # nss) =
     (case syncSecret sc own opns mc data s ns of
        (s, Some err) \<Rightarrow> syncAll sc own opns mc data s synced nss
      | (s, None) \<Rightarrow> syncAll sc own opns mc data s (synced @ [ns]) nss)"

text \<open>The loop of \<open>pruneSecrets\<close> over the listed replicas.\<close>

primrec pruneLoop ::
  "'s secret_client \<Rightarrow> string list \<Rightarrow> 's \<Rightarrow> Secret list \<Rightarrow> 's \<times> api_error option" where
  "pruneLoop sc authorized s [] = (s, None)"
| "pruneLoop sc authorized s (x # xs) =
     (if List.member authorized (sec_Namespace x) then pruneLoop sc authorized s xs
      else (case sc_Delete sc s (sec_Namespace x, sec_Name x) of
              (s, Some err) \<Rightarrow> if \<not> IsNotFound err then (s, Some err) else pruneLoop sc authorized s xs
            | (s, None) \<Rightarrow> pruneLoop sc authorized s xs))"

definition pruneSecrets ::
  "'s secret_client \<Rightarrow> ModelCredential \<Rightarrow> string list \<Rightarrow> 's \<Rightarrow> 's \<times> api_error option" where
  "pruneSecrets sc mc authorized s =
     (case sc_List sc s (mc_Name mc) of
        Inl err \<Rightarrow> (s, Some err)
      | Inr items \<Rightarrow> pruneLoop sc authorized s items)"

section \<open>Referencing policies\<close>

definition modelsReference :: "ModelPermission list \<Rightarrow> string \<Rightarrow> bool" where
  "modelsReference models n =
     list_ex (\<lambda>m. case mp_CredentialRef m of None \<Rightarrow> False | Some cref \<Rightarrow> cr_Name cref = n) models"

definition binds_cluster :: "string \<Rightarrow> ClusterTokenPolicy \<Rightarrow> bool" where
  "binds_cluster n ctp \<longleftrightarrow>
     (case ctps_DefaultCredentialRef (ctp_Spec ctp) of None \<Rightarrow> False | Some cref \<Rightarrow> cr_Name cref = n) \<or>
     modelsReference (ctps_Models (ctp_Spec ctp)) n"

definition binds_policy :: "string \<Rightarrow> TokenPolicy \<Rightarrow> bool" where
  "binds_policy n tp \<longleftrightarrow> modelsReference (tps_Models (tp_Spec tp)) n"

text \<open>\<open>if _, seen := set[key]; !seen\<close>; the state is \<open>set\<close> and \<open>allocated\<close>.\<close>

definition addReference ::
  "string list \<times> TokenQuota option \<Rightarrow> string \<times> TokenQuota option \<Rightarrow> string list \<times> TokenQuota option" where
  "addReference st ref =
     (let (set, allocated) = st; (key, quota) = ref
      in if \<not> List.member set key then (set @ [key], addQuota allocated quota) else (set, allocated))"

definition referencingPolicies ::
  "client \<Rightarrow> string \<Rightarrow> api_error + string list \<times> TokenQuota option" where
  "referencingPolicies c n =
     (case list_ClusterTokenPolicies c of
        Inl err \<Rightarrow> Inl err
      | Inr ctpl \<Rightarrow>
          (let st = foldl (\<lambda>st ctp.
                      if binds_cluster n ctp
                      then addReference st (''ClusterTokenPolicy/'' @ ctp_Name ctp, ctps_Quota (ctp_Spec ctp))
                      else st) ([], Some empty_quota) ctpl
           in case list_AllTokenPolicies c of
                Inl err \<Rightarrow> Inl err
              | Inr tpl \<Rightarrow>
                  (let (set, allocated) = foldl (\<lambda>st tp.
                         if binds_policy n tp
                         then addReference st
                                (''TokenPolicy/'' @ tp_Namespace tp @ ''/'' @ tp_Name tp, tps_Quota (tp_Spec tp))
                         else st) st tpl
                   in Inr (sort set, normalizeQuota allocated))))"

section \<open>Capacity\<close>

definition b2f :: "bool \<Rightarrow> float64" where
  "b2f b = (if b then 1 else 0)"

definition credential_condition ::
  "set_condition \<Rightarrow> string \<Rightarrow> ConditionStatus \<Rightarrow> string \<Rightarrow> string \<Rightarrow> ModelCredential \<Rightarrow> ModelCredential" where
  "credential_condition setCond t st r m mc =
     mc\<lparr>mc_Status := (mc_Status mc)
       \<lparr>mcst_Conditions := setCondition setCond (mcst_Conditions (mc_Status mc)) t st r m (mc_Generation mc)\<rparr>\<rparr>"

definition reconcileCapacity ::
  "set_condition \<Rightarrow> ModelCredential \<Rightarrow> TokenQuota option \<Rightarrow> ModelCredential \<times> metric_event list" where
  "reconcileCapacity setCond mc allocated =
     (let mc = mc\<lparr>mc_Status := (mc_Status mc)\<lparr>mcst_Allocated := allocated\<rparr>\<rparr>;
          capacity = mcs_Capacity (mc_Spec mc)
      in if capacity = None
         then (let mc = mc\<lparr>mc_Status := (mc_Status mc)\<lparr>mcst_Available := None\<rparr>\<rparr>
               in (credential_condition setCond ConditionOversubscribed ConditionFalse ''NoCapacityDeclared''
                     ''spec.capacity is not set; capacity planning is disabled'' mc,
                   [GaugeSet CredentialCapacityTPM [mc_Name mc] 0,
                    GaugeSet CredentialAllocatedTPM [mc_Name mc] (quotaTPM allocated),
                    GaugeSet CredentialOversubscribed [mc_Name mc] 0]))
         else (let mc = mc\<lparr>mc_Status := (mc_Status mc)\<lparr>mcst_Available := availableQuota capacity allocated\<rparr>\<rparr>;
                   over = oversubscribed capacity allocated;
                   mc = (if over
                         then credential_condition setCond ConditionOversubscribed ConditionTrue
                                ''AllocationExceedsCapacity''
                                ''committed policy budgets exceed the declared key capacity'' mc
                         else credential_condition setCond ConditionOversubscribed ConditionFalse
                                ''WithinCapacity''
                                ''committed policy budgets are within the declared key capacity'' mc)
               in (mc,
                   [GaugeSet CredentialCapacityTPM [mc_Name mc] (quotaTPM capacity),
                    GaugeSet CredentialAllocatedTPM [mc_Name mc] (quotaTPM allocated),
                    GaugeSet CredentialOversubscribed [mc_Name mc] (b2f over)])))"

section \<open>Reconcile\<close>

text \<open>The part of \<open>Reconcile\<close> after the source key has been found.\<close>

definition reconcile_resolved ::
  "selector_api \<Rightarrow> set_condition \<Rightarrow> client \<Rightarrow> 's secret_client \<Rightarrow> set_secret_owner \<Rightarrow> (string list \<Rightarrow> string list)
     \<Rightarrow> string \<Rightarrow> (ModelCredential \<Rightarrow> api_error option) \<Rightarrow> ModelCredential \<Rightarrow> string \<Rightarrow> 's
     \<Rightarrow> 's \<times> ModelCredential outcome" where
  "reconcile_resolved asSel setCond c sc own order operatorNamespace upd mc data s =
     (let mc = mc\<lparr>mc_Status := (mc_Status mc)\<lparr>mcst_SecretResolved := True\<rparr>\<rparr>;
          mc = credential_condition setCond ConditionSecretResolved ConditionTrue ''Resolved''
                 ''source Secret resolved'' mc
      in case authorizedNamespaces asSel c mc of
           Inl err \<Rightarrow> (s, failed (Some err))
         | Inr authorized \<Rightarrow>
             (let (s, synced) = syncAll sc own operatorNamespace mc data s [] (order authorized);
                  synced = sort synced;
                  (s, perr) = pruneSecrets sc mc authorized s
              in case referencingPolicies c (mc_Name mc) of
                   Inl err \<Rightarrow> (s, failed (Some err))
                 | Inr (refs, allocated) \<Rightarrow>
                     (let mc = mc\<lparr>mc_Status := (mc_Status mc)
                            \<lparr>mcst_ObservedGeneration := mc_Generation mc,
                             mcst_SyncedNamespaces := synced,
                             mcst_ReferencingPolicies := refs\<rparr>\<rparr>;
                          (mc, ev) = reconcileCapacity setCond mc allocated;
                          mc = credential_condition setCond ConditionReady ConditionTrue ''Synced''
                                 (''synced to '' @ show_nat (length synced) @ '' namespace(s)'') mc
                      in (s, write_status upd mc 600
                               (ev @ [GaugeSet CredentialSyncedNamespaces [mc_Name mc] (float64_of (int (length synced)))])))))"

definition ModelCredential_Reconcile ::
  "selector_api \<Rightarrow> set_condition \<Rightarrow> client \<Rightarrow> 's secret_client \<Rightarrow> set_secret_owner \<Rightarrow> (string list \<Rightarrow> string list)
     \<Rightarrow> string \<Rightarrow> (ModelCredential \<Rightarrow> api_error option) \<Rightarrow> api_error + ModelCredential \<Rightarrow> 's
     \<Rightarrow> 's \<times> ModelCredential outcome" where
  "ModelCredential_Reconcile asSel setCond c sc own order operatorNamespace upd got s =
     (case got of
        Inl err \<Rightarrow> (s, failed (IgnoreNotFound err))
      | Inr mc \<Rightarrow>
          (let ref = mcs_SecretRef (mc_Spec mc);
               secretNS = (if sks_Namespace ref = [] then operatorNamespace else sks_Namespace ref);
               unresolved = mc\<lparr>mc_Status := (mc_Status mc)\<lparr>mcst_SecretResolved := False\<rparr>\<rparr>
           in case sc_Get sc s secretNS (sks_Name ref) of
                Inl err \<Rightarrow>
                  if IsNotFound err
                  then (let mc = credential_condition setCond ConditionSecretResolved ConditionFalse ''SecretNotFound''
                               (''source Secret '' @ secretNS @ ''/'' @ sks_Name ref @ '' not found'') unresolved;
                            mc = credential_condition setCond ConditionReady ConditionFalse ''SecretNotFound''
                               ''waiting for source Secret'' mc
                        in (s, write_status upd mc 60 []))
                  else (s, failed (Some err))
              | Inr src \<Rightarrow>
                  (case map_of (sec_Data src) (sks_Key ref) of
                     None \<Rightarrow>
                       (let mc = credential_condition setCond ConditionSecretResolved ConditionFalse ''KeyMissing''
                              (''source Secret '' @ secretNS @ ''/'' @ sks_Name ref @ '' has no key '' @
                               quote (sks_Key ref)) unresolved
                        in (s, write_status upd mc 60 []))
                   | Some data \<Rightarrow>
                       reconcile_resolved asSel setCond c sc own order operatorNamespace upd mc data s)))"

end
