(* ===== verification/Secret_Store.thy ===== *)
theory Secret_Store
  imports Credential_Controller
begin

text \<open>
  The interface of the uncached Secret client, as the credential reconciler uses it: what each
  operation does to the stored Secrets when it succeeds, and that it leaves them alone when it
  fails. The lemmas on replication and pruning are proved from these laws. The store that is
  used as an instance keeps a list of Secrets, and any call of it may be made to fail.
\<close>

definition secret_key :: "Secret \<Rightarrow> string \<times> string" where
  "secret_key x = (sec_Namespace x, sec_Name x)"

definition has_label :: "string \<Rightarrow> string \<Rightarrow> Secret \<Rightarrow> bool" where
  "has_label k v x \<longleftrightarrow> map_of (case sec_Labels x of None \<Rightarrow> [] | Some l \<Rightarrow> l) k = Some v"

definition replica_key :: "ModelCredential \<Rightarrow> string \<Rightarrow> string \<times> string" where
  "replica_key mc ns = (ns, ManagedSecretPrefix @ mc_Name mc)"

text \<open>A replica that carries the current key material, and the labels of its credential.\<close>

definition current_replica :: "ModelCredential \<Rightarrow> string \<Rightarrow> Secret \<Rightarrow> bool" where
  "current_replica mc data x \<longleftrightarrow>
     sec_Data x = [(sks_Key (mcs_SecretRef (mc_Spec mc)), data)] \<and> sec_Type x = ''Opaque'' \<and>
     has_label LabelCredential (mc_Name mc) x \<and> has_label LabelManagedBy ManagedByValue x"

section \<open>The interface\<close>

locale secret_store =
  fixes sc :: "'s secret_client" and view :: "'s \<Rightarrow> string \<times> string \<Rightarrow> Secret option"
  assumes view_key: "view s k = Some x \<Longrightarrow> secret_key x = k"
    and get_ok: "sc_Get sc s ns n = Inr x \<Longrightarrow> view s (ns, n) = Some x"
    and list_ok: "sc_List sc s n = Inr xs \<Longrightarrow>
      set xs = {x. view s (secret_key x) = Some x \<and> has_label LabelCredential n x}"
    and delete_ok: "sc_Delete sc s k = (s', None) \<Longrightarrow> view s' = (view s)(k := None)"
    and delete_fail: "sc_Delete sc s k = (s', Some e) \<Longrightarrow> view s' = view s \<and> (IsNotFound e \<longrightarrow> view s k = None)"
    and put_ok: "sc_CreateOrUpdate sc s obj f = (s', None) \<Longrightarrow>
      \<exists>x. f (case view s (secret_key obj) of None \<Rightarrow> obj | Some y \<Rightarrow> y) = Inr x \<and>
        view s' = (view s)(secret_key obj \<mapsto> x)"
    and put_fail: "sc_CreateOrUpdate sc s obj f = (s', Some e) \<Longrightarrow> view s' = view s"
begin

text \<open>Pruning touches listed Secrets outside the authorized namespaces, and nothing else.\<close>

lemma pruneLoop_frame:
  assumes "pruneLoop sc auth s xs = (s', err)"
  shows "view s' k = view s k \<or>
    view s' k = None \<and> k \<in> secret_key ` set xs \<and> fst k \<notin> set auth"
  using assms
proof (induction xs arbitrary: s)
  case (Cons x xs)
  show ?case
  proof (cases "sec_Namespace x \<in> set auth")
    case True
    with Cons show ?thesis by fastforce
  next
    case False
    obtain s1 e where d: "sc_Delete sc s (sec_Namespace x, sec_Name x) = (s1, e)" by fastforce
    have step: "view s1 k = view s k \<or> view s1 k = None \<and> k = secret_key x"
      using delete_ok [of s "secret_key x" s1] delete_fail [of s "secret_key x" s1] d
      by (cases e) (auto simp: secret_key_def)
    have rest: "pruneLoop sc auth s1 xs = (s', err) \<or> s' = s1"
      using Cons.prems False d by (cases e) (auto split: if_splits)
    have "fst (secret_key x) \<notin> set auth" using False by (simp add: secret_key_def)
    with step rest Cons.IH [of s1] show ?thesis by auto
  qed
qed simp

lemma pruneLoop_done:
  assumes "pruneLoop sc auth s xs = (s', None)" "x \<in> set xs" "sec_Namespace x \<notin> set auth"
  shows "view s' (secret_key x) = None"
  using assms
proof (induction xs arbitrary: s)
  case (Cons y ys)
  show ?case
  proof (cases "sec_Namespace y \<in> set auth")
    case True
    with Cons show ?thesis by auto
  next
    case False
    obtain s1 e where d: "sc_Delete sc s (secret_key y) = (s1, e)" by fastforce
    have r: "pruneLoop sc auth s1 ys = (s', None)"
      using Cons.prems(1) False d by (cases e) (auto simp: secret_key_def split: if_splits)
    have "view s1 (secret_key y) = None"
      using delete_ok [of s "secret_key y" s1] delete_fail [of s "secret_key y" s1] d
        Cons.prems(1) False by (cases e) (auto simp: secret_key_def split: if_splits)
    then have "view s' (secret_key y) = None"
      using pruneLoop_frame [OF r, of "secret_key y"] by auto
    with Cons.IH [OF r] Cons.prems(2,3) show ?thesis by auto
  qed
qed simp

lemma pruneSecrets_frame:
  assumes "pruneSecrets sc mc auth s = (s', err)"
  shows "view s' k = view s k \<or>
    view s' k = None \<and> fst k \<notin> set auth \<and> (\<exists>x. view s k = Some x \<and> has_label LabelCredential (mc_Name mc) x)"
proof (cases "sc_List sc s (mc_Name mc)")
  case (Inr xs)
  with assms have "pruneLoop sc auth s xs = (s', err)" by (simp add: pruneSecrets_def)
  from pruneLoop_frame [OF this, of k] list_ok [OF Inr] show ?thesis by auto
qed (use assms in \<open>simp add: pruneSecrets_def\<close>)

lemma pruneSecrets_done:
  assumes "pruneSecrets sc mc auth s = (s', None)"
    and "view s' k = Some x" "has_label LabelCredential (mc_Name mc) x"
  shows "fst k \<in> set auth"
proof (rule ccontr)
  assume out: "fst k \<notin> set auth"
  obtain xs where l: "sc_List sc s (mc_Name mc) = Inr xs" and p: "pruneLoop sc auth s xs = (s', None)"
    using assms(1) by (auto simp: pruneSecrets_def split: sum.splits)
  have k: "secret_key x = k" using view_key assms(2) .
  have "view s k = Some x" using pruneLoop_frame [OF p, of k] assms(2) by auto
  with l k assms(3) have "x \<in> set xs" using list_ok [OF l] by auto
  moreover have "sec_Namespace x \<notin> set auth" using out k by (auto simp: secret_key_def)
  ultimately have "view s' (secret_key x) = None" by (rule pruneLoop_done [OF p])
  with assms(2) k show False by simp
qed

end

text \<open>With the owner reference: setting it changes the owner and nothing else.\<close>

locale replica_store = secret_store sc view
  for sc :: "'s secret_client" and view :: "'s \<Rightarrow> string \<times> string \<Rightarrow> Secret option" +
  fixes own :: set_secret_owner
  assumes own_frame: "own mc x = Inr y \<Longrightarrow> \<exists>ow. y = x\<lparr>sec_Owner := ow\<rparr>"
begin

lemma syncSecret_frame:
  assumes "syncSecret sc own opns mc data s ns = (s', err)" "k \<noteq> replica_key mc ns"
  shows "view s' k = view s k"
  using assms put_ok put_fail
  by (cases err) (fastforce simp: syncSecret_def replica_key_def new_secret_def secret_key_def)+

lemma syncSecret_done:
  assumes "syncSecret sc own opns mc data s ns = (s', None)"
  shows "\<exists>x. view s' (replica_key mc ns) = Some x \<and> current_replica mc data x"
proof -
  have key: "secret_key (new_secret ns (ManagedSecretPrefix @ mc_Name mc)) = replica_key mc ns"
    by (simp add: secret_key_def new_secret_def replica_key_def)
  obtain m x where "own mc (fill_replica opns mc data m) = Inr x" and v: "view s' = (view s)(replica_key mc ns \<mapsto> x)"
    using put_ok [OF assms [unfolded syncSecret_def]] by (auto simp: key)
  then obtain ow where "x = (fill_replica opns mc data m)\<lparr>sec_Owner := ow\<rparr>" using own_frame by blast
  then have "current_replica mc data x"
    by (simp add: current_replica_def fill_replica_def has_label_def LabelCredential_def LabelManagedBy_def)
  with v show ?thesis by simp
qed

lemma syncAll_facts:
  assumes "syncAll sc own opns mc data s synced nss = (s', synced')"
  shows "\<exists>new. synced' = synced @ new \<and> set new \<subseteq> set nss \<and> (distinct nss \<longrightarrow> distinct new) \<and>
      (distinct nss \<longrightarrow> (\<forall>ns \<in> set new. \<exists>x. view s' (replica_key mc ns) = Some x \<and> current_replica mc data x))"
    and "k \<notin> replica_key mc ` set nss \<Longrightarrow> view s' k = view s k"
  using assms
proof (induction nss arbitrary: s synced k)
  case (Cons ns nss)
  {
    case 1
    obtain s1 err where st: "syncSecret sc own opns mc data s ns = (s1, err)" by fastforce
    let ?synced = "if err = None then synced @ [ns] else synced"
    from 1 have r: "syncAll sc own opns mc data s1 ?synced nss = (s', synced')"
      using st by (cases err) auto
    from Cons.IH(1) [OF r] obtain new where new: "synced' = ?synced @ new" "set new \<subseteq> set nss"
      "distinct nss \<longrightarrow> distinct new \<and>
         (\<forall>ns \<in> set new. \<exists>x. view s' (replica_key mc ns) = Some x \<and> current_replica mc data x)" by blast
    show ?case
    proof (cases err)
      case None
      obtain x where x: "view s1 (replica_key mc ns) = Some x" "current_replica mc data x"
        using syncSecret_done st None by blast
      have "ns \<notin> set nss \<Longrightarrow> view s' (replica_key mc ns) = Some x"
        using Cons.IH(2) [OF _ r, of "replica_key mc ns"] x(1) by (auto simp: replica_key_def)
      with None new x(2) show ?thesis by (intro exI [of _ "ns # new"]) auto
    next
      case (Some e)
      with new show ?thesis by (intro exI [of _ new]) auto
    qed
  next
    case 2
    obtain s1 err where st: "syncSecret sc own opns mc data s ns = (s1, err)" by fastforce
    from 2 have r: "syncAll sc own opns mc data s1 (if err = None then synced @ [ns] else synced) nss = (s', synced')"
      using st by (cases err) auto
    from 2 have "k \<noteq> replica_key mc ns" by simp
    with syncSecret_frame [OF st] Cons.IH(2) [OF _ r] 2 show ?case by simp
  }
qed simp_all

text \<open>Whatever fails, a key keeps its Secret or gets a current replica.\<close>

lemma syncAll_values:
  "syncAll sc own opns mc data s synced nss = (s', synced') \<Longrightarrow>
     view s' k = view s k \<or>
     k \<in> replica_key mc ` set nss \<and> (\<exists>x. view s' k = Some x \<and> current_replica mc data x)"
proof (induction nss arbitrary: s synced)
  case (Cons ns nss)
  obtain s1 err where st: "syncSecret sc own opns mc data s ns = (s1, err)" by fastforce
  from Cons.prems have r: "syncAll sc own opns mc data s1 (if err = None then synced @ [ns] else synced) nss = (s', synced')"
    using st by (cases err) auto
  have "view s1 k = view s k \<or>
      k = replica_key mc ns \<and> (\<exists>x. view s1 k = Some x \<and> current_replica mc data x)"
    using syncSecret_frame [OF st, of k] syncSecret_done [of opns mc data s ns s1] put_fail st
    by (cases err) (auto simp: syncSecret_def)
  with Cons.IH [OF r] show ?case by auto
qed simp

end

section \<open>A store\<close>

datatype secret_call = CallGet | CallList | CallDelete | CallPut

definition list_view :: "Secret list \<Rightarrow> string \<times> string \<Rightarrow> Secret option" where
  "list_view s k = find (\<lambda>x. secret_key x = k) s"

text \<open>\<open>fault\<close> says which calls fail, and how.\<close>

definition list_store ::
  "(secret_call \<Rightarrow> string \<times> string \<Rightarrow> api_error option) \<Rightarrow> (Secret list) secret_client" where
  "list_store fault =
     \<lparr>sc_Get = (\<lambda>s ns n.
        case fault CallGet (ns, n) of
          Some e \<Rightarrow> Inl e
        | None \<Rightarrow> (case list_view s (ns, n) of None \<Rightarrow> Inl (NotFound (n @ '' not found'')) | Some x \<Rightarrow> Inr x)),
      sc_List = (\<lambda>s n.
        case fault CallList ([], n) of
          Some e \<Rightarrow> Inl e
        | None \<Rightarrow> Inr (filter (\<lambda>x. list_view s (secret_key x) = Some x \<and> has_label LabelCredential n x) s)),
      sc_Delete = (\<lambda>s k.
        case fault CallDelete k of
          Some e \<Rightarrow> (s, Some (if IsNotFound e then OtherError (Error e) else e))
        | None \<Rightarrow>
            if list_view s k = None then (s, Some (NotFound (snd k @ '' not found'')))
            else (filter (\<lambda>x. secret_key x \<noteq> k) s, None)),
      sc_CreateOrUpdate = (\<lambda>s obj f.
        case fault CallPut (secret_key obj) of
          Some e \<Rightarrow> (s, Some e)
        | None \<Rightarrow>
            (case f (case list_view s (secret_key obj) of None \<Rightarrow> obj | Some y \<Rightarrow> y) of
               Inl e \<Rightarrow> (s, Some e)
             | Inr x \<Rightarrow>
                 if secret_key x \<noteq> secret_key obj
                 then (s, Some (OtherError ''MutateFn cannot mutate object name and/or object namespace''))
                 else (x # filter (\<lambda>y. secret_key y \<noteq> secret_key obj) s, None)))\<rparr>"

lemma list_view_key: "list_view s k = Some x \<Longrightarrow> secret_key x = k \<and> x \<in> set s"
  by (auto simp: list_view_def find_Some_iff)

lemma find_filter: "find P (filter Q xs) = find (\<lambda>x. Q x \<and> P x) xs"
  by (induction xs) auto

lemma list_view_remove: "list_view (filter (\<lambda>x. secret_key x \<noteq> k) s) = (list_view s)(k := None)"
  by (rule ext) (auto simp: list_view_def find_filter find_None_iff intro!: find_cong)

lemma list_view_Cons: "list_view (x # s) = (list_view s)(secret_key x \<mapsto> x)"
  by (auto simp: list_view_def)

definition own_by :: set_secret_owner where
  "own_by mc x = Inr (x\<lparr>sec_Owner := Some (mc_Name mc)\<rparr>)"

interpretation list_secrets: replica_store "list_store fault" list_view own_by for fault
  by unfold_locales
     (auto simp: list_store_def own_by_def list_view_remove list_view_Cons
       dest: list_view_key split: option.splits sum.splits if_splits)

end
