(* ===== verification/Credential_Facts.thy ===== *)
theory Credential_Facts
  imports Secret_Store
begin

text \<open>
  Closed forms of the credential reconciler: the namespaces it may use, the references and the sum
  of budgets as folds over one list of binding policies, sums of limits that do not leave the
  range of \<open>int64\<close>, and the runs of the replication after the source key is known.
\<close>

section \<open>Authorized namespaces\<close>

lemma authorizedNamespaces_distinct: "authorizedNamespaces asSel c mc = Inr auth \<Longrightarrow> distinct auth"
proof -
  have "distinct (foldl set_add xs ys)" if "distinct xs" for xs ys :: "string list"
    using key_set.keys_fold_distinct [OF TrueI, of xs ys] that by simp
  then show "authorizedNamespaces asSel c mc = Inr auth \<Longrightarrow> distinct auth"
    by (auto simp: authorizedNamespaces_def Let_def split: option.splits sum.splits)
qed

lemma authorizedNamespaces_spec:
  "mc_Spec mc = mc_Spec mc' \<Longrightarrow> authorizedNamespaces asSel c mc = authorizedNamespaces asSel c mc'"
  by (simp add: authorizedNamespaces_def)

section \<open>References\<close>

text \<open>The policies that bind the credential, as the reconciler meets them: key and budget.\<close>

definition bindings :: "string \<Rightarrow> ClusterTokenPolicy list \<Rightarrow> TokenPolicy list \<Rightarrow> (string \<times> TokenQuota option) list" where
  "bindings n ctpl tpl =
     map (\<lambda>ctp. (''ClusterTokenPolicy/'' @ ctp_Name ctp, ctps_Quota (ctp_Spec ctp))) (filter (binds_cluster n) ctpl) @
     map (\<lambda>tp. (''TokenPolicy/'' @ tp_Namespace tp @ ''/'' @ tp_Name tp, tps_Quota (tp_Spec tp)))
       (filter (binds_policy n) tpl)"

lemma foldl_filter_map: "foldl (\<lambda>st x. if p x then f st (g x) else st) s xs = foldl f s (map g (filter p xs))"
  by (induction xs arbitrary: s) auto

lemma referencingPolicies_eq:
  assumes "list_ClusterTokenPolicies c = Inr ctpl" "list_AllTokenPolicies c = Inr tpl"
  shows "referencingPolicies c n =
    Inr (sort (fst (foldl addReference ([], Some empty_quota) (bindings n ctpl tpl))),
         normalizeQuota (snd (foldl addReference ([], Some empty_quota) (bindings n ctpl tpl))))"
  using assms
  by (simp add: referencingPolicies_def bindings_def foldl_filter_map [of _ addReference] Let_def case_prod_beta
      del: foldl_map)

lemma addReference_distinct:
  "distinct (ks @ map fst refs) \<Longrightarrow>
     foldl addReference (ks, q) refs = (ks @ map fst refs, foldl addQuota q (map snd refs))"
  by (induction refs arbitrary: ks q) (auto simp: addReference_def)

lemma append_slash_eq:
  "\<lbrakk>CHR ''/'' \<notin> set a; CHR ''/'' \<notin> set b; a @ ''/'' @ x = b @ ''/'' @ y\<rbrakk> \<Longrightarrow> a = b \<and> x = y"
proof (induction a arbitrary: b)
  case Nil
  then show ?case by (cases b) auto
next
  case (Cons c a)
  then show ?case by (cases b) auto
qed

lemma bindings_distinct:
  assumes "distinct (map ctp_Name ctpl)" "distinct (map (\<lambda>tp. (tp_Namespace tp, tp_Name tp)) tpl)"
    and "\<forall>tp \<in> set tpl. CHR ''/'' \<notin> set (tp_Namespace tp)"
  shows "distinct (map fst (bindings n ctpl tpl))"
proof -
  have "inj_on (\<lambda>tp. ''TokenPolicy/'' @ tp_Namespace tp @ ''/'' @ tp_Name tp) (set tpl)"
    using assms(2,3) by (fastforce simp: inj_on_def distinct_map dest: append_slash_eq [simplified, rotated 2])
  with assms(1,2) show ?thesis
    by (auto simp: bindings_def comp_def distinct_map inj_on_def intro!: distinct_filter)
qed

section \<open>Sums of limits\<close>

definition amount :: "int64 option \<Rightarrow> int" where
  "amount l = (case l of None \<Rightarrow> 0 | Some v \<Rightarrow> sint v)"

lemma amount_simps [simp]: "amount None = 0" "amount (Some v) = sint v"
  by (simp_all add: amount_def)

lemma addPtr_amount:
  assumes "- (2 ^ 63) \<le> amount a + amount b" "amount a + amount b < 2 ^ 63"
  shows "amount (addPtr a b) = amount a + amount b"
  using assms sint_add64 by (auto simp: addPtr_def split: option.splits)

lemma addPtr_None_iff [simp]: "addPtr a b = None \<longleftrightarrow> a = None \<and> b = None"
  by (auto simp: addPtr_def split: option.splits)

lemma fold_addPtr_None_iff: "foldl addPtr a xs = None \<longleftrightarrow> a = None \<and> (\<forall>x \<in> set xs. x = None)"
  by (induction xs arbitrary: a) auto

text \<open>Budgets are not negative (the schema has a minimum of 0), so a sum in range has its prefixes in range.\<close>

lemma fold_addPtr_amount:
  assumes "\<forall>x \<in> set xs. 0 \<le> amount x" "0 \<le> amount a" "amount a + sum_list (map amount xs) < 2 ^ 63"
  shows "amount (foldl addPtr a xs) = amount a + sum_list (map amount xs)"
  using assms
proof (induction xs arbitrary: a)
  case (Cons x xs)
  have rest: "0 \<le> sum_list (map amount xs)" using Cons.prems(1) by (auto intro!: sum_list_nonneg)
  have "amount (addPtr a x) = amount a + amount x"
    using Cons.prems rest by (intro addPtr_amount) auto
  with Cons.prems Cons.IH [of "addPtr a x"] show ?case by simp
qed simp

text \<open>The sum of what a window's limits allow, over the binding policies.\<close>

definition demand :: "window \<Rightarrow> (string \<times> TokenQuota option) list \<Rightarrow> int" where
  "demand w refs = sum_list (map (\<lambda>r. amount (qlimit w (snd r))) refs)"

lemma fold_addQuota_demand:
  assumes "\<forall>r \<in> set refs. 0 \<le> amount (qlimit w (snd r))" "demand w refs < 2 ^ 63"
  shows "amount (qlimit w (normalizeQuota (foldl addQuota (Some empty_quota) (map snd refs)))) = demand w refs"
proof -
  have "amount (foldl addPtr None (map (qlimit w) (map snd refs))) = 0 + demand w refs"
    using assms fold_addPtr_amount [of "map (qlimit w) (map snd refs)" None]
    by (simp add: demand_def comp_def)
  then show ?thesis by (simp add: add_fold.fold_limit)
qed

lemma fold_addQuota_None_iff:
  "qlimit w (normalizeQuota (foldl addQuota (Some empty_quota) (map snd refs))) = None \<longleftrightarrow>
     (\<forall>r \<in> set refs. qlimit w (snd r) = None)"
  by (auto simp: add_fold.fold_limit fold_addPtr_None_iff)

lemma overPtr_iff: "overPtr c a \<longleftrightarrow> (\<exists>x. c = Some x \<and> a \<noteq> None \<and> sint x < amount a)"
  by (auto simp: overPtr_def lt64_def split: option.splits)

lemma availablePtr_amount:
  assumes "0 \<le> sint x" "0 \<le> amount a"
  shows "\<exists>v. availablePtr (Some x) a = Some v \<and> sint v = max 0 (sint x - amount a)"
proof -
  have "sint (x - (case a of None \<Rightarrow> 0 | Some a \<Rightarrow> a)) = sint x - amount a"
    using assms int64_bounds(2) [of x] int64_bounds(2) [of "case a of None \<Rightarrow> 0 | Some a \<Rightarrow> a"]
    by (subst sint_sub64) (auto simp: amount_def split: option.splits)
  then show ?thesis by (auto simp: availablePtr_def Let_def lt64_def max_def)
qed

section \<open>A run of the reconciler\<close>

lemma credential_condition_simps [simp]:
  "mc_Name (credential_condition f t st r m mc) = mc_Name mc"
  "mc_Spec (credential_condition f t st r m mc) = mc_Spec mc"
  "mc_Generation (credential_condition f t st r m mc) = mc_Generation mc"
  "mcst_SecretResolved (mc_Status (credential_condition f t st r m mc)) = mcst_SecretResolved (mc_Status mc)"
  "mcst_SyncedNamespaces (mc_Status (credential_condition f t st r m mc)) = mcst_SyncedNamespaces (mc_Status mc)"
  "mcst_ReferencingPolicies (mc_Status (credential_condition f t st r m mc)) = mcst_ReferencingPolicies (mc_Status mc)"
  "mcst_Allocated (mc_Status (credential_condition f t st r m mc)) = mcst_Allocated (mc_Status mc)"
  "mcst_Available (mc_Status (credential_condition f t st r m mc)) = mcst_Available (mc_Status mc)"
  "mcst_Conditions (mc_Status (credential_condition f t st r m mc)) =
     setCondition f (mcst_Conditions (mc_Status mc)) t st r m (mc_Generation mc)"
  by (simp_all add: credential_condition_def)

lemma reconcileCapacity_status [simp]:
  "mc_Name (fst (reconcileCapacity f mc q)) = mc_Name mc"
  "mc_Spec (fst (reconcileCapacity f mc q)) = mc_Spec mc"
  "mc_Generation (fst (reconcileCapacity f mc q)) = mc_Generation mc"
  "mcst_SecretResolved (mc_Status (fst (reconcileCapacity f mc q))) = mcst_SecretResolved (mc_Status mc)"
  "mcst_SyncedNamespaces (mc_Status (fst (reconcileCapacity f mc q))) = mcst_SyncedNamespaces (mc_Status mc)"
  "mcst_ReferencingPolicies (mc_Status (fst (reconcileCapacity f mc q))) = mcst_ReferencingPolicies (mc_Status mc)"
  "mcst_Allocated (mc_Status (fst (reconcileCapacity f mc q))) = q"
  "mcst_Available (mc_Status (fst (reconcileCapacity f mc q))) =
     (if mcs_Capacity (mc_Spec mc) = None then None else availableQuota (mcs_Capacity (mc_Spec mc)) q)"
  by (simp_all add: reconcileCapacity_def Let_def)

text \<open>The credential as the replication sees it.\<close>

definition resolved_mc :: "set_condition \<Rightarrow> ModelCredential \<Rightarrow> ModelCredential" where
  "resolved_mc setCond mc =
     credential_condition setCond ConditionSecretResolved ConditionTrue ''Resolved'' ''source Secret resolved''
       (mc\<lparr>mc_Status := (mc_Status mc)\<lparr>mcst_SecretResolved := True\<rparr>\<rparr>)"

lemma resolved_mc_simps [simp]:
  "mc_Name (resolved_mc f mc) = mc_Name mc" "mc_Spec (resolved_mc f mc) = mc_Spec mc"
  "replica_key (resolved_mc f mc) = replica_key mc"
  "current_replica (resolved_mc f mc) = current_replica mc"
  by (simp_all add: resolved_mc_def replica_key_def current_replica_def fun_eq_iff)

text \<open>
  What a run comes to once the source key is known: replicate, prune, and write a status that
  names what was replicated (unless the policies could not be listed).
\<close>

lemma reconcile_resolved_runs:
  assumes "reconcile_resolved asSel setCond c sc own order opns upd mc data s = (s', out)"
    and "authorizedNamespaces asSel c mc = Inr auth"
  obtains s1 synced perr
  where "syncAll sc own opns (resolved_mc setCond mc) data s [] (order auth) = (s1, synced)"
    and "pruneSecrets sc (resolved_mc setCond mc) auth s1 = (s', perr)"
    and "\<And>mc'. oc_Written out = Some mc' \<Longrightarrow> mcst_SyncedNamespaces (mc_Status mc') = sort synced"
proof -
  let ?mc = "resolved_mc setCond mc"
  obtain s1 synced where sy: "syncAll sc own opns ?mc data s [] (order auth) = (s1, synced)" by fastforce
  obtain s2 perr where pr: "pruneSecrets sc ?mc auth s1 = (s2, perr)" by fastforce
  have "authorizedNamespaces asSel c ?mc = Inr auth"
    using assms(2) by (simp cong: authorizedNamespaces_spec add: authorizedNamespaces_def)
  with assms(1) sy pr
  have "s2 = s' \<and> (\<forall>mc'. oc_Written out = Some mc' \<longrightarrow> mcst_SyncedNamespaces (mc_Status mc') = sort synced)"
    unfolding reconcile_resolved_def Let_def resolved_mc_def
    by (auto simp: case_prod_beta split: sum.splits)
  with sy pr that show thesis by blast
qed

text \<open>Where the status says the source was found, the replication ran with its key.\<close>

lemma Reconcile_resolved:
  assumes "ModelCredential_Reconcile asSel setCond c sc own order opns upd (Inr mc) s = (s', out)"
    and "oc_Written out = Some mc'" "mcst_SecretResolved (mc_Status mc')"
  obtains src data auth
  where "sc_Get sc s (firstNonEmpty (sks_Namespace (mcs_SecretRef (mc_Spec mc))) opns)
           (sks_Name (mcs_SecretRef (mc_Spec mc))) = Inr src"
    and "map_of (sec_Data src) (sks_Key (mcs_SecretRef (mc_Spec mc))) = Some data"
    and "authorizedNamespaces asSel c mc = Inr auth"
    and "reconcile_resolved asSel setCond c sc own order opns upd mc data s = (s', out)"
proof -
  note run = assms(1) [unfolded ModelCredential_Reconcile_def Let_def]
  obtain src where src: "sc_Get sc s (firstNonEmpty (sks_Namespace (mcs_SecretRef (mc_Spec mc))) opns)
           (sks_Name (mcs_SecretRef (mc_Spec mc))) = Inr src"
    using run assms(2,3) by (auto simp: firstNonEmpty_def split: sum.splits if_splits)
  obtain data where data: "map_of (sec_Data src) (sks_Key (mcs_SecretRef (mc_Spec mc))) = Some data"
    using run assms(2,3) src by (auto simp: firstNonEmpty_def split: option.splits if_splits)
  have rr: "reconcile_resolved asSel setCond c sc own order opns upd mc data s = (s', out)"
    using run src data by (auto simp: firstNonEmpty_def split: if_splits)
  have "authorizedNamespaces asSel c (resolved_mc setCond mc) = authorizedNamespaces asSel c mc"
    by (rule authorizedNamespaces_spec) simp
  then obtain auth where "authorizedNamespaces asSel c mc = Inr auth"
    using rr assms(2) unfolding reconcile_resolved_def Let_def resolved_mc_def
    by (cases "authorizedNamespaces asSel c mc") auto
  with src data rr that show thesis by blast
qed

text \<open>Pruning fails only where a listing or a deletion fails.\<close>

lemma pruneLoop_works:
  "\<forall>s k e. snd (sc_Delete sc s k) = Some e \<longrightarrow> IsNotFound e \<Longrightarrow> snd (pruneLoop sc auth s xs) = None"
proof (induction xs arbitrary: s)
  case (Cons x xs)
  obtain s1 e where d: "sc_Delete sc s (sec_Namespace x, sec_Name x) = (s1, e)" by fastforce
  have "e = Some f \<Longrightarrow> IsNotFound f" for f using Cons.prems d by (metis snd_conv)
  with d Cons show ?case by (cases e) auto
qed simp

lemma pruneSecrets_works:
  assumes "\<forall>s n. \<exists>xs. sc_List sc s n = Inr xs"
    and "\<forall>s k e. snd (sc_Delete sc s k) = Some e \<longrightarrow> IsNotFound e"
    and "pruneSecrets sc mc auth s = (s', perr)"
  shows "perr = None"
proof -
  obtain xs where "sc_List sc s (mc_Name mc) = Inr xs" using assms(1) by blast
  with assms(3) pruneLoop_works [OF assms(2), of auth s xs] show ?thesis by (simp add: pruneSecrets_def)
qed

text \<open>
  The store after a run that found the key \<open>data\<close>: each namespace the status lists is authorized and
  has a replica with that key.
\<close>

lemma synced_replicas:
  assumes "replica_store sc view own" "\<And>xs. mset (order xs) = mset xs"
    and "reconcile_resolved asSel setCond c sc own order opns upd mc data s = (s', out)"
    and "authorizedNamespaces asSel c mc = Inr auth" "oc_Written out = Some mc'"
  shows "sorted (mcst_SyncedNamespaces (mc_Status mc'))" "distinct (mcst_SyncedNamespaces (mc_Status mc'))"
    and "set (mcst_SyncedNamespaces (mc_Status mc')) \<subseteq> set auth"
    and "ns \<in> set (mcst_SyncedNamespaces (mc_Status mc')) \<Longrightarrow>
      \<exists>x. view s' (replica_key mc ns) = Some x \<and> current_replica mc data x"
proof -
  have store: "secret_store sc view" using assms(1) by (simp add: replica_store_def)
  obtain s1 synced perr
    where sy: "syncAll sc own opns (resolved_mc setCond mc) data s [] (order auth) = (s1, synced)"
    and pr: "pruneSecrets sc (resolved_mc setCond mc) auth s1 = (s', perr)"
    and st: "mcst_SyncedNamespaces (mc_Status mc') = sort synced"
    using reconcile_resolved_runs [OF assms(3,4)] assms(5) by metis
  have perm: "set (order auth) = set auth" "distinct (order auth)"
    using assms(2) [of auth] authorizedNamespaces_distinct [OF assms(4)]
    by (metis mset_eq_setD, metis mset_eq_imp_distinct_iff)
  from replica_store.syncAll_facts(1) [OF assms(1) sy] perm
  have synced: "set synced \<subseteq> set auth" "distinct synced"
    "\<forall>ns \<in> set synced. \<exists>x. view s1 (replica_key mc ns) = Some x \<and> current_replica mc data x"
    by auto
  have "view s' (replica_key mc ns) = view s1 (replica_key mc ns)" if "ns \<in> set auth" for ns
    using secret_store.pruneSecrets_frame [OF store pr, of "replica_key mc ns"] that
    by (auto simp: replica_key_def)
  with synced show "ns \<in> set (mcst_SyncedNamespaces (mc_Status mc')) \<Longrightarrow>
      \<exists>x. view s' (replica_key mc ns) = Some x \<and> current_replica mc data x"
    unfolding st by (metis set_sort subsetD)
  show "sorted (mcst_SyncedNamespaces (mc_Status mc'))" "distinct (mcst_SyncedNamespaces (mc_Status mc'))"
    "set (mcst_SyncedNamespaces (mc_Status mc')) \<subseteq> set auth"
    using synced(1,2) by (simp_all add: st)
qed

text \<open>
  What a run may do to the Secret under a key, whatever fails: nothing, store a current replica of
  an authorized namespace, or delete a labelled Secret outside the authorized namespaces.
\<close>

lemma resolved_values:
  assumes "replica_store sc view own" "\<And>xs. mset (order xs) = mset xs"
    and "reconcile_resolved asSel setCond c sc own order opns upd mc data s = (s', out)"
    and auth: "authorizedNamespaces asSel c mc = Inr auth"
  shows "view s' k = view s k \<or>
    (\<exists>ns \<in> set auth. k = replica_key mc ns \<and> (\<exists>x. view s' k = Some x \<and> current_replica mc data x)) \<or>
    view s' k = None \<and> fst k \<notin> set auth \<and> (\<exists>x. view s k = Some x \<and> has_label LabelCredential (mc_Name mc) x)"
proof -
  have store: "secret_store sc view" using assms(1) by (simp add: replica_store_def)
  obtain s1 synced perr
    where sy: "syncAll sc own opns (resolved_mc setCond mc) data s [] (order auth) = (s1, synced)"
    and pr: "pruneSecrets sc (resolved_mc setCond mc) auth s1 = (s', perr)"
    using reconcile_resolved_runs [OF assms(3,4)] by metis
  have "set (order auth) = set auth" using assms(2) [of auth] by (metis mset_eq_setD)
  with replica_store.syncAll_values [OF assms(1) sy, of k]
  have sync: "view s1 k = view s k \<or>
      (\<exists>ns \<in> set auth. k = replica_key mc ns \<and> (\<exists>x. view s1 k = Some x \<and> current_replica mc data x))"
    by auto
  have "fst (replica_key mc ns) = ns" for ns by (simp add: replica_key_def)
  with sync secret_store.pruneSecrets_frame [OF store pr, of k] show ?thesis by auto
qed

text \<open>A run that does not find the source key leaves the store alone.\<close>

lemma Reconcile_cases:
  assumes "ModelCredential_Reconcile asSel setCond c sc own order opns upd (Inr mc) s = (s', out)"
  obtains (unresolved) "s' = s"
  | (resolved) src data auth
  where "sc_Get sc s (firstNonEmpty (sks_Namespace (mcs_SecretRef (mc_Spec mc))) opns)
           (sks_Name (mcs_SecretRef (mc_Spec mc))) = Inr src"
    and "map_of (sec_Data src) (sks_Key (mcs_SecretRef (mc_Spec mc))) = Some data"
    and "authorizedNamespaces asSel c mc = Inr auth"
    and "reconcile_resolved asSel setCond c sc own order opns upd mc data s = (s', out)"
proof (cases "s' = s")
  case False
  have ref: "firstNonEmpty a b = (if a = [] then b else a)" for a b by (simp add: firstNonEmpty_def)
  note run = assms [unfolded ModelCredential_Reconcile_def Let_def, simplified]
  obtain src where src: "sc_Get sc s (firstNonEmpty (sks_Namespace (mcs_SecretRef (mc_Spec mc))) opns)
           (sks_Name (mcs_SecretRef (mc_Spec mc))) = Inr src"
    using run False by (auto simp: ref split: sum.splits if_splits)
  obtain data where data: "map_of (sec_Data src) (sks_Key (mcs_SecretRef (mc_Spec mc))) = Some data"
    using run False src by (auto simp: ref split: option.splits if_splits)
  have rr: "reconcile_resolved asSel setCond c sc own order opns upd mc data s = (s', out)"
    using run src data by (auto simp: ref split: if_splits)
  have "authorizedNamespaces asSel c (resolved_mc setCond mc) = authorizedNamespaces asSel c mc"
    by (rule authorizedNamespaces_spec) simp
  then obtain auth where "authorizedNamespaces asSel c mc = Inr auth"
    using rr False unfolding reconcile_resolved_def Let_def resolved_mc_def
    by (cases "authorizedNamespaces asSel c mc") auto
  with resolved [OF src data _ rr] show thesis by blast
qed (rule unresolved)

section \<open>Webhook and reconciler agree on who is authorized\<close>

lemma authorizedNamespaces_mem:
  assumes "authorizedNamespaces asSel c mc = Inr auth"
  shows "n \<in> set auth \<longleftrightarrow> n \<in> set (mcs_AllowedNamespaces (mc_Spec mc)) \<or>
    (\<exists>sel items x. mcs_NamespaceSelector (mc_Spec mc) = Some sel \<and> list_Namespaces c = Inr items \<and>
       x \<in> set items \<and> ns_Name x = n \<and> NamespaceSelectorMatches asSel (Some sel) (ns_Labels x) = Inr True)"
proof -
  have okb: "okb r \<longleftrightarrow> r = Inr True" for r :: "error + bool" by (cases r) auto
  have "set (foldl set_add xs ys) = set xs \<union> set ys" for xs ys :: "string list"
    using key_set.keys_fold_set [OF TrueI, of xs ys] by auto
  then show ?thesis
    using assms
    by (auto simp: authorizedNamespaces_def Let_def filterR_Inr_iff okb split: option.splits sum.splits)
qed

end
