(* ===== verification/Credential_Props.thy ===== *)
theory Credential_Props
  imports Credential_Facts Cluster_Samples
begin

text \<open>
  Properties of the credential reconciler: where replicas of a key may be left, what the status
  says about them, and what the reconciler may touch. They
  hold for every Secret client with the laws of \<open>secret_store\<close>; the witnesses run the reconciler
  on the list store.
\<close>

section \<open>A sample run\<close>

definition keep_order :: "string list \<Rightarrow> string list" where
  "keep_order xs = xs"

definition no_fault :: "secret_call \<Rightarrow> string \<times> string \<Rightarrow> api_error option" where
  "no_fault call k = None"

definition source_secret :: Secret where
  "source_secret = (new_secret ''operator'' ''openai'')\<lparr>sec_Data := [(''apiKey'', ''sk-1'')]\<rparr>"

text \<open>A replica left in a namespace that is not authorized any more.\<close>

definition stale_secret :: Secret where
  "stale_secret =
     (new_secret ''team-b'' (ManagedSecretPrefix @ ''openai''))
       \<lparr>sec_Labels := Some [(LabelCredential, ''openai'')], sec_Data := [(''apiKey'', ''sk-0'')]\<rparr>"

definition sample_reconcile :: "Secret list \<times> ModelCredential outcome" where
  "sample_reconcile =
     ModelCredential_Reconcile std_selector replace_or_append sample_client (list_store no_fault) own_by keep_order
       ''operator'' (\<lambda>_. None) (Inr openai_credential) [source_secret, stale_secret]"

text \<open>What the store holds afterwards, and what the status says.\<close>

definition sample_replica :: Secret where
  "sample_replica =
     (fill_replica ''operator'' openai_credential ''sk-1'' (new_secret ''team-a'' (ManagedSecretPrefix @ ''openai'')))
        \<lparr>sec_Owner := Some ''openai''\<rparr>"

definition sample_result :: ModelCredential where
  "sample_result = the (oc_Written (snd sample_reconcile))"

lemma sample_run:
  "fst sample_reconcile = [sample_replica, source_secret]"
  "authorizedNamespaces std_selector sample_client openai_credential = Inr [''team-a'']"
  "oc_Written (snd sample_reconcile) \<noteq> None"
  "mcst_SecretResolved (mc_Status sample_result)"
  "mcst_SyncedNamespaces (mc_Status sample_result) = [''team-a'']"
  "list_view [sample_replica, source_secret] (''team-a'', ManagedSecretPrefix @ ''openai'') = Some sample_replica"
  "has_label LabelCredential ''openai'' sample_replica"
  by code_simp+

lemma sample_reconcile_eq:
  "ModelCredential_Reconcile std_selector replace_or_append sample_client (list_store no_fault) own_by keep_order
     ''operator'' (\<lambda>_. None) (Inr openai_credential) [source_secret, stale_secret] =
   ([sample_replica, source_secret], snd sample_reconcile)"
  by (metis prod.collapse sample_reconcile_def sample_run(1))

lemma sample_written: "oc_Written (snd sample_reconcile) = Some sample_result"
  using sample_run(3) by (simp add: sample_result_def)

lemma list_store_works:
  "\<exists>xs. sc_List (list_store no_fault) s n = Inr xs"
  "snd (sc_Delete (list_store no_fault) s k) = Some e \<Longrightarrow> IsNotFound e"
  by (auto simp: list_store_def no_fault_def split: if_splits)

lemma keep_order_perm: "mset (keep_order xs) = mset xs"
  by (simp add: keep_order_def)

section \<open>Replicas\<close>

text \<open>
  No key is left where it may not be. When a run of the reconciler has found the source key
  and the API server neither fails the listing of the replicas nor a deletion, then after the run
  every Secret that carries the credential's label lies in an authorized namespace, whatever was
  stored before, and whatever replications failed.
\<close>

theorem replicas_only_where_authorized:
  assumes "replica_store sc view own"
    and list_works: "\<forall>s n. \<exists>xs. sc_List sc s n = Inr xs"
    and delete_works: "\<forall>s k e. snd (sc_Delete sc s k) = Some e \<longrightarrow> IsNotFound e"
    and run: "ModelCredential_Reconcile asSel setCond c sc own order opns upd (Inr mc) s = (s', out)"
    and written: "oc_Written out = Some mc'" "mcst_SecretResolved (mc_Status mc')"
    and auth: "authorizedNamespaces asSel c mc = Inr auth"
    and stored: "view s' k = Some x" "has_label LabelCredential (mc_Name mc) x"
  shows "fst k \<in> set auth"
proof -
  have store: "secret_store sc view" using assms(1) by (simp add: replica_store_def)
  obtain data where rr: "reconcile_resolved asSel setCond c sc own order opns upd mc data s = (s', out)"
    using Reconcile_resolved [OF run written] by metis
  obtain s1 synced perr where pr: "pruneSecrets sc (resolved_mc setCond mc) auth s1 = (s', perr)"
    using reconcile_resolved_runs [OF rr auth] by metis
  have "perr = None" using pruneSecrets_works [OF list_works delete_works pr] .
  with pr stored show ?thesis
    using secret_store.pruneSecrets_done [OF store, of "resolved_mc setCond mc" auth s1 s' k x] by simp
qed

theorem replicas_only_where_authorized_witness:
  "fst (''team-a'', ManagedSecretPrefix @ ''openai'') \<in> set [''team-a'']"
  by (rule replicas_only_where_authorized
        [OF list_secrets.replica_store_axioms, of no_fault std_selector replace_or_append sample_client keep_order
           "''operator''" "\<lambda>_. None" openai_credential])
     (use list_store_works sample_reconcile_eq sample_written sample_run in
       \<open>auto simp: openai_credential_def\<close>)

text \<open>
  C14: The status tells the truth about the replication, even when some replications failed: the
  synced namespaces are sorted, without duplicates, authorized, and each holds the Secret of the
  credential with exactly the source key's present value, the type Opaque and the labels that mark
  it as managed; pruning took none of them away.
\<close>

theorem synced_namespaces_hold_key:
  assumes "replica_store sc view own"
    and order: "\<And>xs. mset (order xs) = mset xs"
    and run: "ModelCredential_Reconcile asSel setCond c sc own order opns upd (Inr mc) s = (s', out)"
    and written: "oc_Written out = Some mc'" "mcst_SecretResolved (mc_Status mc')"
  shows "\<exists>auth src data.
    authorizedNamespaces asSel c mc = Inr auth \<and>
    sc_Get sc s (firstNonEmpty (sks_Namespace (mcs_SecretRef (mc_Spec mc))) opns)
      (sks_Name (mcs_SecretRef (mc_Spec mc))) = Inr src \<and>
    map_of (sec_Data src) (sks_Key (mcs_SecretRef (mc_Spec mc))) = Some data \<and>
    sorted (mcst_SyncedNamespaces (mc_Status mc')) \<and> distinct (mcst_SyncedNamespaces (mc_Status mc')) \<and>
    set (mcst_SyncedNamespaces (mc_Status mc')) \<subseteq> set auth \<and>
    (\<forall>ns \<in> set (mcst_SyncedNamespaces (mc_Status mc')).
       \<exists>x. view s' (replica_key mc ns) = Some x \<and> current_replica mc data x)"
proof (rule Reconcile_resolved [OF run written])
  fix src data auth
  assume src: "sc_Get sc s (firstNonEmpty (sks_Namespace (mcs_SecretRef (mc_Spec mc))) opns)
      (sks_Name (mcs_SecretRef (mc_Spec mc))) = Inr src"
      "map_of (sec_Data src) (sks_Key (mcs_SecretRef (mc_Spec mc))) = Some data"
    and auth: "authorizedNamespaces asSel c mc = Inr auth"
    and "reconcile_resolved asSel setCond c sc own order opns upd mc data s = (s', out)"
  note facts = synced_replicas [OF assms(1) order this(4) auth written(1)]
  show ?thesis
    by (intro exI [of _ auth] exI [of _ src] exI [of _ data] conjI ballI src auth facts)
qed

theorem synced_namespaces_hold_key_witness:
  "\<exists>auth src data.
    authorizedNamespaces std_selector sample_client openai_credential = Inr auth \<and>
    sc_Get (list_store no_fault) [source_secret, stale_secret]
      (firstNonEmpty (sks_Namespace (mcs_SecretRef (mc_Spec openai_credential))) ''operator'')
      (sks_Name (mcs_SecretRef (mc_Spec openai_credential))) = Inr src \<and>
    map_of (sec_Data src) (sks_Key (mcs_SecretRef (mc_Spec openai_credential))) = Some data \<and>
    sorted (mcst_SyncedNamespaces (mc_Status sample_result)) \<and> distinct (mcst_SyncedNamespaces (mc_Status sample_result)) \<and>
    set (mcst_SyncedNamespaces (mc_Status sample_result)) \<subseteq> set auth \<and>
    (\<forall>ns \<in> set (mcst_SyncedNamespaces (mc_Status sample_result)).
       \<exists>x. list_view [sample_replica, source_secret] (replica_key openai_credential ns) = Some x \<and>
           current_replica openai_credential data x)"
  by (rule synced_namespaces_hold_key
        [OF list_secrets.replica_store_axioms keep_order_perm sample_reconcile_eq sample_written sample_run(4)])

text \<open>
  C21: The reconciler touches its own replicas and nothing else. Whatever a run ends with, the
  Secret stored under a key is what it was before, unless the key is that of the credential's
  replica in an authorized namespace, or the Secret carried the credential's label outside the
  authorized namespaces and is now gone.
\<close>

theorem reconcile_touches_only_replicas:
  assumes "replica_store sc view own"
    and order: "\<And>xs. mset (order xs) = mset xs"
    and run: "ModelCredential_Reconcile asSel setCond c sc own order opns upd (Inr mc) s = (s', out)"
    and auth: "authorizedNamespaces asSel c mc = Inr auth"
  shows "view s' k = view s k \<or>
    (\<exists>ns \<in> set auth. k = replica_key mc ns) \<or>
    view s' k = None \<and> fst k \<notin> set auth \<and> (\<exists>x. view s k = Some x \<and> has_label LabelCredential (mc_Name mc) x)"
proof (cases rule: Reconcile_cases [OF run])
  case (2 src data auth')
  with auth resolved_values [OF assms(1) order _ auth, of setCond opns upd _ s s' out k] show ?thesis
    by fastforce
qed simp

theorem reconcile_touches_only_replicas_witness:
  "list_view [sample_replica, source_secret] (''operator'', ''openai'') =
     list_view [source_secret, stale_secret] (''operator'', ''openai'')"
  using reconcile_touches_only_replicas
    [OF list_secrets.replica_store_axioms keep_order_perm sample_reconcile_eq sample_run(2),
     of "(''operator'', ''openai'')"]
  by (simp add: replica_key_def list_view_def secret_key_def source_secret_def new_secret_def
        sample_replica_def stale_secret_def fill_replica_def)

end
