(* ===== verification/Pod_Props.thy ===== *)
theory Pod_Props
  imports Pod_Facts Resolver_Queries Cluster_Samples
begin

text \<open>
  What the pod webhooks promise: a pod is rejected exactly when an enforcing policy denies a model
  declared for it, every denied model is reported, only credentials that the hierarchy grants and
  whose owner authorizes the namespace are injected, nothing the pod's author wrote is changed,
  and running the mutating webhook again changes nothing.
\<close>

section \<open>The sample pod\<close>

definition op_config :: Config where
  "op_config = \<lparr>cfg_OperatorNamespace = ''token-control-system'', cfg_ExemptNamespaces = [''kube-system'']\<rparr>"

definition good_pod :: Pod where "good_pod = worker_pod ''openai/gpt-4o-mini''"

definition bad_pod :: Pod where "bad_pod = worker_pod ''openai/gpt-4o-mini,openai/gpt-4o''"

definition declared_mini :: declaredModel where
  "declared_mini = \<lparr>dm_Provider = ''openai'', dm_Model = ''gpt-4o-mini'', dm_Credential = []\<rparr>"

definition declared_4o :: declaredModel where
  "declared_4o = \<lparr>dm_Provider = ''openai'', dm_Model = ''gpt-4o'', dm_Credential = []\<rparr>"

lemma sample_declared:
  "declaredModelsForPod std_selector sample_client ''team-a'' good_pod = Inr [declared_mini]"
  "declaredModelsForPod std_selector sample_client ''team-a'' bad_pod = Inr [declared_mini, declared_4o]"
  by code_simp+

lemma sample_resolve:
  "resolveEffective std_selector sample_client ''team-a'' (Some [(''app'', ''batch-worker'')]) ''batch-runner'' =
     Inr batch_eff"
  using batch_ok
  by (simp add: resolveEffective_def sample_client_def client_of_def sample_cluster_def namespaceLabels_def
      answer_def batch_input_def team_a_def ns_default_def batch_workers_def token_policy_def)

lemma sample_gate:
  "gate std_selector op_config sample_client None good_pod = Some (''team-a'', [declared_mini], batch_eff)"
  "gate std_selector op_config sample_client None bad_pod = Some (''team-a'', [declared_mini, declared_4o], batch_eff)"
proof -
  have "eff_Governed batch_eff"
    by (rule batch_facts)
  then show "gate std_selector op_config sample_client None good_pod = Some (''team-a'', [declared_mini], batch_eff)"
    "gate std_selector op_config sample_client None bad_pod = Some (''team-a'', [declared_mini, declared_4o], batch_eff)"
    using sample_declared sample_resolve
    by (simp_all add: gate_Some_iff namespaceFromCtx_def good_pod_def bad_pod_def worker_pod_def saOf_def
        exempt_iff op_config_def)
qed

section \<open>The validator\<close>

text \<open>
  C5: A pod is rejected exactly when its namespace is not exempt, models are declared for it, the
  policies that apply enforce, and one of the declared models is denied. In every other case it
  is admitted, a failure to read the claims or the policies included (the webhook fails open).
\<close>

theorem pod_rejected_iff:
  "ar_Err (pod_validate asSel cfg c ctx (PodObject pod)) \<noteq> None \<longleftrightarrow>
     (\<exists>ns ds eff. ns = namespaceFromCtx ctx (pod_Namespace pod) \<and> \<not> exempt cfg ns \<and>
        declaredModelsForPod asSel c ns pod = Inr ds \<and>
        resolveEffective asSel c ns (pod_Labels pod) (saOf pod) = Inr eff \<and>
        eff_Governed eff \<and> eff_Enforcement eff = EnforcementEnforce \<and>
        (\<exists>d \<in> set ds. \<not> md_Allowed (Permit eff (dm_Provider d) (dm_Model d))))"
proof (cases "gate asSel cfg c ctx pod")
  case None
  then show ?thesis
    by (auto simp: pod_validate_eq admit_def gate_def Let_def split: sum.splits if_splits)
next
  case (Some g)
  obtain ns ds eff where g: "g = (ns, ds, eff)" by (cases g) auto
  have "ar_Err (pod_validate asSel cfg c ctx (PodObject pod)) \<noteq> None \<longleftrightarrow>
      eff_Enforcement eff = EnforcementEnforce \<and> (\<exists>d \<in> set ds. denied eff d)"
    by (auto simp: pod_validate_eq Some g admit_def filter_empty_conv Let_def)
  with Some show ?thesis
    by (auto simp: g gate_Some_iff denied_def)
qed

text \<open>
  Every denied model is reported, in the order of the declarations, and no other: in the
  error when the mode is Enforce, in warnings when it is Audit (which never rejects), and each
  counts one violation before the one decision of the run is counted.
\<close>

theorem every_denied_model_reported:
  assumes "gate asSel cfg c ctx pod = Some (ns, ds, eff)" "eff_Enforcement eff \<noteq> EnforcementDisabled"
  shows "let bad = filter (\<lambda>d. \<not> md_Allowed (Permit eff (dm_Provider d) (dm_Model d))) ds;
             msgs = map (\<lambda>d. md_Reason (Permit eff (dm_Provider d) (dm_Model d))) bad;
             enforced = (eff_Enforcement eff = EnforcementEnforce);
             mode = enforcement_string (eff_Enforcement eff);
             r = pod_validate asSel cfg c ctx (PodObject pod)
         in ar_Err r = (if enforced \<and> bad \<noteq> []
                        then Some (Forbidden ''pods'' (pod_Name pod) (''token-control: '' @ Join msgs ''; ''))
                        else None) \<and>
            ar_Warnings r = (if enforced then [] else map (\<lambda>m. ''token-control(audit): '' @ m) msgs) \<and>
            ar_Metrics r =
              map (\<lambda>d. CounterInc ModelViolations [ns, dm_Provider d, dm_Model d, mode]) bad @
              [CounterInc AdmissionDecisions [if enforced \<and> bad \<noteq> [] then ''deny'' else ''allow'', ns, mode]]"
  using assms by (simp add: pod_validate_eq Let_def denied_def [abs_def] reason_def [abs_def] comp_def)

theorem every_denied_model_reported_witness:
  "ar_Err (pod_validate std_selector op_config sample_client None (PodObject bad_pod)) =
     Some (Forbidden ''pods'' ''batch-worker-0''
       (''token-control: '' @ md_Reason (Permit batch_eff ''openai'' ''gpt-4o'')))"
proof -
  have "eff_Enforcement batch_eff \<noteq> EnforcementDisabled" by (simp add: batch_facts)
  from every_denied_model_reported [OF sample_gate(2) this] show ?thesis
    by (simp add: Let_def declared_mini_def declared_4o_def batch_facts(1,3,5) bad_pod_def worker_pod_def)
qed

section \<open>The defaulter\<close>

text \<open>
  A credential the webhook may deliver: the hierarchy permits a declared model with it (or permits
  the model without naming one, and the claim that declares it prefers this one), it exists, and
  it authorizes the namespace.
\<close>

definition deliverable ::
  "selector_api \<Rightarrow> Config \<Rightarrow> client \<Rightarrow> string option \<Rightarrow> Pod \<Rightarrow> ModelCredential \<Rightarrow> bool" where
  "deliverable asSel cfg c ctx pod mc \<longleftrightarrow>
     (\<exists>ns ds eff d cred. gate asSel cfg c ctx pod = Some (ns, ds, eff) \<and> d \<in> set ds \<and>
        md_Allowed (Permit eff (dm_Provider d) (dm_Model d)) \<and> cred \<noteq> [] \<and>
        cred = (if md_Credential (Permit eff (dm_Provider d) (dm_Model d)) \<noteq> []
                then md_Credential (Permit eff (dm_Provider d) (dm_Model d)) else dm_Credential d) \<and>
        get_ModelCredential c cred = Inr mc \<and> credentialAuthorizes asSel c mc ns = Inr True)"

lemma granted_deliverable:
  assumes "gate asSel cfg c ctx pod = Some (ns, ds, eff)"
  shows "granted_by asSel c ns (credentialOrder eff ds) = {mc. deliverable asSel cfg c ctx pod mc}"
  unfolding granted_by_def usable_def deliverable_def
  by (auto simp: assms set_credentialOrder wantedCredential_def Let_def split: if_splits) blast+

text \<open>
  C4: Only granted credentials reach a pod. Every environment variable, volume mount and volume
  that the webhook adds is the one of a deliverable credential, a reference to its managed Secret
  and never key material.
\<close>

theorem only_deliverable_injected:
  assumes "dr_Object (pod_Default asSel cfg c ctx (PodObject pod)) = PodObject pod'"
  shows "pod_env pod' \<subseteq> pod_env pod \<union> credential_env ` {mc. deliverable asSel cfg c ctx pod mc} \<and>
    pod_mounts pod' \<subseteq> pod_mounts pod \<union> credential_mount ` {mc. deliverable asSel cfg c ctx pod mc} \<and>
    set (pod_Volumes pod') \<subseteq>
      set (pod_Volumes pod) \<union> credential_volume ` {mc. deliverable asSel cfg c ctx pod mc}"
proof (rule pod_Default_cases [OF refl, of asSel cfg c ctx pod])
  fix ns ds eff q bound ev err
  assume g: "gate asSel cfg c ctx pod = Some (ns, ds, eff)"
    and b: "bindCredentials asSel c ns pod [] [] (credentialOrder eff ds) = (q, bound, ev, err)"
    and r: "pod_Default asSel cfg c ctx (PodObject pod) = 
      \<lparr>dr_Object = PodObject (if err = None then annotate eff bound q else q), dr_Err = err, dr_Metrics = ev\<rparr>"
  have "pod_env pod' = pod_env q \<and> pod_mounts pod' = pod_mounts q \<and> pod_Volumes pod' = pod_Volumes q"
    using assms by (auto simp: r Let_def split: if_splits)
  with bind_entries [OF b] show ?thesis unfolding granted_deliverable [OF g] by simp
qed (use assms in auto)

text \<open>
  Every deliverable credential is delivered when the webhook runs to its end on a pod that
  does not opt out: every container, init containers included, has the variable (or the mount,
  and the pod the volume), unless the credential's mode is \<open>None\<close>.
\<close>

lemma delivered:
  assumes "pod_Default asSel cfg c ctx (PodObject pod) = r" "dr_Err r = None"
    and "dr_Object r = PodObject pod'" "deliverable asSel cfg c ctx pod mc"
    and "map_get (pod_Annotations pod) AnnotationInjectionDisabled \<noteq> ''true''"
  shows "injected pod' mc"
  using assms(1)
proof (rule pod_Default_cases)
  fix ns ds eff q bound ev err
  assume g: "gate asSel cfg c ctx pod = Some (ns, ds, eff)"
    and b: "bindCredentials asSel c ns pod [] [] (credentialOrder eff ds) = (q, bound, ev, err)"
    and r: "r = 
      \<lparr>dr_Object = PodObject (if err = None then annotate eff bound q else q), dr_Err = err, dr_Metrics = ev\<rparr>"
  have "err = None" using assms(2) r by simp
  moreover obtain cred where "cred \<in> set (credentialOrder eff ds)" "usable asSel c ns cred mc"
    using assms(4) granted_deliverable [OF g] by (auto simp: granted_by_def)
  ultimately have "injected q mc" using bind_injected b by blast
  then show ?thesis using assms(3) r \<open>err = None\<close> by (auto simp: Let_def split: if_splits)
qed (use assms in \<open>auto simp: deliverable_def\<close>)

text \<open>
  C28: The webhook changes nothing that the author of the pod wrote: identity, labels, existing
  environment variables, mounts and volumes stay in place and in order, new entries come after
  them under names not in use, and no annotation but the two of the webhook changes.
\<close>

theorem default_preserves_pod:
  assumes "dr_Object (pod_Default asSel cfg c ctx (PodObject pod)) = PodObject pod'"
  shows "pod_extends pod pod' \<and>
    (\<forall>k. k \<noteq> AnnotationCredentialsBound \<longrightarrow> k \<noteq> AnnotationEffectivePolicy \<longrightarrow>
       map_get (pod_Annotations pod') k = map_get (pod_Annotations pod) k)"
proof (rule pod_Default_cases [OF refl, of asSel cfg c ctx pod])
  fix ns ds eff q bound ev err
  assume b: "bindCredentials asSel c ns pod [] [] (credentialOrder eff ds) = (q, bound, ev, err)"
    and r: "pod_Default asSel cfg c ctx (PodObject pod) =
      \<lparr>dr_Object = PodObject (if err = None then annotate eff bound q else q), dr_Err = err, dr_Metrics = ev\<rparr>"
  show ?thesis
    using assms bind_extends [OF b] by (auto simp: r annotate_other split: if_splits)
qed (use assms in auto)

lemma gate_cong:
  assumes "pod_Namespace q = pod_Namespace p" "pod_Labels q = pod_Labels p"
    and "pod_ServiceAccountName q = pod_ServiceAccountName p"
    and "map_get (pod_Annotations q) AnnotationModels = map_get (pod_Annotations p) AnnotationModels"
  shows "gate asSel cfg c ctx q = gate asSel cfg c ctx p"
proof -
  have sa: "saOf q = saOf p" using assms by (simp add: saOf_def)
  have "parseModels q = parseModels p" by (simp add: parseModels_def assms(4))
  moreover have "claimMatches asSel q = claimMatches asSel p"
    by (simp add: claimMatches_def [abs_def] assms sa)
  ultimately have "declaredModelsForPod asSel c ns q = declaredModelsForPod asSel c ns p" for ns
    by (simp add: declaredModelsForPod_def cong: sum.case_cong)
  with assms sa show ?thesis by (simp add: gate_def Let_def cong: sum.case_cong if_cong)
qed

text \<open>The annotation keys are different.\<close>

lemma annotation_keys [simp]:
  "AnnotationModels \<noteq> AnnotationCredentialsBound" "AnnotationModels \<noteq> AnnotationEffectivePolicy"
  "AnnotationInjectionDisabled \<noteq> AnnotationCredentialsBound"
  "AnnotationInjectionDisabled \<noteq> AnnotationEffectivePolicy"
  "AnnotationEffectivePolicy \<noteq> AnnotationCredentialsBound"
  "AnnotationCredentialsBound \<noteq> AnnotationEffectivePolicy"
  by (simp_all add: AnnotationModels_def AnnotationCredentialsBound_def AnnotationEffectivePolicy_def
      AnnotationInjectionDisabled_def)

text \<open>The defaulter changes nothing that decides about the pod.\<close>

lemma gate_of_default:
  assumes "dr_Object (pod_Default asSel cfg c ctx (PodObject pod)) = PodObject pod'"
  shows "gate asSel cfg c ctx pod' = gate asSel cfg c ctx pod" and "pod_Name pod' = pod_Name pod"
proof -
  have "gate asSel cfg c ctx pod' = gate asSel cfg c ctx pod \<and> pod_Name pod' = pod_Name pod"
  proof (rule pod_Default_cases [OF refl, of asSel cfg c ctx pod])
    fix ns ds eff q bound ev err
    assume b: "bindCredentials asSel c ns pod [] [] (credentialOrder eff ds) = (q, bound, ev, err)"
      and r: "pod_Default asSel cfg c ctx (PodObject pod) =
        \<lparr>dr_Object = PodObject (if err = None then annotate eff bound q else q), dr_Err = err, dr_Metrics = ev\<rparr>"
    have "pod' = (if err = None then annotate eff bound q else q)" using assms r by simp
    with bind_extends [OF b] have "pod_extends pod pod'"
      "map_get (pod_Annotations pod') AnnotationModels = map_get (pod_Annotations pod) AnnotationModels"
      by (auto simp: annotate_other)
    then show ?thesis using gate_cong [of pod' pod] by (auto simp: pod_extends_def)
  qed (use assms in auto)
  then show "gate asSel cfg c ctx pod' = gate asSel cfg c ctx pod" "pod_Name pod' = pod_Name pod" by simp_all
qed

lemma annotate_again: "annotate eff [] (annotate eff bound q) = annotate eff bound q"
  by (simp add: annotate_def setAnnotation_def Let_def)

text \<open>
  C27: The mutating webhook is idempotent: run again on the pod it returned, with the cluster
  unchanged, it leaves the pod as it is and returns the same error, if any.
\<close>

theorem default_idempotent:
  assumes "pod_Default asSel cfg c ctx (PodObject pod) = r"
  shows "dr_Object (pod_Default asSel cfg c ctx (dr_Object r)) = dr_Object r \<and>
    dr_Err (pod_Default asSel cfg c ctx (dr_Object r)) = dr_Err r"
  using assms
proof (rule pod_Default_cases)
  assume "r = \<lparr>dr_Object = PodObject pod, dr_Err = None, dr_Metrics = []\<rparr>"
  with assms show ?thesis by simp
next
  fix ns ds eff q bound ev err
  assume d: "map_get (pod_Annotations pod) AnnotationInjectionDisabled \<noteq> ''true''"
    and g: "gate asSel cfg c ctx pod = Some (ns, ds, eff)"
    and b: "bindCredentials asSel c ns pod [] [] (credentialOrder eff ds) = (q, bound, ev, err)"
    and r: "r = \<lparr>dr_Object = PodObject (if err = None then annotate eff bound q else q),
                 dr_Err = err, dr_Metrics = ev\<rparr>"
  let ?p = "if err = None then annotate eff bound q else q"
  have ext: "pod_extends pod ?p" and ann: "pod_Annotations q = pod_Annotations pod"
    using bind_extends [OF b] by auto
  then have "gate asSel cfg c ctx ?p = Some (ns, ds, eff)"
    using gate_cong [of ?p pod asSel cfg c ctx] g by (auto simp: pod_extends_def annotate_other)
  moreover have "map_get (pod_Annotations ?p) AnnotationInjectionDisabled \<noteq> ''true''"
    using d ann by (auto simp: annotate_other)
  moreover have "bindCredentials asSel c ns ?p [] [] (credentialOrder eff ds) = (?p, [], [], err)"
    by (rule bind_again [OF b]) simp
  ultimately show ?thesis by (simp add: r pod_Default_eq annotate_again)
qed

section \<open>Witnesses for the defaulter\<close>

definition good_result :: default_result where
  "good_result = pod_Default std_selector op_config sample_client None (PodObject good_pod)"

definition good_out :: Pod where
  "good_out = (case dr_Object good_result of PodObject p \<Rightarrow> p | _ \<Rightarrow> good_pod)"

lemma good_facts:
  "pod_Default std_selector op_config sample_client None (PodObject good_pod) = good_result"
  "dr_Err good_result = None" "dr_Object good_result = PodObject good_out"
  "map_get (pod_Annotations good_out) AnnotationCredentialsBound = ''openai''"
  "map_get (pod_Annotations good_pod) AnnotationInjectionDisabled \<noteq> ''true''"
  "credential_env openai_credential \<in> pod_env good_out"
  "\<not> credential_env openai_credential \<in> pod_env good_pod"
proof -
  have bind: "bindCredentials std_selector sample_client ''team-a'' good_pod [] [] [''openai''] =
      (map_containers (putEnv (credential_env openai_credential)) good_pod, [''openai''],
       [CounterInc CredentialsInjected [''team-a'', ''openai'']], None)"
    by code_simp
  have "credentialOrder batch_eff [declared_mini] = [''openai'']"
    by (simp add: credentialOrder_def wantedCredential_def declared_mini_def batch_facts(1,2))
  moreover have opt: "map_get (pod_Annotations good_pod) AnnotationInjectionDisabled \<noteq> ''true''"
    by code_simp
  ultimately have r: "good_result = \<lparr>dr_Object = PodObject (annotate batch_eff [''openai'']
        (map_containers (putEnv (credential_env openai_credential)) good_pod)), dr_Err = None,
      dr_Metrics = [CounterInc CredentialsInjected [''team-a'', ''openai'']]\<rparr>"
    using bind sample_gate(1) by (simp add: good_result_def pod_Default_eq)
  show "pod_Default std_selector op_config sample_client None (PodObject good_pod) = good_result"
    "dr_Err good_result = None" "dr_Object good_result = PodObject good_out"
    by (simp_all add: good_result_def [symmetric] r good_out_def)
  show "map_get (pod_Annotations good_out) AnnotationCredentialsBound = ''openai''"
    by (simp add: good_out_def r annotate_def Let_def)
  show "map_get (pod_Annotations good_pod) AnnotationInjectionDisabled \<noteq> ''true''" by (rule opt)
  have "pod_env good_out = pod_env (map_containers (putEnv (credential_env openai_credential)) good_pod)"
    by (simp add: good_out_def r)
  then show "credential_env openai_credential \<in> pod_env good_out"
    by (simp add: pod_env_def all_containers_def good_pod_def worker_pod_def putEnv_def)
  show "\<not> credential_env openai_credential \<in> pod_env good_pod"
    by (simp add: pod_env_def all_containers_def good_pod_def worker_pod_def worker_def credential_env_def)
qed

lemma good_object: "dr_Object (pod_Default std_selector op_config sample_client None (PodObject good_pod)) =
    PodObject good_out"
  by (simp add: good_facts)

lemma openai_deliverable: "deliverable std_selector op_config sample_client None good_pod openai_credential"
proof -
  have "get_ModelCredential sample_client ''openai'' = Inr openai_credential"
    and "credentialAuthorizes std_selector sample_client openai_credential ''team-a'' = Inr True"
    by code_simp+
  with sample_gate(1) show ?thesis
    by (simp add: deliverable_def declared_mini_def batch_facts(1,2))
qed

theorem only_deliverable_injected_witness:
  "credential_env openai_credential \<in> pod_env good_out - pod_env good_pod \<and>
   credential_env openai_credential \<in>
     credential_env ` {mc. deliverable std_selector op_config sample_client None good_pod mc}"
  using only_deliverable_injected [OF good_object] good_facts(6,7) by blast

theorem default_preserves_pod_witness:
  "pod_extends good_pod good_out \<and> good_out \<noteq> good_pod \<and>
   map_get (pod_Annotations good_out) AnnotationModels = ''openai/gpt-4o-mini''"
proof -
  have "good_out \<noteq> good_pod" using good_facts(6,7) by auto
  moreover have "map_get (pod_Annotations good_pod) AnnotationModels = ''openai/gpt-4o-mini''"
    by code_simp
  ultimately show ?thesis using default_preserves_pod [OF good_object] by simp
qed

theorem default_idempotent_witness:
  "dr_Object (pod_Default std_selector op_config sample_client None (PodObject good_out)) = PodObject good_out \<and>
   good_out \<noteq> good_pod"
proof -
  have "good_out \<noteq> good_pod" using good_facts(6,7) by auto
  with default_idempotent [OF good_facts(1)] good_facts(3) show ?thesis by simp
qed

section \<open>Declared models\<close>

text \<open>
  C29: The models declared for a pod are a set up to case: one entry per model that a matching
  claim requests or a well-formed annotation token names, no entry with an empty name, and with
  each the first credential preference in the order of the claims' names.
\<close>

theorem declared_models_exact:
  assumes "list_ModelClaims c ns = Inr items"
  shows "\<exists>ds. declaredModelsForPod asSel c ns pod = Inr ds \<and>
    distinct (map dm_key ds) \<and>
    dm_key ` set ds = {k. \<exists>x \<in> set (podRequests asSel items pod). request_key x = Some k} \<and>
    (\<forall>d \<in> set ds. dm_ok d \<and> dm_Credential d = preferred_cred (dm_key d) (podRequests asSel items pod))"
proof -
  let ?ds = "snd (foldl addDeclared (Map.empty, []) (podRequests asSel items pod))"
  have "declaredModelsForPod asSel c ns pod = Inr ?ds"
    by (simp add: declaredModelsForPod_eq assms)
  moreover have "list_all dm_ok ?ds" by (rule declared_dm_ok) simp
  ultimately show ?thesis
    using declared_keys [of "podRequests asSel items pod"] declared_preference
    by (simp add: list_all_iff)
qed

theorem declared_models_exact_witness:
  "list_ModelClaims sample_client ''team-a'' = Inr [] \<and>
   (\<exists>ds. declaredModelsForPod std_selector sample_client ''team-a'' bad_pod = Inr ds \<and>
      distinct (map dm_key ds))"
proof -
  have "list_ModelClaims sample_client ''team-a'' = Inr []" by code_simp
  from declared_models_exact [OF this] this show ?thesis by blast
qed

section \<open>The models annotation\<close>

definition token :: "string \<times> string \<Rightarrow> string" where
  "token pm = fst pm @ ''/'' @ snd pm"

definition token_ok :: "string \<times> string \<Rightarrow> bool" where
  "token_ok pm \<longleftrightarrow>
     fst pm \<noteq> [] \<and> snd pm \<noteq> [] \<and> TrimSpace (fst pm) = fst pm \<and> TrimSpace (snd pm) = snd pm \<and>
     CHR '','' \<notin> set (fst pm) \<and> CHR '','' \<notin> set (snd pm) \<and> CHR ''/'' \<notin> set (fst pm)"

lemma TrimSpace_ends:
  assumes "TrimSpace s = s" "s \<noteq> []"
  shows "\<not> is_space (hd s)" and "\<not> is_space (last s)"
proof -
  have "dropWhile is_space (rev s) = rev s \<and> dropWhile is_space s = s"
    using assms(1) unfolding TrimSpace_def
    by (metis dropWhile_idem_rev length_dropWhile_le length_rev le_antisym rev_rev_ident
        dropWhile_eq_self_iff hd_dropWhile)
  then show "\<not> is_space (hd s)" "\<not> is_space (last s)"
    using assms(2) by (auto simp: dropWhile_eq_self_iff hd_rev)
qed

lemma TrimSpace_Nil: "TrimSpace s = [] \<Longrightarrow> c \<in> set s \<Longrightarrow> is_space c"
  by (simp add: TrimSpace_def dropWhile_eq_Nil_conv) (metis dropWhile_eq_Nil_conv set_dropWhileD
      takeWhile_dropWhile_id Un_iff set_append set_takeWhileD)

lemma parseToken_token:
  assumes "token_ok pm"
  shows "parseToken (token pm) = Some \<lparr>dm_Provider = fst pm, dm_Model = snd pm, dm_Credential = []\<rparr>"
proof -
  have "TrimSpace (token pm) = token pm"
    using assms TrimSpace_ends [of "fst pm"] TrimSpace_ends [of "snd pm"]
    by (intro TrimSpace_id) (simp add: token_ok_def token_def)
  moreover have "SplitN2 (CHR ''/'') (token pm) = [fst pm, snd pm]"
    using assms by (simp add: token_ok_def token_def SplitN2_sep)
  ultimately show ?thesis
    using assms by (simp add: parseToken_def Let_def token_ok_def) (simp add: token_def)
qed

text \<open>
  The models annotation reads back: a list of models written as \<open>provider/model\<close> tokens with
  commas between them is parsed to these models, in order, when the names are trimmed and not
  empty, no name contains a comma and no provider a slash.
\<close>

theorem annotation_round_trip:
  assumes "\<forall>pm \<in> set ms. token_ok pm"
    and "map_get (pod_Annotations pod) AnnotationModels = Join (map token ms) '',''"
  shows "parseModels pod =
    map (\<lambda>pm. \<lparr>dm_Provider = fst pm, dm_Model = snd pm, dm_Credential = []\<rparr>) ms"
proof (cases ms)
  case Nil
  then show ?thesis by (simp add: parseModels_def assms(2) TrimSpace_def)
next
  case (Cons pm pms)
  have "Split (CHR '','') (Join (map token ms) '','') = map token ms"
    using assms(1) Cons by (intro Split_Join) (auto simp: token_ok_def token_def)
  moreover have "List.map_filter parseToken (map token ms) =
      map (\<lambda>pm. \<lparr>dm_Provider = fst pm, dm_Model = snd pm, dm_Credential = []\<rparr>) ms"
    using assms(1) by (induction ms) (simp_all add: List.map_filter_simps parseToken_token)
  moreover have "TrimSpace (Join (map token ms) '','') \<noteq> []"
  proof
    assume "TrimSpace (Join (map token ms) '','') = []"
    moreover have "hd (fst pm) \<in> set (Join (map token ms) '','')"
      using assms(1) Cons by (cases pms) (auto simp: token_ok_def token_def)
    ultimately have "is_space (hd (fst pm))" by (rule TrimSpace_Nil)
    with assms(1) Cons TrimSpace_ends(1) [of "fst pm"] show False by (simp add: token_ok_def)
  qed
  ultimately show ?thesis by (simp add: parseModels_def assms(2))
qed

theorem annotation_round_trip_witness:
  "parseModels bad_pod = [declared_mini, declared_4o]"
proof -
  let ?ms = "[(''openai'', ''gpt-4o-mini''), (''openai'', ''gpt-4o'')]"
  have "\<forall>pm \<in> set ?ms. token_ok pm" by code_simp
  moreover have "map_get (pod_Annotations bad_pod) AnnotationModels = Join (map token ?ms) '',''"
    by code_simp
  ultimately show ?thesis
    using annotation_round_trip [of ?ms bad_pod] by (simp add: declared_mini_def declared_4o_def)
qed

end
