(* ===== verification/System_Props.thy ===== *)
theory System_Props
  imports Credential_Props Pod_Props
begin

text \<open>
  Properties across components: the pod webhook and the credential reconciler decide alike which
  namespaces may bind a credential, and a reference that the webhook writes into a pod names a
  Secret and a key that the reconciler provides.
\<close>

section \<open>Authorization\<close>

lemma authorizes_iff_listed:
  assumes "list_Namespaces c = Inr items" "x \<in> set items" "get_Namespace c (ns_Name x) = Inr x"
    and "\<forall>y \<in> set items. ns_Name y = ns_Name x \<longrightarrow> y = x"
    and "authorizedNamespaces asSel c mc = Inr auth"
  shows "credentialAuthorizes asSel c mc (ns_Name x) = Inr True \<longleftrightarrow> ns_Name x \<in> set auth"
  using assms(1-4)
  by (auto simp: authorizedNamespaces_mem [OF assms(5)] credentialAuthorizes_def namespaceLabels_def
      split: sum.splits)

text \<open>
  C15: The webhook and the reconciler agree on who may bind a credential. For a namespace that
  exists, the webhook authorizes it exactly when the reconciler replicates the credential's Secret
  into it, provided the namespace's labels read by the two agree and its name is unique.
\<close>

theorem authorization_agrees:
  assumes "list_Namespaces c = Inr items" "x \<in> set items" "get_Namespace c (ns_Name x) = Inr x"
    and "\<forall>y \<in> set items. ns_Name y = ns_Name x \<longrightarrow> y = x"
    and "authorizedNamespaces asSel c mc = Inr auth"
  shows "credentialAuthorizes asSel c mc (ns_Name x) = Inr True \<longleftrightarrow> ns_Name x \<in> set auth"
  by (rule authorizes_iff_listed [OF assms])

theorem authorization_agrees_witness:
  "credentialAuthorizes std_selector sample_client openai_credential
     (ns_Name \<lparr>ns_Name = ''team-a'', ns_Labels = Some []\<rparr>) = Inr True \<longleftrightarrow>
   ns_Name \<lparr>ns_Name = ''team-a'', ns_Labels = Some []\<rparr> \<in> set [''team-a'']"
  by (rule authorization_agrees [OF _ _ _ _ sample_run(2), of "[\<lparr>ns_Name = ''team-a'', ns_Labels = Some []\<rparr>]"])
     (simp_all add: sample_client_def client_of_def sample_cluster_def answer_def)

section \<open>References\<close>

text \<open>The Secret and the key that an injected credential refers to.\<close>

definition injected_reference :: "ModelCredential \<Rightarrow> string \<times> string" where
  "injected_reference mc = (ManagedSecretPrefix @ mc_Name mc, sks_Key (mcs_SecretRef (mc_Spec mc)))"

lemma credential_refers:
  "ev_ValueFrom (credential_env mc) = Some (SecretKeyRef (fst (injected_reference mc)) (snd (injected_reference mc)))"
  "vol_Source (credential_volume mc) =
     SecretVolume (fst (injected_reference mc)) [(snd (injected_reference mc), ''apikey'')]"
  by (simp_all add: credential_env_def credential_volume_def injected_reference_def)

text \<open>
  Injected references resolve. When the webhook may deliver a credential to a pod, its
  namespace exists, and the reconciler has run on the same cluster state, the namespace is one the
  reconciler replicates to; and if the status lists it as synced, the Secret that the injected
  variable (and the injected volume) names exists in the pod's namespace and holds, under the key
  the reference names, the value the credential's source Secret has.
\<close>

theorem injected_reference_resolves:
  assumes "replica_store sc view own" "\<And>xs. mset (order xs) = mset xs"
    and run: "ModelCredential_Reconcile asSel setCond c sc own order opns upd (Inr mc) s = (s', out)"
    and written: "oc_Written out = Some mc'" "mcst_SecretResolved (mc_Status mc')"
    and "deliverable asSel cfg c ctx pod mc"
    and ns: "ns = namespaceFromCtx ctx (pod_Namespace pod)"
      "list_Namespaces c = Inr items" "x \<in> set items" "ns_Name x = ns" "get_Namespace c ns = Inr x"
  shows "\<exists>auth src data.
    authorizedNamespaces asSel c mc = Inr auth \<and> ns \<in> set auth \<and>
    sc_Get sc s (firstNonEmpty (sks_Namespace (mcs_SecretRef (mc_Spec mc))) opns)
      (sks_Name (mcs_SecretRef (mc_Spec mc))) = Inr src \<and>
    map_of (sec_Data src) (sks_Key (mcs_SecretRef (mc_Spec mc))) = Some data \<and>
    (ns \<in> set (mcst_SyncedNamespaces (mc_Status mc')) \<longrightarrow>
      (\<exists>n k y. ev_ValueFrom (credential_env mc) = Some (SecretKeyRef n k) \<and>
         vol_Source (credential_volume mc) = SecretVolume n [(k, ''apikey'')] \<and>
         view s' (ns, n) = Some y \<and> map_of (sec_Data y) k = Some data))"
proof -
  obtain src data auth where src:
      "sc_Get sc s (firstNonEmpty (sks_Namespace (mcs_SecretRef (mc_Spec mc))) opns)
         (sks_Name (mcs_SecretRef (mc_Spec mc))) = Inr src"
      "map_of (sec_Data src) (sks_Key (mcs_SecretRef (mc_Spec mc))) = Some data"
    and auth: "authorizedNamespaces asSel c mc = Inr auth"
    and rr: "reconcile_resolved asSel setCond c sc own order opns upd mc data s = (s', out)"
    by (rule Reconcile_resolved [OF run written])
  have "credentialAuthorizes asSel c mc ns = Inr True"
    using assms(6) ns(1) by (auto simp: deliverable_def gate_Some_iff)
  then have "ns \<in> set auth"
    using ns(2-5)
    by (auto simp: authorizedNamespaces_mem [OF auth] credentialAuthorizes_def namespaceLabels_def
        split: sum.splits if_splits)
  moreover have "\<exists>y. view s' (ns, fst (injected_reference mc)) = Some y \<and>
      map_of (sec_Data y) (snd (injected_reference mc)) = Some data"
    if "ns \<in> set (mcst_SyncedNamespaces (mc_Status mc'))"
    using synced_replicas(4) [OF assms(1,2) rr auth written(1) that]
    by (auto simp: replica_key_def injected_reference_def current_replica_def)
  ultimately show ?thesis using src auth credential_refers by blast
qed

theorem injected_reference_resolves_witness:
  "\<exists>auth src data.
    authorizedNamespaces std_selector sample_client openai_credential = Inr auth \<and> ''team-a'' \<in> set auth \<and>
    sc_Get (list_store no_fault) [source_secret, stale_secret]
      (firstNonEmpty (sks_Namespace (mcs_SecretRef (mc_Spec openai_credential))) ''operator'')
      (sks_Name (mcs_SecretRef (mc_Spec openai_credential))) = Inr src \<and>
    map_of (sec_Data src) (sks_Key (mcs_SecretRef (mc_Spec openai_credential))) = Some data \<and>
    (''team-a'' \<in> set (mcst_SyncedNamespaces (mc_Status sample_result)) \<longrightarrow>
      (\<exists>n k y. ev_ValueFrom (credential_env openai_credential) = Some (SecretKeyRef n k) \<and>
         vol_Source (credential_volume openai_credential) = SecretVolume n [(k, ''apikey'')] \<and>
         list_view [sample_replica, source_secret] (''team-a'', n) = Some y \<and> map_of (sec_Data y) k = Some data))"
  by (rule injected_reference_resolves
        [OF list_secrets.replica_store_axioms keep_order_perm sample_reconcile_eq sample_written sample_run(4)
            openai_deliverable, of "''team-a''" "[\<lparr>ns_Name = ''team-a'', ns_Labels = Some []\<rparr>]"
            "\<lparr>ns_Name = ''team-a'', ns_Labels = Some []\<rparr>"])
     (simp_all add: namespaceFromCtx_def good_pod_def worker_pod_def sample_client_def client_of_def
        sample_cluster_def answer_def)

end
