(* ===== verification/Metric_Props.thy ===== *)
theory Metric_Props
  imports Pod_Facts Policy_Controllers Claim_Controller Credential_Controller
begin

text \<open>
  Every metric update of the webhooks and the reconcilers concerns a registered collector and has
  one value per label, so that \<open>WithLabelValues\<close> never panics in a handler.
\<close>

fun event_vec :: "metric_event \<Rightarrow> metric_vec" where
  "event_vec (CounterInc v ls) = v"
| "event_vec (GaugeSet v ls x) = v"

definition safe_event :: "metric_event \<Rightarrow> bool" where
  "safe_event e \<longleftrightarrow> event_ok e \<and> event_vec e \<in> set registered"

lemma safe_event_simps [simp]:
  "safe_event (CounterInc v ls) \<longleftrightarrow> mv_Kind v = Counter \<and> length ls = length (mv_Labels v) \<and> v \<in> set registered"
  "safe_event (GaugeSet v ls x) \<longleftrightarrow> mv_Kind v = Gauge \<and> length ls = length (mv_Labels v) \<and> v \<in> set registered"
  by (simp_all add: safe_event_def)

lemma metric_labels [simp]:
  "length (mv_Labels AdmissionDecisions) = 3" "length (mv_Labels ModelViolations) = 4"
  "length (mv_Labels CredentialsInjected) = 2" "length (mv_Labels CredentialSyncedNamespaces) = 1"
  "length (mv_Labels CredentialCapacityTPM) = 1" "length (mv_Labels CredentialAllocatedTPM) = 1"
  "length (mv_Labels CredentialOversubscribed) = 1" "length (mv_Labels EffectiveModelsGauge) = 2"
  "length (mv_Labels ModelClaimAllowedModels) = 2" "length (mv_Labels GatewayArtifacts) = 2"
  by (simp_all add: metric_defs)

lemma metric_kinds [simp]:
  "mv_Kind AdmissionDecisions = Counter" "mv_Kind ModelViolations = Counter"
  "mv_Kind CredentialsInjected = Counter" "mv_Kind CredentialSyncedNamespaces = Gauge"
  "mv_Kind CredentialCapacityTPM = Gauge" "mv_Kind CredentialAllocatedTPM = Gauge"
  "mv_Kind CredentialOversubscribed = Gauge" "mv_Kind EffectiveModelsGauge = Gauge"
  "mv_Kind ModelClaimAllowedModels = Gauge" "mv_Kind GatewayArtifacts = Gauge"
  by (simp_all add: metric_defs)

lemma metric_registered [simp]:
  "AdmissionDecisions \<in> set registered" "ModelViolations \<in> set registered"
  "CredentialsInjected \<in> set registered" "CredentialSyncedNamespaces \<in> set registered"
  "CredentialCapacityTPM \<in> set registered" "CredentialAllocatedTPM \<in> set registered"
  "CredentialOversubscribed \<in> set registered" "EffectiveModelsGauge \<in> set registered"
  "ModelClaimAllowedModels \<in> set registered" "GatewayArtifacts \<in> set registered"
  by (simp_all add: registered_def)

section \<open>One handler at a time\<close>

lemma validate_metrics: "list_all safe_event (ar_Metrics (pod_validate asSel cfg c ctx obj))"
proof (cases obj)
  case (PodObject pod)
  then show ?thesis
    by (auto simp: pod_validate_eq admit_def list_all_iff Let_def split: option.split)
qed (simp_all add: pod_validate_def)

lemma bind_metrics:
  "list_all safe_event ev \<Longrightarrow>
     bindCredentials asSel c ns pod bound ev creds = (pod', bound', ev', err) \<Longrightarrow> list_all safe_event ev'"
proof (induction creds arbitrary: pod bound ev)
  case (Cons cr creds)
  have step: "list_all safe_event (ev @ [CounterInc CredentialsInjected [ns, cr]])" using Cons.prems(1) by simp
  from Cons.prems show ?case
    by (auto simp: bind_Cons Let_def split: sum.split_asm option.split_asm if_split_asm
        dest: Cons.IH [OF Cons.prems(1)] Cons.IH [OF step])
qed simp

lemma default_metrics: "list_all safe_event (dr_Metrics (pod_Default asSel cfg c ctx obj))"
proof (cases obj)
  case (PodObject pod)
  show ?thesis
    by (cases rule: pod_Default_cases [OF refl, of asSel cfg c ctx pod])
      (use bind_metrics [of "[]"] in \<open>auto simp: PodObject\<close>)
qed (simp_all add: pod_Default_def)

lemma claim_metrics: "list_all safe_event (oc_Metrics (ModelClaim_Reconcile asSel setCond c upd got))"
  by (simp add: ModelClaim_Reconcile_def Let_def split: sum.split)

lemma cluster_metrics: "list_all safe_event (oc_Metrics (ClusterTokenPolicy_Reconcile asSel setCond c upd got))"
  by (simp add: ClusterTokenPolicy_Reconcile_def Let_def split: sum.split)

lemma gateway_metrics:
  assumes "reconcileGateway setCond ap own s tp eff = (s', tp', gev, gerr)"
  shows "list_all safe_event gev"
  using assms by (auto simp: reconcileGateway_def Let_def split: sum.splits option.splits prod.splits)

lemma policy_metrics:
  "list_all safe_event (oc_Metrics (snd (TokenPolicy_Reconcile asSel setCond c ap own upd got s)))"
  using gateway_metrics
  by (auto simp: TokenPolicy_Reconcile_def Let_def split: sum.split prod.split)

lemma capacity_metrics: "list_all safe_event (snd (reconcileCapacity setCond mc q))"
  by (simp add: reconcileCapacity_def Let_def)

lemma credential_metrics:
  "list_all safe_event
     (oc_Metrics (snd (ModelCredential_Reconcile asSel setCond c sc own order opns upd got s)))"
proof -
  have "list_all safe_event
     (oc_Metrics (snd (reconcile_resolved asSel setCond c sc own order opns upd mc data s)))" for mc data
    using capacity_metrics
    by (auto simp: reconcile_resolved_def Let_def case_prod_beta split: sum.split)
  then show ?thesis
    by (auto simp: ModelCredential_Reconcile_def Let_def split: sum.split option.split)
qed

section \<open>Property\<close>

text \<open>
  C40: No handler panics on a metric. Whatever a webhook or a reconciler is given, and whatever
  the API server answers, each of its metric updates names a registered collector that has this kind of update, and
  passes exactly one value for each of the collector's labels.
\<close>

theorem metric_updates_safe:
  "list_all safe_event (ar_Metrics (pod_validate asSel cfg c ctx obj)) \<and>
   list_all safe_event (dr_Metrics (pod_Default asSel cfg c ctx obj)) \<and>
   list_all safe_event (oc_Metrics (ModelClaim_Reconcile asSel setCond c upd_claim got_claim)) \<and>
   list_all safe_event (oc_Metrics (ClusterTokenPolicy_Reconcile asSel setCond c upd_cluster got_cluster)) \<and>
   list_all safe_event (oc_Metrics (snd (TokenPolicy_Reconcile asSel setCond c ap own_art upd_policy got_policy s))) \<and>
   list_all safe_event
     (oc_Metrics (snd (ModelCredential_Reconcile asSel setCond c sc own_sec order opns upd_cred got_cred st)))"
  by (intro conjI validate_metrics default_metrics claim_metrics cluster_metrics policy_metrics credential_metrics)

end
