(* ===== verification/Publication.thy ===== *)
theory Publication
  imports Credential_Props
begin

text \<open>
  The contract of the replication. What the stored Secrets expose of a credential is abstracted to a
  map from keys to key material, and a run of the reconciler in which no call of the Secret client
  fails is one step \<open>publish\<close> on that map: nothing outside the authorized namespaces, the source's
  present value in each of them.
\<close>

section \<open>The abstract store\<close>

text \<open>What the Secrets labelled with a credential's name expose, and where.\<close>

definition exposed ::
  "(string \<times> string \<Rightarrow> Secret option) \<Rightarrow> string \<Rightarrow> string \<times> string \<Rightarrow> (string \<times> string) list option" where
  "exposed v n k =
     (case v k of
        None \<Rightarrow> None
      | Some x \<Rightarrow> if has_label LabelCredential n x then Some (sec_Data x) else None)"

definition publish ::
  "string list \<Rightarrow> string \<Rightarrow> (string \<times> string) list \<Rightarrow> (string \<times> string \<Rightarrow> (string \<times> string) list option)
     \<Rightarrow> string \<times> string \<Rightarrow> (string \<times> string) list option" where
  "publish auth n payload e k =
     (if fst k \<notin> set auth then None
      else if snd k = ManagedSecretPrefix @ n then Some payload else e k)"

text \<open>The published state of a credential.\<close>

definition published ::
  "string list \<Rightarrow> ModelCredential \<Rightarrow> string \<Rightarrow> string \<times> string \<Rightarrow> (string \<times> string) list option" where
  "published auth mc data k =
     (if fst k \<in> set auth \<and> snd k = ManagedSecretPrefix @ mc_Name mc
      then Some [(sks_Key (mcs_SecretRef (mc_Spec mc)), data)] else None)"

text \<open>The API server answers every call of the Secret client that can be answered.\<close>

definition store_works :: "'s secret_client \<Rightarrow> set_secret_owner \<Rightarrow> bool" where
  "store_works sc own \<longleftrightarrow>
     (\<forall>s n. \<exists>xs. sc_List sc s n = Inr xs) \<and>
     (\<forall>s k e. snd (sc_Delete sc s k) = Some e \<longrightarrow> IsNotFound e) \<and>
     (\<forall>s obj mc f. (\<forall>x. secret_key (f x) = secret_key x) \<longrightarrow>
        snd (sc_CreateOrUpdate sc s obj (\<lambda>x. own mc (f x))) = None)"

lemma store_worksD:
  assumes "store_works sc own"
  shows "\<forall>s n. \<exists>xs. sc_List sc s n = Inr xs"
    and "\<forall>s k e. snd (sc_Delete sc s k) = Some e \<longrightarrow> IsNotFound e"
    and "snd (syncSecret sc own opns mc data s ns) = None"
  using assms by (simp_all add: store_works_def syncSecret_def fill_replica_def secret_key_def)

lemma syncAll_works:
  "store_works sc own \<Longrightarrow> snd (syncAll sc own opns mc data s synced nss) = synced @ nss"
proof (induction nss arbitrary: s synced)
  case (Cons ns nss)
  obtain s1 err where st: "syncSecret sc own opns mc data s ns = (s1, err)" by fastforce
  with Cons store_worksD(3) [OF Cons.prems, of opns mc data s ns] show ?case by simp
qed simp

section \<open>Refinement\<close>

text \<open>The steps of the replication, on the abstract store.\<close>

lemma replicated:
  assumes "replica_store sc view own" "store_works sc own" "\<And>xs. mset (order xs) = mset xs"
    and sy: "syncAll sc own opns mc data s [] (order auth) = (s1, synced)" and "distinct auth"
  shows "synced = order auth"
    and "ns \<in> set auth \<Longrightarrow> \<exists>x. view s1 (replica_key mc ns) = Some x \<and> current_replica mc data x"
    and "k \<notin> replica_key mc ` set auth \<Longrightarrow> view s1 k = view s k"
proof -
  have perm: "set (order auth) = set auth" "distinct (order auth)"
    using assms(3) [of auth] assms(5) by (metis mset_eq_setD, metis mset_eq_imp_distinct_iff)
  show synced: "synced = order auth"
    using syncAll_works [OF assms(2), of opns mc data s "[]" "order auth"] sy by simp
  show "ns \<in> set auth \<Longrightarrow> \<exists>x. view s1 (replica_key mc ns) = Some x \<and> current_replica mc data x"
    using replica_store.syncAll_facts(1) [OF assms(1) sy] perm by (auto simp: synced)
  show "k \<notin> replica_key mc ` set auth \<Longrightarrow> view s1 k = view s k"
    using replica_store.syncAll_facts(2) [OF assms(1) sy, of k] perm by simp
qed

lemma exposed_current: "current_replica mc data x \<Longrightarrow> v k = Some x \<Longrightarrow>
    exposed v (mc_Name mc) k = Some [(sks_Key (mcs_SecretRef (mc_Spec mc)), data)]"
  by (simp add: exposed_def current_replica_def)

lemma resolved_publishes:
  assumes st: "replica_store sc view own" "store_works sc own" "\<And>xs. mset (order xs) = mset xs"
    and run: "reconcile_resolved asSel setCond c sc own order opns upd mc data s = (s', out)"
    and auth: "authorizedNamespaces asSel c mc = Inr auth"
  shows "exposed (view s') (mc_Name mc) =
    publish auth (mc_Name mc) [(sks_Key (mcs_SecretRef (mc_Spec mc)), data)] (exposed (view s) (mc_Name mc))"
proof
  fix k :: "string \<times> string"
  have store: "secret_store sc view" using st(1) by (simp add: replica_store_def)
  obtain s1 synced perr
    where sy: "syncAll sc own opns (resolved_mc setCond mc) data s [] (order auth) = (s1, synced)"
    and pr: "pruneSecrets sc (resolved_mc setCond mc) auth s1 = (s', perr)"
    using reconcile_resolved_runs [OF run auth] by metis
  note rep = replicated [OF st sy authorizedNamespaces_distinct [OF auth], unfolded resolved_mc_simps]
  have "perr = None" using pruneSecrets_works [OF store_worksD(1,2) [OF st(2)] pr] .
  then have gone: "exposed (view s') (mc_Name mc) k = None" if "fst k \<notin> set auth"
    using secret_store.pruneSecrets_done [OF store, of "resolved_mc setCond mc" auth s1 s' k] pr that
    by (auto simp: exposed_def split: option.split)
  have kept: "view s' k = view s1 k" if "fst k \<in> set auth"
    using secret_store.pruneSecrets_frame [OF store pr, of k] that by auto
  show "exposed (view s') (mc_Name mc) k =
    publish auth (mc_Name mc) [(sks_Key (mcs_SecretRef (mc_Spec mc)), data)] (exposed (view s) (mc_Name mc)) k"
  proof (cases "fst k \<in> set auth \<and> snd k = ManagedSecretPrefix @ mc_Name mc")
    case True
    then have "k = replica_key mc (fst k)" by (simp add: replica_key_def prod_eq_iff)
    with True rep(2) obtain x where "view s1 k = Some x" "current_replica mc data x" by metis
    with True kept show ?thesis by (simp add: exposed_current publish_def)
  next
    case False
    then have "k \<notin> replica_key mc ` set auth" by (auto simp: replica_key_def)
    with rep(3) False kept gone show ?thesis
      by (cases "fst k \<in> set auth") (simp_all add: publish_def exposed_def)
  qed
qed

text \<open>Labelled Secrets stand under the name of the replicas of the credential they are labelled with.\<close>

definition replicas_named :: "(string \<times> string \<Rightarrow> Secret option) \<Rightarrow> bool" where
  "replicas_named v \<longleftrightarrow>
     (\<forall>n k x. v k = Some x \<and> has_label LabelCredential n x \<longrightarrow> snd k = ManagedSecretPrefix @ n)"

lemma replicas_namedD:
  "replicas_named v \<Longrightarrow> v k = Some x \<Longrightarrow> has_label LabelCredential n x \<Longrightarrow> snd k = ManagedSecretPrefix @ n"
  unfolding replicas_named_def by blast

lemma has_label_unique: "has_label k v x \<Longrightarrow> has_label k v' x \<longleftrightarrow> v' = v"
  by (auto simp: has_label_def)

text \<open>Whatever fails, a run touches nothing but the replicas of its credential and what carries its label.\<close>

lemma run_touches:
  assumes "replica_store sc view own" "\<And>xs. mset (order xs) = mset xs"
    and run: "ModelCredential_Reconcile asSel setCond c sc own order opns upd (Inr mc) s = (s', out)"
  shows "view s' k = view s k \<or>
      (\<exists>x. snd k = ManagedSecretPrefix @ mc_Name mc \<and> view s' k = Some x \<and> has_label LabelCredential (mc_Name mc) x) \<or>
      view s' k = None \<and> (\<exists>x. view s k = Some x \<and> has_label LabelCredential (mc_Name mc) x)"
proof (cases rule: Reconcile_cases [OF run])
  case (2 src data auth)
  from resolved_values [OF assms(1,2) 2(4,3), of k] show ?thesis
    by (auto simp: replica_key_def current_replica_def)
qed simp

text \<open>Whatever fails, a run leaves the names of the labelled Secrets and the other credentials alone.\<close>

lemma run_others:
  assumes "replica_store sc view own" "\<And>xs. mset (order xs) = mset xs"
    and run: "ModelCredential_Reconcile asSel setCond c sc own order opns upd (Inr mc) s = (s', out)"
    and named: "replicas_named (view s)"
  shows "replicas_named (view s')"
    and "n \<noteq> mc_Name mc \<Longrightarrow> exposed (view s') n = exposed (view s) n"
proof -
  note step = run_touches [OF assms(1-3)]
  show "replicas_named (view s')"
    unfolding replicas_named_def
  proof (intro allI impI, elim conjE)
    fix m k y assume y: "view s' k = Some y" "has_label LabelCredential m y"
    with step [of k] show "snd k = ManagedSecretPrefix @ m"
      using replicas_namedD [OF named, of k y m] by (auto simp: has_label_unique)
  qed
  show "exposed (view s') n = exposed (view s) n" if n: "n \<noteq> mc_Name mc"
  proof
    fix k
    from step [of k] show "exposed (view s') n k = exposed (view s) n k"
    proof (elim disjE exE conjE)
      fix x assume k: "snd k = ManagedSecretPrefix @ mc_Name mc" and x: "view s' k = Some x"
        "has_label LabelCredential (mc_Name mc) x"
      from k n have "\<not> has_label LabelCredential n y" if "view s k = Some y" for y
        using replicas_namedD [OF named that, of n] by auto
      with x n show ?thesis by (auto simp: exposed_def has_label_unique split: option.split)
    next
      fix x assume "view s' k = None" "view s k = Some x" "has_label LabelCredential (mc_Name mc) x"
      with n show ?thesis by (simp add: exposed_def has_label_unique)
    qed (simp add: exposed_def)
  qed
qed

text \<open>A run that finds the key publishes it; what was exposed before does not matter.\<close>

lemma run_publishes:
  assumes "replica_store sc view own" "store_works sc own" "\<And>xs. mset (order xs) = mset xs"
    and run: "ModelCredential_Reconcile asSel setCond c sc own order opns upd (Inr mc) s = (s', out)"
    and source: "sc_Get sc s (firstNonEmpty (sks_Namespace (mcs_SecretRef (mc_Spec mc))) opns)
        (sks_Name (mcs_SecretRef (mc_Spec mc))) = Inr src"
      "map_of (sec_Data src) (sks_Key (mcs_SecretRef (mc_Spec mc))) = Some data"
    and auth: "authorizedNamespaces asSel c mc = Inr auth"
    and named: "replicas_named (view s)"
  shows "exposed (view s') (mc_Name mc) = published auth mc data"
proof -
  have "reconcile_resolved asSel setCond c sc own order opns upd mc data s = (s', out)"
    using run source
    by (auto simp: ModelCredential_Reconcile_def Let_def firstNonEmpty_def split: if_splits)
  from resolved_publishes [OF assms(1-3) this auth]
  have "exposed (view s') (mc_Name mc) =
      publish auth (mc_Name mc) [(sks_Key (mcs_SecretRef (mc_Spec mc)), data)] (exposed (view s) (mc_Name mc))" .
  moreover have "exposed (view s) (mc_Name mc) k = None" if "snd k \<noteq> ManagedSecretPrefix @ mc_Name mc" for k
    using that replicas_namedD [OF named, of k] by (auto simp: exposed_def split: option.split)
  ultimately show ?thesis by (auto simp: publish_def published_def fun_eq_iff)
qed

section \<open>Property\<close>

text \<open>
  C10: The reconciler implements its contract. When the source key is found and no call of the Secret
  client fails, a run takes the Secrets labelled with the credential to exactly the published
  state: the present value of the source key under the replica's name in every authorized namespace,
  nothing in any other. What is exposed of every other credential stays as it was.
\<close>

theorem reconcile_publishes:
  assumes "replica_store sc view own" "store_works sc own" "\<And>xs. mset (order xs) = mset xs"
    and run: "ModelCredential_Reconcile asSel setCond c sc own order opns upd (Inr mc) s = (s', out)"
    and source: "sc_Get sc s (firstNonEmpty (sks_Namespace (mcs_SecretRef (mc_Spec mc))) opns)
        (sks_Name (mcs_SecretRef (mc_Spec mc))) = Inr src"
      "map_of (sec_Data src) (sks_Key (mcs_SecretRef (mc_Spec mc))) = Some data"
    and auth: "authorizedNamespaces asSel c mc = Inr auth"
    and named: "replicas_named (view s)"
  shows "exposed (view s') (mc_Name mc) = published auth mc data \<and>
    (\<forall>n. n \<noteq> mc_Name mc \<longrightarrow> exposed (view s') n = exposed (view s) n)"
  using run_publishes [OF assms] run_others(2) [OF assms(1,3) run named] by auto

lemma secret_key_owner: "secret_key (x\<lparr>sec_Owner := ow\<rparr>) = secret_key x"
  by (simp add: secret_key_def)

lemma list_store_no_fault: "store_works (list_store no_fault) own_by"
proof -
  have "snd (sc_CreateOrUpdate (list_store no_fault) s obj (\<lambda>x. own_by mc (f x))) = None"
    if f: "\<forall>x. secret_key (f x) = secret_key x" for s obj mc f
  proof (cases "list_view s (secret_key obj)")
    case (Some y)
    then have "secret_key y = secret_key obj" using list_view_key by blast
    with f Some show ?thesis by (simp add: list_store_def no_fault_def own_by_def secret_key_owner)
  qed (use f in \<open>simp add: list_store_def no_fault_def own_by_def secret_key_owner\<close>)
  then show ?thesis
    using list_store_works unfolding store_works_def by blast
qed

lemma sample_named: "replicas_named (list_view [source_secret, stale_secret])"
  by (auto simp: replicas_named_def has_label_def list_view_def source_secret_def stale_secret_def
      new_secret_def secret_key_def openai_credential_def)

lemma sample_source:
  "sc_Get (list_store no_fault) [source_secret, stale_secret]
     (firstNonEmpty (sks_Namespace (mcs_SecretRef (mc_Spec openai_credential))) ''operator'')
     (sks_Name (mcs_SecretRef (mc_Spec openai_credential))) = Inr source_secret"
  "map_of (sec_Data source_secret) (sks_Key (mcs_SecretRef (mc_Spec openai_credential))) = Some ''sk-1''"
  "mc_Name openai_credential = ''openai''" "sks_Key (mcs_SecretRef (mc_Spec openai_credential)) = ''apiKey''"
  by code_simp+

theorem reconcile_publishes_witness:
  "exposed (list_view [sample_replica, source_secret]) ''openai'' = published [''team-a''] openai_credential ''sk-1''"
  using reconcile_publishes [OF list_secrets.replica_store_axioms list_store_no_fault keep_order_perm
      sample_reconcile_eq sample_source(1,2) sample_run(2) sample_named]
  by (simp add: sample_source(3))

end
