(* ===== verification/Cluster_Machine.thy ===== *)
theory Cluster_Machine
  imports Publication
begin

text \<open>
  The credential controller at work in a cluster: a state machine whose steps are the runs of the
  reconciler, in any order and with any failures, between changes that others make to policies,
  namespaces, credentials and Secrets.
\<close>

section \<open>States\<close>

record 's system =
  sys_client :: client
  sys_credentials :: "string \<rightharpoonup> ModelCredential"
  sys_store :: 's

text \<open>Where the source Secret of a credential is.\<close>

definition source_key :: "string \<Rightarrow> ModelCredential \<Rightarrow> string \<times> string" where
  "source_key opns mc =
     (firstNonEmpty (sks_Namespace (mcs_SecretRef (mc_Spec mc))) opns, sks_Name (mcs_SecretRef (mc_Spec mc)))"

text \<open>
  A run of the credential's reconciler may release \<open>d\<close> to a namespace: it is authorized, and \<open>d\<close> holds
  the present value of the source key.
\<close>

definition releasable ::
  "selector_api \<Rightarrow> ('s \<Rightarrow> string \<times> string \<Rightarrow> Secret option) \<Rightarrow> string \<Rightarrow> 's system \<Rightarrow> ModelCredential
     \<Rightarrow> string \<Rightarrow> (string \<times> string) list \<Rightarrow> bool" where
  "releasable asSel view opns \<sigma> mc ns d \<longleftrightarrow>
     (\<exists>auth src data. authorizedNamespaces asSel (sys_client \<sigma>) mc = Inr auth \<and> ns \<in> set auth \<and>
        view (sys_store \<sigma>) (source_key opns mc) = Some src \<and>
        map_of (sec_Data src) (sks_Key (mcs_SecretRef (mc_Spec mc))) = Some data \<and>
        d = [(sks_Key (mcs_SecretRef (mc_Spec mc)), data)])"

text \<open>The object that \<open>Status().Update\<close> leaves behind when the API server accepts it.\<close>

definition after_write :: "string \<Rightarrow> ModelCredential outcome \<Rightarrow> (string \<rightharpoonup> ModelCredential) \<Rightarrow> string \<rightharpoonup> ModelCredential" where
  "after_write n out creds =
     (case oc_Written out of
        None \<Rightarrow> creds
      | Some mc \<Rightarrow> if oc_Err out = None then creds(n \<mapsto> mc) else creds)"

section \<open>Reads\<close>

text \<open>A run sees the present answers, or errors; no object is reported missing that is there.\<close>

definition answers :: "api_error + 'a \<Rightarrow> api_error + 'a \<Rightarrow> bool" where
  "answers r0 r \<longleftrightarrow> r0 = r \<or> (\<exists>e. r0 = Inl e \<and> \<not> IsNotFound e)"

definition reads_of :: "client \<Rightarrow> client \<Rightarrow> bool" where
  "reads_of c0 c \<longleftrightarrow>
     answers (list_ClusterTokenPolicies c0) (list_ClusterTokenPolicies c) \<and>
     (\<forall>ns. answers (list_TokenPolicies c0 ns) (list_TokenPolicies c ns)) \<and>
     answers (list_AllTokenPolicies c0) (list_AllTokenPolicies c) \<and>
     (\<forall>ns. answers (list_ModelClaims c0 ns) (list_ModelClaims c ns)) \<and>
     answers (list_Namespaces c0) (list_Namespaces c) \<and>
     (\<forall>n. answers (get_Namespace c0 n) (get_Namespace c n)) \<and>
     (\<forall>n. answers (get_ModelCredential c0 n) (get_ModelCredential c n))"

lemma reads_of_refl: "reads_of c c"
  by (simp add: reads_of_def answers_def)

lemma answers_Inr: "answers r0 r \<Longrightarrow> r0 = Inr x \<Longrightarrow> r = Inr x"
  by (auto simp: answers_def)

lemma authorizedNamespaces_reads:
  "authorizedNamespaces asSel c0 mc = Inr auth \<Longrightarrow> reads_of c0 c \<Longrightarrow> authorizedNamespaces asSel c mc = Inr auth"
  by (auto simp: authorizedNamespaces_def reads_of_def answers_def Let_def split: option.splits)

section \<open>Steps\<close>

text \<open>
  Others may change policies, namespaces and credentials in any way, and store and delete any Secrets:
  replicas too, with any labels and contents. A healthy run is one in which the reads are answered, and the Secret client answers every call.\<close>

datatype action = ClusterChange | CredentialChange string | SecretChange "string \<times> string" | Reconcile string bool

definition healthy :: "('s \<Rightarrow> string \<times> string \<Rightarrow> Secret option) \<Rightarrow> 's secret_client \<Rightarrow> set_secret_owner \<Rightarrow> bool" where
  "healthy view sc own \<longleftrightarrow>
     store_works sc own \<and> (\<forall>s k x. view s k = Some x \<longrightarrow> sc_Get sc s (fst k) (snd k) = Inr x)"

inductive sys_step ::
  "selector_api \<Rightarrow> set_condition \<Rightarrow> ('s \<Rightarrow> string \<times> string \<Rightarrow> Secret option) \<Rightarrow> set_secret_owner \<Rightarrow> string
     \<Rightarrow> 's system \<Rightarrow> action \<Rightarrow> 's system \<Rightarrow> bool"
  for asSel setCond view own opns
where
  cluster_changed: "sys_step asSel setCond view own opns \<sigma> ClusterChange (\<sigma>\<lparr>sys_client := c\<rparr>)"
| credential_put: "mc_Name mc = n \<Longrightarrow>
    sys_step asSel setCond view own opns \<sigma> (CredentialChange n)
      (\<sigma>\<lparr>sys_credentials := (sys_credentials \<sigma>)(n \<mapsto> mc)\<rparr>)"
| credential_deleted:
    "sys_step asSel setCond view own opns \<sigma> (CredentialChange n)
      (\<sigma>\<lparr>sys_credentials := (sys_credentials \<sigma>)(n := None)\<rparr>)"
| secret_put: "view s = (view (sys_store \<sigma>))(k \<mapsto> x) \<Longrightarrow>
    sys_step asSel setCond view own opns \<sigma> (SecretChange k) (\<sigma>\<lparr>sys_store := s\<rparr>)"
| secret_deleted: "view s = (view (sys_store \<sigma>))(k := None) \<Longrightarrow>
    sys_step asSel setCond view own opns \<sigma> (SecretChange k) (\<sigma>\<lparr>sys_store := s\<rparr>)"
| reconciled: "replica_store sc view own \<Longrightarrow> (\<And>xs. mset (order xs) = mset xs) \<Longrightarrow>
    reads_of c0 (sys_client \<sigma>) \<Longrightarrow> (ok \<Longrightarrow> healthy view sc own \<and> c0 = sys_client \<sigma>) \<Longrightarrow>
    sys_credentials \<sigma> n = Some mc \<Longrightarrow>
    ModelCredential_Reconcile asSel setCond c0 sc own order opns upd (Inr mc) (sys_store \<sigma>) = (s, out) \<Longrightarrow>
    sys_step asSel setCond view own opns \<sigma> (Reconcile n ok)
      (\<sigma>\<lparr>sys_store := s, sys_credentials := after_write n out (sys_credentials \<sigma>)\<rparr>)"

inductive_cases reconcile_stepE: "sys_step asSel setCond view own opns \<sigma> (Reconcile n ok) \<sigma>'"

text \<open>At the start there are any Secrets: a credential is just stored under its name.\<close>

definition well_named :: "'s system \<Rightarrow> bool" where
  "well_named \<sigma> \<longleftrightarrow>
     (\<forall>n mc. sys_credentials \<sigma> n = Some mc \<longrightarrow> mc_Name mc = n)"

inductive reachable ::
  "selector_api \<Rightarrow> set_condition \<Rightarrow> ('s \<Rightarrow> string \<times> string \<Rightarrow> Secret option) \<Rightarrow> set_secret_owner \<Rightarrow> string
     \<Rightarrow> 's system \<Rightarrow> bool"
  for asSel setCond view own opns
where
  reach_init: "well_named \<sigma> \<Longrightarrow> reachable asSel setCond view own opns \<sigma>"
| reach_step: "reachable asSel setCond view own opns \<sigma> \<Longrightarrow> sys_step asSel setCond view own opns \<sigma> a \<sigma>' \<Longrightarrow>
    reachable asSel setCond view own opns \<sigma>'"

section \<open>The invariant\<close>

lemma exposed_Some_iff:
  "exposed v n k = Some d \<longleftrightarrow> (\<exists>x. v k = Some x \<and> has_label LabelCredential n x \<and> sec_Data x = d)"
  by (auto simp: exposed_def split: option.split)

text \<open>The reconciler writes nothing but the status of a credential.\<close>

lemma written_spec:
  assumes "ModelCredential_Reconcile asSel setCond c sc own order opns upd (Inr mc) s = (s', out)"
    and "oc_Written out = Some mc'"
  shows "mc_Name mc' = mc_Name mc \<and> mc_Spec mc' = mc_Spec mc"
  using assms
  by (auto simp: ModelCredential_Reconcile_def reconcile_resolved_def Let_def case_prod_beta
      split: sum.splits option.splits if_splits)

lemma well_namedD: "well_named \<sigma> \<Longrightarrow> sys_credentials \<sigma> n = Some mc \<Longrightarrow> mc_Name mc = n"
  by (simp add: well_named_def)

lemma well_named_step:
  assumes "sys_step asSel setCond view own opns \<sigma> a \<sigma>'" "well_named \<sigma>"
  shows "well_named \<sigma>'"
  using assms
proof cases
  case (reconciled sc order c0 ok n mc upd s out)
  have "mc_Name mc = n" using assms(2) reconciled by (simp add: well_named_def)
  moreover have "\<forall>n' mc'. after_write n out (sys_credentials \<sigma>) n' = Some mc' \<longrightarrow> mc_Name mc' = n'"
    using assms(2) reconciled(7) written_spec [OF reconciled(8)]
    by (auto simp: after_write_def well_named_def split: option.splits if_splits)
  ultimately show ?thesis by (simp add: reconciled(2) well_named_def)
qed (simp_all add: well_named_def)

lemma reachable_inv: "reachable asSel setCond view own opns \<sigma> \<Longrightarrow> well_named \<sigma>"
  by (induction rule: reachable.induct) (auto intro: well_named_step)

section \<open>Where a key may have come from\<close>

text \<open>A Secret that a step brings was stored by others, or released by a run.\<close>

lemma step_brings:
  assumes step: "sys_step asSel setCond view own opns \<sigma> a \<sigma>'"
    and x: "view (sys_store \<sigma>') k = Some x"
    and names: "well_named \<sigma>"
  shows "view (sys_store \<sigma>) k = Some x \<or> a = SecretChange k \<or>
    (\<exists>n ok mc. a = Reconcile n ok \<and> sys_credentials \<sigma> n = Some mc \<and> snd k = ManagedSecretPrefix @ n \<and>
       has_label LabelCredential n x \<and> releasable asSel view opns \<sigma> mc (fst k) (sec_Data x))"
  using step
proof cases
  case (secret_put s k' x)
  with x show ?thesis by (auto split: if_splits)
next
  case (secret_deleted s k')
  with x show ?thesis by (auto split: if_splits)
next
  case (reconciled sc order c0 ok n' mc upd s out)
  have x': "view s k = Some x" using x reconciled(2) by simp
  show ?thesis
  proof (cases rule: Reconcile_cases [OF reconciled(8)])
    case (2 src data auth)
    from resolved_values [OF reconciled(3,4) 2(4,3), of k] show ?thesis
    proof (elim disjE bexE exE conjE)
      fix ns y assume k: "ns \<in> set auth" "k = replica_key mc ns" "view s k = Some y" "current_replica mc data y"
      with x' have "snd k = ManagedSecretPrefix @ mc_Name mc" "fst k = ns" "has_label LabelCredential (mc_Name mc) x"
        "sec_Data x = [(sks_Key (mcs_SecretRef (mc_Spec mc)), data)]"
        by (auto simp: current_replica_def replica_key_def)
      moreover have "view (sys_store \<sigma>) (source_key opns mc) = Some src"
        using secret_store.get_ok [OF _ 2(1)] reconciled(3) by (simp add: source_key_def replica_store_def)
      moreover have "mc_Name mc = n'" using well_namedD [OF names reconciled(7)] .
      ultimately show ?thesis
        using k(1) 2(2) authorizedNamespaces_reads [OF 2(3) reconciled(5)] reconciled(1,7)
        by (auto simp: releasable_def)
    qed (use x' in simp_all)
  qed (use x' in simp)
qed (use x in simp_all)

section \<open>Executions\<close>

text \<open>\<open>m\<close> steps from the start.\<close>

definition runs ::
  "selector_api \<Rightarrow> set_condition \<Rightarrow> ('s \<Rightarrow> string \<times> string \<Rightarrow> Secret option) \<Rightarrow> set_secret_owner \<Rightarrow> string
     \<Rightarrow> nat \<Rightarrow> (nat \<Rightarrow> 's system) \<Rightarrow> (nat \<Rightarrow> action) \<Rightarrow> bool" where
  "runs asSel setCond view own opns m \<sigma> act \<longleftrightarrow>
     well_named (\<sigma> 0) \<and> (\<forall>i < m. sys_step asSel setCond view own opns (\<sigma> i) (act i) (\<sigma> (Suc i)))"

lemma runs_Suc:
  "runs asSel setCond view own opns (Suc m) \<sigma> act \<longleftrightarrow>
     runs asSel setCond view own opns m \<sigma> act \<and> sys_step asSel setCond view own opns (\<sigma> m) (act m) (\<sigma> (Suc m))"
  by (auto simp: runs_def less_Suc_eq)

lemma runs_le: "runs asSel setCond view own opns m \<sigma> act \<Longrightarrow> i \<le> m \<Longrightarrow> runs asSel setCond view own opns i \<sigma> act"
  by (simp add: runs_def)

lemma runs_reachable: "runs asSel setCond view own opns m \<sigma> act \<Longrightarrow> reachable asSel setCond view own opns (\<sigma> m)"
  by (induction m) (auto simp: runs_Suc intro: reach_step, simp add: runs_def reach_init)

lemmas runs_inv = reachable_inv [OF runs_reachable]

section \<open>Convergence\<close>

text \<open>
  What the runs of the credential read, when nobody else changes anything. The source Secret does not
  carry the label of a replica: the reconciler would prune it.
\<close>

definition unlabelled :: "Secret \<Rightarrow> bool" where
  "unlabelled x \<longleftrightarrow> (\<forall>n. \<not> has_label LabelCredential n x)"

definition settled ::
  "selector_api \<Rightarrow> ('s \<Rightarrow> string \<times> string \<Rightarrow> Secret option) \<Rightarrow> string \<Rightarrow> ModelCredential \<Rightarrow> string list \<Rightarrow> Secret
     \<Rightarrow> 's system \<Rightarrow> bool" where
  "settled asSel view opns mc auth src \<sigma> \<longleftrightarrow>
     (\<exists>mc'. sys_credentials \<sigma> (mc_Name mc) = Some mc' \<and> mc_Name mc' = mc_Name mc \<and> mc_Spec mc' = mc_Spec mc) \<and>
     authorizedNamespaces asSel (sys_client \<sigma>) mc = Inr auth \<and>
     view (sys_store \<sigma>) (source_key opns mc) = Some src \<and> unlabelled src"

text \<open>
  The replicas are as they should be: what carries the credential's label lies in authorized
  namespaces, and in each of them the replica holds the source's value. Others may have labelled
  further Secrets of an authorized namespace by hand; the reconciler leaves them there.
\<close>

definition healed :: "(string \<times> string \<Rightarrow> Secret option) \<Rightarrow> string list \<Rightarrow> ModelCredential \<Rightarrow> string \<Rightarrow> bool" where
  "healed v auth mc data \<longleftrightarrow>
     (\<forall>k d. exposed v (mc_Name mc) k = Some d \<longrightarrow> fst k \<in> set auth) \<and>
     (\<forall>ns \<in> set auth. exposed v (mc_Name mc) (ns, ManagedSecretPrefix @ mc_Name mc) =
        Some [(sks_Key (mcs_SecretRef (mc_Spec mc)), data)])"

text \<open>A source Secret that does not have the name of a replica is not touched by any run.\<close>

definition plain_source :: "string \<Rightarrow> ModelCredential \<Rightarrow> bool" where
  "plain_source opns mc \<longleftrightarrow> (\<forall>n. snd (source_key opns mc) \<noteq> ManagedSecretPrefix @ n)"

lemma source_kept:
  assumes "replica_store sc view own" "\<And>xs. mset (order xs) = mset xs"
    and run: "ModelCredential_Reconcile asSel setCond c sc own order opns upd (Inr mc1) s = (s', out)"
    and named: "replicas_named (view s)" and plain: "plain_source opns mc"
  shows "view s' (source_key opns mc) = view s (source_key opns mc)"
  using run_touches [OF assms(1-3), of "source_key opns mc"] plain replicas_namedD [OF named]
  unfolding plain_source_def by metis

lemma unlabelled_source_kept:
  assumes "replica_store sc view own" "\<And>xs. mset (order xs) = mset xs"
    and run: "ModelCredential_Reconcile asSel setCond c sc own order opns upd (Inr mc1) s = (s', out)"
    and "view s (source_key opns mc) = Some src" "unlabelled src" and plain: "plain_source opns mc"
  shows "view s' (source_key opns mc) = Some src"
  using run_touches [OF assms(1-3), of "source_key opns mc"] plain assms(4,5)
  by (auto simp: plain_source_def unlabelled_def)

lemma settled_step:
  assumes step: "sys_step asSel setCond view own opns \<sigma> (Reconcile m ok) \<sigma>'"
    and plain: "plain_source opns mc" and "settled asSel view opns mc auth src \<sigma>"
  shows "settled asSel view opns mc auth src \<sigma>'"
proof (cases rule: reconcile_stepE [OF step])
  case (1 sc order c0 mc1 upd s out)
  have "view s (source_key opns mc) = Some src"
    using unlabelled_source_kept [OF 1(2,3,7) _ _ plain] assms(3) by (simp add: settled_def)
  moreover have "\<exists>mc'. after_write m out (sys_credentials \<sigma>) (mc_Name mc) = Some mc' \<and>
      mc_Name mc' = mc_Name mc \<and> mc_Spec mc' = mc_Spec mc"
  proof (cases "m = mc_Name mc")
    case True
    with assms(3) 1(6) have "mc_Name mc1 = mc_Name mc \<and> mc_Spec mc1 = mc_Spec mc" by (auto simp: settled_def)
    with written_spec [OF 1(7)] True 1(6) show ?thesis
      by (cases "oc_Written out") (simp_all add: after_write_def)
  next
    case False
    with assms(3) show ?thesis by (cases "oc_Written out") (simp_all add: after_write_def settled_def)
  qed
  ultimately show ?thesis using assms(3) by (simp add: 1(1) settled_def)
qed

text \<open>A healthy run heals, and no later run undoes that, whatever fails in it.\<close>

lemma healthy_run_heals:
  assumes step: "sys_step asSel setCond view own opns \<sigma> (Reconcile (mc_Name mc) True) \<sigma>'"
    and "settled asSel view opns mc auth src \<sigma>"
    and data: "map_of (sec_Data src) (sks_Key (mcs_SecretRef (mc_Spec mc))) = Some data"
  shows "healed (view (sys_store \<sigma>')) auth mc data"
proof (cases rule: reconcile_stepE [OF step])
  case (1 sc order c0 mc1 upd s out)
  have mc1: "mc_Name mc1 = mc_Name mc" "mc_Spec mc1 = mc_Spec mc"
    and auth: "authorizedNamespaces asSel c0 mc1 = Inr auth"
    using assms(2) 1(5,6) authorizedNamespaces_spec [of mc1 mc] by (auto simp: settled_def)
  have works: "store_works sc own" and get: "sc_Get sc (sys_store \<sigma>) (fst (source_key opns mc)) (snd (source_key opns mc)) = Inr src"
    using 1(5) assms(2) by (auto simp: healthy_def settled_def)
  have "reconcile_resolved asSel setCond c0 sc own order opns upd mc1 data (sys_store \<sigma>) = (s, out)"
    using 1(7) get data mc1
    by (auto simp: ModelCredential_Reconcile_def Let_def firstNonEmpty_def source_key_def split: if_splits)
  from resolved_publishes [OF 1(2) works 1(3) this auth] show ?thesis
    by (simp add: 1(1) mc1 healed_def publish_def)
qed

lemma healed_stable:
  assumes step: "sys_step asSel setCond view own opns \<sigma> (Reconcile m ok) \<sigma>'"
    and names: "well_named \<sigma>" and "settled asSel view opns mc auth src \<sigma>"
    and data: "map_of (sec_Data src) (sks_Key (mcs_SecretRef (mc_Spec mc))) = Some data"
    and healed: "healed (view (sys_store \<sigma>)) auth mc data"
  shows "healed (view (sys_store \<sigma>')) auth mc data"
proof (cases rule: reconcile_stepE [OF step])
  case (1 sc order c0 mc1 upd s out)
  let ?n = "mc_Name mc" and ?d = "[(sks_Key (mcs_SecretRef (mc_Spec mc)), data)]"
  have name: "mc_Name mc1 = m" by (rule well_namedD [OF names 1(6)])
  have "(exposed (view s) ?n k = Some d \<longrightarrow> exposed (view (sys_store \<sigma>)) ?n k = Some d \<or> fst k \<in> set auth) \<and>
    (fst k \<in> set auth \<longrightarrow> snd k = ManagedSecretPrefix @ ?n \<longrightarrow> exposed (view (sys_store \<sigma>)) ?n k = Some ?d \<longrightarrow>
      exposed (view s) ?n k = Some ?d)" for k d
  proof (cases "m = ?n")
    case False
    from run_touches [OF 1(2,3,7), of k] show ?thesis
    proof (elim disjE)
      assume "view s k = view (sys_store \<sigma>) k"
      then show ?thesis by (simp add: exposed_def)
    qed (use False in \<open>auto simp: exposed_Some_iff name has_label_unique\<close>)
  next
    case True
    with assms(3) 1(6) have spec: "mc_Spec mc1 = mc_Spec mc" by (auto simp: settled_def)
    show ?thesis
    proof (cases rule: Reconcile_cases [OF 1(7)])
      case (2 src1 data1 auth1)
      have store: "secret_store sc view" using 1(2) by (simp add: replica_store_def)
      have eq: "src1 = src" "auth1 = auth"
        using secret_store.get_ok [OF store 2(1)] authorizedNamespaces_reads [OF 2(3) 1(4)] assms(3) spec
          authorizedNamespaces_spec [of mc1 mc asSel "sys_client \<sigma>"]
        by (auto simp: settled_def source_key_def)
      have data1: "data1 = data" using 2(2) data spec eq(1) by simp
      from resolved_values [OF 1(2,3) 2(4,3), unfolded eq data1, of k]
      consider "view s k = view (sys_store \<sigma>) k" | "view s k = None" "fst k \<notin> set auth"
        | x where "fst k \<in> set auth" "view s k = Some x" "current_replica mc1 data x"
        by (auto simp: replica_key_def)
      then show ?thesis
        by cases (use name True spec in \<open>auto simp: exposed_def current_replica_def\<close>)
    qed simp
  qed
  with healed show ?thesis unfolding healed_def 1(1) by fastforce
qed

text \<open>What the reconciler reads stays as it is, and one healthy run publishes for good.\<close>

lemma runs_step:
  assumes "\<And>m. runs asSel setCond view own opns m \<sigma> act"
  shows "sys_step asSel setCond view own opns (\<sigma> k) (act k) (\<sigma> (Suc k))"
  using assms [of "Suc k"] by (simp add: runs_Suc)

lemma settled_stays:
  assumes exec: "\<And>m. runs asSel setCond view own opns m \<sigma> act"
    and quiet: "\<forall>i \<ge> N. \<exists>n ok. act i = Reconcile n ok"
    and settled: "settled asSel view opns mc auth src (\<sigma> N)" "plain_source opns mc"
    and "N \<le> k"
  shows "settled asSel view opns mc auth src (\<sigma> k)"
  using assms(5)
proof (induction rule: dec_induct)
  case (step k)
  obtain n ok where "act k = Reconcile n ok" using quiet step(1) by blast
  with settled_step [OF _ settled(2) step.IH] runs_step [OF exec, of k] show ?case by metis
qed (rule settled(1))

lemma healed_stays:
  assumes exec: "\<And>m. runs asSel setCond view own opns m \<sigma> act"
    and quiet: "\<forall>i \<ge> N. \<exists>n ok. act i = Reconcile n ok"
    and settled: "\<And>k. N \<le> k \<Longrightarrow> settled asSel view opns mc auth src (\<sigma> k)"
    and data: "map_of (sec_Data src) (sks_Key (mcs_SecretRef (mc_Spec mc))) = Some data"
    and run: "N \<le> i" "act i = Reconcile (mc_Name mc) True"
    and later: "i < j"
  shows "healed (view (sys_store (\<sigma> j))) auth mc data"
proof -
  have "Suc i \<le> j" using later by simp
  then show ?thesis
  proof (induction rule: dec_induct)
    case base
    show ?case using healthy_run_heals [OF _ settled data] runs_step [OF exec, of i] run by metis
  next
    case (step k)
    have "N \<le> k" using step(1) run(1) by simp
    moreover from this obtain n ok where "act k = Reconcile n ok" using quiet by blast
    ultimately show ?case
      using healed_stable [OF _ runs_inv [OF exec] settled data step.IH] runs_step [OF exec, of k] by metis
  qed
qed

section \<open>A sample execution\<close>

text \<open>The source Secret is there, and the credential \<open>openai\<close> is reconciled again and again.\<close>

definition first_run :: "Secret list \<times> ModelCredential outcome" where
  "first_run =
     ModelCredential_Reconcile std_selector replace_or_append sample_client (list_store no_fault) own_by keep_order
       ''operator'' (\<lambda>_. None) (Inr openai_credential) [source_secret]"

definition second_run :: "Secret list \<times> ModelCredential outcome" where
  "second_run =
     ModelCredential_Reconcile std_selector replace_or_append sample_client (list_store no_fault) own_by keep_order
       ''operator'' (\<lambda>_. None) (Inr (the (oc_Written (snd first_run)))) (fst first_run)"

lemma sample_runs:
  "fst first_run = [sample_replica, source_secret]" "oc_Err (snd first_run) = None"
  "oc_Written (snd first_run) \<noteq> None"
  "fst second_run = fst first_run" "oc_Err (snd second_run) = None"
  "oc_Written (snd second_run) = oc_Written (snd first_run)"
  by code_simp+

definition sample_mc :: ModelCredential where
  "sample_mc = the (oc_Written (snd first_run))"

definition sample_system :: "ModelCredential \<Rightarrow> Secret list \<Rightarrow> Secret list system" where
  "sample_system mc s =
     \<lparr>sys_client = sample_client, sys_credentials = [''openai'' \<mapsto> mc], sys_store = s\<rparr>"

definition sample_exec :: "nat \<Rightarrow> Secret list system" where
  "sample_exec i =
     (if i = 0 then sample_system openai_credential [source_secret]
      else sample_system sample_mc [sample_replica, source_secret])"

definition sample_act :: "nat \<Rightarrow> action" where
  "sample_act i = Reconcile ''openai'' True"

lemma sample_plain: "plain_source ''operator'' openai_credential"
  by (simp add: plain_source_def source_key_def openai_credential_def ManagedSecretPrefix_def)

lemma list_store_healthy: "healthy list_view (list_store no_fault) own_by"
  using list_store_no_fault by (simp add: healthy_def list_store_def no_fault_def)

lemma sample_written_mc: "oc_Written (snd first_run) = Some sample_mc"
  using sample_runs(3) by (auto simp: sample_mc_def)

lemma sample_sys_step:
  assumes "ModelCredential_Reconcile std_selector replace_or_append sample_client (list_store no_fault) own_by keep_order
       ''operator'' (\<lambda>_. None) (Inr mc) s = r"
    and "fst r = [sample_replica, source_secret]" "oc_Err (snd r) = None" "oc_Written (snd r) = Some sample_mc"
  shows "sys_step std_selector replace_or_append list_view own_by ''operator''
    (sample_system mc s) (Reconcile ''openai'' True) (sample_system sample_mc [sample_replica, source_secret])"
proof -
  have r: "ModelCredential_Reconcile std_selector replace_or_append (sys_client (sample_system mc s))
      (list_store no_fault) own_by keep_order ''operator'' (\<lambda>_. None) (Inr mc) (sys_store (sample_system mc s)) =
    ([sample_replica, source_secret], snd r)"
    using assms(1,2) by (simp add: sample_system_def prod_eq_iff)
  have "after_write ''openai'' (snd r) [''openai'' \<mapsto> mc] = [''openai'' \<mapsto> sample_mc]"
    using assms(3,4) by (simp add: after_write_def)
  with reconciled [OF list_secrets.replica_store_axioms keep_order_perm reads_of_refl _ _ r, where ok = True and n = "''openai''"]
    list_store_healthy
  show ?thesis by (simp add: sample_system_def)
qed

lemma sample_exec_runs: "runs std_selector replace_or_append list_view own_by ''operator'' m sample_exec sample_act"
proof -
  have "sys_step std_selector replace_or_append list_view own_by ''operator'' (sample_exec i) (sample_act i)
      (sample_exec (Suc i))" for i
    using sample_sys_step [of openai_credential "[source_secret]" first_run]
      sample_sys_step [of sample_mc "[sample_replica, source_secret]" second_run]
      sample_runs sample_written_mc
    by (simp add: sample_exec_def sample_act_def first_run_def second_run_def sample_mc_def)
  moreover have "well_named (sample_exec 0)"
    by (simp add: well_named_def sample_exec_def sample_system_def sample_source(3))
  ultimately show ?thesis by (simp add: runs_def)
qed

lemma sample_settled:
  "settled std_selector list_view ''operator'' openai_credential [''team-a''] source_secret (sample_exec 0)"
  using sample_run(2) sample_source(3)
  by (simp add: settled_def sample_exec_def sample_system_def)
     (simp add: source_key_def firstNonEmpty_def list_view_def secret_key_def source_secret_def new_secret_def
       openai_credential_def unlabelled_def has_label_def)

section \<open>Properties\<close>

text \<open>
  C7: Every Secret of the cluster is accounted for. In every execution, from any Secrets at the start,
  with any changes by others, Secrets that carry the replicas' labels and names included, and any
  failures: a Secret that is there was there at the start, or others stored it, or it is a replica
  that a run of its credential's reconciler released: at an earlier step its namespace was authorized by
  the credential and the namespaces of that moment, and its data was the value of the credential's
  source key. So the controller never puts a key where it was not allowed, and writes nothing else.
\<close>

theorem stored_secret_accounted_for:
  assumes "runs asSel setCond view own opns m \<sigma> act"
    and "view (sys_store (\<sigma> m)) k = Some x"
  shows "view (sys_store (\<sigma> 0)) k = Some x \<or>
    (\<exists>i < m. act i = SecretChange k \<and> view (sys_store (\<sigma> (Suc i))) k = Some x) \<or>
    (\<exists>i < m. \<exists>n ok mc. act i = Reconcile n ok \<and> sys_credentials (\<sigma> i) n = Some mc \<and>
       snd k = ManagedSecretPrefix @ n \<and> has_label LabelCredential n x \<and>
       releasable asSel view opns (\<sigma> i) mc (fst k) (sec_Data x))"
  using assms
proof (induction m)
  case (Suc m)
  then have r: "runs asSel setCond view own opns m \<sigma> act"
    and st: "sys_step asSel setCond view own opns (\<sigma> m) (act m) (\<sigma> (Suc m))" by (simp_all add: runs_Suc)
  from step_brings [OF st Suc.prems(2) runs_inv [OF r]] show ?case
  proof (elim disjE)
    assume "view (sys_store (\<sigma> m)) k = Some x"
    from Suc.IH [OF r this] show ?thesis by (meson less_SucI)
  qed (use Suc.prems(2) lessI in blast)+
qed simp

theorem stored_secret_accounted_for_witness:
  "\<exists>i < 1. \<exists>n ok mc. sample_act i = Reconcile n ok \<and> sys_credentials (sample_exec i) n = Some mc \<and>
     releasable std_selector list_view ''operator'' (sample_exec i) mc ''team-a'' (sec_Data sample_replica)"
proof -
  let ?k = "(''team-a'', ManagedSecretPrefix @ ''openai'')"
  have "list_view (sys_store (sample_exec 1)) ?k = Some sample_replica"
    using sample_run(6,7) by (simp add: sample_exec_def sample_system_def sample_source(3))
  from stored_secret_accounted_for [OF sample_exec_runs this]
  have "list_view (sys_store (sample_exec 0)) ?k = Some sample_replica \<or>
    (\<exists>i < 1. \<exists>n ok mc. sample_act i = Reconcile n ok \<and> sys_credentials (sample_exec i) n = Some mc \<and>
       releasable std_selector list_view ''operator'' (sample_exec i) mc ''team-a'' (sec_Data sample_replica))"
    by (auto simp: sample_act_def)
  moreover have "list_view (sys_store (sample_exec 0)) ?k \<noteq> Some sample_replica"
    by (simp add: sample_exec_def sample_system_def list_view_def secret_key_def source_secret_def new_secret_def)
  ultimately show ?thesis by blast
qed

text \<open>
  The replicas converge. Once nobody but the controller changes anything, one healthy run of a
  credential's reconciler is enough: from then on, at every later moment and whatever fails in
  later runs, the Secrets labelled with the credential lie in the authorized namespaces, and each of
  these has the replica with the key that the source holds.
\<close>

theorem eventually_healed:
  assumes exec: "\<And>m. runs asSel setCond view own opns m \<sigma> act"
    and quiet: "\<forall>i \<ge> N. \<exists>n ok. act i = Reconcile n ok"
    and settled: "settled asSel view opns mc auth src (\<sigma> N)" "plain_source opns mc"
      "map_of (sec_Data src) (sks_Key (mcs_SecretRef (mc_Spec mc))) = Some data"
    and run: "N \<le> i" "act i = Reconcile (mc_Name mc) True"
    and later: "i < j"
  shows "healed (view (sys_store (\<sigma> j))) auth mc data"
  using settled_stays [OF exec quiet settled(1,2)] healed_stays [OF exec quiet _ settled(3) run later] by blast

theorem eventually_healed_witness:
  "healed (list_view (sys_store (sample_exec 7))) [''team-a''] openai_credential ''sk-1''"
  by (rule eventually_healed [OF sample_exec_runs _ sample_settled sample_plain sample_source(2), where i = 0])
    (simp_all add: sample_act_def sample_source(3) exI [of _ True])

end
