(* ===== verification/Admission_Props.thy ===== *)
theory Admission_Props
  imports Pod_Props
begin

text \<open>
  The two pod webhooks together: the API server first lets the defaulter change the pod and then
  asks the validator about the result.
\<close>

lemma admitted_permitted:
  assumes "dr_Object (pod_Default asSel cfg c ctx (PodObject pod)) = PodObject pod'"
    and "ar_Err (pod_ValidateCreate asSel cfg c ctx (PodObject pod')) = None"
    and "gate asSel cfg c ctx pod = Some (ns, ds, eff)" "eff_Enforcement eff = EnforcementEnforce" "d \<in> set ds"
  shows "md_Allowed (Permit eff (dm_Provider d) (dm_Model d))"
proof -
  have "gate asSel cfg c ctx pod' = Some (ns, ds, eff)"
    using gate_of_default(1) [OF assms(1)] assms(3) by simp
  with assms show ?thesis
    by (auto simp: pod_ValidateCreate_def pod_validate_eq Let_def denied_def filter_empty_conv split: if_splits)
qed

lemma wanted_injected:
  assumes default: "pod_Default asSel cfg c ctx (PodObject pod) = r" "dr_Err r = None"
      "dr_Object r = PodObject pod'" "map_get (pod_Annotations pod) AnnotationInjectionDisabled \<noteq> ''true''"
    and "gate asSel cfg c ctx pod = Some (ns, ds, eff)" "d \<in> set ds"
      "md_Allowed (Permit eff (dm_Provider d) (dm_Model d))"
    and "wantedCredential eff d \<noteq> []" "get_ModelCredential c (wantedCredential eff d) = Inr mc"
      "credentialAuthorizes asSel c mc ns = Inr True"
  shows "injected pod' mc"
proof (rule delivered [OF default(1-3) _ default(4)])
  show "deliverable asSel cfg c ctx pod mc"
    unfolding deliverable_def using assms(5-) by (auto simp: wantedCredential_def Let_def)
qed

text \<open>
  C11: Injection does not change the verdict. Whatever the defaulter did to the pod, the validator
  answers for its result what it answers for the original: the same error, warnings and metrics.
\<close>

theorem injection_keeps_verdict:
  assumes "dr_Object (pod_Default asSel cfg c ctx (PodObject pod)) = PodObject pod'"
  shows "pod_ValidateCreate asSel cfg c ctx (PodObject pod') = pod_ValidateCreate asSel cfg c ctx (PodObject pod)"
  by (simp only: pod_ValidateCreate_def pod_validate_eq gate_of_default [OF assms])

theorem injection_keeps_verdict_witness:
  "good_out \<noteq> good_pod \<and>
   pod_ValidateCreate std_selector op_config sample_client None (PodObject good_out) =
     pod_ValidateCreate std_selector op_config sample_client None (PodObject good_pod)"
  using injection_keeps_verdict [OF good_object] good_facts(6,7) by auto

text \<open>
  An admitted pod is served. When the defaulter ran to its end on a pod that does not opt out
  and an enforcing hierarchy admits its result, every model declared for the pod is permitted, and
  the credential bound to it, when it exists and authorizes the namespace, is delivered to every
  container, init containers included.
\<close>

theorem admitted_pod_is_served:
  assumes default: "pod_Default asSel cfg c ctx (PodObject pod) = r" "dr_Err r = None"
      "dr_Object r = PodObject pod'" "map_get (pod_Annotations pod) AnnotationInjectionDisabled \<noteq> ''true''"
    and admitted: "ar_Err (pod_ValidateCreate asSel cfg c ctx (PodObject pod')) = None"
    and gov: "gate asSel cfg c ctx pod = Some (ns, ds, eff)" "eff_Enforcement eff = EnforcementEnforce"
    and d: "d \<in> set ds"
  shows "md_Allowed (Permit eff (dm_Provider d) (dm_Model d)) \<and>
    (\<forall>mc. wantedCredential eff d \<noteq> [] \<longrightarrow> get_ModelCredential c (wantedCredential eff d) = Inr mc \<longrightarrow>
       credentialAuthorizes asSel c mc ns = Inr True \<longrightarrow> injected pod' mc)"
proof -
  have "md_Allowed (Permit eff (dm_Provider d) (dm_Model d))"
    using default by (intro admitted_permitted [OF _ admitted gov d]) simp
  with wanted_injected [OF default gov(1) d] show ?thesis by blast
qed

theorem admitted_pod_is_served_witness:
  "injected good_out openai_credential \<and> \<not> injected good_pod openai_credential \<and>
   md_Allowed (Permit batch_eff (dm_Provider declared_mini) (dm_Model declared_mini))"
proof -
  have cred: "wantedCredential batch_eff declared_mini = ''openai''"
    by (simp add: wantedCredential_def declared_mini_def batch_facts(1,2))
  have "get_ModelCredential sample_client ''openai'' = Inr openai_credential"
    and "credentialAuthorizes std_selector sample_client openai_credential ''team-a'' = Inr True"
    and not: "\<not> injected good_pod openai_credential"
    by code_simp+
  moreover have "ar_Err (pod_ValidateCreate std_selector op_config sample_client None (PodObject good_out)) = None"
    using gate_of_default(1) [OF good_object] sample_gate(1)
    by (simp add: pod_ValidateCreate_def pod_validate_eq Let_def denied_def declared_mini_def batch_facts(1,5))
  ultimately show ?thesis
    using admitted_pod_is_served [OF good_facts(1,2,3,5) _ sample_gate(1) batch_facts(5), of declared_mini] cred
    by simp
qed

end
