(* ===== verification/Delivery.thy ===== *)
theory Delivery
  imports Cluster_Machine Admission_Props System_Props
begin

text \<open>
  From admission to the key: the pod webhooks and the credential controller at work in one cluster.
  The webhooks read the cluster as the controller's executions leave it.
\<close>

section \<open>What each container gets\<close>













section \<open>Webhooks and controller in one cluster\<close>








end
