(* ===== verification/Gateway_Enforcement.thy ===== *)
theory Gateway_Enforcement
  imports Resolver_Status Gateway_Props Policy_Props
begin

text \<open>
  The resolver, the reconciler of the TokenPolicies and the artifact builders together: the limits
  that stand in the cluster after a run are the strictest ones of the policies in scope.
\<close>

section \<open>The interface of the artifact client, continued\<close>

text \<open>
  What a successful server-side apply leaves of the applied content: a list of the applied spec
  stands at the same path of the stored one (without a list type in its schema a list is atomic and
  is replaced as a whole; other fields may have been merged). Setting the owner reference keeps
  the spec.
\<close>

locale artifact_apply = artifact_store +
  assumes patch_lists:
      "ap_Patch ap s u = (s', None) \<Longrightarrow> spec_at ks u = Some (JArr js) \<Longrightarrow>
         \<exists>x. view s' (artifact_key_of u) = Some x \<and> spec_at ks x = Some (JArr js)"
    and own_spec: "own tp u = Inr v \<Longrightarrow> u_Spec v = u_Spec u"
begin

lemma gateway_stores_lists:
  assumes run: "reconcileGateway setCond ap own s tp eff = (s', tp', gev, None)"
    and artifact: "gateway_For (eff_Gateway eff) tp (eff_Quota eff) = Inr (Some u)"
  shows "\<exists>x. view s' (artifact_key_of u) = Some x \<and>
    (\<forall>ks js. spec_at ks u = Some (JArr js) \<longrightarrow> spec_at ks x = Some (JArr js))"
proof (cases "own tp u")
  case (Inl e)
  with run artifact show ?thesis by (auto simp: reconcileGateway_steps)
next
  case v: (Inr v)
  obtain s2 e where p: "ap_Patch ap (cleaned ap tp (Some (u_GVK u)) s) v = (s2, e)" by fastforce
  with run artifact v have ok: "s2 = s'" "e = None"
    by (auto simp: reconcileGateway_steps split: option.splits)
  have spec: "spec_at ks v = spec_at ks u" for ks
    using own_spec [OF v] by (simp add: spec_at_def)
  obtain x where x: "view s' (artifact_key_of u) = Some x"
    using patch_ok [of _ v s'] p ok own_key [OF v] by fastforce
  with patch_lists [of _ v s'] p ok own_key [OF v] spec show ?thesis by fastforce
qed

end

interpretation list_artifact_apply: artifact_apply "list_artifacts fails" find_artifact policy_owner for fails
  by unfold_locales
    (auto simp: list_artifacts_def find_artifact_def policy_owner_def split: option.splits)

section \<open>The policies in the scope of a policy\<close>

text \<open>
  The quotas that bear on a policy: its own, those of the cluster policies that select its
  namespace, and those of the other namespace-default policies listed.
\<close>

definition scope_quotas ::
  "selector_api \<Rightarrow> ClusterTokenPolicy list \<Rightarrow> TokenPolicy list \<Rightarrow> labels option \<Rightarrow> TokenPolicy
     \<Rightarrow> TokenQuota option set" where
  "scope_quotas asSel cps ps nsl target =
     insert (tps_Quota (tp_Spec target))
       ((\<lambda>c. ctps_Quota (ctp_Spec c)) `
          {c \<in> set cps. NamespaceSelectorMatches asSel (ctps_NamespaceSelector (ctp_Spec c)) nsl = Inr True} \<union>
        (\<lambda>p. tps_Quota (tp_Spec p)) ` {p \<in> set ps. is_default p \<and> \<not> same_policy p target})"

text \<open>The limit of a window is the smallest that a quota of the set sets, or none when none does.\<close>

definition strictest :: "window \<Rightarrow> TokenQuota option set \<Rightarrow> int64 option \<Rightarrow> bool" where
  "strictest w Q l \<longleftrightarrow>
     (case l of
        None \<Rightarrow> \<forall>q \<in> Q. qlimit w q = None
      | Some x \<Rightarrow> (\<exists>q \<in> Q. qlimit w q = Some x) \<and> (\<forall>q \<in> Q. \<forall>y. qlimit w q = Some y \<longrightarrow> sint x \<le> sint y))"

lemma strictest_fold:
  assumes "\<forall>w. qlimit w q = foldl minPtr None (map (qlimit w) qs)"
  shows "strictest w (set qs) (qlimit w q)"
proof -
  have le: "\<forall>q' \<in> set qs. tightens1 (qlimit w q) (qlimit w q')"
    using tightens1_fold_iff [of "qlimit w q" None "map (qlimit w) qs"] assms by auto
  show ?thesis
  proof (cases "qlimit w q")
    case None
    with le show ?thesis by (auto simp: strictest_def tightens1_def)
  next
    case (Some x)
    with fold_minPtr_mem [of None "map (qlimit w) qs"] assms have "\<exists>q' \<in> set qs. qlimit w q' = Some x" by auto
    with Some le show ?thesis by (auto simp: strictest_def tightens1_def le64_def)
  qed
qed

lemma applyNamespaceTier_quota:
  "eff_Quota (fst (applyNamespaceTier slot st tp)) = minQuota (eff_Quota (fst st)) (tps_Quota (tp_Spec tp))"
  by (cases slot; cases st) (auto simp: applyNamespaceTier_def minQuota_def Let_def split: option.split)

lemma applicable_without_identity:
  "applicable_quotas asSel
     \<lparr>ri_ClusterPolicies = cps, ri_NamespacePolicies = ps, ri_Namespace = ns, ri_NamespaceLabels = nsl,
      ri_PodLabels = None, ri_ServiceAccount = []\<rparr> =
   (\<lambda>c. ctps_Quota (ctp_Spec c)) `
      {c \<in> set cps. NamespaceSelectorMatches asSel (ctps_NamespaceSelector (ctp_Spec c)) nsl = Inr True} \<union>
   (\<lambda>p. tps_Quota (tp_Spec p)) ` {p \<in> set ps. is_default p}"
proof -
  have "okb (clusterMatches asSel
      \<lparr>ri_ClusterPolicies = cps, ri_NamespacePolicies = ps, ri_Namespace = ns, ri_NamespaceLabels = nsl,
       ri_PodLabels = None, ri_ServiceAccount = []\<rparr> c) \<longleftrightarrow>
    NamespaceSelectorMatches asSel (ctps_NamespaceSelector (ctp_Spec c)) nsl = Inr True" for c
    by (auto simp: clusterMatches_def NamespaceSelectorMatches_def okb_def split: sum.splits)
  then show ?thesis
    by (simp add: applicable_quotas_def sel_cluster_def sel_default_def sel_workload_def identified_def)
qed

text \<open>The quota that a policy's reconciler computes has the strictest limits of the scope.\<close>

lemma ResolveForPolicy_strictest:
  assumes "ResolveForPolicy asSel cps ps nsl target = Inr eff"
  shows "strictest w (scope_quotas asSel cps ps nsl target) (qlimit w (eff_Quota eff))"
proof -
  let ?rest = "filter (\<lambda>p. \<not> same_policy p target) ps"
  let ?in = "\<lambda>ps. \<lparr>ri_ClusterPolicies = cps, ri_NamespacePolicies = ps, ri_Namespace = tp_Namespace target,
      ri_NamespaceLabels = nsl, ri_PodLabels = None, ri_ServiceAccount = []\<rparr>"
  have rest: "insert (tps_Quota (tp_Spec target)) (applicable_quotas asSel (?in ?rest)) =
      scope_quotas asSel cps ps nsl target"
    unfolding applicable_without_identity scope_quotas_def by (auto simp: conj_ac)
  have limits: "\<exists>qs. set qs = applicable_quotas asSel (?in ps) \<and>
      (\<forall>w. qlimit w (eff_Quota base) = foldl minPtr None (map (qlimit w) qs))"
    if "Resolve asSel (?in ps) = Inr base" for ps base
    using that quota_effective_limit [of asSel "?in ps"] by (simp add: Resolve_Inr_iff)
  show ?thesis
  proof (cases "is_default target")
    case True
    with assms have "Resolve asSel (?in (?rest @ [target])) = Inr eff"
      by (simp add: ResolveForPolicy_def is_default_def)
    from limits [OF this] obtain qs where "set qs = applicable_quotas asSel (?in (?rest @ [target]))"
      and lim: "\<forall>w. qlimit w (eff_Quota eff) = foldl minPtr None (map (qlimit w) qs)"
      by blast
    moreover have "applicable_quotas asSel (?in (?rest @ [target])) = scope_quotas asSel cps ps nsl target"
      using True unfolding applicable_without_identity scope_quotas_def by auto
    ultimately show ?thesis using strictest_fold [OF lim] by simp
  next
    case False
    with assms obtain base where base: "Resolve asSel (?in ?rest) = Inr base"
      and q: "eff_Quota eff = minQuota (eff_Quota base) (tps_Quota (tp_Spec target))"
      using applyNamespaceTier_quota [of WlTier "(_, [])" target]
      by (auto simp: ResolveForPolicy_def is_default_def split_def Let_def split: sum.splits)
    from limits [OF base] obtain qs where qs: "set qs = applicable_quotas asSel (?in ?rest)"
      and "\<forall>w. qlimit w (eff_Quota base) = foldl minPtr None (map (qlimit w) qs)"
      by blast
    then have "\<forall>w. qlimit w (eff_Quota eff) =
        foldl minPtr None (map (qlimit w) (qs @ [tps_Quota (tp_Spec target)]))"
      by (simp add: q qlimit_minQuota)
    from strictest_fold [OF this] show ?thesis by (simp add: qs flip: rest)
  qed
qed

section \<open>The limits of a stored artifact\<close>

text \<open>The windows an artifact of a kind limits, with the name of the window and whether tokens are counted.\<close>

definition limit_windows :: "GroupVersionKind \<Rightarrow> (window \<times> string \<times> bool) list" where
  "limit_windows gvk =
     (if gvk = EnvoyBackendTrafficPolicyGVK then [(RPM, ''Minute'', False), (TPM, ''Minute'', True)]
      else [(TPM, ''1m'', True), (TPD, ''24h'', True)])"

definition stored_limits :: "GroupVersionKind \<Rightarrow> Unstructured \<Rightarrow> (int64 \<times> string \<times> bool) option list" where
  "stored_limits gvk u =
     read_limits (spec_at (if gvk = EnvoyBackendTrafficPolicyGVK then [''rateLimit'', ''global'', ''rules'']
                           else [''limits'', ''tokens'', ''rates'']) u)"

text \<open>The entries for given limits.\<close>

definition limit_entries :: "GroupVersionKind \<Rightarrow> (window \<Rightarrow> int64 option) \<Rightarrow> (int64 \<times> string \<times> bool) option list" where
  "limit_entries gvk lim =
     concat (map (\<lambda>(w, m). map (\<lambda>v. Some (v, m)) (opt_list (lim w))) (limit_windows gvk))"

lemma gvk_distinct [simp]:
  "KuadrantTokenRateLimitPolicyGVK \<noteq> EnvoyBackendTrafficPolicyGVK"
  "EnvoyBackendTrafficPolicyGVK \<noteq> KuadrantTokenRateLimitPolicyGVK"
  by (simp_all add: KuadrantTokenRateLimitPolicyGVK_def EnvoyBackendTrafficPolicyGVK_def)

lemma gateway_For_limits:
  assumes "gateway_For gw tp quota = Inr (Some u)" "limit_entries (u_GVK u) (\<lambda>w. qlimit w quota) \<noteq> []"
  shows "stored_limits (u_GVK u) u = limit_entries (u_GVK u) (\<lambda>w. qlimit w quota)"
proof -
  obtain g where gw: "gw = Some g"
    using assms(1) by (auto simp: gateway_For_def split: option.splits)
  have "gi_Type g = GatewayEnvoyAIGateway \<and> u_GVK u = EnvoyBackendTrafficPolicyGVK \<or>
      gi_Type g = GatewayKuadrant \<and> u_GVK u = KuadrantTokenRateLimitPolicyGVK"
    using assms(1) by (auto simp: gw gateway_For_def built_key split: option.splits if_splits)
  with artifact_limits [OF assms(1) [unfolded gw]] assms(2) show ?thesis
    by (auto simp: stored_limits_def limit_entries_def limit_windows_def Let_def)
qed

text \<open>Limits are a list, which applying the artifact stores.\<close>

lemma stored_limits_kept:
  assumes "stored_limits gvk u = limit_entries gvk lim" "limit_entries gvk lim \<noteq> []"
    and "\<forall>ks js. spec_at ks u = Some (JArr js) \<longrightarrow> spec_at ks x = Some (JArr js)"
  shows "stored_limits gvk x = limit_entries gvk lim"
proof -
  define ks where "ks = (if gvk = EnvoyBackendTrafficPolicyGVK then [''rateLimit'', ''global'', ''rules'']
    else [''limits'', ''tokens'', ''rates''])"
  have limits: "stored_limits gvk v = read_limits (spec_at ks v)" for v
    by (simp add: stored_limits_def ks_def)
  from assms(1,2) limits [of u] obtain js where "spec_at ks u = Some (JArr js)"
    by (auto simp: read_limits_def split: option.splits json.splits)
  with assms limits [of u] limits [of x] show ?thesis by simp
qed

section \<open>The property\<close>

lemma policy_ready_resolved:
  assumes "condition_setter setCond"
    and reads: "list_ClusterTokenPolicies c = Inr ctpl" "list_TokenPolicies c (tp_Namespace tp) = Inr tpl"
      "reconciler_namespaceLabels c (tp_Namespace tp) = Inr nsLabels"
    and run: "TokenPolicy_Reconcile asSel setCond c ap own upd (Inr tp) s = (s', out)"
    and written: "oc_Written out = Some tp'"
    and ready: "condition_is ConditionReady ConditionTrue (tpst_Conditions (tp_Status tp'))"
  obtains eff where "ResolveForPolicy asSel ctpl tpl nsLabels tp = Inr eff"
proof (cases "ResolveForPolicy asSel ctpl tpl nsLabels tp")
  case (Inl err)
  with run written ready reads show ?thesis
    by (auto simp: TokenPolicy_Reconcile_def condition_is_set [OF assms(1)] write_status_def Let_def)
qed (rule that)

text \<open>
  C23: The limits in the cluster are those of the hierarchy. After a run of the policy reconciler
  whose written status shows the policy Ready and its gateway synced, with a reference to an
  artifact, the store holds an object of that kind and name. Whenever some policy in the scope
  limits a window that this kind of artifact can limit, the object has for each such window one entry
  with the strictest limit that any policy in the scope sets (the policy itself, the cluster policies
  that select the namespace, the other namespace defaults), no entry for a window that none limits,
  and no other entries. (With no limit at all the code emits a limit of zero, which the documents do
  not ask for: \<open>unlimited_policy_emits_zero_limit\<close>.)
\<close>

theorem artifact_enforces_hierarchy:
  assumes "artifact_apply ap view own" "condition_setter setCond" "\<forall>tp u. \<exists>v. own tp u = Inr v"
    and reads: "list_ClusterTokenPolicies c = Inr ctpl" "list_TokenPolicies c (tp_Namespace tp) = Inr tpl"
      "reconciler_namespaceLabels c (tp_Namespace tp) = Inr nsLabels"
    and run: "TokenPolicy_Reconcile asSel setCond c ap own upd (Inr tp) s = (s', out)"
    and written: "oc_Written out = Some tp'"
    and ready: "condition_is ConditionReady ConditionTrue (tpst_Conditions (tp_Status tp'))"
    and synced: "condition_is ConditionGatewaySynced ConditionTrue (tpst_Conditions (tp_Status tp'))"
    and ref: "tpst_GatewayRef (tp_Status tp') \<noteq> []"
  shows "\<exists>gvk x lim.
    tpst_GatewayRef (tp_Status tp') = gvk_Kind gvk @ ''/'' @ ArtifactName (tp_Name tp) \<and>
    view s' (gvk, tp_Namespace tp, ArtifactName (tp_Name tp)) = Some x \<and>
    (\<forall>w. strictest w (scope_quotas asSel ctpl tpl nsLabels tp) (lim w)) \<and>
    (limit_entries gvk lim \<noteq> [] \<longrightarrow> stored_limits gvk x = limit_entries gvk lim)"
proof -
  have store: "artifact_store ap view own" using assms(1) by (simp add: artifact_apply_def)
  obtain eff where eff: "ResolveForPolicy asSel ctpl tpl nsLabels tp = Inr eff"
    using policy_ready_resolved [OF assms(2) reads run written ready] .
  let ?tp = "policy_resolved setCond tp eff" and ?lim = "\<lambda>w. qlimit w (eff_Quota eff)"
  obtain s1 tp1 gev gerr where g: "reconcileGateway setCond ap own s ?tp eff = (s1, tp1, gev, gerr)"
    by (metis prod_cases4)
  have s1: "s1 = s'" "tp1 = tp'" using run written TokenPolicy_run [OF reads eff g, of upd] by auto
  have ok: "gerr = None" using synced s1 reconcileGateway_condition [OF assms(2,3) g] by simp
  show ?thesis
  proof (cases rule: artifact_store.gateway_cases [OF store g])
    case (1 err)
    with ok show ?thesis by simp
  next
    case (2 desired)
    with ok g s1 ref show ?thesis by (auto simp: reconcileGateway_steps)
  next
    case (3 u y)
    obtain x where x: "view s' (artifact_key_of u) = Some x"
      and lists: "\<forall>ks js. spec_at ks u = Some (JArr js) \<longrightarrow> spec_at ks x = Some (JArr js)"
      using artifact_apply.gateway_stores_lists [OF assms(1)] g 3(1) ok s1 by blast
    have "stored_limits (u_GVK u) x = limit_entries (u_GVK u) ?lim" if "limit_entries (u_GVK u) ?lim \<noteq> []"
      by (rule stored_limits_kept [OF gateway_For_limits [OF 3(1) that] that lists])
    moreover have "u_Name u = ArtifactName (tp_Name tp) \<and> u_Namespace u = tp_Namespace tp"
      using gateway_For_key [OF 3(1)] by simp
    ultimately show ?thesis
      using x 3(4) s1 ResolveForPolicy_strictest [OF eff]
      by (intro exI [of _ "u_GVK u"] exI [of _ x] exI [of _ ?lim]) (simp add: artifact_key_of_def)
  qed
qed

lemma reconcileGateway_keeps_condition:
  assumes "condition_setter setCond" "t \<noteq> ConditionGatewaySynced"
    and "reconcileGateway setCond ap own s tp eff = (s', tp', gev, gerr)"
  shows "condition_is t st (tpst_Conditions (tp_Status tp')) \<longleftrightarrow> condition_is t st (tpst_Conditions (tp_Status tp))"
  using assms(2,3)
  by (auto simp: reconcileGateway_steps condition_is_set [OF assms(1)]
      split: sum.splits option.splits prod.splits)

lemma policy_after_ready:
  "condition_is ConditionReady ConditionTrue
     (tpst_Conditions (tp_Status (the (oc_Written (snd policy_run)))))"
  "tpst_GatewayRef (tp_Status (the (oc_Written (snd policy_run)))) \<noteq> []"
proof -
  let ?tp = "policy_resolved replace_or_append Policy_Props.gateway_policy policy_eff"
  obtain s1 tp1 gev gerr where g: "reconcileGateway replace_or_append (list_artifacts (\<lambda>_. None)) policy_owner
      [old_artifact] ?tp policy_eff = (s1, tp1, gev, gerr)"
    by (metis prod_cases4)
  have w: "oc_Written (snd policy_run) = Some tp1"
    by (simp add: policy_run_def TokenPolicy_run [OF policy_reads policy_resolves(1) g])
  have "tpst_GatewayRef (tp_Status tp1) \<noteq> []"
    using g by (auto simp: reconcileGateway_steps policy_artifact policy_owner_def list_artifacts_def)
  moreover have "condition_is ConditionReady ConditionTrue (tpst_Conditions (tp_Status tp1))"
    using reconcileGateway_keeps_condition [OF std_conditions.condition_setter_axioms _ g,
        of ConditionReady ConditionTrue]
    by (simp add: policy_resolved_def ConditionReady_def ConditionGatewaySynced_def condition_is_set [OF std_conditions.condition_setter_axioms])
  ultimately show "condition_is ConditionReady ConditionTrue
       (tpst_Conditions (tp_Status (the (oc_Written (snd policy_run)))))"
    "tpst_GatewayRef (tp_Status (the (oc_Written (snd policy_run)))) \<noteq> []"
    by (simp_all add: w)
qed

text \<open>The organisation allows 200000 tokens a minute and the namespace 50000.\<close>

lemma policy_scope:
  "scope_quotas std_selector [org_default] [Policy_Props.gateway_policy, batch_workers] (Some [])
     Policy_Props.gateway_policy =
   {tps_Quota (tp_Spec ns_default), ctps_Quota (ctp_Spec org_default)}"
proof -
  have "NamespaceSelectorMatches std_selector (ctps_NamespaceSelector (ctp_Spec org_default)) (Some []) = Inr True"
    using org_default_matches [of "\<lparr>ns_Name = [], ns_Labels = Some []\<rparr>"] by (simp add: namespaceMatches_def)
  moreover have "\<not> is_default batch_workers"
    by (simp add: is_default_def IsEmpty_def batch_workers_def token_policy_def batch_selector_def)
  moreover have "same_policy Policy_Props.gateway_policy Policy_Props.gateway_policy"
    by (simp add: same_policy_def)
  ultimately show ?thesis
    by (auto simp: scope_quotas_def) (simp_all add: Policy_Props.gateway_policy_def)
qed

lemma sample_strictest:
  assumes "\<forall>w. strictest w {tps_Quota (tp_Spec ns_default), ctps_Quota (ctp_Spec org_default)} (lim w)"
  shows "lim TPM = Some 50000 \<and> lim TPD = Some 50000000"
proof -
  have "qlimit TPM (tps_Quota (tp_Spec ns_default)) = Some 50000"
    "qlimit TPD (tps_Quota (tp_Spec ns_default)) = None"
    "qlimit TPM (ctps_Quota (ctp_Spec org_default)) = Some 200000"
    "qlimit TPD (ctps_Quota (ctp_Spec org_default)) = Some 50000000"
    by (simp_all add: ns_default_def token_policy_def org_default_def)
  with assms [THEN spec, of TPM] assms [THEN spec, of TPD] show ?thesis
    by (auto simp: strictest_def split: option.splits)
qed

theorem artifact_enforces_hierarchy_witness:
  "\<exists>gvk x lim. find_artifact (fst policy_run) (gvk, ''team-a'', ''tc-namespace-default'') = Some x \<and>
     lim TPM = Some 50000 \<and> lim TPD = Some 50000000 \<and>
     stored_limits gvk x = limit_entries gvk lim \<and> limit_entries gvk lim \<noteq> []"
proof -
  have name: "tp_Namespace Policy_Props.gateway_policy = ''team-a''"
    "ArtifactName (tp_Name Policy_Props.gateway_policy) = ''tc-namespace-default''"
    by (simp_all add: Policy_Props.gateway_policy_def sample_defs ArtifactName_def)
  have "\<forall>tp u. \<exists>v. policy_owner tp u = Inr v" by (simp add: policy_owner_def)
  from artifact_enforces_hierarchy
      [OF list_artifact_apply.artifact_apply_axioms std_conditions.condition_setter_axioms this policy_reads
          policy_run_eq policy_after(1) policy_after_ready(1) policy_after(2) policy_after_ready(2), unfolded policy_scope name]
  obtain gvk x lim where x: "find_artifact (fst policy_run) (gvk, ''team-a'', ''tc-namespace-default'') = Some x"
    and lim: "\<forall>w. strictest w {tps_Quota (tp_Spec ns_default), ctps_Quota (ctp_Spec org_default)} (lim w)"
    and stored: "limit_entries gvk lim \<noteq> [] \<longrightarrow> stored_limits gvk x = limit_entries gvk lim"
    by blast
  have "limit_entries gvk lim \<noteq> []"
    using sample_strictest [OF lim] by (simp add: limit_entries_def limit_windows_def opt_list_def)
  with x stored sample_strictest [OF lim] show ?thesis by blast
qed

end
