(* ===== verification/Status_Props.thy ===== *)
theory Status_Props
  imports Claim_Props Policy_Props Cluster_Machine
begin

text \<open>
  The reconcilers watch their own kind without a filter on the generation, so writing a status
  triggers the next run. The runs settle: run again on what it wrote, with the cluster unchanged,
  a reconciler writes the same object, and the API server reports no further change.
\<close>

lemma condition_types [simp]:
  "ConditionReady \<noteq> ConditionValid" "ConditionValid \<noteq> ConditionReady"
  "ConditionReady \<noteq> ConditionBound" "ConditionBound \<noteq> ConditionReady"
  "ConditionValid \<noteq> ConditionBound" "ConditionBound \<noteq> ConditionValid"
  "ConditionReady \<noteq> ConditionGatewaySynced" "ConditionGatewaySynced \<noteq> ConditionReady"
  "ConditionValid \<noteq> ConditionGatewaySynced" "ConditionGatewaySynced \<noteq> ConditionValid"
  "ConditionReady \<noteq> ConditionSecretResolved" "ConditionSecretResolved \<noteq> ConditionReady"
  "ConditionReady \<noteq> ConditionOversubscribed" "ConditionOversubscribed \<noteq> ConditionReady"
  "ConditionSecretResolved \<noteq> ConditionOversubscribed" "ConditionOversubscribed \<noteq> ConditionSecretResolved"
  by (simp_all add: condition_type_defs)

lemma with_conditions_fields [simp]:
  "mcl_Spec (with_conditions f x) = mcl_Spec x" "mcl_Namespace (with_conditions f x) = mcl_Namespace x"
  "mcl_Name (with_conditions f x) = mcl_Name x" "mcl_Generation (with_conditions f x) = mcl_Generation x"
  by (simp_all add: with_conditions_def)

lemma with_conditions_known:
  "f (mclst_Conditions (mcl_Status x)) = mclst_Conditions (mcl_Status x) \<Longrightarrow> with_conditions f x = x"
  by (simp add: with_conditions_def)

section \<open>Claims and cluster policies\<close>

context condition_setter
begin

text \<open>Setting conditions of two types again, in the same order, changes nothing.\<close>

lemma set2_again:
  assumes "cs = setCondition setCond (setCondition setCond cs0 t1 st1 r1 m1 g) t2 st2 r2 m2 g" "t1 \<noteq> t2"
  shows "setCondition setCond cs t1 st1 r1 m1 g = cs" "setCondition setCond cs t2 st2 r2 m2 g = cs"
  using assms(2) by (intro setCondition_known; simp add: assms(1) find_setCondition)+

lemma claim_settles:
  assumes "oc_Written (ModelClaim_Reconcile asSel setCond c upd (Inr mcl)) = Some mcl'"
  shows "oc_Written (ModelClaim_Reconcile asSel setCond c upd' (Inr mcl')) = Some mcl'"
proof -
  obtain ctpl tpl nsl where reads: "list_ClusterTokenPolicies c = Inr ctpl"
    "list_TokenPolicies c (mcl_Namespace mcl) = Inr tpl" "reconciler_namespaceLabels c (mcl_Namespace mcl) = Inr nsl"
    using assms by (auto simp: ModelClaim_Reconcile_def split: sum.splits)
  have cong: "resolveClaim asSel x ctpl tpl nsl = resolveClaim asSel mcl ctpl tpl nsl"
    if "mcl_Spec x = mcl_Spec mcl" "mcl_Namespace x = mcl_Namespace mcl" for x
    using that by (simp add: resolveClaim_def identity_input_def cong: sum.case_cong)
  let ?g = "mcl_Generation mcl"
  show ?thesis
  proof (cases "resolveClaim asSel mcl ctpl tpl nsl")
    case (Inl err)
    have w: "mcl' =
        with_conditions (\<lambda>cs. setCondition setCond cs ConditionReady ConditionFalse ''ResolveError'' err ?g)
         (with_conditions (\<lambda>cs. setCondition setCond cs ConditionValid ConditionFalse ''ResolveError'' err ?g) mcl)"
      using assms reads Inl by (simp add: ModelClaim_Reconcile_def Let_def)
    note again = set2_again [of "mclst_Conditions (mcl_Status mcl')" "mclst_Conditions (mcl_Status mcl)"
        ConditionValid _ _ _ ?g ConditionReady]
    have "mcl_Spec mcl' = mcl_Spec mcl" "mcl_Namespace mcl' = mcl_Namespace mcl" "mcl_Generation mcl' = ?g"
      by (simp_all add: w)
    moreover have "with_conditions (\<lambda>cs. setCondition setCond cs ConditionReady ConditionFalse ''ResolveError'' err ?g) mcl' = mcl'"
      "with_conditions (\<lambda>cs. setCondition setCond cs ConditionValid ConditionFalse ''ResolveError'' err ?g) mcl' = mcl'"
      by (intro with_conditions_known again; simp add: w)+
    ultimately show ?thesis using reads Inl cong [of mcl'] by (simp add: ModelClaim_Reconcile_def Let_def)
  next
    case (Inr res)
    define den where "den = (length (filter (\<lambda>m. em_Action m = ActionDeny) res) > 0)"
    define st where "st = (mcl_Status mcl)\<lparr>mclst_ResolvedModels := res,
        mclst_BoundCredentials := distinctAllowedCredentials res, mclst_ObservedGeneration := ?g,
        mclst_Phase := (if den then ClaimDenied else ClaimBound)\<rparr>"
    define bound where "bound = (\<lambda>cs. if den
        then setCondition setCond cs ConditionBound ConditionFalse ''ModelsDenied''
               ''one or more requested models are not permitted by the effective policy'' ?g
        else setCondition setCond cs ConditionBound ConditionTrue ''AllModelsPermitted''
               ''every requested model is permitted by the effective policy'' ?g)"
    define valid where "valid = (\<lambda>cs. setCondition setCond cs ConditionValid ConditionTrue ''Resolved''
        ''claim resolved against the hierarchy'' ?g)"
    define ready where "ready = (\<lambda>cs. setCondition setCond cs ConditionReady ConditionTrue ''Reconciled''
        ''claim binding computed'' ?g)"
    have run: "oc_Written (ModelClaim_Reconcile asSel setCond c u (Inr x)) =
        Some (x\<lparr>mcl_Status := (mcl_Status x)\<lparr>mclst_ResolvedModels := res,
          mclst_BoundCredentials := distinctAllowedCredentials res, mclst_ObservedGeneration := ?g,
          mclst_Phase := (if den then ClaimDenied else ClaimBound),
          mclst_Conditions := ready (valid (bound (mclst_Conditions (mcl_Status x))))\<rparr>\<rparr>)"
      if "mcl_Spec x = mcl_Spec mcl" "mcl_Namespace x = mcl_Namespace mcl" "mcl_Generation x = ?g" for x u
      using that reads Inr cong [OF that(1,2)]
      by (simp add: ModelClaim_Reconcile_def Let_def with_conditions_def den_def bound_def valid_def ready_def)
    let ?cs = "ready (valid (bound (mclst_Conditions (mcl_Status mcl))))"
    have w: "mcl' = mcl\<lparr>mcl_Status := st\<lparr>mclst_Conditions := ?cs\<rparr>\<rparr>"
      using assms run [OF refl refl refl] by (simp add: st_def)
    have "bound ?cs = ?cs" "valid ?cs = ?cs" "ready ?cs = ?cs"
      by (cases den; auto simp: bound_def valid_def ready_def find_setCondition intro!: setCondition_known)+
    then show ?thesis by (subst run) (simp_all add: w st_def)
  qed
qed

lemma cluster_settles:
  assumes "oc_Written (ClusterTokenPolicy_Reconcile asSel setCond c upd (Inr ctp)) = Some ctp'"
  shows "oc_Written (ClusterTokenPolicy_Reconcile asSel setCond c upd' (Inr ctp')) = Some ctp'"
proof -
  have cong: "namespaceMatches asSel (ctp\<lparr>ctp_Status := st\<rparr>) = namespaceMatches asSel ctp" for st
    by (simp add: namespaceMatches_def fun_eq_iff)
  show ?thesis
    using assms
    by (auto simp: ClusterTokenPolicy_Reconcile_def Let_def cong set2_again [OF refl] setCondition_known find_setCondition
        split: sum.splits)
qed

end

section \<open>TokenPolicies\<close>

text \<open>The resolution reads nothing of a policy but its identity and its spec.\<close>

lemma sort_key_map_inv:
  assumes "\<And>x. k (f x) = k x"
  shows "sort_key k (map f xs) = map f (sort_key k xs)"
proof (induction xs)
  case (Cons x xs)
  have "insort_key k (f x) (map f ys) = map f (insort_key k x ys)" for ys
    by (induction ys) (simp_all add: assms)
  with Cons show ?case by simp
qed simp

definition keeps_spec :: "(TokenPolicy \<Rightarrow> TokenPolicy) \<Rightarrow> bool" where
  "keeps_spec f \<longleftrightarrow> (\<forall>p. tp_Spec (f p) = tp_Spec p \<and> tp_Name (f p) = tp_Name p \<and> tp_Namespace (f p) = tp_Namespace p)"

lemma applyNamespaceTier_spec:
  "tp_Spec p = tp_Spec q \<Longrightarrow> tp_Name p = tp_Name q \<Longrightarrow> tp_Namespace p = tp_Namespace q \<Longrightarrow>
     applyNamespaceTier slot st p = applyNamespaceTier slot st q"
  by (simp add: applyNamespaceTier_def policy_src_def)

lemma foldl_applyNamespaceTier_map:
  "keeps_spec f \<Longrightarrow> foldl (applyNamespaceTier slot) st (map f ps) = foldl (applyNamespaceTier slot) st ps"
proof (induction ps arbitrary: st)
  case (Cons p ps)
  have "applyNamespaceTier slot st (f p) = applyNamespaceTier slot st p"
    using Cons.prems by (intro applyNamespaceTier_spec) (simp_all add: keeps_spec_def)
  with Cons show ?case by simp
qed simp

lemma splitPolicies_map:
  assumes "keeps_spec f"
  shows "splitPolicies asSel inp (map f a) (map f b) (map f ps) =
    map_sum (\<lambda>e. e) (map_prod (map f) (map f)) (splitPolicies asSel inp a b ps)"
proof (induction ps arbitrary: a b)
  case (Cons p ps)
  have f: "tp_Spec (f p) = tp_Spec p" "tp_Name (f p) = tp_Name p" "tp_Namespace (f p) = tp_Namespace p"
    using assms by (simp_all add: keeps_spec_def)
  have "splitPolicies asSel inp (map f a @ [f p]) (map f b) (map f ps) =
      map_sum (\<lambda>e. e) (map_prod (map f) (map f)) (splitPolicies asSel inp (a @ [p]) b ps)"
    "splitPolicies asSel inp (map f a) (map f b @ [f p]) (map f ps) =
      map_sum (\<lambda>e. e) (map_prod (map f) (map f)) (splitPolicies asSel inp a (b @ [p]) ps)"
    using Cons [of "a @ [p]" b] Cons [of a "b @ [p]"] by simp_all
  with Cons [of a b] show ?case by (simp add: f split: sum.split)
qed simp

lemma Resolve_ignores_status:
  assumes "keeps_spec f" "ri_NamespacePolicies inp = ps"
  shows "Resolve asSel (inp\<lparr>ri_NamespacePolicies := map f ps\<rparr>) = Resolve asSel inp"
proof -
  let ?inp = "inp\<lparr>ri_NamespacePolicies := map f ps\<rparr>"
  have same: "clusterMatches asSel ?inp = clusterMatches asSel inp" by (simp add: clusterMatches_def fun_eq_iff)
  have split: "splitPolicies asSel ?inp a b qs = splitPolicies asSel inp a b qs" for a b qs
    by (induction qs arbitrary: a b) (simp_all cong: sum.case_cong)
  have prio: "sortByPriority (map f qs) = map f (sortByPriority qs)" for qs
    unfolding sortByPriority_def using assms(1)
    by (intro sort_key_map_inv) (simp add: priority_key_def keeps_spec_def)
  show ?thesis
    using splitPolicies_map [OF assms(1), of asSel inp "[]" "[]" ps]
    by (simp add: Resolve_def same split prio assms(2) foldl_applyNamespaceTier_map [OF assms(1)] Let_def
        split: sum.split prod.split)
qed

lemma ResolveForPolicy_status:
  assumes "tp_Spec q = tp_Spec p" "tp_Name q = tp_Name p" "tp_Namespace q = tp_Namespace p"
  shows "ResolveForPolicy asSel ctpl tpl nsl q = ResolveForPolicy asSel ctpl tpl nsl p"
proof -
  have same: "same_policy x q = same_policy x p" for x using assms by (simp add: same_policy_def)
  let ?f = "\<lambda>x. if same_policy x p then x\<lparr>tp_Status := tp_Status q, tp_Generation := tp_Generation q\<rparr> else x"
  let ?rest = "filter (\<lambda>x. \<not> same_policy x p) tpl"
  have f: "keeps_spec ?f" by (simp add: keeps_spec_def)
  have "map ?f (?rest @ [p]) = ?rest @ [?f p]" by (auto intro!: map_idI)
  moreover have "?f p = q" using assms by (cases p; cases q) (simp add: same_policy_def)
  ultimately have "map ?f (?rest @ [p]) = ?rest @ [q]" by simp
  with Resolve_ignores_status [OF f, of _ "?rest @ [p]"] have
    "Resolve asSel (inp\<lparr>ri_NamespacePolicies := ?rest @ [q]\<rparr>) = Resolve asSel inp"
    if "ri_NamespacePolicies inp = ?rest @ [p]" for inp
    using that by metis
  from this [of "\<lparr>ri_ClusterPolicies = ctpl, ri_NamespacePolicies = ?rest @ [p], ri_Namespace = tp_Namespace p,
      ri_NamespaceLabels = nsl, ri_PodLabels = None, ri_ServiceAccount = []\<rparr>"]
  show ?thesis
    unfolding ResolveForPolicy_def Let_def assms same applyNamespaceTier_spec [OF assms] by simp
qed

text \<open>A status that already shows the resolution.\<close>

definition shows_condition :: "string \<Rightarrow> string \<Rightarrow> string \<Rightarrow> TokenPolicy \<Rightarrow> bool" where
  "shows_condition t r m tp \<longleftrightarrow>
     find_condition t (tpst_Conditions (tp_Status tp)) =
       Some \<lparr>cond_Type = t, cond_Status = ConditionTrue, cond_Reason = r, cond_Message = m,
             cond_ObservedGeneration = tp_Generation tp\<rparr>"

definition shows_resolution :: "TokenPolicy \<Rightarrow> Effective \<Rightarrow> bool" where
  "shows_resolution tp eff \<longleftrightarrow>
     tpst_EffectiveModels (tp_Status tp) = EffectiveModels eff \<and> tpst_EffectiveQuota (tp_Status tp) = eff_Quota eff \<and>
     tpst_BoundCredentials (tp_Status tp) = distinctAllowedCredentials (EffectiveModels eff) \<and>
     tpst_ObservedGeneration (tp_Status tp) = tp_Generation tp \<and>
     shows_condition ConditionValid ''Resolved'' ''policy resolved against the hierarchy'' tp \<and>
     shows_condition ConditionReady ''Reconciled'' ''effective policy computed'' tp"

context condition_setter
begin

lemma policy_condition_known:
  "find_condition t (tpst_Conditions (tp_Status tp)) = Some \<lparr>cond_Type = t, cond_Status = st, cond_Reason = r,
     cond_Message = m, cond_ObservedGeneration = tp_Generation tp\<rparr> \<Longrightarrow> policy_condition setCond t st r m tp = tp"
  by (simp add: policy_condition_def setCondition_known)

lemma find_policy_condition:
  "find_condition t (tpst_Conditions (tp_Status (policy_condition setCond t' st r m tp))) =
     (if t = t' then Some \<lparr>cond_Type = t', cond_Status = st, cond_Reason = r, cond_Message = m,
        cond_ObservedGeneration = tp_Generation tp\<rparr>
      else find_condition t (tpst_Conditions (tp_Status tp)))"
  by (simp add: find_setCondition)

lemma shows_condition_cong [simp]:
  "t \<noteq> t' \<Longrightarrow> shows_condition t r m (policy_condition setCond t' st r' m' tp) = shows_condition t r m tp"
  "shows_condition t r m (set_GatewayRef ref tp) = shows_condition t r m tp"
  "shows_condition t r m (policy_condition setCond t ConditionTrue r m tp)"
  by (simp_all add: shows_condition_def find_setCondition)

lemma shows_condition_known:
  "shows_condition t r m tp \<Longrightarrow> policy_condition setCond t ConditionTrue r m tp = tp"
  by (simp add: shows_condition_def policy_condition_known)

lemma shows_resolution_known:
  assumes "shows_resolution tp eff"
  shows "policy_resolved setCond tp eff = tp"
proof -
  have st: "(tp_Status tp)\<lparr>tpst_EffectiveModels := EffectiveModels eff, tpst_EffectiveQuota := eff_Quota eff,
      tpst_BoundCredentials := distinctAllowedCredentials (EffectiveModels eff),
      tpst_ObservedGeneration := tp_Generation tp\<rparr> = tp_Status tp"
    using assms by (intro TokenPolicyStatus.equality) (simp_all add: shows_resolution_def)
  have "tp\<lparr>tp_Status := tp_Status tp\<rparr> = tp" by simp
  then show ?thesis
    unfolding policy_resolved_def st using assms by (simp add: shows_resolution_def shows_condition_known)
qed

lemma shows_resolution_cong:
  "t \<noteq> ConditionValid \<Longrightarrow> t \<noteq> ConditionReady \<Longrightarrow>
     shows_resolution (policy_condition setCond t st r m tp) eff = shows_resolution tp eff"
  "shows_resolution (set_GatewayRef ref tp) eff = shows_resolution tp eff"
  by (auto simp: shows_resolution_def)

lemma policy_resolved_shows: "shows_resolution (policy_resolved setCond tp eff) eff"
  by (simp add: shows_resolution_def policy_resolved_def)

lemma gateway_settles:
  assumes run: "reconcileGateway setCond ap own s tp eff = (s', tp', gev, gerr)"
    and res: "shows_resolution tp eff"
    and own: "\<And>u st. own (tp\<lparr>tp_Status := st\<rparr>) u = own tp u"
    and patch: "\<And>s s' u. snd (ap_Patch ap s u) = snd (ap_Patch ap s' u)"
  shows "shows_resolution tp' eff" "fst (snd (reconcileGateway setCond ap own s2 tp' eff)) = tp'"
    "tp_Spec tp' = tp_Spec tp" "tp_Name tp' = tp_Name tp" "tp_Namespace tp' = tp_Namespace tp"
proof -
  have own': "own (policy_condition setCond t st r m tp) u = own tp u" "own (set_GatewayRef ref tp) u = own tp u"
    "own (policy_condition setCond t st r m (set_GatewayRef ref tp)) u = own tp u" for t st r m ref u
    by (simp_all add: policy_condition_def set_GatewayRef_def own)
  have gw: "gateway_For g (policy_condition setCond t st r m (set_GatewayRef ref tp)) q = gateway_For g tp q"
    "gateway_For g (policy_condition setCond t st r m tp) q = gateway_For g tp q" for g t st r m ref q
    by (rule gateway_For_cong; simp)+
  show "shows_resolution tp' eff"
    using run res
    by (auto simp: reconcileGateway_steps shows_resolution_cong split: sum.splits option.splits prod.splits)
  show "tp_Spec tp' = tp_Spec tp" "tp_Name tp' = tp_Name tp" "tp_Namespace tp' = tp_Namespace tp"
    using run by (auto simp: reconcileGateway_steps set_GatewayRef_def split: sum.splits option.splits prod.splits)
  have again: "policy_condition setCond t st r m (policy_condition setCond t st r m x) = policy_condition setCond t st r m x"
    "policy_condition setCond t st r m (set_GatewayRef ref (policy_condition setCond t st r m (set_GatewayRef ref x))) =
       policy_condition setCond t st r m (set_GatewayRef ref x)" for t st r m ref x
  proof -
    show "policy_condition setCond t st r m (policy_condition setCond t st r m x) = policy_condition setCond t st r m x" for x
      by (rule policy_condition_known) (simp add: find_setCondition)
    moreover have "set_GatewayRef ref (policy_condition setCond t st r m (set_GatewayRef ref x)) =
        policy_condition setCond t st r m (set_GatewayRef ref x)"
      by (simp add: set_GatewayRef_def policy_condition_def)
    ultimately show "policy_condition setCond t st r m (set_GatewayRef ref (policy_condition setCond t st r m (set_GatewayRef ref x))) =
       policy_condition setCond t st r m (set_GatewayRef ref x)" by simp
  qed
  show "fst (snd (reconcileGateway setCond ap own s2 tp' eff)) = tp'"
  proof (cases "gateway_For (eff_Gateway eff) tp (eff_Quota eff)")
    case (Inl err)
    with run have "tp' = policy_condition setCond ConditionGatewaySynced ConditionFalse ''InvalidConfig'' err tp"
      by (simp add: reconcileGateway_steps)
    then show ?thesis using Inl by (simp add: reconcileGateway_steps gw again)
  next
    case (Inr desired)
    show ?thesis
    proof (cases desired)
      case None
      with Inr run have "tp' = policy_condition setCond ConditionGatewaySynced ConditionTrue ''Disabled''
          ''no gateway integration configured'' (set_GatewayRef [] tp)"
        by (simp add: reconcileGateway_steps)
      then show ?thesis using Inr None by (simp add: reconcileGateway_steps gw again)
    next
      case (Some u)
      show ?thesis
      proof (cases "own tp u")
        case (Inl e)
        with Inr Some run show ?thesis by (simp add: reconcileGateway_steps)
      next
        case v: (Inr v)
        obtain s1 e where p: "ap_Patch ap (cleaned ap tp (Some (u_GVK u)) s) v = (s1, e)" by fastforce
        obtain s3 e' where p': "ap_Patch ap (cleaned ap tp (Some (u_GVK u)) s2) v = (s3, e')" by fastforce
        have "e' = e" using patch p p' by (metis snd_conv)
        moreover have "cleaned ap tp' (Some (u_GVK u)) s2 = cleaned ap tp (Some (u_GVK u)) s2"
          using \<open>tp_Name tp' = tp_Name tp\<close> \<open>tp_Namespace tp' = tp_Namespace tp\<close> by (simp add: cleaned_def)
        ultimately show ?thesis
          using Inr Some v p p' run
          by (cases e) (auto simp: reconcileGateway_steps gw own' again)
      qed
    qed
  qed
qed

lemma token_settles:
  assumes run: "oc_Written (snd (TokenPolicy_Reconcile asSel setCond c ap own upd (Inr tp) s)) = Some tp'"
    and own: "\<And>tp u st. own (tp\<lparr>tp_Status := st\<rparr>) u = own tp u"
    and patch: "\<And>s s' u. snd (ap_Patch ap s u) = snd (ap_Patch ap s' u)"
  shows "oc_Written (snd (TokenPolicy_Reconcile asSel setCond c ap own upd' (Inr tp') s2)) = Some tp'"
proof -
  obtain ctpl tpl nsl where reads: "list_ClusterTokenPolicies c = Inr ctpl"
    "list_TokenPolicies c (tp_Namespace tp) = Inr tpl" "reconciler_namespaceLabels c (tp_Namespace tp) = Inr nsl"
    using run by (auto simp: TokenPolicy_Reconcile_def split: sum.splits)
  show ?thesis
  proof (cases "ResolveForPolicy asSel ctpl tpl nsl tp")
    case (Inl err)
    let ?f = "\<lambda>t x. policy_condition setCond t ConditionFalse ''ResolveError'' err x"
    have w: "tp' = ?f ConditionReady (?f ConditionValid tp)"
      using run reads Inl by (simp add: TokenPolicy_Reconcile_def Let_def)
    have "?f ConditionReady tp' = tp'" "?f ConditionValid tp' = tp'"
      by (intro policy_condition_known; simp add: w find_setCondition)+
    moreover have "ResolveForPolicy asSel ctpl tpl nsl tp' = Inl err" "tp_Namespace tp' = tp_Namespace tp"
      using ResolveForPolicy_status [of tp' tp asSel ctpl tpl nsl] Inl by (simp_all add: w)
    ultimately show ?thesis using reads by (simp add: TokenPolicy_Reconcile_def Let_def)
  next
    case (Inr eff)
    obtain s1 tp1 gev gerr where g: "reconcileGateway setCond ap own s (policy_resolved setCond tp eff) eff = (s1, tp1, gev, gerr)"
      by (metis prod_cases4)
    have w: "tp' = tp1" using run TokenPolicy_run [OF reads Inr g, of upd] by simp
    note settled = gateway_settles [OF g policy_resolved_shows own patch]
    obtain s3 tp3 gev3 gerr3 where g2: "reconcileGateway setCond ap own s2 tp1 eff = (s3, tp3, gev3, gerr3)"
      by (metis prod_cases4)
    have "tp3 = tp1" using settled(2) g2 by (metis fst_conv snd_conv)
    have same: "tp_Spec tp1 = tp_Spec tp" "tp_Name tp1 = tp_Name tp" "tp_Namespace tp1 = tp_Namespace tp"
      using settled(3-5) by (simp_all add: policy_resolved_def)
    have "ResolveForPolicy asSel ctpl tpl nsl tp1 = Inr eff"
      using ResolveForPolicy_status [OF same, of asSel ctpl tpl nsl] Inr by simp
    with TokenPolicy_run [of c ctpl tp1 tpl nsl asSel eff setCond ap own s2 s3 tp3 gev3 gerr3 upd'] reads g2 same
      shows_resolution_known [OF settled(1)]
    show ?thesis by (simp add: w \<open>tp3 = tp1\<close>)
  qed
qed

end

section \<open>Credentials\<close>

text \<open>Status, reason and message of the Oversubscribed condition.\<close>

definition over_condition :: "TokenQuota option \<Rightarrow> TokenQuota option \<Rightarrow> ConditionStatus \<times> string \<times> string" where
  "over_condition capacity allocated =
     (if capacity = None
      then (ConditionFalse, ''NoCapacityDeclared'', ''spec.capacity is not set; capacity planning is disabled'')
      else if oversubscribed capacity allocated
      then (ConditionTrue, ''AllocationExceedsCapacity'', ''committed policy budgets exceed the declared key capacity'')
      else (ConditionFalse, ''WithinCapacity'', ''committed policy budgets are within the declared key capacity''))"

lemma reconcileCapacity_result:
  "fst (reconcileCapacity setCond mc al) =
     (case over_condition (mcs_Capacity (mc_Spec mc)) al of (st, r, m) \<Rightarrow>
        credential_condition setCond ConditionOversubscribed st r m
          (mc\<lparr>mc_Status := (mc_Status mc)\<lparr>mcst_Allocated := al,
             mcst_Available := (if mcs_Capacity (mc_Spec mc) = None then None
                                else availableQuota (mcs_Capacity (mc_Spec mc)) al)\<rparr>\<rparr>))"
  by (simp add: reconcileCapacity_def over_condition_def Let_def)

text \<open>The object written by a run that found the key.\<close>

definition credential_result ::
  "set_condition \<Rightarrow> ModelCredential \<Rightarrow> string list \<Rightarrow> string list \<Rightarrow> TokenQuota option \<Rightarrow> ModelCredential" where
  "credential_result setCond mc synced refs allocated =
     credential_condition setCond ConditionReady ConditionTrue ''Synced''
       (''synced to '' @ show_nat (length synced) @ '' namespace(s)'')
       (fst (reconcileCapacity setCond
         ((resolved_mc setCond mc)\<lparr>mc_Status := (mc_Status (resolved_mc setCond mc))
            \<lparr>mcst_ObservedGeneration := mc_Generation mc, mcst_SyncedNamespaces := synced,
             mcst_ReferencingPolicies := refs\<rparr>\<rparr>) allocated))"

lemma resolved_mc_eq:
  "resolved_mc setCond mc =
     mc\<lparr>mc_Status := (mc_Status mc)\<lparr>mcst_SecretResolved := True,
       mcst_Conditions := setCondition setCond (mcst_Conditions (mc_Status mc)) ConditionSecretResolved
         ConditionTrue ''Resolved'' ''source Secret resolved'' (mc_Generation mc)\<rparr>\<rparr>"
  by (simp add: resolved_mc_def credential_condition_def)

definition unresolved :: "ModelCredential \<Rightarrow> ModelCredential" where
  "unresolved mc = mc\<lparr>mc_Status := (mc_Status mc)\<lparr>mcst_SecretResolved := False\<rparr>\<rparr>"

lemma resolved_mc_Generation [simp]: "mc_Generation (resolved_mc f mc) = mc_Generation mc"
  by (simp add: resolved_mc_def)

context condition_setter
begin

lemma credential_result_again:
  "credential_result setCond (credential_result setCond mc synced refs al) synced refs al =
     credential_result setCond mc synced refs al"
proof -
  obtain st r m where oc: "over_condition (mcs_Capacity (mc_Spec mc)) al = (st, r, m)" by (metis prod_cases3)
  let ?g = "mc_Generation mc" and ?msg = "''synced to '' @ show_nat (length synced) @ '' namespace(s)''"
  let ?av = "if mcs_Capacity (mc_Spec mc) = None then None else availableQuota (mcs_Capacity (mc_Spec mc)) al"
  let ?cs = "\<lambda>cs. setCondition setCond (setCondition setCond (setCondition setCond cs
      ConditionSecretResolved ConditionTrue ''Resolved'' ''source Secret resolved'' ?g)
      ConditionOversubscribed st r m ?g) ConditionReady ConditionTrue ''Synced'' ?msg ?g"
  have run: "credential_result setCond x synced refs al =
      mc\<lparr>mc_Status := \<lparr>mcst_ObservedGeneration = ?g, mcst_SecretResolved = True, mcst_SyncedNamespaces = synced,
        mcst_ReferencingPolicies = refs, mcst_Allocated = al, mcst_Available = ?av,
        mcst_Conditions = ?cs (mcst_Conditions (mc_Status x))\<rparr>\<rparr>"
    if "mc_Spec x = mc_Spec mc" "mc_Generation x = ?g" "mc_Name x = mc_Name mc" for x
    using that oc
    by (simp add: credential_result_def reconcileCapacity_result resolved_mc_eq credential_condition_def)
  let ?c = "?cs (mcst_Conditions (mc_Status mc))"
  have "setCondition setCond ?c ConditionSecretResolved ConditionTrue ''Resolved'' ''source Secret resolved'' ?g = ?c"
    "setCondition setCond ?c ConditionOversubscribed st r m ?g = ?c"
    "setCondition setCond ?c ConditionReady ConditionTrue ''Synced'' ?msg ?g = ?c"
    by (intro setCondition_known; simp add: find_setCondition)+
  then show ?thesis by (subst run) (simp_all add: run)
qed

lemma resolved_written:
  assumes works: "store_works sc own" and perm: "\<And>xs. mset (order xs) = mset xs"
    and run: "reconcile_resolved asSel setCond c sc own order opns upd mc data s = (s', out)"
    and written: "oc_Written out = Some mc'"
  shows "\<exists>auth refs al. authorizedNamespaces asSel c mc = Inr auth \<and>
    referencingPolicies c (mc_Name mc) = Inr (refs, al) \<and> mc' = credential_result setCond mc (sort auth) refs al"
proof -
  have spec: "authorizedNamespaces asSel c (resolved_mc setCond mc) = authorizedNamespaces asSel c mc"
    by (rule authorizedNamespaces_spec) simp
  note run' = run [unfolded reconcile_resolved_def Let_def, folded resolved_mc_def, unfolded spec]
  obtain auth where auth: "authorizedNamespaces asSel c mc = Inr auth"
    using run' written by (cases "authorizedNamespaces asSel c mc") auto
  obtain s1 synced where sy: "syncAll sc own opns (resolved_mc setCond mc) data s [] (order auth) = (s1, synced)" by fastforce
  have synced: "synced = order auth"
    using syncAll_works [OF works, of opns "resolved_mc setCond mc" data s "[]" "order auth"] sy by simp
  obtain refs al where refs: "referencingPolicies c (mc_Name mc) = Inr (refs, al)"
    using run' written auth sy by (auto simp: case_prod_beta split: sum.splits)
  obtain s2 perr where pr: "pruneSecrets sc (resolved_mc setCond mc) auth s1 = (s2, perr)" by fastforce
  have "oc_Written out = Some (credential_result setCond mc (sort (order auth)) refs al)"
    using run' by (auto simp: auth sy synced pr refs credential_result_def case_prod_beta)
  moreover have "sort (order auth) = sort auth" by (rule sort_perm [OF perm])
  ultimately have "mc' = credential_result setCond mc (sort auth) refs al" using written by simp
  with auth refs show ?thesis by blast
qed

lemma credential_condition_known:
  "find_condition t (mcst_Conditions (mc_Status mc)) = Some \<lparr>cond_Type = t, cond_Status = st, cond_Reason = r,
     cond_Message = m, cond_ObservedGeneration = mc_Generation mc\<rparr> \<Longrightarrow> credential_condition setCond t st r m mc = mc"
  by (simp add: credential_condition_def setCondition_known)

lemma credential_settles:
  assumes st: "replica_store sc view own" "healthy view sc own" "replicas_named (view s)" "plain_source opns mc"
    and perm: "\<And>xs. mset (order xs) = mset xs" "\<And>xs. mset (order' xs) = mset xs"
    and run: "ModelCredential_Reconcile asSel setCond c sc own order opns upd (Inr mc) s = (s', out)"
    and written: "oc_Written out = Some mc'"
  shows "oc_Written (snd (ModelCredential_Reconcile asSel setCond c sc own order' opns upd' (Inr mc') s')) = Some mc'"
proof -
  have spec: "mc_Name mc' = mc_Name mc" "mc_Spec mc' = mc_Spec mc" using written_spec [OF run written] by simp_all
  let ?get = "\<lambda>s. sc_Get sc s (fst (source_key opns mc)) (snd (source_key opns mc))"
  have works: "store_works sc own" using st(2) by (simp add: healthy_def)
  note def' = ModelCredential_Reconcile_def source_key_def firstNonEmpty_def Let_def
  show ?thesis
  proof (cases "?get s")
    case (Inl err)
    have nf: "IsNotFound err" and s': "s' = s" using run written Inl by (auto simp: def' split: if_splits)
    let ?sr = "credential_condition setCond ConditionSecretResolved ConditionFalse ''SecretNotFound''
        (''source Secret '' @ fst (source_key opns mc) @ ''/'' @ snd (source_key opns mc) @ '' not found'')"
    let ?rd = "credential_condition setCond ConditionReady ConditionFalse ''SecretNotFound'' ''waiting for source Secret''"
    have w: "mc' = ?rd (?sr (unresolved mc))"
      using run written Inl nf by (auto simp: def' unresolved_def split: if_splits)
    have u: "unresolved mc' = mc'" by (simp add: w credential_condition_def unresolved_def)
    have "?sr mc' = mc'" "?rd mc' = mc'"
      by (intro credential_condition_known; simp add: w find_setCondition unresolved_def)+
    with u Inl nf show ?thesis by (auto simp: def' spec s' simp flip: unresolved_def split: if_splits)
  next
    case (Inr src)
    show ?thesis
    proof (cases "map_of (sec_Data src) (sks_Key (mcs_SecretRef (mc_Spec mc)))")
      case None
      let ?sr = "credential_condition setCond ConditionSecretResolved ConditionFalse ''KeyMissing''
          (''source Secret '' @ fst (source_key opns mc) @ ''/'' @ snd (source_key opns mc) @ '' has no key '' @
           quote (sks_Key (mcs_SecretRef (mc_Spec mc))))"
      have s': "s' = s" and w: "mc' = ?sr (unresolved mc)"
        using run written Inr None by (auto simp: def' unresolved_def split: if_splits)
      have u: "unresolved mc' = mc'" by (simp add: w credential_condition_def unresolved_def)
      have "?sr mc' = mc'"
        by (intro credential_condition_known; simp add: w find_setCondition unresolved_def)
      with u Inr None show ?thesis by (auto simp: def' spec s' simp flip: unresolved_def split: if_splits)
    next
      case (Some data)
      have rr: "reconcile_resolved asSel setCond c sc own order opns upd mc data s = (s', out)"
        using run Inr Some by (auto simp: def' split: if_splits)
      obtain auth refs al where r: "authorizedNamespaces asSel c mc = Inr auth"
        "referencingPolicies c (mc_Name mc) = Inr (refs, al)" "mc' = credential_result setCond mc (sort auth) refs al"
        using resolved_written [OF works perm(1) rr written] by blast
      have "view s (source_key opns mc) = Some src"
        using secret_store.get_ok [OF _ Inr] st(1) by (simp add: replica_store_def)
      then have "view s' (source_key opns mc) = Some src"
        using source_kept [OF st(1) perm(1) run st(3,4)] by simp
      then have get: "?get s' = Inr src" using st(2) by (simp add: healthy_def)
      obtain s2 out2 where rr2: "reconcile_resolved asSel setCond c sc own order' opns upd' mc' data s' = (s2, out2)"
        by fastforce
      have run2: "ModelCredential_Reconcile asSel setCond c sc own order' opns upd' (Inr mc') s' = (s2, out2)"
        using get Some rr2 by (auto simp: def' spec split: if_splits)
      have auth': "authorizedNamespaces asSel c mc' = Inr auth"
        using r(1) authorizedNamespaces_spec [OF spec(2)] by simp
      have "oc_Written out2 \<noteq> None"
        using rr2 r(2) auth' authorizedNamespaces_spec [of "resolved_mc setCond mc'" mc'] spec
        by (auto simp: reconcile_resolved_def Let_def case_prod_beta simp flip: resolved_mc_def)
      then obtain mc2 where w2: "oc_Written out2 = Some mc2" by blast
      with resolved_written [OF works perm(2) rr2] r(2) auth' spec(1)
      have "mc2 = credential_result setCond mc' (sort auth) refs al" by auto
      then show ?thesis using run2 w2 r(3) by (simp add: credential_result_again)
    qed
  qed
qed

end

section \<open>Properties\<close>

text \<open>
  C37: The policy and claim reconcilers settle. A run on the object that the previous run wrote,
  with the policies and namespaces as they were, writes the same object again: for a claim, for a
  cluster policy, and for a TokenPolicy whose artifact the API server accepts or refuses as before
  (the owner reference depends on metadata only). No reconciler keeps triggering itself.
\<close>

theorem status_settles:
  assumes cond: "condition_setter setCond"
    and own: "\<And>tp u st. own (tp\<lparr>tp_Status := st\<rparr>) u = own tp u"
    and patch: "\<And>s s' u. snd (ap_Patch ap s u) = snd (ap_Patch ap s' u)"
    and claim: "oc_Written (ModelClaim_Reconcile asSel setCond c1 upd1 (Inr mcl)) = Some mcl'"
    and cluster: "oc_Written (ClusterTokenPolicy_Reconcile asSel setCond c2 upd2 (Inr ctp)) = Some ctp'"
    and token: "oc_Written (snd (TokenPolicy_Reconcile asSel setCond c3 ap own upd3 (Inr tp) s)) = Some tp'"
  shows "oc_Written (ModelClaim_Reconcile asSel setCond c1 upd1 (Inr mcl')) = Some mcl' \<and>
    oc_Written (ClusterTokenPolicy_Reconcile asSel setCond c2 upd2 (Inr ctp')) = Some ctp' \<and>
    oc_Written (snd (TokenPolicy_Reconcile asSel setCond c3 ap own upd3 (Inr tp') s')) = Some tp'"
  using condition_setter.claim_settles [OF cond claim] condition_setter.cluster_settles [OF cond cluster]
    condition_setter.token_settles [OF cond token own patch]
  by blast

definition cluster_after :: ClusterTokenPolicy where
  "cluster_after =
     the (oc_Written (ClusterTokenPolicy_Reconcile std_selector replace_or_append sample_client (\<lambda>_. None) (Inr org_default)))"

lemma cluster_written:
  "oc_Written (ClusterTokenPolicy_Reconcile std_selector replace_or_append sample_client (\<lambda>_. None) (Inr org_default)) =
     Some cluster_after"
proof -
  have "oc_Written (ClusterTokenPolicy_Reconcile std_selector replace_or_append sample_client (\<lambda>_. None)
      (Inr org_default)) \<noteq> None"
    by code_simp
  then show ?thesis by (auto simp: cluster_after_def)
qed

theorem status_settles_witness:
  "oc_Written (ModelClaim_Reconcile std_selector replace_or_append (claims_client [good_claim]) (\<lambda>_. None)
     (Inr (claim_after good_claim))) = Some (claim_after good_claim) \<and>
   oc_Written (ClusterTokenPolicy_Reconcile std_selector replace_or_append sample_client (\<lambda>_. None)
     (Inr cluster_after)) = Some cluster_after \<and>
   (\<exists>tp'. oc_Written (snd policy_run) = Some tp' \<and>
      oc_Written (snd (TokenPolicy_Reconcile std_selector replace_or_append policy_client
        (list_artifacts (\<lambda>_. None)) policy_owner (\<lambda>_. None) (Inr tp') (fst policy_run))) = Some tp')"
proof -
  obtain tp' where tp': "oc_Written (snd policy_run) = Some tp'" using policy_after by blast
  have own: "policy_owner (tp\<lparr>tp_Status := st\<rparr>) u = policy_owner tp u" for tp u st by (simp add: policy_owner_def)
  have patch: "snd (ap_Patch (list_artifacts (\<lambda>_. None)) s u) = snd (ap_Patch (list_artifacts (\<lambda>_. None)) s2 u)" for s s2 u
    by (simp add: list_artifacts_def)
  from status_settles [OF std_conditions.condition_setter_axioms own patch claim_written(1) [unfolded claim_run_def]
      cluster_written tp' [unfolded policy_run_def]] tp'
  show ?thesis by blast
qed

text \<open>
  C36: The credential reconciler settles. When the API server answers the Secret client and the
  source Secret does not have a replica's name, a run on the object that the previous run wrote
  writes the same object again, in whatever order it visits the namespaces: also when the source
  Secret or its key is missing.
\<close>

theorem credential_status_settles:
  assumes "condition_setter setCond" "replica_store sc view own" "healthy view sc own"
    and "replicas_named (view s)" "plain_source opns mc"
    and "\<And>xs. mset (order xs) = mset xs" "\<And>xs. mset (order' xs) = mset xs"
    and "ModelCredential_Reconcile asSel setCond c sc own order opns upd (Inr mc) s = (s', out)"
    and "oc_Written out = Some mc'"
  shows "oc_Written (snd (ModelCredential_Reconcile asSel setCond c sc own order' opns upd' (Inr mc') s')) = Some mc'"
  by (rule condition_setter.credential_settles [OF assms])

theorem credential_status_settles_witness:
  "oc_Written (snd first_run) = Some sample_mc \<and>
   oc_Written (snd (ModelCredential_Reconcile std_selector replace_or_append sample_client (list_store no_fault) own_by
     rev ''operator'' (\<lambda>_. None) (Inr sample_mc) (fst first_run))) = Some sample_mc"
proof -
  have run: "ModelCredential_Reconcile std_selector replace_or_append sample_client (list_store no_fault) own_by keep_order
       ''operator'' (\<lambda>_. None) (Inr openai_credential) [source_secret] = (fst first_run, snd first_run)"
    by (simp add: first_run_def)
  have named: "replicas_named (list_view [source_secret])"
    by (auto simp: replicas_named_def has_label_def list_view_def source_secret_def new_secret_def secret_key_def)
  show ?thesis
    using credential_status_settles [OF std_conditions.condition_setter_axioms list_secrets.replica_store_axioms
        list_store_healthy named sample_plain keep_order_perm mset_rev run sample_written_mc] sample_written_mc
    by blast
qed

end
