(* ===== verification/Capacity_Props.thy ===== *)
theory Capacity_Props
  imports Credential_Facts Cluster_Samples
begin

text \<open>
  The capacity rollup of a credential: which policies count, what their budgets add up to, and
  when the credential is reported as oversubscribed. The sums are exact while they fit \<open>int64\<close>;
  the last lemma shows what the code reports when they do not.
\<close>

section \<open>Lemmas\<close>

lemma binds_cluster_iff:
  "binds_cluster n ctp \<longleftrightarrow>
     (\<exists>r. ctps_DefaultCredentialRef (ctp_Spec ctp) = Some r \<and> cr_Name r = n) \<or>
     (\<exists>m \<in> set (ctps_Models (ctp_Spec ctp)). \<exists>r. mp_CredentialRef m = Some r \<and> cr_Name r = n)"
  by (auto simp: binds_cluster_def modelsReference_def list_ex_iff split: option.splits)

lemma binds_policy_iff:
  "binds_policy n tp \<longleftrightarrow> (\<exists>m \<in> set (tps_Models (tp_Spec tp)). \<exists>r. mp_CredentialRef m = Some r \<and> cr_Name r = n)"
  by (auto simp: binds_policy_def modelsReference_def list_ex_iff split: option.splits)

text \<open>The Oversubscribed condition after the capacity step.\<close>

lemma reconcileCapacity_condition:
  assumes "condition_setter setCond"
  shows "\<exists>cnd. find_condition ConditionOversubscribed
            (mcst_Conditions (mc_Status (fst (reconcileCapacity setCond mc q)))) = Some cnd \<and>
          (cond_Status cnd = ConditionTrue \<longleftrightarrow> oversubscribed (mcs_Capacity (mc_Spec mc)) q)"
  using condition_setter.find_setCondition [OF assms]
  by (simp add: reconcileCapacity_def Let_def oversubscribed_def)

section \<open>The rollup\<close>

text \<open>
  The documented meaning of a binding: an Allow rule names the credential, or it is the default
  credential of a cluster policy.
\<close>

definition allow_names :: "string \<Rightarrow> ModelPermission list \<Rightarrow> bool" where
  "allow_names n rules \<longleftrightarrow>
     (\<exists>m \<in> set rules. normAction (mp_Action m) = ActionAllow \<and> map_option cr_Name (mp_CredentialRef m) = Some n)"

definition allow_bindings ::
  "string \<Rightarrow> ClusterTokenPolicy list \<Rightarrow> TokenPolicy list \<Rightarrow> (string \<times> TokenQuota option) list" where
  "allow_bindings n ctpl tpl =
     map (\<lambda>ctp. (''ClusterTokenPolicy/'' @ ctp_Name ctp, ctps_Quota (ctp_Spec ctp)))
       (filter (\<lambda>ctp. allow_names n (ctps_Models (ctp_Spec ctp)) \<or>
          map_option cr_Name (ctps_DefaultCredentialRef (ctp_Spec ctp)) = Some n) ctpl) @
     map (\<lambda>tp. (''TokenPolicy/'' @ tp_Namespace tp @ ''/'' @ tp_Name tp, tps_Quota (tp_Spec tp)))
       (filter (\<lambda>tp. allow_names n (tps_Models (tp_Spec tp))) tpl)"

text \<open>Every rule that names the credential is an Allow rule.\<close>

definition allows_only :: "string \<Rightarrow> ModelPermission list \<Rightarrow> bool" where
  "allows_only n rules \<longleftrightarrow>
     (\<forall>m \<in> set rules. map_option cr_Name (mp_CredentialRef m) = Some n \<longrightarrow> normAction (mp_Action m) = ActionAllow)"

lemma bindings_allow:
  assumes "\<forall>ctp \<in> set ctpl. allows_only n (ctps_Models (ctp_Spec ctp))"
    and "\<forall>tp \<in> set tpl. allows_only n (tps_Models (tp_Spec tp))"
  shows "bindings n ctpl tpl = allow_bindings n ctpl tpl"
proof -
  have "modelsReference rules n \<longleftrightarrow> allow_names n rules" if "allows_only n rules" for rules
    using that by (fastforce simp: modelsReference_def list_ex_iff allow_names_def allows_only_def split: option.splits)
  with assms have "filter (binds_cluster n) ctpl = filter (\<lambda>ctp. allow_names n (ctps_Models (ctp_Spec ctp)) \<or>
      map_option cr_Name (ctps_DefaultCredentialRef (ctp_Spec ctp)) = Some n) ctpl"
    "filter (binds_policy n) tpl = filter (\<lambda>tp. allow_names n (tps_Models (tp_Spec tp))) tpl"
    by (auto simp: binds_cluster_def binds_policy_def split: option.splits intro!: filter_cong)
  then show ?thesis by (simp add: bindings_def allow_bindings_def)
qed

text \<open>
  C30: The references and the allocated budget of a credential are exact. Where only Allow rules name
  the credential and the policies have distinct names, the reported references are the sorted names
  of exactly the policies with an Allow rule that names it, and of the cluster policies whose default
  credential it is; a window is left unset exactly when none of them limits it, and otherwise holds
  the sum of their limits for that window, as long as the limits are not negative and the sum fits
  64 bits. (The code also counts a Deny rule that names the credential: \<open>deny_rule_counts_as_reference\<close>.)
\<close>

theorem rollup_exact:
  assumes "list_ClusterTokenPolicies c = Inr ctpl" "list_AllTokenPolicies c = Inr tpl"
    and "distinct (map ctp_Name ctpl)" "distinct (map (\<lambda>tp. (tp_Namespace tp, tp_Name tp)) tpl)"
    and "\<forall>tp \<in> set tpl. CHR ''/'' \<notin> set (tp_Namespace tp)"
    and only: "\<forall>ctp \<in> set ctpl. allows_only n (ctps_Models (ctp_Spec ctp))"
      "\<forall>tp \<in> set tpl. allows_only n (tps_Models (tp_Spec tp))"
    and "\<forall>r \<in> set (allow_bindings n ctpl tpl). 0 \<le> amount (qlimit w (snd r))"
    and "demand w (allow_bindings n ctpl tpl) < 2 ^ 63"
  shows "\<exists>refs allocated. referencingPolicies c n = Inr (refs, allocated) \<and>
    sorted refs \<and> distinct refs \<and> set refs = fst ` set (allow_bindings n ctpl tpl) \<and>
    (qlimit w allocated = None \<longleftrightarrow> (\<forall>r \<in> set (allow_bindings n ctpl tpl). qlimit w (snd r) = None)) \<and>
    amount (qlimit w allocated) = demand w (allow_bindings n ctpl tpl)"
proof -
  note same = bindings_allow [OF only]
  have d: "distinct (map fst (bindings n ctpl tpl))" by (rule bindings_distinct [OF assms(3-5)])
  then have f: "foldl addReference ([], Some empty_quota) (bindings n ctpl tpl) =
      (map fst (bindings n ctpl tpl), foldl addQuota (Some empty_quota) (map snd (bindings n ctpl tpl)))"
    using addReference_distinct [of "[]" "bindings n ctpl tpl"] by simp
  show ?thesis
    using d [unfolded same] fold_addQuota_demand [OF assms(8,9)] fold_addQuota_None_iff [of w "allow_bindings n ctpl tpl"]
    by (simp add: referencingPolicies_eq [OF assms(1,2)] same f [unfolded same])
qed

theorem rollup_exact_witness:
  "\<exists>refs allocated. referencingPolicies sample_client ''openai'' = Inr (refs, allocated) \<and>
    sorted refs \<and> distinct refs \<and>
    set refs = fst ` set (allow_bindings ''openai'' [org_default] [ns_default, batch_workers]) \<and>
    (qlimit TPM allocated = None \<longleftrightarrow>
       (\<forall>r \<in> set (allow_bindings ''openai'' [org_default] [ns_default, batch_workers]). qlimit TPM (snd r) = None)) \<and>
    amount (qlimit TPM allocated) = demand TPM (allow_bindings ''openai'' [org_default] [ns_default, batch_workers])"
proof (rule rollup_exact)
  show "distinct (map ctp_Name [org_default])" by simp
  show "distinct (map (\<lambda>tp. (tp_Namespace tp, tp_Name tp)) [ns_default, batch_workers])" by code_simp
  show "\<forall>tp \<in> set [ns_default, batch_workers]. CHR ''/'' \<notin> set (tp_Namespace tp)" by code_simp
  show "\<forall>ctp \<in> set [org_default]. allows_only ''openai'' (ctps_Models (ctp_Spec ctp))"
    "\<forall>tp \<in> set [ns_default, batch_workers]. allows_only ''openai'' (tps_Models (tp_Spec tp))"
    by code_simp+
  show "\<forall>r \<in> set (allow_bindings ''openai'' [org_default] [ns_default, batch_workers]). 0 \<le> amount (qlimit TPM (snd r))"
    by code_simp
  show "demand TPM (allow_bindings ''openai'' [org_default] [ns_default, batch_workers]) < 2 ^ 63" by code_simp
qed (simp_all add: sample_client_def client_of_def sample_cluster_def)

text \<open>
  C31: The credential is reported as oversubscribed exactly when it is, as long as no limit is negative
  and the demand of each window fits 64 bits (beyond that the sum wraps and hides it:
  \<open>overflow_hides_oversubscription\<close>). In the status the capacity step leaves, the Oversubscribed condition is present, and true exactly when some window
  of the declared capacity is below the demand of the binding policies; and every declared window
  shows the capacity minus the demand as available, or zero where the demand is larger.
\<close>

theorem capacity_status_exact:
  assumes "condition_setter setCond"
    and "mcs_Capacity (mc_Spec mc) = Some capacity"
    and "\<forall>w x. limit w capacity = Some x \<longrightarrow> 0 \<le> sint x"
    and "\<forall>w. \<forall>r \<in> set refs. 0 \<le> amount (qlimit w (snd r))"
    and "\<forall>w. demand w refs < 2 ^ 63"
    and "mc' = fst (reconcileCapacity setCond mc
                      (normalizeQuota (foldl addQuota (Some empty_quota) (map snd refs))))"
  shows "(\<exists>cnd. find_condition ConditionOversubscribed (mcst_Conditions (mc_Status mc')) = Some cnd \<and>
       (cond_Status cnd = ConditionTrue \<longleftrightarrow> (\<exists>w x. limit w capacity = Some x \<and> sint x < demand w refs))) \<and>
     (\<forall>w. case limit w capacity of
             None \<Rightarrow> qlimit w (mcst_Available (mc_Status mc')) = None
           | Some x \<Rightarrow> \<exists>v. qlimit w (mcst_Available (mc_Status mc')) = Some v \<and> sint v = max 0 (sint x - demand w refs))"
proof (intro conjI allI)
  let ?q = "normalizeQuota (foldl addQuota (Some empty_quota) (map snd refs))"
  have am: "amount (qlimit w ?q) = demand w refs" for w
    using assms(4,5) by (intro fold_addQuota_demand) auto
  have pos: "0 \<le> demand w refs" for w
    using assms(4) by (fastforce simp: demand_def intro!: sum_list_nonneg)
  have over: "overPtr (Some x) (qlimit w ?q) \<longleftrightarrow> sint x < demand w refs" if "limit w capacity = Some x" for w x
  proof -
    have "0 \<le> sint x" using assms(3) that by blast
    then show ?thesis unfolding overPtr_iff am [symmetric] by (cases "qlimit w ?q") simp_all
  qed
  have "oversubscribed (Some capacity) ?q \<longleftrightarrow> (\<exists>w x. limit w capacity = Some x \<and> sint x < demand w refs)"
    unfolding oversubscribed_iff qlimit_simps using over by (metis overPtr_iff)
  with reconcileCapacity_condition [OF assms(1), of mc ?q] assms(2,6)
  show "\<exists>cnd. find_condition ConditionOversubscribed (mcst_Conditions (mc_Status mc')) = Some cnd \<and>
       (cond_Status cnd = ConditionTrue \<longleftrightarrow> (\<exists>w x. limit w capacity = Some x \<and> sint x < demand w refs))" by simp
  fix w
  show "case limit w capacity of
             None \<Rightarrow> qlimit w (mcst_Available (mc_Status mc')) = None
           | Some x \<Rightarrow> \<exists>v. qlimit w (mcst_Available (mc_Status mc')) = Some v \<and> sint v = max 0 (sint x - demand w refs)"
    using assms(2,3,6) am [of w] pos [of w] availablePtr_amount [of _ "qlimit w ?q"]
    by (auto simp: qlimit_availableQuota availablePtr_def split: option.split)
qed

text \<open>The budgets of the sample cluster against the capacity of its credential.\<close>

definition sample_refs :: "(string \<times> TokenQuota option) list" where
  "sample_refs = bindings ''openai'' [org_default] [ns_default, batch_workers]"

definition sample_capacity :: TokenQuota where
  "sample_capacity = the (mcs_Capacity (mc_Spec openai_credential))"

definition sample_rollup :: ModelCredential where
  "sample_rollup =
     fst (reconcileCapacity replace_or_append openai_credential
            (normalizeQuota (foldl addQuota (Some empty_quota) (map snd sample_refs))))"

lemma sample_limits:
  "mcs_Capacity (mc_Spec openai_credential) = Some sample_capacity"
  "case limit w sample_capacity of None \<Rightarrow> True | Some x \<Rightarrow> 0 \<le> sint x"
  "\<forall>r \<in> set sample_refs. 0 \<le> amount (qlimit w (snd r))"
  "demand w sample_refs < 2 ^ 63"
  subgoal by code_simp
  subgoal by (cases w; hypsubst; code_simp)
  subgoal by (cases w; hypsubst; code_simp)
  subgoal by (cases w; hypsubst; code_simp)
  done

theorem capacity_status_exact_witness:
  "(\<exists>cnd. find_condition ConditionOversubscribed (mcst_Conditions (mc_Status sample_rollup)) = Some cnd \<and>
       (cond_Status cnd = ConditionTrue \<longleftrightarrow>
          (\<exists>w x. limit w sample_capacity = Some x \<and> sint x < demand w sample_refs))) \<and>
     (\<forall>w. case limit w sample_capacity of
             None \<Rightarrow> qlimit w (mcst_Available (mc_Status sample_rollup)) = None
           | Some x \<Rightarrow> \<exists>v. qlimit w (mcst_Available (mc_Status sample_rollup)) = Some v \<and>
                         sint v = max 0 (sint x - demand w sample_refs))"
proof (rule capacity_status_exact [OF std_conditions.condition_setter_axioms sample_limits(1) _ _ _ sample_rollup_def])
  show "\<forall>w x. limit w sample_capacity = Some x \<longrightarrow> 0 \<le> sint x"
    using sample_limits(2) by (metis option.simps(5))
qed (use sample_limits(3,4) in blast)+

section \<open>What overflow hides\<close>

text \<open>
  Two budgets whose sum leaves \<open>int64\<close> wrap to a negative demand, and a credential with a small
  capacity is not reported as oversubscribed.
\<close>

definition huge_budget :: TokenQuota where
  "huge_budget = empty_quota\<lparr>tq_TokensPerMonth := Some 4611686018427387904\<rparr>"

definition small_capacity :: TokenQuota where
  "small_capacity = empty_quota\<lparr>tq_TokensPerMonth := Some 1000\<rparr>"

lemma overflow_hides_oversubscription:
  "amount (qlimit TPMonth (Some small_capacity)) < demand TPMonth [(''a'', Some huge_budget), (''b'', Some huge_budget)]"
  "\<not> oversubscribed (Some small_capacity)
      (normalizeQuota (foldl addQuota (Some empty_quota) [Some huge_budget, Some huge_budget]))"
  by code_simp+

end
