(* ===== verification/Manager.thy ===== *)
theory Manager
  imports Webhook_Common Policy_Controllers Claim_Controller Credential_Controller Capacity_Props
begin

text \<open>
  What \<open>cmd/main.go\<close> and the \<open>SetupWithManager\<close> functions decide beyond wiring: the namespaces
  exempted by flag, the operator namespace, and which changes make which objects be reconciled
  again. The last section shows two statuses that depend on objects their controller does not watch.
\<close>

section \<open>Flags\<close>

definition envOr :: "(string \<Rightarrow> string) \<Rightarrow> string \<Rightarrow> string \<Rightarrow> string" where
  "envOr getenv key fallback = (let v = getenv key in if v \<noteq> [] then v else fallback)"

text \<open>The keys of the returned map.\<close>

definition parseSet :: "string \<Rightarrow> string list" where
  "parseSet csv =
     foldl (\<lambda>out s. let s = TrimSpace s in if s \<noteq> [] then set_add out s else out) [] (Split (CHR '','') csv)"

definition webhook_config :: "(string \<Rightarrow> string) \<Rightarrow> string option \<Rightarrow> string option \<Rightarrow> Config" where
  "webhook_config getenv operatorFlag exemptFlag =
     \<lparr>cfg_OperatorNamespace =
        (case operatorFlag of
           None \<Rightarrow> envOr getenv ''POD_NAMESPACE'' ''token-control-system''
         | Some v \<Rightarrow> v),
      cfg_ExemptNamespaces =
        parseSet (case exemptFlag of None \<Rightarrow> ''kube-system,kube-public,kube-node-lease'' | Some v \<Rightarrow> v)\<rparr>"

lemma set_parseSet: "set (parseSet csv) = TrimSpace ` set (Split (CHR '','') csv) - {[]}"
proof -
  have "set (foldl (\<lambda>out s. let s = TrimSpace s in if s \<noteq> [] then set_add out s else out) xs ys) =
      set xs \<union> (TrimSpace ` set ys - {[]})" for xs ys
    by (induction ys arbitrary: xs) (auto simp: Let_def)
  then show ?thesis by (simp add: parseSet_def)
qed

text \<open>
  The flags exempt exactly what they list. A namespace is exempt from pod governance exactly
  when it is empty, the operator's own namespace, or one of the entries of the comma-separated
  flag, blanks around an entry not counting.
\<close>

theorem exempt_by_flags:
  "exempt (webhook_config getenv operatorFlag exemptFlag) ns \<longleftrightarrow>
     ns = [] \<or>
     ns = (case operatorFlag of
             None \<Rightarrow> if getenv ''POD_NAMESPACE'' \<noteq> [] then getenv ''POD_NAMESPACE'' else ''token-control-system''
           | Some v \<Rightarrow> v) \<or>
     (\<exists>entry \<in> set (Split (CHR '','')
         (case exemptFlag of None \<Rightarrow> ''kube-system,kube-public,kube-node-lease'' | Some v \<Rightarrow> v)).
        ns = TrimSpace entry)"
  by (auto simp: exempt_iff webhook_config_def set_parseSet envOr_def Let_def split: option.split)

section \<open>Watches\<close>

datatype kind = KClusterTokenPolicy | KTokenPolicy | KModelClaim | KModelCredential | KNamespace

datatype controller = CClusterTokenPolicy | CTokenPolicy | CModelClaim | CModelCredential

text \<open>
  The arguments of the controller builder: the kind in \<open>For\<close>, whose objects are reconciled when they
  change, the name, and per \<open>Watches\<close> the watched kind and the kind whose objects are all
  reconciled on a change of it (by the \<open>...ForAll\<close> function of the controller).
\<close>

record registration =
  reg_For :: kind
  reg_Watches :: "(kind \<times> kind) list"
  reg_Named :: string

definition ClusterTokenPolicy_SetupWithManager :: registration where
  "ClusterTokenPolicy_SetupWithManager =
     \<lparr>reg_For = KClusterTokenPolicy, reg_Watches = [(KNamespace, KClusterTokenPolicy)],
      reg_Named = ''clustertokenpolicy''\<rparr>"

definition TokenPolicy_SetupWithManager :: registration where
  "TokenPolicy_SetupWithManager =
     \<lparr>reg_For = KTokenPolicy, reg_Watches = [(KClusterTokenPolicy, KTokenPolicy), (KModelCredential, KTokenPolicy)],
      reg_Named = ''tokenpolicy''\<rparr>"

definition ModelClaim_SetupWithManager :: registration where
  "ModelClaim_SetupWithManager =
     \<lparr>reg_For = KModelClaim,
      reg_Watches = [(KClusterTokenPolicy, KModelClaim), (KTokenPolicy, KModelClaim),
        (KModelCredential, KModelClaim), (KNamespace, KModelClaim)],
      reg_Named = ''modelclaim''\<rparr>"

definition ModelCredential_SetupWithManager :: registration where
  "ModelCredential_SetupWithManager =
     \<lparr>reg_For = KModelCredential, reg_Watches = [(KNamespace, KModelCredential)],
      reg_Named = ''modelcredential''\<rparr>"

fun registered_as :: "controller \<Rightarrow> registration" where
  "registered_as CClusterTokenPolicy = ClusterTokenPolicy_SetupWithManager"
| "registered_as CTokenPolicy = TokenPolicy_SetupWithManager"
| "registered_as CModelClaim = ModelClaim_SetupWithManager"
| "registered_as CModelCredential = ModelCredential_SetupWithManager"

text \<open>The kinds whose changes make a controller run.\<close>

definition watched :: "controller \<Rightarrow> kind list" where
  "watched ctl = reg_For (registered_as ctl) # map fst (reg_Watches (registered_as ctl))"

text \<open>The four \<open>...ForAll\<close> functions: a request per listed object, none when the listing fails.\<close>

definition requestsForAll :: "('a \<Rightarrow> string \<times> string) \<Rightarrow> api_error + 'a list \<Rightarrow> (string \<times> string) list" where
  "requestsForAll key listed = (case listed of Inl err \<Rightarrow> [] | Inr items \<Rightarrow> map key items)"

definition clusterPoliciesForAll :: "api_error + ClusterTokenPolicy list \<Rightarrow> (string \<times> string) list" where
  "clusterPoliciesForAll = requestsForAll (\<lambda>x. ([], ctp_Name x))"

definition tokenPoliciesForAll :: "api_error + TokenPolicy list \<Rightarrow> (string \<times> string) list" where
  "tokenPoliciesForAll = requestsForAll (\<lambda>x. (tp_Namespace x, tp_Name x))"

definition claimsForAll :: "api_error + ModelClaim list \<Rightarrow> (string \<times> string) list" where
  "claimsForAll = requestsForAll (\<lambda>x. (mcl_Namespace x, mcl_Name x))"

definition credentialsForAll :: "api_error + ModelCredential list \<Rightarrow> (string \<times> string) list" where
  "credentialsForAll = requestsForAll (\<lambda>x. ([], mc_Name x))"

section \<open>Statuses that may be stale\<close>

text \<open>
  The references of a credential change with the TokenPolicies, which its controller does not
  watch: until the next periodic run the status is that of the old policies.
\<close>

lemma credential_misses_policies:
  "referencingPolicies sample_client ''openai'' \<noteq>
     referencingPolicies (sample_client\<lparr>list_AllTokenPolicies := Inr []\<rparr>) ''openai''"
  "KTokenPolicy \<notin> set (watched CModelCredential)"
  by code_simp+

text \<open>
  The effective policy of a TokenPolicy changes with the labels of its namespace and with the other
  policies of the namespace; its controller watches neither.
\<close>

definition labelled_cluster :: ClusterTokenPolicy where
  "labelled_cluster = org_default\<lparr>ctp_Spec := (ctp_Spec org_default)
     \<lparr>ctps_NamespaceSelector := Some (match_labels [(''tier'', ''prod'')])\<rparr>\<rparr>"

definition policy_sources :: "labels option \<Rightarrow> TokenPolicy list \<Rightarrow> string list" where
  "policy_sources nsLabels others =
     (case ResolveForPolicy std_selector [labelled_cluster] others nsLabels batch_workers of
        Inl e \<Rightarrow> [] | Inr eff \<Rightarrow> eff_Sources eff)"

lemma policy_misses_namespace_and_siblings:
  "policy_sources (Some []) [] \<noteq> policy_sources (Some [(''tier'', ''prod'')]) []"
  "policy_sources (Some []) [] \<noteq> policy_sources (Some []) [ns_default]"
  "KNamespace \<notin> set (watched CTokenPolicy)"
  by code_simp+

end
