(* ===== verification/Queue_Machine.thy ===== *)
theory Queue_Machine
  imports Status_Props Manager
begin

text \<open>
  A controller as it runs: objects of its kind, a queue of the ones to reconcile, and a cluster in
  which others change what the reconciler reads. What a change enqueues is decided by the
  controller's registration (\<open>Manager\<close>), and by whether it can list its objects. For a reconciler that
  reads only kinds it watches, a status is up to date whenever its object is not in the queue and no event
  was lost for it: \<open>watching_controller\<close> states the laws, and
  the claim and the cluster policy reconcilers satisfy them.
\<close>

section \<open>Changes\<close>

text \<open>A change of objects of one kind leaves the answers about the other kinds alone.\<close>

definition client_change :: "kind \<Rightarrow> client \<Rightarrow> client \<Rightarrow> bool" where
  "client_change k c c' \<longleftrightarrow>
     (k \<noteq> KClusterTokenPolicy \<longrightarrow> list_ClusterTokenPolicies c' = list_ClusterTokenPolicies c) \<and>
     (k \<noteq> KTokenPolicy \<longrightarrow>
        list_TokenPolicies c' = list_TokenPolicies c \<and> list_AllTokenPolicies c' = list_AllTokenPolicies c) \<and>
     (k \<noteq> KModelClaim \<longrightarrow> list_ModelClaims c' = list_ModelClaims c) \<and>
     (k \<noteq> KNamespace \<longrightarrow> list_Namespaces c' = list_Namespaces c \<and> get_Namespace c' = get_Namespace c) \<and>
     (k \<noteq> KModelCredential \<longrightarrow> get_ModelCredential c' = get_ModelCredential c)"

lemma client_change_refl: "client_change k c c"
  by (simp add: client_change_def)

lemma client_change_trans: "client_change k c c' \<Longrightarrow> client_change k c' c'' \<Longrightarrow> client_change k c c''"
  by (simp add: client_change_def)

section \<open>The machine\<close>

type_synonym object_key = "string \<times> string"

type_synonym 'o reconciler = "client \<Rightarrow> ('o \<Rightarrow> api_error option) \<Rightarrow> api_error + 'o \<Rightarrow> 'o outcome"

record 'o queue_system =
  qs_client :: client
  qs_objects :: "object_key \<rightharpoonup> 'o"
  qs_queue :: "object_key set"
  qs_missed :: "object_key set"

text \<open>
  What others do. A change of another kind enqueues what the controller's \<open>...ForAll\<close> function returns,
  when the kind is watched; \<open>listed\<close> is the answer to its List: every object of the controller's kind,
  or an error, with which the function returns nothing and the event is lost. \<open>qs_missed\<close> keeps the
  history: the objects that were not enqueued and have not been run since. A change of an object of the
  controller's kind enqueues the object.
\<close>

inductive change_step :: "controller \<Rightarrow> ('o \<Rightarrow> object_key) \<Rightarrow> 'o queue_system \<Rightarrow> 'o queue_system \<Rightarrow> bool"
  for ctl key
where
  other_changed: "client_change k (qs_client \<sigma>) c \<Longrightarrow> k \<noteq> reg_For (registered_as ctl) \<Longrightarrow>
    (\<And>items. listed = Inr items \<Longrightarrow> set items = ran (qs_objects \<sigma>)) \<Longrightarrow>
    reqs = (if k \<in> set (watched ctl) then set (requestsForAll key listed) else {}) \<Longrightarrow>
    change_step ctl key \<sigma>
      (\<sigma>\<lparr>qs_client := c, qs_queue := qs_queue \<sigma> \<union> reqs,
         qs_missed := qs_missed \<sigma> \<union> (if k \<in> set (watched ctl) then dom (qs_objects \<sigma>) - reqs else {})\<rparr>)"
| object_put: "client_change (reg_For (registered_as ctl)) (qs_client \<sigma>) c \<Longrightarrow>
    change_step ctl key \<sigma>
      (\<sigma>\<lparr>qs_client := c, qs_objects := (qs_objects \<sigma>)(key x \<mapsto> x), qs_queue := insert (key x) (qs_queue \<sigma>)\<rparr>)"
| object_deleted: "client_change (reg_For (registered_as ctl)) (qs_client \<sigma>) c \<Longrightarrow>
    change_step ctl key \<sigma>
      (\<sigma>\<lparr>qs_client := c, qs_objects := (qs_objects \<sigma>)(k := None), qs_queue := insert k (qs_queue \<sigma>)\<rparr>)"

text \<open>
  What the controller does: a run that returns an error leaves its object in the queue; else the
  object leaves it, unless the written status differs from the stored one, which is a change of
  the object. \<open>ok\<close> marks a run whose reads and update the API server answers; in the others, reads and
  the update may fail.
\<close>

inductive run_step :: "controller \<Rightarrow> 'o reconciler \<Rightarrow> bool \<Rightarrow> 'o queue_system \<Rightarrow> 'o queue_system \<Rightarrow> bool"
  for ctl rec ok
where
  gone: "k \<in> qs_queue \<sigma> \<Longrightarrow> qs_objects \<sigma> k = None \<Longrightarrow> reads_of c0 (qs_client \<sigma>) \<Longrightarrow>
    (ok \<Longrightarrow> c0 = qs_client \<sigma> \<and> upd = (\<lambda>_. None)) \<Longrightarrow>
    oc_Err (rec c0 upd (Inl (NotFound e))) = None \<Longrightarrow>
    run_step ctl rec ok \<sigma> (\<sigma>\<lparr>qs_queue := qs_queue \<sigma> - {k}, qs_missed := qs_missed \<sigma> - {k}\<rparr>)"
| run_failed: "k \<in> qs_queue \<sigma> \<Longrightarrow> qs_objects \<sigma> k = Some x \<Longrightarrow> reads_of c0 (qs_client \<sigma>) \<Longrightarrow>
    (ok \<Longrightarrow> c0 = qs_client \<sigma> \<and> upd = (\<lambda>_. None)) \<Longrightarrow>
    oc_Err (rec c0 upd (Inr x)) \<noteq> None \<Longrightarrow> run_step ctl rec ok \<sigma> \<sigma>"
| run_done: "k \<in> qs_queue \<sigma> \<Longrightarrow> qs_objects \<sigma> k = Some x \<Longrightarrow> reads_of c0 (qs_client \<sigma>) \<Longrightarrow>
    (ok \<Longrightarrow> c0 = qs_client \<sigma> \<and> upd = (\<lambda>_. None)) \<Longrightarrow>
    rec c0 upd (Inr x) = out \<Longrightarrow> oc_Err out = None \<Longrightarrow>
    y = (case oc_Written out of None \<Rightarrow> x | Some y \<Rightarrow> y) \<Longrightarrow>
    client_change (reg_For (registered_as ctl)) (qs_client \<sigma>) c \<Longrightarrow>
    run_step ctl rec ok \<sigma>
      (\<sigma>\<lparr>qs_client := c, qs_objects := (qs_objects \<sigma>)(k \<mapsto> y),
         qs_queue := (qs_queue \<sigma> - {k}) \<union> (if y = x then {} else {k}), qs_missed := qs_missed \<sigma> - {k}\<rparr>)"

text \<open>At its start a controller finds every object of its kind in its queue.\<close>

inductive queue_reachable :: "controller \<Rightarrow> 'o reconciler \<Rightarrow> ('o \<Rightarrow> object_key) \<Rightarrow> 'o queue_system \<Rightarrow> bool"
  for ctl rec key
where
  queue_init: "(\<And>k x. qs_objects \<sigma> k = Some x \<Longrightarrow> key x = k \<and> k \<in> qs_queue \<sigma>) \<Longrightarrow> queue_reachable ctl rec key \<sigma>"
| queue_changed: "queue_reachable ctl rec key \<sigma> \<Longrightarrow> change_step ctl key \<sigma> \<sigma>' \<Longrightarrow> queue_reachable ctl rec key \<sigma>'"
| queue_run: "queue_reachable ctl rec key \<sigma> \<Longrightarrow> run_step ctl rec ok \<sigma> \<sigma>' \<Longrightarrow> queue_reachable ctl rec key \<sigma>'"

text \<open>
  Only the controller acts, and it goes on: while objects wait, a run that the API server answers comes
  at some time.
\<close>

definition only_runs :: "controller \<Rightarrow> 'o reconciler \<Rightarrow> (nat \<Rightarrow> 'o queue_system) \<Rightarrow> bool" where
  "only_runs ctl rec \<sigma> \<longleftrightarrow> (\<forall>i. \<sigma> (Suc i) = \<sigma> i \<or> (\<exists>ok. run_step ctl rec ok (\<sigma> i) (\<sigma> (Suc i))))"

definition served :: "controller \<Rightarrow> 'o reconciler \<Rightarrow> (nat \<Rightarrow> 'o queue_system) \<Rightarrow> bool" where
  "served ctl rec \<sigma> \<longleftrightarrow>
     (\<forall>i. qs_queue (\<sigma> i) \<noteq> {} \<longrightarrow> (\<exists>j \<ge> i. run_step ctl rec True (\<sigma> j) (\<sigma> (Suc j))))"

section \<open>Controllers that watch what they read\<close>

text \<open>
  The laws: what a run does depends only on the watched kinds; a run that returns no error has
  read the truth and has written; runs settle; and they keep the object's key.
\<close>

locale watching_controller =
  fixes ctl :: controller and rec :: "'o reconciler" and key :: "'o \<Rightarrow> object_key"
  assumes unread: "client_change k c c' \<Longrightarrow>
      k = reg_For (registered_as ctl) \<or> k \<notin> set (watched ctl) \<Longrightarrow> rec c' upd got = rec c upd got"
    and truthful: "reads_of c0 c \<Longrightarrow> oc_Err (rec c0 upd (Inr x)) = None \<Longrightarrow>
      \<exists>y. oc_Written (rec c0 upd (Inr x)) = Some y \<and> oc_Written (rec c upd (Inr x)) = Some y"
    and settles: "oc_Written (rec c upd (Inr x)) = Some y \<Longrightarrow> oc_Written (rec c upd' (Inr y)) = Some y"
    and same_key: "oc_Written (rec c upd (Inr x)) = Some y \<Longrightarrow> key y = key x"
begin

definition up_to_date :: "client \<Rightarrow> 'o \<Rightarrow> bool" where
  "up_to_date c x \<longleftrightarrow> (\<forall>upd. oc_Written (rec c upd (Inr x)) = Some x)"

definition queue_inv :: "'o queue_system \<Rightarrow> bool" where
  "queue_inv \<sigma> \<longleftrightarrow>
     (\<forall>k x. qs_objects \<sigma> k = Some x \<longrightarrow>
        key x = k \<and> (k \<in> qs_queue \<sigma> \<or> k \<in> qs_missed \<sigma> \<or> up_to_date (qs_client \<sigma>) x))"

lemma queue_invD:
  assumes "queue_inv \<sigma>" "qs_objects \<sigma> k = Some x"
  shows "key x = k" "k \<in> qs_queue \<sigma> \<or> k \<in> qs_missed \<sigma> \<or> up_to_date (qs_client \<sigma>) x"
  using assms unfolding queue_inv_def by blast+

lemma up_to_date_change:
  "client_change k c c' \<Longrightarrow> k = reg_For (registered_as ctl) \<or> k \<notin> set (watched ctl) \<Longrightarrow>
     up_to_date c' x = up_to_date c x"
  by (simp add: up_to_date_def unread)

lemma queue_inv_change:
  assumes "change_step ctl key \<sigma> \<sigma>'" "queue_inv \<sigma>"
  shows "queue_inv \<sigma>'"
  using assms
proof cases
  case (other_changed k c listed reqs)
  show ?thesis
  proof (cases "k \<in> set (watched ctl)")
    case True
    with assms(2) show ?thesis by (auto simp: other_changed(1) queue_inv_def)
  next
    case False
    with assms(2) up_to_date_change [OF other_changed(2)] show ?thesis
      by (simp add: other_changed(1,5) queue_inv_def)
  qed
next
  case (object_put c x)
  with assms(2) up_to_date_change [OF object_put(2)] show ?thesis by (auto simp: queue_inv_def)
next
  case (object_deleted c k)
  with assms(2) up_to_date_change [OF object_deleted(2)] show ?thesis by (auto simp: queue_inv_def)
qed

text \<open>When the List is answered, no object is missed.\<close>

lemma answered_list_misses_none:
  assumes "queue_inv \<sigma>" "set items = ran (qs_objects \<sigma>)"
  shows "dom (qs_objects \<sigma>) \<subseteq> set (requestsForAll key (Inr items))"
proof
  fix k assume "k \<in> dom (qs_objects \<sigma>)"
  then obtain x where x: "qs_objects \<sigma> k = Some x" by blast
  then have "x \<in> set items" using assms(2) by (simp add: ranI)
  with queue_invD(1) [OF assms(1) x] show "k \<in> set (requestsForAll key (Inr items))"
    by (auto simp: requestsForAll_def)
qed

text \<open>A run that returns no error leaves its object up to date.\<close>

lemma done_up_to_date:
  assumes "reads_of c0 c" "rec c0 upd (Inr x) = out" "oc_Err out = None"
    and "y = (case oc_Written out of None \<Rightarrow> x | Some y \<Rightarrow> y)"
  shows "up_to_date c y" "key y = key x" "up_to_date c x \<Longrightarrow> y = x"
proof -
  obtain z where z: "oc_Written out = Some z" "oc_Written (rec c upd (Inr x)) = Some z"
    using truthful [OF assms(1), of upd x] assms(2,3) by auto
  then have y: "y = z" using assms(4) by simp
  show "up_to_date c y" using settles [OF z(2)] by (simp add: up_to_date_def y)
  show "key y = key x" using same_key [OF z(2)] by (simp add: y)
  show "up_to_date c x \<Longrightarrow> y = x" using z(2) by (simp add: up_to_date_def y)
qed

text \<open>
  So an object that is in the queue or up to date stays so while the controller runs.
\<close>

definition kept_up :: "'o queue_system \<Rightarrow> object_key \<Rightarrow> bool" where
  "kept_up \<sigma> k \<longleftrightarrow> (\<forall>x. qs_objects \<sigma> k = Some x \<longrightarrow> k \<in> qs_queue \<sigma> \<or> up_to_date (qs_client \<sigma>) x)"

lemma run_keeps:
  assumes "run_step ctl rec ok \<sigma> \<sigma>'"
  shows "client_change (reg_For (registered_as ctl)) (qs_client \<sigma>) (qs_client \<sigma>')"
    and "kept_up \<sigma> k \<Longrightarrow> kept_up \<sigma>' k"
  using assms
proof (induction rule: run_step.induct)
  case (run_done k1 \<sigma> x c0 upd out y c)
  {
    case 1
    then show ?case using run_done by simp
  next
    case 2
    with run_done done_up_to_date(1) [OF run_done(3,5,6,7)] up_to_date_change [OF run_done(8)] show ?case
      by (auto simp: kept_up_def)
  }
qed (auto simp: client_change_refl kept_up_def)

lemma queue_inv_run:
  assumes "run_step ctl rec ok \<sigma> \<sigma>'" "queue_inv \<sigma>"
  shows "queue_inv \<sigma>'"
  using assms
proof cases
  case (gone k c0 upd e)
  with assms(2) show ?thesis by (auto simp: queue_inv_def)
next
  case (run_failed k x c0 upd)
  with assms(2) show ?thesis by simp
next
  case (run_done k x c0 upd out y c)
  with done_up_to_date(1,2) [OF run_done(4,6,7,8)] queue_invD(1) [OF assms(2) run_done(3)] assms(2)
    up_to_date_change [OF run_done(9)] show ?thesis
    by (auto simp: queue_inv_def)
qed

lemma queue_inv_reachable: "queue_reachable ctl rec key \<sigma> \<Longrightarrow> queue_inv \<sigma>"
proof (induction rule: queue_reachable.induct)
  case (queue_init \<sigma>)
  then show ?case unfolding queue_inv_def by blast
next
  case (queue_changed \<sigma> \<sigma>')
  then show ?case by (blast intro: queue_inv_change)
next
  case (queue_run \<sigma> ok \<sigma>')
  then show ?case by (blast intro: queue_inv_run)
qed

lemma never_stale:
  assumes "queue_reachable ctl rec key \<sigma>" "qs_objects \<sigma> k = Some x" "k \<notin> qs_queue \<sigma>" "k \<notin> qs_missed \<sigma>"
  shows "oc_Written (rec (qs_client \<sigma>) upd (Inr x)) = Some x"
  using queue_invD(2) [OF queue_inv_reachable [OF assms(1)] assms(2)] assms(3,4) by (simp add: up_to_date_def)

text \<open>
  Every run lowers the work: the waiting objects, and those among them whose status is not the one that
  a run writes; the runs whose calls are answered lower it strictly.
\<close>

definition answered :: "client \<Rightarrow> bool" where
  "answered c \<longleftrightarrow> (\<forall>e. oc_Err (rec c (\<lambda>_. None) (Inl (NotFound e))) = None) \<and>
     (\<forall>x. oc_Err (rec c (\<lambda>_. None) (Inr x)) = None)"

definition outdated :: "'o queue_system \<Rightarrow> object_key set" where
  "outdated \<sigma> = {k \<in> qs_queue \<sigma>. \<exists>x. qs_objects \<sigma> k = Some x \<and> \<not> up_to_date (qs_client \<sigma>) x}"

definition work :: "'o queue_system \<Rightarrow> nat" where
  "work \<sigma> = card (qs_queue \<sigma>) + card (outdated \<sigma>)"

lemma work_less:
  assumes "finite (qs_queue \<sigma>)" "k \<in> qs_queue \<sigma>" "qs_queue \<sigma>' \<subseteq> qs_queue \<sigma>"
    and "outdated \<sigma>' \<subseteq> outdated \<sigma>" "k \<notin> qs_queue \<sigma>' \<or> k \<in> outdated \<sigma> - outdated \<sigma>'"
  shows "work \<sigma>' < work \<sigma>"
proof -
  have fin: "finite (outdated \<sigma>)" using assms(1) by (simp add: outdated_def)
  note le = card_mono [OF assms(1,3)] card_mono [OF fin assms(4)]
  from assms(5) show ?thesis
  proof
    assume "k \<notin> qs_queue \<sigma>'"
    with assms(2,3) have "qs_queue \<sigma>' \<subset> qs_queue \<sigma>" by blast
    from psubset_card_mono [OF assms(1) this] le(2) show ?thesis by (simp add: work_def)
  next
    assume "k \<in> outdated \<sigma> - outdated \<sigma>'"
    with assms(4) have "outdated \<sigma>' \<subset> outdated \<sigma>" by blast
    from psubset_card_mono [OF fin this] le(1) show ?thesis by (simp add: work_def)
  qed
qed

lemma run_works:
  assumes "run_step ctl rec ok \<sigma> \<sigma>'" "finite (qs_queue \<sigma>)"
  shows "finite (qs_queue \<sigma>') \<and> (\<sigma>' = \<sigma> \<or> work \<sigma>' < work \<sigma>) \<and>
    (ok \<longrightarrow> answered (qs_client \<sigma>) \<longrightarrow> work \<sigma>' < work \<sigma>)"
  using assms(1)
proof cases
  case (gone k c0 upd e)
  have "work \<sigma>' < work \<sigma>"
    by (rule work_less [OF assms(2) gone(2)]) (auto simp: gone(1) outdated_def)
  with assms(2) show ?thesis by (simp add: gone(1))
next
  case (run_failed k x c0 upd)
  with assms(2) show ?thesis by (auto simp: answered_def)
next
  case (run_done k x c0 upd out y c)
  note y = done_up_to_date [OF run_done(4,6,7,8)]
  have same: "up_to_date c = up_to_date (qs_client \<sigma>)"
    using up_to_date_change [OF run_done(9)] by blast
  have "work \<sigma>' < work \<sigma>"
  proof (rule work_less [OF assms(2) run_done(2)])
    show "k \<notin> qs_queue \<sigma>' \<or> k \<in> outdated \<sigma> - outdated \<sigma>'"
      using y(1,3) run_done(2,3) by (auto simp: run_done(1) outdated_def same)
  qed (use y(1) run_done(2) in \<open>auto simp: run_done(1) outdated_def same split: if_splits\<close>)
  with assms(2) show ?thesis by (simp add: run_done(1))
qed

text \<open>When only the controller acts, it comes to rest, and then the objects that it knew of are up to date.\<close>

lemma only_runs_keep:
  assumes "only_runs ctl rec \<sigma>"
  shows "client_change (reg_For (registered_as ctl)) (qs_client (\<sigma> 0)) (qs_client (\<sigma> i))"
    and "kept_up (\<sigma> 0) k \<Longrightarrow> kept_up (\<sigma> i) k"
    and "finite (qs_queue (\<sigma> 0)) \<Longrightarrow> finite (qs_queue (\<sigma> i))"
proof -
  have step: "\<sigma> (Suc i) = \<sigma> i \<or> (\<exists>ok. run_step ctl rec ok (\<sigma> i) (\<sigma> (Suc i)))" for i
    using assms by (simp add: only_runs_def)
  show "client_change (reg_For (registered_as ctl)) (qs_client (\<sigma> 0)) (qs_client (\<sigma> i))"
    by (induction i) (use step run_keeps(1) in \<open>metis client_change_refl client_change_trans\<close>)+
  show "kept_up (\<sigma> 0) k \<Longrightarrow> kept_up (\<sigma> i) k"
    by (induction i) (use step run_keeps(2) in metis)+
  show "finite (qs_queue (\<sigma> 0)) \<Longrightarrow> finite (qs_queue (\<sigma> i))"
    by (induction i) (use step run_works in metis)+
qed

lemma comes_to_rest:
  assumes run: "only_runs ctl rec \<sigma>" "served ctl rec \<sigma>"
    and "finite (qs_queue (\<sigma> 0))" "answered (qs_client (\<sigma> 0))"
  shows "\<exists>J. \<forall>j \<ge> J. \<sigma> j = \<sigma> J \<and> qs_queue (\<sigma> j) = {}"
proof -
  have moves: "\<sigma> (Suc i) = \<sigma> i \<or> (\<exists>ok. run_step ctl rec ok (\<sigma> i) (\<sigma> (Suc i)))" for i
    using run(1) by (simp add: only_runs_def)
  have fin: "finite (qs_queue (\<sigma> i))" for i by (rule only_runs_keep(3) [OF run(1) assms(3)])
  have ans: "answered (qs_client (\<sigma> i))" for i
    using assms(4) unread [OF only_runs_keep(1) [OF run(1), of i]] by (simp add: answered_def)
  have down: "work (\<sigma> (Suc i)) \<le> work (\<sigma> i)" for i 
    using moves [of i] run_works [OF _ fin] by (metis less_imp_le order_refl)
  have "\<exists>J. qs_queue (\<sigma> J) = {}" if "work (\<sigma> i) = w" for i w
    using that
  proof (induction w arbitrary: i rule: less_induct)
    case (less w)
    show ?case
    proof (cases "qs_queue (\<sigma> i) = {}")
      case False
      then obtain j where j: "i \<le> j" "run_step ctl rec True (\<sigma> j) (\<sigma> (Suc j))"
        using run(2) unfolding served_def by blast
      have "work (\<sigma> (Suc j)) < work (\<sigma> j)" using run_works [OF j(2) fin] ans by simp
      also have "work (\<sigma> j) \<le> work (\<sigma> i)" using lift_Suc_antimono_le [of "\<lambda>i. work (\<sigma> i)", OF down j(1)] .
      finally show ?thesis using less.IH less.prems by blast
    qed blast
  qed
  then obtain J where J: "qs_queue (\<sigma> J) = {}" by blast
  have "\<sigma> j = \<sigma> J" if "J \<le> j" for j
    using that
  proof (induction rule: dec_induct)
    case (step k)
    then have "\<not> run_step ctl rec ok (\<sigma> k) (\<sigma> (Suc k))" for ok using J by (auto elim: run_step.cases)
    with moves [of k] step show ?case by metis
  qed simp
  with J show ?thesis by metis
qed

lemma rest_is_current:
  assumes "queue_inv (\<sigma> 0)" "only_runs ctl rec \<sigma>" "qs_queue (\<sigma> j) = {}" "qs_objects (\<sigma> j) k = Some x"
    and "k \<in> qs_queue (\<sigma> 0) \<or> k \<notin> qs_missed (\<sigma> 0)"
  shows "oc_Written (rec (qs_client (\<sigma> j)) upd (Inr x)) = Some x"
proof -
  have "kept_up (\<sigma> 0) k" using queue_invD(2) [OF assms(1), of k] assms(5) by (auto simp: kept_up_def)
  from only_runs_keep(2) [OF assms(2) this] assms(3,4) show ?thesis
    by (auto simp: kept_up_def up_to_date_def)
qed

end

section \<open>The claim and the cluster policy reconcilers\<close>

definition claim_key :: "ModelClaim \<Rightarrow> object_key" where
  "claim_key = (\<lambda>x. (mcl_Namespace x, mcl_Name x))"

definition cluster_key :: "ClusterTokenPolicy \<Rightarrow> object_key" where
  "cluster_key = (\<lambda>x. ([], ctp_Name x))"

lemma claimsForAll_keys: "claimsForAll = requestsForAll claim_key"
  and clusterPoliciesForAll_keys: "clusterPoliciesForAll = requestsForAll cluster_key"
  by (simp_all add: claimsForAll_def clusterPoliciesForAll_def claim_key_def cluster_key_def)

lemma reads_of_Inr:
  "reads_of c0 c \<Longrightarrow> list_ClusterTokenPolicies c0 = Inr ctpl \<Longrightarrow> list_ClusterTokenPolicies c = Inr ctpl"
  "reads_of c0 c \<Longrightarrow> list_TokenPolicies c0 ns = Inr tpl \<Longrightarrow> list_TokenPolicies c ns = Inr tpl"
  "reads_of c0 c \<Longrightarrow> list_Namespaces c0 = Inr items \<Longrightarrow> list_Namespaces c = Inr items"
  by (auto simp: reads_of_def intro: answers_Inr)

lemma reads_of_labels:
  "reads_of c0 c \<Longrightarrow> reconciler_namespaceLabels c0 ns = Inr nsl \<Longrightarrow> reconciler_namespaceLabels c ns = Inr nsl"
proof -
  assume "reads_of c0 c" and ok: "reconciler_namespaceLabels c0 ns = Inr nsl"
  then have "answers (get_Namespace c0 ns) (get_Namespace c ns)" by (simp add: reads_of_def)
  with ok show ?thesis
    by (auto simp: answers_def reconciler_namespaceLabels_def IgnoreNotFound_def split: if_splits)
qed

text \<open>The run is a function of these reads.\<close>

lemma claim_reads:
  assumes "list_ClusterTokenPolicies c' = list_ClusterTokenPolicies c"
    and "list_TokenPolicies c' (mcl_Namespace mcl) = list_TokenPolicies c (mcl_Namespace mcl)"
    and "reconciler_namespaceLabels c' (mcl_Namespace mcl) = reconciler_namespaceLabels c (mcl_Namespace mcl)"
  shows "ModelClaim_Reconcile asSel setCond c' upd (Inr mcl) = ModelClaim_Reconcile asSel setCond c upd (Inr mcl)"
  using assms by (simp add: ModelClaim_Reconcile_def cong: sum.case_cong)

lemma claim_no_error:
  assumes "oc_Err (ModelClaim_Reconcile asSel setCond c upd (Inr mcl)) = None"
  obtains ctpl tpl nsl y where "list_ClusterTokenPolicies c = Inr ctpl"
    "list_TokenPolicies c (mcl_Namespace mcl) = Inr tpl" "reconciler_namespaceLabels c (mcl_Namespace mcl) = Inr nsl"
    "oc_Written (ModelClaim_Reconcile asSel setCond c upd (Inr mcl)) = Some y"
  using assms by (auto simp: ModelClaim_Reconcile_def Let_def split: sum.splits)

lemma claim_written_same:
  assumes "oc_Written (ModelClaim_Reconcile asSel setCond c upd (Inr mcl)) = Some mcl'"
  shows "mcl_Spec mcl' = mcl_Spec mcl" "mcl_Namespace mcl' = mcl_Namespace mcl" "claim_key mcl' = claim_key mcl"
  using assms by (auto simp: ModelClaim_Reconcile_def Let_def claim_key_def split: sum.splits if_splits)

lemma claim_watching:
  assumes "condition_setter setCond"
  shows "watching_controller CModelClaim (ModelClaim_Reconcile asSel setCond) claim_key"
proof
  fix k c c' upd and got :: "api_error + ModelClaim"
  assume change: "client_change k c c'" "k = reg_For (registered_as CModelClaim) \<or> k \<notin> set (watched CModelClaim)"
  show "ModelClaim_Reconcile asSel setCond c' upd got = ModelClaim_Reconcile asSel setCond c upd got"
  proof (cases got)
    case (Inr x)
    then show ?thesis
      using change by (auto simp: client_change_def watched_def ModelClaim_SetupWithManager_def
          reconciler_namespaceLabels_def intro!: claim_reads)
  qed (simp add: ModelClaim_Reconcile_def)
next
  fix c0 c upd x
  assume reads: "reads_of c0 c" and ok: "oc_Err (ModelClaim_Reconcile asSel setCond c0 upd (Inr x)) = None"
  from ok obtain ctpl tpl nsl y where r: "list_ClusterTokenPolicies c0 = Inr ctpl"
    "list_TokenPolicies c0 (mcl_Namespace x) = Inr tpl" "reconciler_namespaceLabels c0 (mcl_Namespace x) = Inr nsl"
    "oc_Written (ModelClaim_Reconcile asSel setCond c0 upd (Inr x)) = Some y"
    by (rule claim_no_error)
  have "ModelClaim_Reconcile asSel setCond c upd (Inr x) = ModelClaim_Reconcile asSel setCond c0 upd (Inr x)"
    using r reads_of_Inr [OF reads] reads_of_labels [OF reads] by (intro claim_reads) simp_all
  with r(4) show "\<exists>y. oc_Written (ModelClaim_Reconcile asSel setCond c0 upd (Inr x)) = Some y \<and>
      oc_Written (ModelClaim_Reconcile asSel setCond c upd (Inr x)) = Some y" by simp
qed (auto intro: condition_setter.claim_settles [OF assms] claim_written_same(3))

lemma cluster_watching:
  assumes "condition_setter setCond"
  shows "watching_controller CClusterTokenPolicy (ClusterTokenPolicy_Reconcile asSel setCond) cluster_key"
proof
  fix k c c' upd and got :: "api_error + ClusterTokenPolicy"
  assume "client_change k c c'"
    "k = reg_For (registered_as CClusterTokenPolicy) \<or> k \<notin> set (watched CClusterTokenPolicy)"
  then have "list_Namespaces c' = list_Namespaces c"
    by (auto simp: client_change_def watched_def ClusterTokenPolicy_SetupWithManager_def)
  then show "ClusterTokenPolicy_Reconcile asSel setCond c' upd got = ClusterTokenPolicy_Reconcile asSel setCond c upd got"
    by (simp add: ClusterTokenPolicy_Reconcile_def cong: sum.case_cong)
next
  fix c0 c upd x
  assume reads: "reads_of c0 c" and ok: "oc_Err (ClusterTokenPolicy_Reconcile asSel setCond c0 upd (Inr x)) = None"
  then obtain items where "list_Namespaces c0 = Inr items"
    by (auto simp: ClusterTokenPolicy_Reconcile_def split: sum.splits)
  with reads_of_Inr(3) [OF reads this] show "\<exists>y. oc_Written (ClusterTokenPolicy_Reconcile asSel setCond c0 upd (Inr x)) = Some y \<and>
      oc_Written (ClusterTokenPolicy_Reconcile asSel setCond c upd (Inr x)) = Some y"
    by (auto simp: ClusterTokenPolicy_Reconcile_def Let_def split: sum.splits)
next
  fix c upd x y
  assume "oc_Written (ClusterTokenPolicy_Reconcile asSel setCond c upd (Inr x)) = Some y"
  then show "cluster_key y = cluster_key x"
    by (auto simp: ClusterTokenPolicy_Reconcile_def Let_def cluster_key_def split: sum.splits)
qed (rule condition_setter.cluster_settles [OF assms])

interpretation claim_queue: watching_controller CModelClaim
  "ModelClaim_Reconcile std_selector replace_or_append" claim_key
  by (rule claim_watching [OF std_conditions.condition_setter_axioms])

interpretation cluster_queue: watching_controller CClusterTokenPolicy
  "ClusterTokenPolicy_Reconcile std_selector replace_or_append" cluster_key
  by (rule cluster_watching [OF std_conditions.condition_setter_axioms])

lemma claim_never_stale:
  assumes "condition_setter setCond"
    and "queue_reachable CModelClaim (ModelClaim_Reconcile asSel setCond) claim_key \<sigma>"
    and "qs_objects \<sigma> k = Some mcl" "k \<notin> qs_queue \<sigma>" "k \<notin> qs_missed \<sigma>"
  shows "oc_Written (ModelClaim_Reconcile asSel setCond (qs_client \<sigma>) upd (Inr mcl)) = Some mcl"
  by (rule watching_controller.never_stale [OF claim_watching [OF assms(1)] assms(2-5)])

lemma cluster_never_stale:
  assumes "condition_setter setCond"
    and "queue_reachable CClusterTokenPolicy (ClusterTokenPolicy_Reconcile asSel setCond) cluster_key \<sigma>"
    and "qs_objects \<sigma> k = Some ctp" "k \<notin> qs_queue \<sigma>" "k \<notin> qs_missed \<sigma>"
  shows "oc_Written (ClusterTokenPolicy_Reconcile asSel setCond (qs_client \<sigma>) upd (Inr ctp)) = Some ctp"
  by (rule watching_controller.never_stale [OF cluster_watching [OF assms(1)] assms(2-5)])

section \<open>Properties\<close>

text \<open>The status of a claim is Ready, and its phase the verdict of the policies the client reads.\<close>

definition claim_decided :: "selector_api \<Rightarrow> client \<Rightarrow> ModelClaim \<Rightarrow> bool" where
  "claim_decided asSel c mcl \<longleftrightarrow>
     condition_is ConditionReady ConditionTrue (mclst_Conditions (mcl_Status mcl)) \<and>
     (\<exists>effs.
        list_all2 (\<lambda>ident eff. resolveEffective asSel c (mcl_Namespace mcl) (id_podLabels ident) (id_sa ident) = Inr eff)
          (claimIdentities (mcls_Selector (mcl_Spec mcl))) effs \<and>
        mclst_Phase (mcl_Status mcl) =
          (if \<forall>m \<in> set (mcls_Models (mcl_Spec mcl)). \<forall>eff \<in> set effs.
                md_Allowed (Permit eff (mr_Provider m) (mr_Model m))
           then ClaimBound else ClaimDenied))"

lemma claim_decidedI:
  assumes "condition_setter setCond"
    and "oc_Written (ModelClaim_Reconcile asSel setCond c upd (Inr mcl)) = Some mcl"
    and "condition_is ConditionReady ConditionTrue (mclst_Conditions (mcl_Status mcl))"
  shows "claim_decided asSel c mcl"
  unfolding claim_decided_def
  by (rule claim_verdicts [OF assms]) (use assms(3) in \<open>auto simp: identity_eff_def list_all_iff permits_def\<close>)

text \<open>
  C19: A claim that is not waiting to be reconciled has a current status. In every execution of the
  claim controller, while others change policies, namespaces, credentials and claims, runs fail or
  succeed, and the List of \<open>claimsForAll\<close> is answered or fails: a claim outside the queue, for which no
  event was lost since its last completed run, would be written unchanged by another run; and when it
  is Ready, its phase is the verdict of the present policies: Bound when every model it requests is
  permitted for every identity its selector stands for, as admission resolves it now, Denied
  otherwise. It rests on the registration of the controller, which watches every kind it reads. An
  event is lost only when \<open>claimsForAll\<close> cannot list the claims and returns nothing: then a claim may stay
  stale (\<open>lost_event_leaves_claim_stale\<close>).
\<close>

theorem quiet_claim_is_current:
  assumes "condition_setter setCond"
    and "queue_reachable CModelClaim (ModelClaim_Reconcile asSel setCond) claim_key \<sigma>"
    and "qs_objects \<sigma> k = Some mcl" "k \<notin> qs_queue \<sigma>" "k \<notin> qs_missed \<sigma>"
  shows "oc_Written (ModelClaim_Reconcile asSel setCond (qs_client \<sigma>) upd (Inr mcl)) = Some mcl \<and>
    (condition_is ConditionReady ConditionTrue (mclst_Conditions (mcl_Status mcl)) \<longrightarrow>
      claim_decided asSel (qs_client \<sigma>) mcl)"
proof (intro conjI impI)
  show written: "oc_Written (ModelClaim_Reconcile asSel setCond (qs_client \<sigma>) upd (Inr mcl)) = Some mcl"
    by (rule claim_never_stale [OF assms])
  assume "condition_is ConditionReady ConditionTrue (mclst_Conditions (mcl_Status mcl))"
  then show "claim_decided asSel (qs_client \<sigma>) mcl" by (rule claim_decidedI [OF assms(1) written])
qed

text \<open>The claim of the samples is run twice: the second run finds its status current.\<close>

definition claim_started :: "ModelClaim queue_system" where
  "claim_started =
     \<lparr>qs_client = claims_client [good_claim], qs_objects = [claim_key good_claim \<mapsto> good_claim],
      qs_queue = {claim_key good_claim}, qs_missed = {}\<rparr>"

definition claim_rested :: "ModelClaim queue_system" where
  "claim_rested = claim_started\<lparr>qs_objects := [claim_key good_claim \<mapsto> claim_after good_claim], qs_queue := {}\<rparr>"

lemma claim_starts:
  "queue_reachable CModelClaim (ModelClaim_Reconcile std_selector replace_or_append) claim_key claim_started"
  by (rule queue_init) (auto simp: claim_started_def split: if_splits)

definition claim_ran :: "ModelClaim queue_system" where
  "claim_ran = claim_started\<lparr>qs_objects := [claim_key good_claim \<mapsto> claim_after good_claim]\<rparr>"

lemma claim_run_steps:
  "run_step CModelClaim (ModelClaim_Reconcile std_selector replace_or_append) True claim_started claim_ran"
  "run_step CModelClaim (ModelClaim_Reconcile std_selector replace_or_append) True claim_ran claim_rested"
proof -
  let ?rec = "ModelClaim_Reconcile std_selector replace_or_append"
  let ?c = "claims_client [good_claim]"
  let ?k = "claim_key good_claim" and ?x = "claim_after good_claim"
  have w1: "oc_Written (?rec ?c (\<lambda>_. None) (Inr good_claim)) = Some ?x"
    using claim_written(1) by (simp add: claim_run_def)
  have w2: "oc_Written (?rec ?c (\<lambda>_. None) (Inr ?x)) = Some ?x"
    by (rule condition_setter.claim_settles [OF std_conditions.condition_setter_axioms w1])
  have e: "oc_Err (?rec ?c (\<lambda>_. None) (Inr x)) = None"
    if "oc_Written (?rec ?c (\<lambda>_. None) (Inr x)) = Some y" for x y
    using that by (auto simp: ModelClaim_Reconcile_def Let_def split: sum.splits)
  have changed: "?x \<noteq> good_claim" by code_simp
  have "run_step CModelClaim ?rec True claim_started
      (claim_started\<lparr>qs_client := ?c, qs_objects := (qs_objects claim_started)(?k \<mapsto> ?x),
         qs_queue := (qs_queue claim_started - {?k}) \<union> (if ?x = good_claim then {} else {?k}),
         qs_missed := qs_missed claim_started - {?k}\<rparr>)"
    by (rule run_done [OF _ _ reads_of_refl _ refl, where upd = "\<lambda>_. None"])
      (use w1 e [OF w1] in \<open>simp_all add: claim_started_def client_change_refl\<close>)
  then show "run_step CModelClaim ?rec True claim_started claim_ran"
    using changed by (simp add: claim_ran_def claim_started_def)
  have "run_step CModelClaim ?rec True claim_ran
      (claim_ran\<lparr>qs_client := ?c, qs_objects := (qs_objects claim_ran)(?k \<mapsto> ?x),
         qs_queue := (qs_queue claim_ran - {?k}) \<union> (if ?x = ?x then {} else {?k}),
         qs_missed := qs_missed claim_ran - {?k}\<rparr>)"
    by (rule run_done [OF _ _ reads_of_refl _ refl, where upd = "\<lambda>_. None"])
      (use w2 e [OF w2] in \<open>simp_all add: claim_ran_def claim_started_def client_change_refl\<close>)
  then show "run_step CModelClaim ?rec True claim_ran claim_rested"
    by (simp add: claim_ran_def claim_rested_def claim_started_def)
qed

lemma claim_rests:
  "queue_reachable CModelClaim (ModelClaim_Reconcile std_selector replace_or_append) claim_key claim_rested"
  by (rule queue_run [OF queue_run [OF claim_starts claim_run_steps(1)] claim_run_steps(2)])

lemma claim_after_spec:
  "mcls_Selector (mcl_Spec (claim_after good_claim)) = Some batch_selector"
  "mcls_Models (mcl_Spec (claim_after good_claim)) =
     [\<lparr>mr_Provider = ''OpenAI'', mr_Model = ''gpt-4o-mini'', mr_CredentialRef = None\<rparr>]"
  "mcl_Namespace (claim_after good_claim) = ''team-a''"
  using claim_written_same [OF claim_written(1) [unfolded claim_run_def]]
  by (simp_all add: good_claim_def sample_claim_def)

theorem quiet_claim_is_current_witness:
  "oc_Written (ModelClaim_Reconcile std_selector replace_or_append (claims_client [good_claim]) (\<lambda>_. None)
     (Inr (claim_after good_claim))) = Some (claim_after good_claim) \<and>
   (\<exists>eff. resolveEffective std_selector (claims_client [good_claim]) ''team-a'' (Some [(''app'', ''batch-worker'')])
            ''batch-runner'' = Inr eff \<and> md_Allowed (Permit eff ''OpenAI'' ''gpt-4o-mini''))"
proof -
  have rested: "qs_objects claim_rested (claim_key good_claim) = Some (claim_after good_claim)"
    "claim_key good_claim \<notin> qs_queue claim_rested" "claim_key good_claim \<notin> qs_missed claim_rested"
    "qs_client claim_rested = claims_client [good_claim]"
    by (simp_all add: claim_rested_def claim_started_def)
  note quiet = quiet_claim_is_current [OF std_conditions.condition_setter_axioms claim_rests rested(1-3),
      unfolded rested(4) claim_after_spec]
  with claim_samples(3,5) obtain effs where
    "list_all2 (\<lambda>ident eff. resolveEffective std_selector (claims_client [good_claim]) ''team-a''
        (id_podLabels ident) (id_sa ident) = Inr eff) (claimIdentities (Some batch_selector)) effs"
    "\<forall>eff \<in> set effs. md_Allowed (Permit eff ''OpenAI'' ''gpt-4o-mini'')"
    by (fastforce simp: claim_decided_def claim_after_spec split: if_splits)
  then show ?thesis
    using quiet by (auto simp: claim_pod(4) worker_pod_def saOf_def list_all2_Cons1)
qed

text \<open>
  The event that is lost: a cluster policy now denies every model, the List of \<open>claimsForAll\<close> fails, and
  the claim stays Bound, outside the queue, although a run would deny it.
\<close>

definition deny_all :: ClusterTokenPolicy where
  "deny_all = org_default\<lparr>ctp_Spec := (ctp_Spec org_default)
     \<lparr>ctps_Models := [rule ActionDeny ''*'' ''*'' []]\<rparr>\<rparr>"

definition denying_client :: client where
  "denying_client = (claims_client [good_claim])\<lparr>list_ClusterTokenPolicies := Inr [deny_all]\<rparr>"

definition claim_missed :: "ModelClaim queue_system" where
  "claim_missed = claim_rested\<lparr>qs_client := denying_client, qs_missed := {claim_key good_claim}\<rparr>"

lemma lost_event_leaves_claim_stale:
  "queue_reachable CModelClaim (ModelClaim_Reconcile std_selector replace_or_append) claim_key claim_missed"
  "qs_queue claim_missed = {}" "qs_objects claim_missed (claim_key good_claim) = Some (claim_after good_claim)"
  "mclst_Phase (mcl_Status (claim_after good_claim)) = ClaimBound"
  "map_option (\<lambda>x. mclst_Phase (mcl_Status x)) (oc_Written (ModelClaim_Reconcile std_selector replace_or_append
     (qs_client claim_missed) (\<lambda>_. None) (Inr (claim_after good_claim)))) = Some ClaimDenied"
proof -
  have "change_step CModelClaim claim_key claim_rested
      (claim_rested\<lparr>qs_client := denying_client, qs_queue := qs_queue claim_rested \<union> {},
         qs_missed := qs_missed claim_rested \<union>
           (if KClusterTokenPolicy \<in> set (watched CModelClaim) then dom (qs_objects claim_rested) - {} else {})\<rparr>)"
    by (rule other_changed [where listed = "Inl (OtherError ''timeout'')"])
      (simp_all add: client_change_def denying_client_def claim_rested_def claim_started_def requestsForAll_def
        ModelClaim_SetupWithManager_def)
  then have "change_step CModelClaim claim_key claim_rested claim_missed"
    by (simp add: claim_missed_def claim_rested_def claim_started_def watched_def ModelClaim_SetupWithManager_def)
  then show "queue_reachable CModelClaim (ModelClaim_Reconcile std_selector replace_or_append) claim_key claim_missed"
    by (rule queue_changed [OF claim_rests])
  show "qs_queue claim_missed = {}" "qs_objects claim_missed (claim_key good_claim) = Some (claim_after good_claim)"
    by (simp_all add: claim_missed_def claim_rested_def claim_started_def)
  show "mclst_Phase (mcl_Status (claim_after good_claim)) = ClaimBound" by (rule claim_samples)
  have "qs_client claim_missed = denying_client" by (simp add: claim_missed_def)
  moreover have "map_option (\<lambda>x. mclst_Phase (mcl_Status x)) (oc_Written (ModelClaim_Reconcile std_selector
      replace_or_append denying_client (\<lambda>_. None) (Inr (claim_after good_claim)))) = Some ClaimDenied"
    by code_simp
  ultimately show "map_option (\<lambda>x. mclst_Phase (mcl_Status x)) (oc_Written (ModelClaim_Reconcile std_selector
      replace_or_append (qs_client claim_missed) (\<lambda>_. None) (Inr (claim_after good_claim)))) = Some ClaimDenied"
    by simp
qed

lemma claim_runs_spec:
  assumes "only_runs CModelClaim (ModelClaim_Reconcile asSel setCond) \<sigma>"
  shows "map_option mcl_Spec (qs_objects (\<sigma> i) k) = map_option mcl_Spec (qs_objects (\<sigma> 0) k)"
proof (induction i)
  case (Suc i)
  have "map_option mcl_Spec (qs_objects \<sigma>2 k) = map_option mcl_Spec (qs_objects \<sigma>1 k)"
    if "run_step CModelClaim (ModelClaim_Reconcile asSel setCond) ok \<sigma>1 \<sigma>2" for ok \<sigma>1 \<sigma>2
    using that by cases (auto split: option.split dest: claim_written_same(1))
  with assms Suc.IH show ?case unfolding only_runs_def by metis
qed simp

lemma claim_answered:
  assumes "\<exists>ctpl. list_ClusterTokenPolicies c = Inr ctpl" "\<forall>ns. \<exists>tpl. list_TokenPolicies c ns = Inr tpl"
    and "\<forall>ns. \<exists>nsl. reconciler_namespaceLabels c ns = Inr nsl"
  shows "oc_Err (ModelClaim_Reconcile asSel setCond c (\<lambda>_. None) (Inr mcl)) = None"
    and "oc_Err (ModelClaim_Reconcile asSel setCond c (\<lambda>_. None) (Inl (NotFound e))) = None"
proof -
  obtain ctpl tpl nsl where "list_ClusterTokenPolicies c = Inr ctpl" "list_TokenPolicies c (mcl_Namespace mcl) = Inr tpl"
    "reconciler_namespaceLabels c (mcl_Namespace mcl) = Inr nsl"
    using assms by blast
  then show "oc_Err (ModelClaim_Reconcile asSel setCond c (\<lambda>_. None) (Inr mcl)) = None"
    by (simp add: ModelClaim_Reconcile_def Let_def split: sum.split)
  show "oc_Err (ModelClaim_Reconcile asSel setCond c (\<lambda>_. None) (Inl (NotFound e))) = None"
    by (simp add: ModelClaim_Reconcile_def IgnoreNotFound_def)
qed

end
