(* ===== verification/Queue_Props.thy ===== *)
theory Queue_Props
  imports Queue_Machine CRD_Props
begin

text \<open>
  The claim controller and the pod webhook together: what a claim's status promises about pods,
  while policies, namespaces and claims change.
\<close>

section \<open>Claims at rest\<close>

text \<open>
  C16: The status of a claim can be relied on. In every execution of the claim controller, consider a
  pod that declares no models by annotation and whose label map and service account are, exactly, one
  of the identities of every claim that matches it (as with the label sets a claim spells out; a pod
  with further labels is another identity). When each of these claims waits for no run, has lost no
  event since its last completed one, and shows Ready and Bound, the pod webhook admits the pod
  against the present policies, without a warning: however the policies have changed since the
  status was written.
\<close>

theorem quiet_bound_claims_admit:
  assumes "condition_setter setCond"
    and "queue_reachable CModelClaim (ModelClaim_Reconcile asSel setCond) claim_key \<sigma>"
    and ns: "ns = namespaceFromCtx ctx (pod_Namespace pod)" "list_ModelClaims (qs_client \<sigma>) ns = Inr items"
      "\<forall>cl \<in> set items. mcl_Namespace cl = ns \<and> qs_objects \<sigma> (claim_key cl) = Some cl"
    and "parseModels pod = []"
    and bound: "\<forall>cl \<in> set items. claimMatches asSel pod cl \<longrightarrow>
      claim_key cl \<notin> qs_queue \<sigma> \<and> claim_key cl \<notin> qs_missed \<sigma> \<and>
      condition_is ConditionReady ConditionTrue (mclst_Conditions (mcl_Status cl)) \<and>
      mclst_Phase (mcl_Status cl) = ClaimBound \<and>
      \<lparr>id_podLabels = pod_Labels pod, id_sa = saOf pod\<rparr> \<in> set (claimIdentities (mcls_Selector (mcl_Spec cl)))"
  shows "ar_Err (pod_validate asSel cfg (qs_client \<sigma>) ctx (PodObject pod)) = None \<and>
    ar_Warnings (pod_validate asSel cfg (qs_client \<sigma>) ctx (PodObject pod)) = []"
proof (rule bound_claims_admit [OF assms(1) ns(1,2) _ assms(6)])
  show "\<forall>cl \<in> set items. mcl_Namespace cl = ns" using ns(3) by blast
  show "\<forall>cl \<in> set items. claimMatches asSel pod cl \<longrightarrow>
      (\<exists>cl'. oc_Written (ModelClaim_Reconcile asSel setCond (qs_client \<sigma>) (\<lambda>_. None) (Inr cl)) = Some cl' \<and>
             condition_is ConditionReady ConditionTrue (mclst_Conditions (mcl_Status cl')) \<and>
             mclst_Phase (mcl_Status cl') = ClaimBound) \<and>
      \<lparr>id_podLabels = pod_Labels pod, id_sa = saOf pod\<rparr> \<in> set (claimIdentities (mcls_Selector (mcl_Spec cl)))"
    using bound ns(3) claim_never_stale [OF assms(1,2)] by blast
qed

text \<open>The claim of the samples at rest, listed with its status.\<close>

definition claim_listed :: "ModelClaim queue_system" where
  "claim_listed = claim_rested\<lparr>qs_client := claims_client [claim_after good_claim]\<rparr>"

lemma claims_change: "client_change KModelClaim (claims_client xs) (claims_client ys)"
  by (simp add: client_change_def claims_client_def client_of_def)

lemma claim_is_listed:
  "queue_reachable CModelClaim (ModelClaim_Reconcile std_selector replace_or_append) claim_key claim_listed"
proof -
  let ?rec = "ModelClaim_Reconcile std_selector replace_or_append"
  let ?c = "claims_client [claim_after good_claim]" and ?x = "claim_after good_claim"
  let ?put = "claim_rested\<lparr>qs_client := ?c, qs_objects := (qs_objects claim_rested)(claim_key ?x \<mapsto> ?x),
    qs_queue := insert (claim_key ?x) (qs_queue claim_rested)\<rparr>"
  have same: "claim_key ?x = claim_key good_claim"
    by (rule claim_written_same(3) [OF claim_written(1) [unfolded claim_run_def]])
  have own: "reg_For (registered_as CModelClaim) = KModelClaim" by (simp add: ModelClaim_SetupWithManager_def)
  have client: "qs_client claim_rested = claims_client [good_claim]"
    by (simp add: claim_rested_def claim_started_def)
  have put: "queue_reachable CModelClaim ?rec claim_key ?put"
    by (rule queue_changed [OF claim_rests], rule object_put) (simp only: own client claims_change)
  have w: "oc_Written (?rec ?c (\<lambda>_. None) (Inr ?x)) = Some ?x"
    using claim_queue.never_stale [OF claim_rests, of "claim_key good_claim" ?x]
      claim_queue.unread [OF claims_change [of "[good_claim]" "[?x]"], of "\<lambda>_. None" "Inr ?x"] own client
    by (simp add: claim_rested_def claim_started_def)
  have "oc_Err (?rec ?c (\<lambda>_. None) (Inr ?x)) = None"
    using w by (auto simp: ModelClaim_Reconcile_def Let_def split: sum.splits)
  with w have "run_step CModelClaim ?rec True ?put
      (?put\<lparr>qs_client := ?c, qs_objects := (qs_objects ?put)(claim_key ?x \<mapsto> ?x),
         qs_queue := (qs_queue ?put - {claim_key ?x}) \<union> (if ?x = ?x then {} else {claim_key ?x}),
         qs_missed := qs_missed ?put - {claim_key ?x}\<rparr>)"
    by (intro run_done [OF _ _ reads_of_refl _ refl, where upd = "\<lambda>_. None"]) (simp_all add: client_change_refl)
  from queue_run [OF put this] same show ?thesis
    by (simp add: claim_listed_def claim_rested_def claim_started_def)
qed

theorem quiet_bound_claims_admit_witness:
  "ar_Err (pod_validate std_selector claim_config (claims_client [claim_after good_claim]) None
     (PodObject (worker_pod []))) = None"
proof -
  have listed: "qs_client claim_listed = claims_client [claim_after good_claim]"
    "qs_objects claim_listed = [claim_key good_claim \<mapsto> claim_after good_claim]" "qs_queue claim_listed = {}"
    "qs_missed claim_listed = {}"
    by (simp_all add: claim_listed_def claim_rested_def claim_started_def)
  have same: "claim_key (claim_after good_claim) = claim_key good_claim"
    by (rule claim_written_same(3) [OF claim_written(1) [unfolded claim_run_def]])
  have "ar_Err (pod_validate std_selector claim_config (qs_client claim_listed) None (PodObject (worker_pod []))) = None \<and>
    ar_Warnings (pod_validate std_selector claim_config (qs_client claim_listed) None (PodObject (worker_pod []))) = []"
    by (rule quiet_bound_claims_admit [OF std_conditions.condition_setter_axioms claim_is_listed,
          where ns = "''team-a''" and items = "[claim_after good_claim]"])
      (use claim_samples(3,5) in \<open>simp_all add: listed same namespaceFromCtx_def claim_pod claim_after_spec\<close>)
  then show ?thesis by (simp add: listed)
qed

section \<open>The way to rest\<close>

lemma admitted_claim_resolves:
  assumes "\<forall>ctp \<in> set ctpl. \<exists>c. cluster_accepted asSel c ctp" "\<forall>tp \<in> set tpl. \<exists>c. policy_accepted asSel c tp"
  shows "\<exists>res. resolveClaim asSel mcl ctpl tpl nsl = Inr res"
proof -
  have "\<exists>eff. Resolve asSel (identity_input mcl ctpl tpl nsl ident) = Inr eff" for ident
    by (rule admitted_resolves) (use assms in \<open>simp_all add: identity_input_def\<close>)
  then obtain effs where "mapR (\<lambda>ident. Resolve asSel (identity_input mcl ctpl tpl nsl ident))
      (claimIdentities (mcls_Selector (mcl_Spec mcl))) = Inr effs"
    using mapR_total by metis
  then show ?thesis by (simp add: resolveClaim_def)
qed

lemma admitted_claim_decided:
  assumes "condition_setter setCond"
    and "oc_Written (ModelClaim_Reconcile asSel setCond c upd (Inr mcl)) = Some mcl"
    and "list_ClusterTokenPolicies c = Inr ctpl" "\<forall>ctp \<in> set ctpl. \<exists>c. cluster_accepted asSel c ctp"
    and "list_TokenPolicies c (mcl_Namespace mcl) = Inr tpl" "\<forall>tp \<in> set tpl. \<exists>c. policy_accepted asSel c tp"
  shows "claim_decided asSel c mcl"
proof -
  have ready: "condition_is ConditionReady ConditionTrue (mclst_Conditions (mcl_Status mcl))"
  proof -
    obtain nsl where nsl: "reconciler_namespaceLabels c (mcl_Namespace mcl) = Inr nsl"
      using assms(2,3,5) by (auto simp: ModelClaim_Reconcile_def split: sum.splits)
    obtain res where res: "resolveClaim asSel mcl ctpl tpl nsl = Inr res"
      using admitted_claim_resolves [OF assms(4,6)] by blast
    have "condition_is ConditionReady ConditionTrue (mclst_Conditions (mcl_Status
        (the (oc_Written (ModelClaim_Reconcile asSel setCond c upd (Inr mcl))))))"
      using assms(3,5) nsl res
      by (simp add: ModelClaim_Reconcile_def Let_def with_conditions_def condition_is_set [OF assms(1)])
    then show ?thesis by (simp add: assms(2))
  qed
  show ?thesis by (rule claim_decidedI [OF assms(1,2) ready])
qed

text \<open>
  C20: The claim controller comes to rest, and then the claims are decided. From a state that an
  execution reaches with finitely many claims waiting, let only the controller act, in any order and
  with any failures, such that while claims wait a run that the API server answers comes at some time;
  let the policies be readable and each have passed admission at some time, and the namespaces be
  readable. Then every such execution comes, at some moment, to a state that never changes again, in
  which no claim waits. It holds the same claims with the same specs, and every claim that was
  waiting or had lost no event would be written as it is by another run, and is Ready, Bound when the
  present policies permit its models for all its identities and Denied otherwise.
\<close>

theorem claims_come_to_rest:
  assumes "condition_setter setCond"
    and "queue_reachable CModelClaim (ModelClaim_Reconcile asSel setCond) claim_key (\<sigma> 0)"
    and fin: "finite (qs_queue (\<sigma> 0))"
    and exec: "only_runs CModelClaim (ModelClaim_Reconcile asSel setCond) \<sigma>"
      "served CModelClaim (ModelClaim_Reconcile asSel setCond) \<sigma>"
    and cluster: "list_ClusterTokenPolicies (qs_client (\<sigma> 0)) = Inr ctpl"
      "\<forall>ctp \<in> set ctpl. \<exists>c. cluster_accepted asSel c ctp"
    and ns: "\<forall>ns. \<exists>tpl. list_TokenPolicies (qs_client (\<sigma> 0)) ns = Inr tpl \<and>
      (\<forall>tp \<in> set tpl. \<exists>c. policy_accepted asSel c tp)"
    and labels: "\<forall>ns. \<exists>nsl. reconciler_namespaceLabels (qs_client (\<sigma> 0)) ns = Inr nsl"
  shows "\<exists>J. \<forall>j \<ge> J. \<sigma> j = \<sigma> J \<and> qs_queue (\<sigma> j) = {} \<and>
    (\<forall>k. map_option mcl_Spec (qs_objects (\<sigma> j) k) = map_option mcl_Spec (qs_objects (\<sigma> 0) k)) \<and>
    (\<forall>k mcl upd. qs_objects (\<sigma> j) k = Some mcl \<longrightarrow> k \<in> qs_queue (\<sigma> 0) \<or> k \<notin> qs_missed (\<sigma> 0) \<longrightarrow>
       oc_Written (ModelClaim_Reconcile asSel setCond (qs_client (\<sigma> j)) upd (Inr mcl)) = Some mcl \<and>
       claim_decided asSel (qs_client (\<sigma> j)) mcl)"
proof -
  let ?rec = "ModelClaim_Reconcile asSel setCond"
  note w = claim_watching [OF assms(1), of asSel]
  have reads: "\<exists>ctpl. list_ClusterTokenPolicies (qs_client (\<sigma> 0)) = Inr ctpl"
    "\<forall>ns. \<exists>tpl. list_TokenPolicies (qs_client (\<sigma> 0)) ns = Inr tpl"
    using cluster(1) ns by blast+
  have "watching_controller.answered ?rec (qs_client (\<sigma> 0))"
    unfolding watching_controller.answered_def [OF w] using claim_answered [OF reads labels] by blast
  from watching_controller.comes_to_rest [OF w exec fin this]
  obtain J where J: "\<And>j. J \<le> j \<Longrightarrow> \<sigma> j = \<sigma> J \<and> qs_queue (\<sigma> j) = {}" by blast
  have inv: "watching_controller.queue_inv ?rec claim_key (\<sigma> 0)"
    by (rule watching_controller.queue_inv_reachable [OF w assms(2)])
  have same: "list_ClusterTokenPolicies (qs_client (\<sigma> j)) = list_ClusterTokenPolicies (qs_client (\<sigma> 0))"
    "list_TokenPolicies (qs_client (\<sigma> j)) = list_TokenPolicies (qs_client (\<sigma> 0))" for j
    using watching_controller.only_runs_keep(1) [OF w exec(1), of j]
    by (simp_all add: client_change_def ModelClaim_SetupWithManager_def)
  have current: "oc_Written (?rec (qs_client (\<sigma> j)) upd (Inr mcl)) = Some mcl"
    if "J \<le> j" "qs_objects (\<sigma> j) k = Some mcl" "k \<in> qs_queue (\<sigma> 0) \<or> k \<notin> qs_missed (\<sigma> 0)" for j k mcl upd
    using watching_controller.rest_is_current [OF w inv exec(1) _ that(2,3)] J [OF that(1)] by blast
  have "claim_decided asSel (qs_client (\<sigma> j)) mcl"
    if "J \<le> j" "qs_objects (\<sigma> j) k = Some mcl" "k \<in> qs_queue (\<sigma> 0) \<or> k \<notin> qs_missed (\<sigma> 0)" for j k mcl
    using admitted_claim_decided [OF assms(1) current [OF that], unfolded same [of j], OF cluster] ns by blast
  with J current claim_runs_spec [OF exec(1)] show ?thesis by blast
qed

text \<open>The sample execution: two runs, then nothing.\<close>

definition claim_exec :: "nat \<Rightarrow> ModelClaim queue_system" where
  "claim_exec i = (if i = 0 then claim_started else if i = 1 then claim_ran else claim_rested)"

lemma claim_exec_runs:
  "only_runs CModelClaim (ModelClaim_Reconcile std_selector replace_or_append) claim_exec"
  "served CModelClaim (ModelClaim_Reconcile std_selector replace_or_append) claim_exec"
proof -
  note run = claim_run_steps
  show "only_runs CModelClaim (ModelClaim_Reconcile std_selector replace_or_append) claim_exec"
    unfolding only_runs_def using run by (auto simp: claim_exec_def)
  show "served CModelClaim (ModelClaim_Reconcile std_selector replace_or_append) claim_exec"
    unfolding served_def
  proof (intro allI impI)
    fix i assume "qs_queue (claim_exec i) \<noteq> {}"
    then have "i \<le> 1" by (auto simp: claim_exec_def claim_rested_def split: if_splits)
    then show "\<exists>j \<ge> i. run_step CModelClaim (ModelClaim_Reconcile std_selector replace_or_append) True
        (claim_exec j) (claim_exec (Suc j))"
      using run(2) by (intro exI [of _ 1]) (simp add: claim_exec_def)
  qed
qed

theorem claims_come_to_rest_witness:
  "\<exists>J. \<forall>j \<ge> J. qs_queue (claim_exec j) = {} \<and>
    map_option mcl_Spec (qs_objects (claim_exec j) (claim_key good_claim)) = Some (mcl_Spec good_claim)"
proof -
  have start: "claim_exec 0 = claim_started" by (simp add: claim_exec_def)
  have labels: "\<forall>ns. \<exists>nsl. reconciler_namespaceLabels (qs_client claim_started) ns = Inr nsl"
    by (auto simp: claim_started_def claims_client_def client_of_def answer_def reconciler_namespaceLabels_def
        IgnoreNotFound_def split: option.splits sum.splits)
  have accepted: "cluster_accepted std_selector sample_client org_default"
    "policy_accepted std_selector sample_client ns_default" "policy_accepted std_selector sample_client batch_workers"
    by code_simp+
  have cluster: "list_ClusterTokenPolicies (qs_client claim_started) = Inr [org_default]"
    "\<forall>ctp \<in> set [org_default]. \<exists>c. cluster_accepted std_selector c ctp"
    using accepted(1) by (auto simp: claim_started_def claims_client_def client_of_def sample_cluster_def)
  have ns: "\<forall>ns. \<exists>tpl. list_TokenPolicies (qs_client claim_started) ns = Inr tpl \<and>
      (\<forall>tp \<in> set tpl. \<exists>c. policy_accepted std_selector c tp)"
    using accepted(2,3) by (auto simp: claim_started_def claims_client_def client_of_def sample_cluster_def)
  have obj: "finite (qs_queue claim_started)" "qs_objects claim_started (claim_key good_claim) = Some good_claim"
    by (simp_all add: claim_started_def)
  from claims_come_to_rest [OF std_conditions.condition_setter_axioms _ _ claim_exec_runs, unfolded start,
      OF claim_starts obj(1) cluster ns labels]
  obtain J where J: "j \<ge> J \<Longrightarrow> qs_queue (claim_exec j) = {} \<and>
      (\<forall>k. map_option mcl_Spec (qs_objects (claim_exec j) k) = map_option mcl_Spec (qs_objects claim_started k))" for j
    by blast
  have "map_option mcl_Spec (qs_objects claim_started (claim_key good_claim)) = Some (mcl_Spec good_claim)"
    by (simp only: obj(2) option.map)
  with J have "qs_queue (claim_exec j) = {} \<and>
      map_option mcl_Spec (qs_objects (claim_exec j) (claim_key good_claim)) = Some (mcl_Spec good_claim)" if "J \<le> j" for j
    using that by metis
  then show ?thesis by blast
qed

end
