(* ===== verification/Credential_Queue.thy ===== *)
theory Credential_Queue
  imports Queue_Machine
begin

text \<open>
  The credential controller with its queue and its timers. \<open>Cluster_Machine\<close> lets the reconciler run
  at any time; here a run takes its credential from the queue, which is filled by the watches of
  the registration, unless the List of \<open>credentialsForAll\<close> fails, by failed runs and by the timers
  that \<open>RequeueAfter\<close> starts. Secrets are not watched, so only the timers repair replicas that others
  change.
\<close>

section \<open>The machine\<close>

record 's credential_queue =
  cq_System :: "'s system"
  cq_Waiting :: "string set"
  cq_Timers :: "string set"

text \<open>
  How the API server treats the Secret client in a run: any call may fail; it lists the replicas, and
  deletes a Secret or says that it is gone; or it answers every call of the run.
\<close>

datatype run_mode = Failing | Pruning | Healthy

definition prunes :: "'s secret_client \<Rightarrow> bool" where
  "prunes sc \<longleftrightarrow>
     (\<forall>s n. \<exists>xs. sc_List sc s n = Inr xs) \<and> (\<forall>s k e. snd (sc_Delete sc s k) = Some e \<longrightarrow> IsNotFound e)"

text \<open>
  \<open>Lost\<close> is a change of a watched kind for which \<open>credentialsForAll\<close> cannot list the credentials:
  it returns nothing, so that the event enqueues nothing.
\<close>

datatype queue_event = Change action | Lost | Fire string | Gone string | Run string run_mode

text \<open>
  A run without an error leaves the queue, unless it changed the status, which the watch reports; it
  starts a timer when it asks for one. A run with an error stays in the queue.
\<close>

inductive queue_step ::
  "selector_api \<Rightarrow> set_condition \<Rightarrow> ('s \<Rightarrow> string \<times> string \<Rightarrow> Secret option)
     \<Rightarrow> set_secret_owner \<Rightarrow> string \<Rightarrow> 's credential_queue \<Rightarrow> queue_event \<Rightarrow> 's credential_queue \<Rightarrow> bool"
  for asSel setCond view own opns
where
  kind_changed: "client_change k (sys_client (cq_System q)) c \<Longrightarrow> k \<noteq> reg_For (registered_as CModelCredential) \<Longrightarrow>
    set items = ran (sys_credentials (cq_System q)) \<Longrightarrow>
    queue_step asSel setCond view own opns q (Change ClusterChange)
      (q\<lparr>cq_System := (cq_System q)\<lparr>sys_client := c\<rparr>,
         cq_Waiting := cq_Waiting q \<union>
           (if k \<in> set (watched CModelCredential) then snd ` set (credentialsForAll (Inr items)) else {})\<rparr>)"
| event_lost: "client_change k (sys_client (cq_System q)) c \<Longrightarrow> k \<in> set (watched CModelCredential) \<Longrightarrow>
    queue_step asSel setCond view own opns q Lost
      (q\<lparr>cq_System := (cq_System q)\<lparr>sys_client := c\<rparr>,
         cq_Waiting := cq_Waiting q \<union> snd ` set (credentialsForAll (Inl err))\<rparr>)"
| credential_changed: "sys_step asSel setCond view own opns (cq_System q) (CredentialChange n) \<sigma> \<Longrightarrow>
    client_change KModelCredential (sys_client \<sigma>) c \<Longrightarrow>
    queue_step asSel setCond view own opns q (Change (CredentialChange n))
      (q\<lparr>cq_System := \<sigma>\<lparr>sys_client := c\<rparr>, cq_Waiting := insert n (cq_Waiting q)\<rparr>)"
| secret_changed: "sys_step asSel setCond view own opns (cq_System q) (SecretChange k) \<sigma> \<Longrightarrow>
    queue_step asSel setCond view own opns q (Change (SecretChange k)) (q\<lparr>cq_System := \<sigma>\<rparr>)"
| timer_fires: "n \<in> cq_Timers q \<Longrightarrow>
    queue_step asSel setCond view own opns q (Fire n)
      (q\<lparr>cq_Waiting := insert n (cq_Waiting q), cq_Timers := cq_Timers q - {n}\<rparr>)"
| credential_gone: "n \<in> cq_Waiting q \<Longrightarrow> sys_credentials (cq_System q) n = None \<Longrightarrow>
    ModelCredential_Reconcile asSel setCond c0 sc own order opns upd (Inl (NotFound e)) (sys_store (cq_System q)) =
      (sys_store (cq_System q), out) \<Longrightarrow> oc_Err out = None \<Longrightarrow>
    queue_step asSel setCond view own opns q (Gone n) (q\<lparr>cq_Waiting := cq_Waiting q - {n}\<rparr>)"
| credential_run: "n \<in> cq_Waiting q \<Longrightarrow> sys_credentials (cq_System q) n = Some mc \<Longrightarrow>
    replica_store sc view own \<Longrightarrow> (\<And>xs. mset (order xs) = mset xs) \<Longrightarrow>
    reads_of c0 (sys_client (cq_System q)) \<Longrightarrow>
    (mode = Pruning \<Longrightarrow> prunes sc) \<Longrightarrow>
    (mode = Healthy \<Longrightarrow> healthy view sc own \<and> c0 = sys_client (cq_System q)) \<Longrightarrow>
    ModelCredential_Reconcile asSel setCond c0 sc own order opns upd (Inr mc) (sys_store (cq_System q)) = (s, out) \<Longrightarrow>
    creds = after_write n out (sys_credentials (cq_System q)) \<Longrightarrow>
    client_change KModelCredential (sys_client (cq_System q)) c \<Longrightarrow>
    queue_step asSel setCond view own opns q (Run n mode)
      (q\<lparr>cq_System := (cq_System q)\<lparr>sys_store := s, sys_credentials := creds, sys_client := c\<rparr>,
         cq_Waiting := (if oc_Err out = None \<and> creds n = Some mc then cq_Waiting q - {n} else cq_Waiting q),
         cq_Timers := (if oc_Err out = None \<and> oc_RequeueAfter out \<noteq> 0 then insert n (cq_Timers q) else cq_Timers q)\<rparr>)"

inductive_cases queue_stepE: "queue_step asSel setCond view own opns q ev q'"

inductive_simps fire_step: "queue_step asSel setCond view own opns q (Fire n) q'"

text \<open>At its start the controller finds every credential in its queue.\<close>

definition queue_start :: "'s credential_queue \<Rightarrow> bool" where
  "queue_start q \<longleftrightarrow>
     well_named (cq_System q) \<and> dom (sys_credentials (cq_System q)) \<subseteq> cq_Waiting q"

definition queue_runs ::
  "selector_api \<Rightarrow> set_condition \<Rightarrow> ('s \<Rightarrow> string \<times> string \<Rightarrow> Secret option)
     \<Rightarrow> set_secret_owner \<Rightarrow> string \<Rightarrow> nat \<Rightarrow> (nat \<Rightarrow> 's credential_queue) \<Rightarrow> (nat \<Rightarrow> queue_event) \<Rightarrow> bool" where
  "queue_runs asSel setCond view own opns m q ev \<longleftrightarrow>
     queue_start (q 0) \<and> (\<forall>i < m. queue_step asSel setCond view own opns (q i) (ev i) (q (Suc i)))"

lemma queue_runs_Suc:
  "queue_runs asSel setCond view own opns (Suc m) q ev \<longleftrightarrow>
     queue_runs asSel setCond view own opns m q ev \<and>
     queue_step asSel setCond view own opns (q m) (ev m) (q (Suc m))"
  by (auto simp: queue_runs_def less_Suc_eq)

text \<open>An invariant of the steps holds along an execution.\<close>

lemma queue_runs_invariant:
  assumes "queue_runs asSel setCond view own opns m q ev"
    and "\<And>q. queue_start q \<Longrightarrow> I q"
    and "\<And>q ev q'. queue_step asSel setCond view own opns q ev q' \<Longrightarrow> I q \<Longrightarrow> I q'"
  shows "I (q m)"
  using assms(1)
proof (induction m)
  case 0
  then show ?case using assms(2) by (simp add: queue_runs_def)
next
  case (Suc m)
  then show ?case using assms(3) by (auto simp: queue_runs_Suc)
qed

section \<open>The machine without its queue\<close>

text \<open>A change of another kind than namespaces does not change who is authorized.\<close>

lemma authorizedNamespaces_change:
  "client_change k c c' \<Longrightarrow> k \<noteq> KNamespace \<Longrightarrow> authorizedNamespaces asSel c' mc = authorizedNamespaces asSel c mc"
  by (simp add: client_change_def authorizedNamespaces_def Let_def cong: option.case_cong)

lemma run_projects:
  assumes "queue_step asSel setCond view own opns q (Run n mode) q'"
  obtains \<sigma> c where "sys_step asSel setCond view own opns (cq_System q) (Reconcile n (mode = Healthy)) \<sigma>"
    "client_change KModelCredential (sys_client \<sigma>) c" "cq_System q' = \<sigma>\<lparr>sys_client := c\<rparr>"
  using assms
proof cases
  case (credential_run mc sc order c0 upd s out creds c)
  show thesis
  proof (rule that)
    show "sys_step asSel setCond view own opns (cq_System q) (Reconcile n (mode = Healthy))
        ((cq_System q)\<lparr>sys_store := s, sys_credentials := after_write n out (sys_credentials (cq_System q))\<rparr>)"
      by (rule reconciled [OF credential_run(4-6) _ credential_run(3,9)]) (rule credential_run(8))
  qed (simp_all add: credential_run(1,10,11))
qed

lemma well_named_client: "well_named (\<sigma>\<lparr>sys_client := c\<rparr>) = well_named \<sigma>"
  by (simp add: well_named_def)

lemma queue_well_named:
  assumes "queue_step asSel setCond view own opns q ev q'" "well_named (cq_System q)"
  shows "well_named (cq_System q')"
proof (cases ev)
  case (Run n mode)
  with assms obtain \<sigma> c where "sys_step asSel setCond view own opns (cq_System q) (Reconcile n (mode = Healthy)) \<sigma>"
    "cq_System q' = \<sigma>\<lparr>sys_client := c\<rparr>"
    using run_projects by metis
  with well_named_step assms(2) show ?thesis by (metis well_named_client)
qed (use assms in \<open>auto elim!: queue_stepE simp: well_named_client intro: well_named_step\<close>)

section \<open>No credential is forgotten\<close>

text \<open>A run that returns no error asks for another one.\<close>

lemma ok_run_requeues:
  assumes "ModelCredential_Reconcile asSel setCond c sc own order opns upd (Inr mc) s = (s', out)" "oc_Err out = None"
  shows "oc_RequeueAfter out \<noteq> 0"
  using assms
  by (auto simp: ModelCredential_Reconcile_def reconcile_resolved_def Let_def case_prod_beta
      split: sum.splits option.splits if_splits)




section \<open>Revoked namespaces\<close>

text \<open>
  When the credential is at rest with its key found, its Secrets lie where they may, but for those of
  which \<open>P\<close> holds.
\<close>

definition confined ::
  "selector_api \<Rightarrow> ('s \<Rightarrow> string \<times> string \<Rightarrow> Secret option) \<Rightarrow> string \<Rightarrow> (string \<times> string \<Rightarrow> Secret \<Rightarrow> bool)
     \<Rightarrow> 's credential_queue \<Rightarrow> bool" where
  "confined asSel view n P q \<longleftrightarrow>
     (\<forall>mc auth k x. sys_credentials (cq_System q) n = Some mc \<longrightarrow> n \<notin> cq_Waiting q \<longrightarrow>
        mcst_SecretResolved (mc_Status mc) \<longrightarrow> authorizedNamespaces asSel (sys_client (cq_System q)) mc = Inr auth \<longrightarrow>
        view (sys_store (cq_System q)) k = Some x \<longrightarrow> has_label LabelCredential n x \<longrightarrow> fst k \<in> set auth \<or> P k x)"

lemma confinedI:
  assumes "\<And>mc auth k x. sys_credentials (cq_System q) n = Some mc \<Longrightarrow> n \<notin> cq_Waiting q \<Longrightarrow>
      mcst_SecretResolved (mc_Status mc) \<Longrightarrow> authorizedNamespaces asSel (sys_client (cq_System q)) mc = Inr auth \<Longrightarrow>
      view (sys_store (cq_System q)) k = Some x \<Longrightarrow> has_label LabelCredential n x \<Longrightarrow> fst k \<in> set auth \<or> P k x"
  shows "confined asSel view n P q"
  using assms by (simp add: confined_def)

lemma confinedD:
  "confined asSel view n P q \<Longrightarrow> sys_credentials (cq_System q) n = Some mc \<Longrightarrow> n \<notin> cq_Waiting q \<Longrightarrow>
     mcst_SecretResolved (mc_Status mc) \<Longrightarrow> authorizedNamespaces asSel (sys_client (cq_System q)) mc = Inr auth \<Longrightarrow>
     view (sys_store (cq_System q)) k = Some x \<Longrightarrow> has_label LabelCredential n x \<Longrightarrow> fst k \<in> set auth \<or> P k x"
  unfolding confined_def by blast

lemma confined_weaken: "confined asSel view n P q \<Longrightarrow> (\<And>k x. P k x \<Longrightarrow> P' k x) \<Longrightarrow> confined asSel view n P' q"
  unfolding confined_def by blast

text \<open>A run that leaves the credential at rest, with its key resolved, has pruned.\<close>

lemma resting_run_prunes:
  assumes "prunes sc" "replica_store sc view own" "reads_of c0 c"
    and run: "ModelCredential_Reconcile asSel setCond c0 sc own order opns upd (Inr mc) s = (s', out)"
    and rest: "oc_Err out = None" "after_write n out creds n = Some mc"
    and "mcst_SecretResolved (mc_Status mc)" "authorizedNamespaces asSel c mc = Inr auth"
    and "view s' k = Some x" "has_label LabelCredential (mc_Name mc) x"
  shows "fst k \<in> set auth"
proof -
  have "oc_Written out \<noteq> None" using run rest(1)
    by (auto simp: ModelCredential_Reconcile_def reconcile_resolved_def Let_def case_prod_beta
        split: sum.splits option.splits if_splits)
  with rest have written: "oc_Written out = Some mc" by (auto simp: after_write_def)
  obtain auth0 where "authorizedNamespaces asSel c0 mc = Inr auth0"
    using Reconcile_resolved [OF run written assms(7)] by metis
  moreover from authorizedNamespaces_reads [OF this assms(3)] assms(8) have "auth0 = auth" by simp
  ultimately show ?thesis
    using replicas_only_where_authorized [OF assms(2) _ _ run written assms(7)] assms(1,9,10)
    unfolding prunes_def by blast
qed

lemma healthy_prunes: "healthy view sc own \<Longrightarrow> prunes sc"
  by (simp add: healthy_def store_works_def prunes_def)

text \<open>
  A step keeps the Secrets of a credential confined, but for those that others store, when no event is
  lost and a run of this credential prunes.
\<close>

lemma confined_step:
  assumes step: "queue_step asSel setCond view own opns q ev q'" and ev: "ev \<noteq> Lost" "ev \<noteq> Run n Failing"
    and names: "well_named (cq_System q)" and conf: "confined asSel view n P q"
  shows "confined asSel view n (\<lambda>k x. P k x \<or> ev = Change (SecretChange k) \<and> view (sys_store (cq_System q')) k = Some x) q'"
  using step
proof cases
  case (kind_changed k c items)
  have "n \<in> snd ` set (credentialsForAll (Inr items))" if "sys_credentials (cq_System q) n = Some mc" for mc
  proof -
    have "mc \<in> set items" using that kind_changed(5) by (simp add: ranI)
    moreover have "mc_Name mc = n" by (rule well_namedD [OF names that])
    ultimately show ?thesis by (force simp: credentialsForAll_def requestsForAll_def)
  qed
  moreover have "authorizedNamespaces asSel c mc = authorizedNamespaces asSel (sys_client (cq_System q)) mc"
    if "k \<notin> set (watched CModelCredential)" for mc
    using that authorizedNamespaces_change [OF kind_changed(3)]
    by (simp add: watched_def ModelCredential_SetupWithManager_def)
  ultimately show ?thesis
    using confinedD [OF conf]
    by (intro confinedI) (cases "k \<in> set (watched CModelCredential)", simp_all add: kind_changed(2), blast+)
next
  case (credential_changed n' \<sigma> c)
  have same: "sys_client \<sigma> = sys_client (cq_System q)" "sys_store \<sigma> = sys_store (cq_System q)"
    "m \<noteq> n' \<Longrightarrow> sys_credentials \<sigma> m = sys_credentials (cq_System q) m" for m
    using credential_changed(3) by (auto elim: sys_step.cases)
  show ?thesis
    using confinedD [OF conf] authorizedNamespaces_change [OF credential_changed(4)] same
    by (intro confinedI) (cases "n = n'", simp_all add: credential_changed(2), blast)
next
  case (secret_changed k' \<sigma>)
  have same: "sys_client \<sigma> = sys_client (cq_System q)" "sys_credentials \<sigma> = sys_credentials (cq_System q)"
    "k \<noteq> k' \<Longrightarrow> view (sys_store \<sigma>) k = view (sys_store (cq_System q)) k" for k
    using secret_changed(3) by (auto elim: sys_step.cases)
  show ?thesis
    using confinedD [OF conf] same
    by (intro confinedI) (simp add: secret_changed(1,2), metis)
next
  case (credential_run m mc sc order c0 mode upd s out creds c)
  note run = credential_run(10)
  have name: "mc_Name mc = m" by (rule well_namedD [OF names credential_run(4)])
  have auth: "authorizedNamespaces asSel c = authorizedNamespaces asSel (sys_client (cq_System q))"
    using authorizedNamespaces_change [OF credential_run(12)] by fastforce
  show ?thesis
  proof (rule confinedI)
    fix mc' au k x
    assume a: "sys_credentials (cq_System q') n = Some mc'" "n \<notin> cq_Waiting q'"
      "mcst_SecretResolved (mc_Status mc')" "authorizedNamespaces asSel (sys_client (cq_System q')) mc' = Inr au"
      "view (sys_store (cq_System q')) k = Some x" "has_label LabelCredential n x"
    show "fst k \<in> set au \<or> P k x \<or> ev = Change (SecretChange k) \<and> view (sys_store (cq_System q')) k = Some x"
    proof (cases "n = m")
      case True
      have "prunes sc"
        using ev(2) True credential_run(1,8,9) healthy_prunes by (cases mode) auto
      moreover from True a(1,2) credential_run(2,3,11) have "oc_Err out = None" "creds m = Some mc" "mc' = mc"
        by (auto split: if_splits)
      ultimately show ?thesis
        using resting_run_prunes [OF _ credential_run(5,7) run] True a(3-6) auth name credential_run(2,11) by simp
    next
      case False
      have "sys_credentials (cq_System q) n = Some mc'" "n \<notin> cq_Waiting q"
        using False a(1,2) credential_run(2,11) by (auto simp: after_write_def split: option.splits if_splits)
      moreover have "view (sys_store (cq_System q)) k = Some x"
        using run_touches [OF credential_run(5,6) run, of k] False name a(5,6) credential_run(2)
        by (auto simp: has_label_unique)
      moreover have "authorizedNamespaces asSel (sys_client (cq_System q)) mc' = Inr au"
        using a(4) auth credential_run(2) by simp
      ultimately show ?thesis using confinedD [OF conf _ _ a(3)] a(6) by blast
    qed
  qed
next
  case (timer_fires n')
  with conf show ?thesis by (auto simp: confined_def)
next
  case (credential_gone n')
  with conf show ?thesis by (cases "n = n'") (auto simp: confined_def)
qed (use ev in simp)

lemma queue_runs_confined:
  assumes exec: "queue_runs asSel setCond view own opns m q ev" and "N \<le> m" "n \<in> cq_Waiting (q N)"
    and served: "\<And>j. N \<le> j \<Longrightarrow> j < m \<Longrightarrow> ev j \<noteq> Lost \<and> ev j \<noteq> Run n Failing"
  shows "confined asSel view n (\<lambda>k x. \<exists>j. N \<le> j \<and> j < m \<and> ev j = Change (SecretChange k) \<and>
    view (sys_store (cq_System (q (Suc j)))) k = Some x) (q m)"
  using assms(2) exec served
proof (induction rule: dec_induct)
  case base
  show ?case using assms(3) by (simp add: confined_def)
next
  case (step i)
  then have r: "queue_runs asSel setCond view own opns i q ev"
    and st: "queue_step asSel setCond view own opns (q i) (ev i) (q (Suc i))" by (simp_all add: queue_runs_Suc)
  have "well_named (cq_System (q i))"
    by (rule queue_runs_invariant [OF r]) (auto simp: queue_start_def intro: queue_well_named)
  from confined_step [OF st _ _ this step.IH [OF r]] step.prems(2) step.hyps(1)
  have "confined asSel view n (\<lambda>k x. (\<exists>j. N \<le> j \<and> j < i \<and> ev j = Change (SecretChange k) \<and>
      view (sys_store (cq_System (q (Suc j)))) k = Some x) \<or>
      ev i = Change (SecretChange k) \<and> view (sys_store (cq_System (q (Suc i)))) k = Some x) (q (Suc i))"
    by simp
  then show ?case by (rule confined_weaken) (use step.hyps(1) in \<open>auto intro: less_SucI exI [of _ i]\<close>)
qed

section \<open>Repair\<close>





section \<open>A sample execution\<close>

text \<open>Two runs settle the status; then the timer fires and a run follows, again and again.\<close>

definition sample_queue :: "nat \<Rightarrow> Secret list credential_queue" where
  "sample_queue i =
     (if i = 0 then \<lparr>cq_System = sample_exec 0, cq_Waiting = {''openai''}, cq_Timers = {}\<rparr>
      else if i = 1 then \<lparr>cq_System = sample_exec 1, cq_Waiting = {''openai''}, cq_Timers = {''openai''}\<rparr>
      else if even i then \<lparr>cq_System = sample_exec i, cq_Waiting = {}, cq_Timers = {''openai''}\<rparr>
      else \<lparr>cq_System = sample_exec i, cq_Waiting = {''openai''}, cq_Timers = {}\<rparr>)"

definition sample_event :: "nat \<Rightarrow> queue_event" where
  "sample_event i = (if i \<ge> 2 \<and> even i then Fire ''openai'' else Run ''openai'' Healthy)"

lemma sample_queue_run:
  assumes "ModelCredential_Reconcile std_selector replace_or_append sample_client (list_store no_fault) own_by keep_order
       ''operator'' (\<lambda>_. None) (Inr mc) s = ([sample_replica, source_secret], out)"
    and "oc_Err out = None" "oc_Written out = Some sample_mc"
    and "q = \<lparr>cq_System = sample_system mc s, cq_Waiting = {''openai''}, cq_Timers = ts\<rparr>"
  shows "queue_step std_selector replace_or_append list_view own_by ''operator'' q (Run ''openai'' Healthy)
    \<lparr>cq_System = sample_system sample_mc [sample_replica, source_secret],
     cq_Waiting = (if sample_mc = mc then {} else {''openai''}), cq_Timers = insert ''openai'' ts\<rparr>"
proof -
  have run: "ModelCredential_Reconcile std_selector replace_or_append (sys_client (cq_System q)) (list_store no_fault)
      own_by keep_order ''operator'' (\<lambda>_. None) (Inr mc) (sys_store (cq_System q)) = ([sample_replica, source_secret], out)"
    using assms(1,4) by (simp add: sample_system_def)
  have "after_write ''openai'' out [''openai'' \<mapsto> mc] = [''openai'' \<mapsto> sample_mc]"
    using assms(2,3) by (simp add: after_write_def)
  moreover have "oc_RequeueAfter out \<noteq> 0" by (rule ok_run_requeues [OF assms(1,2)])
  ultimately show ?thesis
    using credential_run [where n = "''openai''" and mode = Healthy, OF _ _
        list_secrets.replica_store_axioms keep_order_perm reads_of_refl _ _ run] list_store_healthy assms(2,4)
      client_change_refl [of KModelCredential "sys_client (cq_System q)"]
    by (fastforce simp: sample_system_def)
qed

lemma sample_resolved: "mcst_SecretResolved (mc_Status sample_mc)" "\<not> mcst_SecretResolved (mc_Status openai_credential)"
  by code_simp+

lemma sample_queue_step:
  "queue_step std_selector replace_or_append list_view own_by ''operator'' (sample_queue i) (sample_event i)
     (sample_queue (Suc i))"
proof -
  have run1: "ModelCredential_Reconcile std_selector replace_or_append sample_client (list_store no_fault) own_by keep_order
      ''operator'' (\<lambda>_. None) (Inr openai_credential) [source_secret] = ([sample_replica, source_secret], snd first_run)"
    using sample_runs(1) by (simp add: first_run_def prod_eq_iff)
  have run2: "ModelCredential_Reconcile std_selector replace_or_append sample_client (list_store no_fault) own_by keep_order
      ''operator'' (\<lambda>_. None) (Inr sample_mc) [sample_replica, source_secret] =
    ([sample_replica, source_secret], snd second_run)"
    using sample_runs(1,4) by (simp add: second_run_def sample_mc_def prod_eq_iff)
  have written2: "oc_Written (snd second_run) = Some sample_mc" using sample_runs(6) sample_written_mc by simp
  note first = sample_queue_run [OF run1 sample_runs(2) sample_written_mc refl, of "{}"]
  note second = sample_queue_run [OF run2 sample_runs(5) written2 refl]
  have "i = 0 \<or> i = 1 \<or> i \<ge> 2 \<and> even i \<or> i \<ge> 3 \<and> odd i" by presburger
  then consider "i = 0" | "i = 1" | "i \<ge> 2" "even i" | "i \<ge> 3" "odd i" by blast
  then show ?thesis
  proof cases
    case 1
    have "sample_mc \<noteq> openai_credential" using sample_resolved by metis
    with 1 first show ?thesis
      by (simp add: sample_queue_def sample_event_def sample_exec_def)
  next
    case 3
    then show ?thesis by (auto simp: sample_queue_def sample_event_def sample_exec_def fire_step)
  next
    case 2
    with second [of "{''openai''}"] show ?thesis by (simp add: sample_queue_def sample_event_def sample_exec_def)
  next
    case 4
    with second [of "{}"] show ?thesis by (simp add: sample_queue_def sample_event_def sample_exec_def)
  qed
qed

lemma sample_queue_runs:
  "queue_runs std_selector replace_or_append list_view own_by ''operator'' m sample_queue sample_event"
proof -
  have "well_named (sample_exec 0)" using sample_exec_runs [of 0] by (simp add: runs_def)
  then have "queue_start (sample_queue 0)"
    by (simp add: queue_start_def sample_queue_def) (simp add: sample_exec_def sample_system_def)
  with sample_queue_step show ?thesis by (simp add: queue_runs_def)
qed

lemma sample_queue_system: "cq_System (sample_queue i) = sample_exec i"
  by (simp add: sample_queue_def)

section \<open>Properties\<close>

text \<open>
  C6: A revoked namespace does not keep the key. Take any execution of the credential controller, from
  any Secrets at the start, in which others change policies, namespaces, credentials and Secrets and
  any call may fail, and a moment \<open>N\<close> at which a credential waits for a run, as after a change of the
  credential or of a namespace that \<open>credentialsForAll\<close> answered. If since then no event was lost, and in
  the runs of this credential the API server lists and deletes the replicas when it is asked to (any
  other call may fail), then once the credential does not wait, and its source key was found, every
  Secret that carries its label lies in a namespace that is authorized now, but for a Secret that
  others stored there since \<open>N\<close>. A lost event, or a deletion that fails and is only logged, can leave the
  key in place until the next periodic run (C8).
\<close>

theorem revoked_namespaces_lose_key:
  assumes exec: "queue_runs asSel setCond view own opns m q ev"
    and since: "N \<le> m" "n \<in> cq_Waiting (q N)"
      "\<And>j. N \<le> j \<Longrightarrow> j < m \<Longrightarrow> ev j \<noteq> Lost \<and> ev j \<noteq> Run n Failing"
    and rest: "sys_credentials (cq_System (q m)) n = Some mc" "n \<notin> cq_Waiting (q m)"
      "mcst_SecretResolved (mc_Status mc)"
    and auth: "authorizedNamespaces asSel (sys_client (cq_System (q m))) mc = Inr auth"
    and stored: "view (sys_store (cq_System (q m))) k = Some x" "has_label LabelCredential n x"
  shows "fst k \<in> set auth \<or>
    (\<exists>j. N \<le> j \<and> j < m \<and> ev j = Change (SecretChange k) \<and> view (sys_store (cq_System (q (Suc j)))) k = Some x)"
  by (rule confinedD [OF queue_runs_confined [OF exec since] rest auth stored])

theorem revoked_namespaces_lose_key_witness: "fst (''team-a'', ManagedSecretPrefix @ ''openai'') \<in> set [''team-a'']"
proof -
  let ?k = "(''team-a'', ManagedSecretPrefix @ ''openai'')"
  have "mc_Spec sample_mc = mc_Spec openai_credential" by code_simp
  from authorizedNamespaces_spec [OF this] sample_run(2)
  have auth: "authorizedNamespaces std_selector (sys_client (cq_System (sample_queue 2))) sample_mc = Inr [''team-a'']"
    by (simp add: sample_queue_system sample_exec_def sample_system_def)
  have start: "''openai'' \<in> cq_Waiting (sample_queue 0)" by (simp add: sample_queue_def)
  have served: "sample_event j \<noteq> Lost \<and> sample_event j \<noteq> Run ''openai'' Failing" for j
    by (simp add: sample_event_def)
  have rest: "sys_credentials (cq_System (sample_queue 2)) ''openai'' = Some sample_mc"
    "''openai'' \<notin> cq_Waiting (sample_queue 2)" "list_view (sys_store (cq_System (sample_queue 2))) ?k = Some sample_replica"
    using sample_run(6,7) by (simp_all add: sample_queue_def sample_exec_def sample_system_def sample_source(3))
  have labelled: "has_label LabelCredential ''openai'' sample_replica"
    using sample_run(7) by (simp add: sample_source(3))
  from revoked_namespaces_lose_key [OF sample_queue_runs le0 start served rest(1,2) sample_resolved(1) auth rest(3) labelled]
  show ?thesis by (auto simp: sample_event_def split: if_splits)
qed



end
