(* ===== verification/Metric_Values.thy ===== *)
theory Metric_Values
  imports Metric_Props Pod_Props Claim_Props Credential_Props Policy_Props
begin

text \<open>
  What the collectors hold: a counter adds, a gauge keeps the last value set. The counters of the
  pod webhook count its verdicts, and the gauges of the reconcilers show the statuses they write.
  The last section has two gauges that do not follow the objects they describe.
\<close>

section \<open>Values\<close>

type_synonym metric_values = "metric_vec \<times> string list \<Rightarrow> int"

fun record_event :: "metric_event \<Rightarrow> metric_values \<Rightarrow> metric_values" where
  "record_event (CounterInc v ls) vals = vals((v, ls) := vals (v, ls) + 1)"
| "record_event (GaugeSet v ls x) vals = vals((v, ls) := x)"

definition record_events :: "metric_event list \<Rightarrow> metric_values \<Rightarrow> metric_values" where
  "record_events evs vals = fold record_event evs vals"

lemma record_events_simps [simp]:
  "record_events [] vals = vals" "record_events (e # es) vals = record_events es (record_event e vals)"
  "record_events (es @ es') vals = record_events es' (record_events es vals)"
  by (simp_all add: record_events_def)

text \<open>The increments of one counter in a list of updates.\<close>

definition incs :: "metric_vec \<Rightarrow> string list \<Rightarrow> metric_event list \<Rightarrow> int" where
  "incs v ls evs = int (length (filter (\<lambda>e. e = CounterInc v ls) evs))"

lemma incs_simps [simp]:
  "incs v ls [] = 0" "incs v ls (e # es) = (if e = CounterInc v ls then 1 else 0) + incs v ls es"
  "incs v ls (es @ es') = incs v ls es + incs v ls es'"
  by (simp_all add: incs_def)

lemma counter_value:
  "\<lbrakk>list_all safe_event evs; mv_Kind v = Counter\<rbrakk> \<Longrightarrow> record_events evs vals (v, ls) = vals (v, ls) + incs v ls evs"
proof (induction evs arbitrary: vals)
  case (Cons e evs)
  then show ?case by (cases e) auto
qed simp

lemma collectors_differ [simp]:
  "ModelViolations \<noteq> AdmissionDecisions" "AdmissionDecisions \<noteq> ModelViolations"
  "CredentialSyncedNamespaces \<noteq> CredentialCapacityTPM" "CredentialCapacityTPM \<noteq> CredentialSyncedNamespaces"
  "CredentialSyncedNamespaces \<noteq> CredentialAllocatedTPM" "CredentialAllocatedTPM \<noteq> CredentialSyncedNamespaces"
  "CredentialSyncedNamespaces \<noteq> CredentialOversubscribed" "CredentialOversubscribed \<noteq> CredentialSyncedNamespaces"
  "CredentialCapacityTPM \<noteq> CredentialAllocatedTPM" "CredentialAllocatedTPM \<noteq> CredentialCapacityTPM"
  "CredentialCapacityTPM \<noteq> CredentialOversubscribed" "CredentialOversubscribed \<noteq> CredentialCapacityTPM"
  "CredentialAllocatedTPM \<noteq> CredentialOversubscribed" "CredentialOversubscribed \<noteq> CredentialAllocatedTPM"
  "GatewayArtifacts \<noteq> EffectiveModelsGauge" "EffectiveModelsGauge \<noteq> GatewayArtifacts"
  by (simp_all add: metric_defs)

section \<open>Admissions\<close>

text \<open>
  A request to the validating webhook, with the cluster it meets: the creation of a pod, or its update
  from an older object.
\<close>

datatype operation = Create | Update api_object

type_synonym admission = "Config \<times> client \<times> string option \<times> operation \<times> Pod"

definition answer_to :: "selector_api \<Rightarrow> admission \<Rightarrow> admission_result" where
  "answer_to asSel r =
     (case r of (cfg, c, ctx, op, pod) \<Rightarrow>
        (case op of
           Create \<Rightarrow> pod_ValidateCreate asSel cfg c ctx (PodObject pod)
         | Update old \<Rightarrow> pod_ValidateUpdate asSel cfg c ctx old (PodObject pod)))"

lemma answer_to_eq: "answer_to asSel (cfg, c, ctx, op, pod) = pod_validate asSel cfg c ctx (PodObject pod)"
  by (simp add: answer_to_def pod_ValidateCreate_def pod_ValidateUpdate_def split: operation.split)

definition after_admissions :: "selector_api \<Rightarrow> admission list \<Rightarrow> metric_values \<Rightarrow> metric_values" where
  "after_admissions asSel rs vals = fold (\<lambda>r. record_events (ar_Metrics (answer_to asSel r))) rs vals"

definition rejected_in :: "selector_api \<Rightarrow> string \<Rightarrow> admission \<Rightarrow> bool" where
  "rejected_in asSel ns r =
     (case r of (cfg, c, ctx, op, pod) \<Rightarrow>
        namespaceFromCtx ctx (pod_Namespace pod) = ns \<and> ar_Err (answer_to asSel r) \<noteq> None)"

text \<open>A denied model is declared for the pod, under policies of the given mode.\<close>

definition violates_in :: "selector_api \<Rightarrow> string \<Rightarrow> string \<Rightarrow> string \<Rightarrow> string \<Rightarrow> admission \<Rightarrow> bool" where
  "violates_in asSel ns mode p m r =
     (case r of (cfg, c, ctx, op, pod) \<Rightarrow>
        (case gate asSel cfg c ctx pod of
           None \<Rightarrow> False
         | Some (ns', ds, eff) \<Rightarrow> ns' = ns \<and> eff_Enforcement eff \<noteq> EnforcementDisabled \<and>
             enforcement_string (eff_Enforcement eff) = mode \<and>
             (\<exists>d \<in> set ds. dm_Provider d = p \<and> dm_Model d = m \<and> \<not> md_Allowed (Permit eff p m))))"

lemma safe_answer: "list_all safe_event (ar_Metrics (answer_to asSel r))"
  by (cases r) (simp add: answer_to_eq validate_metrics)

lemma admissions_counter:
  "mv_Kind v = Counter \<Longrightarrow> (\<And>r. incs v ls (ar_Metrics (answer_to asSel r)) = (if P r then 1 else 0)) \<Longrightarrow>
     after_admissions asSel rs vals (v, ls) = vals (v, ls) + int (length (filter P rs))"
proof (induction rs arbitrary: vals)
  case (Cons r rs)
  then show ?case by (simp add: after_admissions_def counter_value [OF safe_answer])
qed (simp add: after_admissions_def)

lemma incs_other: "(\<And>d. f d \<noteq> CounterInc v ls) \<Longrightarrow> incs v ls (map f ds) = 0"
  by (induction ds) auto

lemma rejection_counted:
  "incs AdmissionDecisions [''deny'', ns, ''Enforce''] (ar_Metrics (answer_to asSel r)) =
     (if rejected_in asSel ns r then 1 else 0)"
proof -
  obtain cfg c ctx op pod where r: "r = (cfg, c, ctx, op, pod)" by (cases r)
  note defs = r answer_to_eq rejected_in_def pod_validate_eq prod.case
  show ?thesis
  proof (cases "gate asSel cfg c ctx pod")
    case None
    then show ?thesis by (simp add: defs admit_def)
  next
    case (Some g)
    obtain ns' ds eff where g: "g = (ns', ds, eff)" by (cases g)
    have ns': "namespaceFromCtx ctx (pod_Namespace pod) = ns'" using Some g by (simp add: gate_Some_iff)
    show ?thesis
    proof (cases "eff_Enforcement eff = EnforcementEnforce \<and> filter (denied eff) ds \<noteq> []")
      case True
      then show ?thesis by (simp add: defs Some g ns' Let_def incs_other)
    next
      case False
      then have no: "\<not> (eff_Enforcement eff = EnforcementEnforce \<and> filter (denied eff) ds \<noteq> [])" .
      show ?thesis
      proof (cases "eff_Enforcement eff = EnforcementDisabled")
        case True
        then show ?thesis by (simp add: defs Some g admit_def)
      next
        case False
        then show ?thesis by (simp only: defs Some g ns' Let_def no option.case if_False admission_result.simps) (simp add: incs_other)
      qed
    qed
  qed
qed

lemma count_one:
  assumes "distinct (map f xs)" "\<And>x y. P x \<Longrightarrow> P y \<Longrightarrow> f x = f y"
  shows "length (filter P xs) = (if \<exists>x \<in> set xs. P x then 1 else 0)"
  using assms(1)
proof (induction xs)
  case (Cons x xs)
  show ?case
  proof (cases "P x")
    case True
    have "\<not> P y" if "y \<in> set xs" for y
    proof
      assume "P y"
      with assms(2) [OF True] that have "f x \<in> f ` set xs" by blast
      with Cons.prems show False by simp
    qed
    then have "filter P xs = []" by (simp add: filter_empty_conv)
    with True show ?thesis by simp
  next
    case False
    with Cons.IH Cons.prems show ?thesis by simp
  qed
qed simp

lemma declared_distinct: "declaredModelsForPod asSel c ns pod = Inr ds \<Longrightarrow> distinct (map dm_key ds)"
  by (auto simp: declaredModelsForPod_eq declared_keys(2) split: sum.splits)

lemma violation_counted:
  "incs ModelViolations [ns, p, m, mode] (ar_Metrics (answer_to asSel r)) =
     (if violates_in asSel ns mode p m r then 1 else 0)"
proof -
  obtain cfg c ctx op pod where r: "r = (cfg, c, ctx, op, pod)" by (cases r)
  note defs = r answer_to_eq violates_in_def pod_validate_eq prod.case
  have map: "incs v ls (map f ds) = int (length (filter (\<lambda>d. f d = CounterInc v ls) ds))"
    for v ls and f :: "declaredModel \<Rightarrow> metric_event" and ds
    by (induction ds) auto
  show ?thesis
  proof (cases "gate asSel cfg c ctx pod")
    case None
    then show ?thesis by (simp add: defs admit_def)
  next
    case (Some g)
    obtain ns' ds eff where g: "g = (ns', ds, eff)" by (cases g)
    have "distinct (map dm_key ds)"
      using Some g by (auto simp: gate_Some_iff intro: declared_distinct)
    then have one: "length (filter (\<lambda>d. denied eff d \<and> dm_Provider d = p \<and> dm_Model d = m) ds) =
        (if \<exists>d \<in> set ds. denied eff d \<and> dm_Provider d = p \<and> dm_Model d = m then 1 else 0)"
      by (rule count_one) (simp add: dm_key_def)
    let ?mode = "enforcement_string (eff_Enforcement eff)"
    show ?thesis
    proof (cases "eff_Enforcement eff = EnforcementDisabled")
      case True
      then show ?thesis by (simp add: defs Some g admit_def)
    next
      case False
      have "incs ModelViolations [ns, p, m, mode] (ar_Metrics (answer_to asSel r)) =
          int (length (filter (\<lambda>d. denied eff d \<and> ns' = ns \<and> dm_Provider d = p \<and> dm_Model d = m \<and> ?mode = mode) ds))"
        by (simp only: defs Some g Let_def False option.case if_False admission_result.simps) (simp add: map)
      also have "\<dots> = (if ns' = ns \<and> ?mode = mode \<and> (\<exists>d \<in> set ds. denied eff d \<and> dm_Provider d = p \<and> dm_Model d = m)
          then 1 else 0)"
        using one by (cases "ns' = ns \<and> ?mode = mode") auto
      also have "\<dots> = (if violates_in asSel ns mode p m r then 1 else 0)"
        using False by (auto simp: violates_in_def r Some g denied_def)
      finally show ?thesis .
    qed
  qed
qed

section \<open>Gauges\<close>

lemma conditions_differ [simp]:
  "ConditionOversubscribed \<noteq> ConditionReady" "ConditionReady \<noteq> ConditionGatewaySynced"
  "ConditionReady \<noteq> ConditionOversubscribed"
  by (simp_all add: ConditionOversubscribed_def ConditionReady_def ConditionGatewaySynced_def)

text \<open>The tokens per minute of a quota, zero without a limit.\<close>

definition per_minute :: "TokenQuota option \<Rightarrow> int" where
  "per_minute q = (case qlimit TPM q of None \<Rightarrow> 0 | Some v \<Rightarrow> sint v)"

lemma quotaTPM_per_minute: "quotaTPM q = float64_of (per_minute q)"
  by (simp add: quotaTPM_def per_minute_def split: option.split)

text \<open>
  A gauge shows a number: it holds its \<open>float64\<close>, which is the number itself up to \<open>2\<close> to the power of
  \<open>53\<close> and near it beyond.
\<close>

definition displays :: "float64 \<Rightarrow> int \<Rightarrow> bool" where
  "displays v x \<longleftrightarrow> v = float64_of x \<and> (\<bar>x\<bar> \<le> 2 ^ 53 \<longrightarrow> v = x) \<and> 2 ^ 53 * \<bar>v - x\<bar> \<le> \<bar>x\<bar>"

lemma displays_float64: "displays (float64_of x) x"
  using float64_exact float64_error by (simp add: displays_def)

text \<open>Models permitted in a status.\<close>

definition allowed_models :: "EffectiveModel list \<Rightarrow> int" where
  "allowed_models ms = int (length (filter (\<lambda>m. em_Action m = ActionAllow) ms))"

lemma capacity_gauges:
  assumes "condition_setter setCond" "reconcileCapacity setCond mc allocated = (mc', ev)"
  shows "record_events ev vals (CredentialCapacityTPM, [mc_Name mc]) = float64_of (per_minute (mcs_Capacity (mc_Spec mc)))"
    and "record_events ev vals (CredentialAllocatedTPM, [mc_Name mc]) = float64_of (per_minute (mcst_Allocated (mc_Status mc')))"
    and "record_events ev vals (CredentialOversubscribed, [mc_Name mc]) =
      (if condition_is ConditionOversubscribed ConditionTrue (mcst_Conditions (mc_Status mc')) then 1 else 0)"
    and "mcst_SyncedNamespaces (mc_Status mc') = mcst_SyncedNamespaces (mc_Status mc)"
  using assms(2)
  by (auto simp: reconcileCapacity_def Let_def credential_condition_def condition_is_set [OF assms(1)] b2f_def
      quotaTPM_per_minute per_minute_def split: if_splits)

lemma resolved_metrics:
  assumes "reconcile_resolved asSel setCond c sc own order opns upd mc data s = (s', out)" "oc_Written out = Some mc'"
  obtains synced allocated mc1 mc2 ev where
    "mc_Name mc1 = mc_Name mc" "mc_Spec mc1 = mc_Spec mc" "mcst_SyncedNamespaces (mc_Status mc1) = synced"
    "reconcileCapacity setCond mc1 allocated = (mc2, ev)"
    "mc' = credential_condition setCond ConditionReady ConditionTrue ''Synced''
        (''synced to '' @ show_nat (length synced) @ '' namespace(s)'') mc2"
    "oc_Metrics out = ev @ [GaugeSet CredentialSyncedNamespaces [mc_Name mc] (float64_of (int (length synced)))]"
proof -
  let ?mc = "resolved_mc setCond mc"
  note run = assms(1) [unfolded reconcile_resolved_def Let_def, folded resolved_mc_def]
  obtain auth where auth: "authorizedNamespaces asSel c ?mc = Inr auth"
    using run assms(2) by (auto split: sum.splits)
  obtain s1 synced where sy: "syncAll sc own opns ?mc data s [] (order auth) = (s1, synced)" by fastforce
  obtain s2 perr where pr: "pruneSecrets sc ?mc auth s1 = (s2, perr)" by fastforce
  obtain refs allocated where refs: "referencingPolicies c (mc_Name mc) = Inr (refs, allocated)"
    using run assms(2) auth sy pr by (auto split: sum.splits)
  define mc1 where "mc1 = ?mc\<lparr>mc_Status := (mc_Status ?mc)\<lparr>mcst_ObservedGeneration := mc_Generation ?mc,
      mcst_SyncedNamespaces := sort synced, mcst_ReferencingPolicies := refs\<rparr>\<rparr>"
  obtain mc2 ev where cap: "reconcileCapacity setCond mc1 allocated = (mc2, ev)" by fastforce
  then have name: "mc_Name mc2 = mc_Name mc"
    by (auto simp: reconcileCapacity_def Let_def credential_condition_def mc1_def split: if_splits)
  have "out = write_status upd (credential_condition setCond ConditionReady ConditionTrue ''Synced''
      (''synced to '' @ show_nat (length synced) @ '' namespace(s)'') mc2) 600
      (ev @ [GaugeSet CredentialSyncedNamespaces [mc_Name mc] (float64_of (int (length synced)))])"
    using run cap name by (auto simp: auth sy pr refs mc1_def credential_condition_def)
  with assms(2) cap show thesis
    by (intro that [of mc1 "sort synced"]) (auto simp: mc1_def)
qed

lemma credential_gauges:
  assumes "condition_setter setCond"
    and "ModelCredential_Reconcile asSel setCond c sc own order opns upd (Inr mc) s = (s', out)"
    and "oc_Written out = Some mc'" "mcst_SecretResolved (mc_Status mc')"
  shows "record_events (oc_Metrics out) vals (CredentialSyncedNamespaces, [mc_Name mc]) =
      float64_of (int (length (mcst_SyncedNamespaces (mc_Status mc'))))"
    and "record_events (oc_Metrics out) vals (CredentialCapacityTPM, [mc_Name mc]) =
      float64_of (per_minute (mcs_Capacity (mc_Spec mc)))"
    and "record_events (oc_Metrics out) vals (CredentialAllocatedTPM, [mc_Name mc]) =
      float64_of (per_minute (mcst_Allocated (mc_Status mc')))"
    and "record_events (oc_Metrics out) vals (CredentialOversubscribed, [mc_Name mc]) =
      (if condition_is ConditionOversubscribed ConditionTrue (mcst_Conditions (mc_Status mc')) then 1 else 0)"
proof -
  obtain data where run: "reconcile_resolved asSel setCond c sc own order opns upd mc data s = (s', out)"
    using Reconcile_resolved [OF assms(2-4)] by metis
  obtain synced allocated mc1 mc2 ev where
    mc1: "mc_Name mc1 = mc_Name mc" "mc_Spec mc1 = mc_Spec mc" "mcst_SyncedNamespaces (mc_Status mc1) = synced"
    and cap: "reconcileCapacity setCond mc1 allocated = (mc2, ev)"
    and mc': "mc' = credential_condition setCond ConditionReady ConditionTrue ''Synced''
        (''synced to '' @ show_nat (length synced) @ '' namespace(s)'') mc2"
    and ev: "oc_Metrics out = ev @ [GaugeSet CredentialSyncedNamespaces [mc_Name mc] (float64_of (int (length synced)))]"
    by (rule resolved_metrics [OF run assms(3)])
  show "record_events (oc_Metrics out) vals (CredentialSyncedNamespaces, [mc_Name mc]) =
      float64_of (int (length (mcst_SyncedNamespaces (mc_Status mc'))))"
    using capacity_gauges(4) [OF assms(1) cap] mc1 by (simp add: ev mc' credential_condition_def)
  note g = capacity_gauges(1-3) [OF assms(1) cap, of vals]
  show "record_events (oc_Metrics out) vals (CredentialCapacityTPM, [mc_Name mc]) =
      float64_of (per_minute (mcs_Capacity (mc_Spec mc)))"
    using g(1) mc1 by (simp add: ev)
  show "record_events (oc_Metrics out) vals (CredentialAllocatedTPM, [mc_Name mc]) =
      float64_of (per_minute (mcst_Allocated (mc_Status mc')))"
    using g(2) mc1 by (simp add: ev mc' credential_condition_def)
  show "record_events (oc_Metrics out) vals (CredentialOversubscribed, [mc_Name mc]) =
      (if condition_is ConditionOversubscribed ConditionTrue (mcst_Conditions (mc_Status mc')) then 1 else 0)"
    using g(3) mc1 by (simp add: ev mc' credential_condition_def condition_is_set [OF assms(1)])
qed

lemma claim_gauge:
  assumes "condition_setter setCond" "oc_Written (ModelClaim_Reconcile asSel setCond c upd (Inr mcl)) = Some mcl'"
    and "condition_is ConditionReady ConditionTrue (mclst_Conditions (mcl_Status mcl'))"
  shows "record_events (oc_Metrics (ModelClaim_Reconcile asSel setCond c upd (Inr mcl))) vals
      (ModelClaimAllowedModels, [mcl_Namespace mcl, mcl_Name mcl]) =
    min (2 ^ 53) (allowed_models (mclst_ResolvedModels (mcl_Status mcl')))"
  using assms(2,3)
  by (auto simp: ModelClaim_Reconcile_def Let_def condition_is_set [OF assms(1)] with_conditions_def allowed_models_def
      countAllowed_eq split: sum.splits if_splits)

lemma gateway_gauge:
  assumes "reconcileGateway setCond ap own s tp eff = (s', tp', gev, gerr)"
  shows "record_events gev vals (EffectiveModelsGauge, ls) = vals (EffectiveModelsGauge, ls)"
  using assms by (auto simp: reconcileGateway_def Let_def split: sum.splits option.splits prod.splits)

lemma gateway_keeps_ready:
  assumes "condition_setter setCond" "reconcileGateway setCond ap own s tp eff = (s', tp', gev, gerr)"
  shows "condition_is ConditionReady st (tpst_Conditions (tp_Status tp')) =
    condition_is ConditionReady st (tpst_Conditions (tp_Status tp))"
  using assms(2)
  by (auto simp: reconcileGateway_def Let_def policy_condition_def set_GatewayRef_def condition_is_set [OF assms(1)]
      split: sum.splits option.splits prod.splits)

lemma policy_gauge:
  assumes cond: "condition_setter setCond"
    and written: "oc_Written (snd (TokenPolicy_Reconcile asSel setCond c ap own upd (Inr tp) s)) = Some tp'"
    and ready: "condition_is ConditionReady ConditionTrue (tpst_Conditions (tp_Status tp'))"
  shows "record_events (oc_Metrics (snd (TokenPolicy_Reconcile asSel setCond c ap own upd (Inr tp) s))) vals
      (EffectiveModelsGauge, [tp_Namespace tp, tp_Name tp]) =
    min (2 ^ 53) (allowed_models (tpst_EffectiveModels (tp_Status tp')))"
proof -
  obtain ctpl tpl nsl where reads: "list_ClusterTokenPolicies c = Inr ctpl"
    "list_TokenPolicies c (tp_Namespace tp) = Inr tpl" "reconciler_namespaceLabels c (tp_Namespace tp) = Inr nsl"
    using written by (auto simp: TokenPolicy_Reconcile_def split: sum.splits)
  obtain eff where eff: "ResolveForPolicy asSel ctpl tpl nsl tp = Inr eff"
    using written ready
    by (auto simp: TokenPolicy_Reconcile_def reads policy_condition_def condition_is_set [OF cond] Let_def split: sum.splits)
  obtain s' tp1 gev gerr
    where gw: "reconcileGateway setCond ap own s (policy_resolved setCond tp eff) eff = (s', tp1, gev, gerr)"
    using prod_cases4 by blast
  note run = TokenPolicy_run [OF reads eff gw, of upd]
  have "tp1 = tp'" using written by (simp add: run)
  with reconcileGateway_status(1) [OF gw] show ?thesis
    by (simp add: run gateway_gauge [OF gw] allowed_models_def countAllowed_eq)
qed

section \<open>Properties\<close>

text \<open>
  C38: The admission counters count verdicts. After any sequence of creations and updates of
  pods, each in the cluster of its moment, the counter of denials of a namespace has grown by the number
  of requests of the namespace that were rejected, and the counter of violations by the number of
  requests for whose pod that model was declared and denied, in Audit mode too: each request once, however many claims and
  annotations declare the model for it.
\<close>

theorem admission_counters_exact:
  "after_admissions asSel rs vals (AdmissionDecisions, [''deny'', ns, ''Enforce'']) =
     vals (AdmissionDecisions, [''deny'', ns, ''Enforce'']) + int (length (filter (rejected_in asSel ns) rs)) \<and>
   after_admissions asSel rs vals (ModelViolations, [ns, p, m, mode]) =
     vals (ModelViolations, [ns, p, m, mode]) + int (length (filter (violates_in asSel ns mode p m) rs))"
  by (intro conjI admissions_counter rejection_counted violation_counted) simp_all

text \<open>
  C39: The gauges of credentials, claims and effective models show the statuses. Whatever they held
  before, after a run that found the key the gauges of a credential show the number of synced
  namespaces and the tokens per minute of capacity and allocation, as \<open>float64\<close> (exact up to 2 to the
  power of 53), and whether the status says it is oversubscribed; after a run that leaves a claim or a
  policy Ready, its gauge holds the number of permitted models of the status, counted in \<open>float64\<close>.
  The gauge of the gateway artifacts is not among them: see \<open>gateway_gauge_values\<close> below.
\<close>

theorem gauges_show_status:
  assumes cond: "condition_setter setCond"
    and credential: "ModelCredential_Reconcile asSel setCond c sc own order opns upd (Inr mc) s = (s', out)"
      "oc_Written out = Some mc'" "mcst_SecretResolved (mc_Status mc')"
    and claim: "oc_Written (ModelClaim_Reconcile asSel setCond c1 upd1 (Inr mcl)) = Some mcl'"
      "condition_is ConditionReady ConditionTrue (mclst_Conditions (mcl_Status mcl'))"
    and policy: "oc_Written (snd (TokenPolicy_Reconcile asSel setCond c2 ap own2 upd2 (Inr tp) s2)) = Some tp'"
      "condition_is ConditionReady ConditionTrue (tpst_Conditions (tp_Status tp'))"
  shows "(let vals' = record_events (oc_Metrics out) vals; st = mc_Status mc' in
      displays (vals' (CredentialSyncedNamespaces, [mc_Name mc])) (int (length (mcst_SyncedNamespaces st))) \<and>
      displays (vals' (CredentialCapacityTPM, [mc_Name mc])) (per_minute (mcs_Capacity (mc_Spec mc))) \<and>
      displays (vals' (CredentialAllocatedTPM, [mc_Name mc])) (per_minute (mcst_Allocated st)) \<and>
      vals' (CredentialOversubscribed, [mc_Name mc]) =
        (if condition_is ConditionOversubscribed ConditionTrue (mcst_Conditions st) then 1 else 0)) \<and>
    record_events (oc_Metrics (ModelClaim_Reconcile asSel setCond c1 upd1 (Inr mcl))) vals1
      (ModelClaimAllowedModels, [mcl_Namespace mcl, mcl_Name mcl]) =
      min (2 ^ 53) (allowed_models (mclst_ResolvedModels (mcl_Status mcl'))) \<and>
    record_events (oc_Metrics (snd (TokenPolicy_Reconcile asSel setCond c2 ap own2 upd2 (Inr tp) s2))) vals2
      (EffectiveModelsGauge, [tp_Namespace tp, tp_Name tp]) =
      min (2 ^ 53) (allowed_models (tpst_EffectiveModels (tp_Status tp')))"
  using credential_gauges [OF cond credential] claim_gauge [OF cond claim] policy_gauge [OF cond policy]
  by (simp add: Let_def displays_float64)

lemma policy_run_ready:
  assumes "oc_Written (snd policy_run) = Some tp'"
  shows "condition_is ConditionReady ConditionTrue (tpst_Conditions (tp_Status tp'))"
proof -
  let ?tp = "policy_resolved replace_or_append gateway_policy policy_eff"
  obtain s1 tp1 gev gerr where g: "reconcileGateway replace_or_append (list_artifacts (\<lambda>_. None)) policy_owner
      [old_artifact] ?tp policy_eff = (s1, tp1, gev, gerr)"
    using prod_cases4 by blast
  have "tp' = tp1" using assms by (simp add: policy_run_def TokenPolicy_run [OF policy_reads policy_resolves(1) g])
  moreover have "condition_is ConditionReady ConditionTrue (tpst_Conditions (tp_Status ?tp))"
    by (simp add: policy_resolved_def policy_condition_def condition_is_set [OF std_conditions.condition_setter_axioms])
  ultimately show ?thesis using gateway_keeps_ready [OF std_conditions.condition_setter_axioms g] by simp
qed

theorem gauges_show_status_witness:
  "record_events (oc_Metrics (snd sample_reconcile)) (\<lambda>_. 7) (CredentialSyncedNamespaces, [''openai'']) = 1 \<and>
   record_events (oc_Metrics (claim_run good_claim)) (\<lambda>_. 7)
     (ModelClaimAllowedModels, [mcl_Namespace good_claim, mcl_Name good_claim]) =
     min (2 ^ 53) (allowed_models (mclst_ResolvedModels (mcl_Status (claim_after good_claim))))"
  using gauges_show_status [OF std_conditions.condition_setter_axioms sample_reconcile_eq sample_written sample_run(4)
      claim_written(1) [unfolded claim_run_def] claim_samples(3) policy_after(1) [unfolded policy_run_def]
      policy_run_ready [OF policy_after(1), unfolded policy_run_def], of "\<lambda>_. 7" "\<lambda>_. 7"]
    sample_run(5)
  by (simp add: Let_def claim_run_def openai_credential_def displays_def)

section \<open>Gauges that do not follow\<close>

text \<open>
  The gauge of the gateway artifacts has the labels namespace and type, but each policy sets it: to
  0 for the type None, to 1 for any other. So it never counts more than one artifact, and the gauge
  of a type stays 1 when the last artifact of that type is removed.
\<close>

lemma gateway_gauge_values:
  assumes "reconcileGateway setCond ap own s tp eff = (s', tp', gev, gerr)" "GaugeSet GatewayArtifacts [ns, t] x \<in> set gev"
  shows "ns = tp_Namespace tp \<and> (t = ''None'' \<and> x = 0 \<or> x = 1)"
  using assms by (auto simp: reconcileGateway_def Let_def split: sum.splits option.splits prod.splits)

text \<open>When an object is gone, its gauges keep their last values.\<close>

lemma gone_objects_keep_gauges:
  "oc_Metrics (ModelClaim_Reconcile asSel setCond c upd1 (Inl err)) = []"
  "oc_Metrics (snd (TokenPolicy_Reconcile asSel setCond c ap own upd2 (Inl err) s)) = []"
  "oc_Metrics (snd (ModelCredential_Reconcile asSel setCond c sc own2 order opns upd3 (Inl err) s2)) = []"
  by (simp_all add: ModelClaim_Reconcile_def TokenPolicy_Reconcile_def ModelCredential_Reconcile_def)

end
