(* ===== verification/Go_Memory.thy ===== *)
theory Go_Memory
  imports TC_Prelude "HOL-Library.Monad_Syntax" "HOL-Library.Sublist"
begin

text \<open>
  Go's memory, for the code whose correctness depends on which values share it: a memory is the
  list of its cells, an address an index into it, allocation appends a cell. A pointer is an
  optional address, a slice the array cell it looks into with its bounds. Operations return \<open>None\<close>
  on an address without a cell of the right type, where Go would panic. The second half states the
  contract of a deep copy (\<open>copier\<close>), and that pointers, slices and struct fields lift it.
\<close>

section \<open>Cells\<close>

type_synonym addr = nat

type_synonym 'c memory = "'c list"

definition load :: "'c memory \<Rightarrow> addr \<Rightarrow> 'c option" where
  "load h a = (if a < length h then Some (h ! a) else None)"

definition store :: "addr \<Rightarrow> 'c \<Rightarrow> 'c memory \<Rightarrow> 'c memory option" where
  "store a c h = (if a < length h then Some (h[a := c]) else None)"

definition new_cell :: "'c \<Rightarrow> 'c memory \<Rightarrow> addr \<times> 'c memory" where
  "new_cell c h = (length h, h @ [c])"

lemma load_prefix: "prefix h h' \<Longrightarrow> a < length h \<Longrightarrow> load h' a = load h a"
  by (auto simp: load_def prefix_def nth_append)

lemma load_new [simp]: "load (h @ [c]) (length h) = Some c"
  by (simp add: load_def)

lemma store_other: "store a c h = Some h' \<Longrightarrow> a' \<noteq> a \<Longrightarrow> load h' a' = load h a'"
  by (auto simp: store_def load_def split: if_splits)

text \<open>A cell of a type: \<open>mk\<close> makes one, \<open>un\<close> reads it.\<close>

locale cell_type =
  fixes mk :: "'m \<Rightarrow> 'c" and un :: "'c \<Rightarrow> 'm option"
  assumes un_mk [simp]: "un (mk m) = Some m"

text \<open>What a program goes on to do: store into cells and allocate new ones.\<close>

datatype 'c memory_op = Store addr 'c | New 'c

primrec perform :: "'c memory_op list \<Rightarrow> 'c memory \<Rightarrow> 'c memory option" where
  "perform [] h = Some h"
| "perform (op # ops) h =
     (case op of
        Store a c \<Rightarrow> store a c h \<bind> perform ops
      | New c \<Rightarrow> perform ops (snd (new_cell c h)))"

definition stores_to :: "'c memory_op list \<Rightarrow> addr set" where
  "stores_to ops = {a. \<exists>c. Store a c \<in> set ops}"

lemma stores_to_simps [simp]:
  "stores_to [] = {}" "stores_to (Store a c # ops) = insert a (stores_to ops)" "stores_to (New c # ops) = stores_to ops"
  by (auto simp: stores_to_def)

lemma later_cells: "prefix h h' \<Longrightarrow> \<forall>a \<in> A. length h' \<le> a \<Longrightarrow> \<forall>a \<in> A. length h \<le> a"
  by (meson order_trans prefix_length_le)

section \<open>Readers and copies\<close>

text \<open>
  A reader gives the value that a piece of memory stands for, with the cells it consists of. A copy
  gives a piece of memory, in a memory that may have new cells.
\<close>

type_synonym ('c, 'm, 'v) reader = "'c memory \<Rightarrow> 'm \<Rightarrow> ('v \<times> addr set) option"

type_synonym ('c, 'm) copying = "'m \<Rightarrow> 'c memory \<Rightarrow> ('m \<times> 'c memory) option"

text \<open>The value depends on its cells only, and they exist.\<close>

locale reader =
  fixes rd :: "('c, 'm, 'v) reader"
  assumes cells_exist: "rd h m = Some (v, A) \<Longrightarrow> a \<in> A \<Longrightarrow> a < length h"
    and local: "rd h m = Some (v, A) \<Longrightarrow> (\<And>a. a \<in> A \<Longrightarrow> load h' a = load h a) \<Longrightarrow> rd h' m = Some (v, A)"
begin

lemma rd_prefix: "rd h m = Some (v, A) \<Longrightarrow> prefix h h' \<Longrightarrow> rd h' m = Some (v, A)"
  using local [of h m v A h'] load_prefix cells_exist by blast

lemma rd_store:
  "rd h m = Some (v, A) \<Longrightarrow> store a c h = Some h' \<Longrightarrow> a \<notin> A \<Longrightarrow> rd h' m = Some (v, A)"
  by (erule local) (metis store_other)

text \<open>Stores into other cells and allocations leave the value alone.\<close>

lemma rd_perform:
  "rd h m = Some (v, A) \<Longrightarrow> perform ops h = Some h' \<Longrightarrow> stores_to ops \<inter> A = {} \<Longrightarrow> rd h' m = Some (v, A)"
proof (induction ops arbitrary: h)
  case (Cons op ops)
  show ?case
  proof (cases op)
    case (Store a c)
    with Cons.prems obtain h1 where h1: "store a c h = Some h1" "perform ops h1 = Some h'"
      by (auto simp: bind_eq_Some_conv)
    from rd_store [OF Cons.prems(1) h1(1)] Cons.prems(3) have "rd h1 m = Some (v, A)" by (simp add: Store)
    then show ?thesis by (rule Cons.IH [OF _ h1(2)]) (use Cons.prems(3) in \<open>simp add: Store\<close>)
  next
    case (New c)
    have "rd (h @ [c]) m = Some (v, A)" by (rule rd_prefix [OF Cons.prems(1)]) simp
    then show ?thesis
      by (rule Cons.IH) (use Cons.prems(2,3) in \<open>simp_all add: New new_cell_def\<close>)
  qed
qed simp

end

text \<open>A deep copy stands for the same value, in new cells only, and leaves the old ones as they are.\<close>

locale copier = reader rd for rd :: "('c, 'm, 'v) reader" +
  fixes cp :: "('c, 'm) copying"
  assumes copies: "rd h m = Some (v, A) \<Longrightarrow>
    \<exists>m' h' A'. cp m h = Some (m', h') \<and> prefix h h' \<and> rd h' m' = Some (v, A') \<and> (\<forall>a \<in> A'. length h \<le> a)"
begin

lemma copy:
  assumes "rd h m = Some (v, A)"
  obtains m' h' A' where "cp m h = Some (m', h')" "prefix h h'" "rd h' m' = Some (v, A')"
    "\<forall>a \<in> A'. length h \<le> a" "rd h' m = Some (v, A)"
  using copies [OF assms] rd_prefix [OF assms] by blast

text \<open>Whatever happens to the copy, the original keeps its value, and the other way round.\<close>

lemma separate:
  assumes "rd h m = Some (v, A)"
  obtains m' h' A' where "cp m h = Some (m', h')" "rd h' m' = Some (v, A')" "A \<inter> A' = {}"
    "\<And>ops h''. perform ops h' = Some h'' \<Longrightarrow> stores_to ops \<inter> A = {} \<Longrightarrow> rd h'' m = Some (v, A)"
    "\<And>ops h''. perform ops h' = Some h'' \<Longrightarrow> stores_to ops \<inter> A' = {} \<Longrightarrow> rd h'' m' = Some (v, A')"
proof -
  obtain m' h' A' where c: "cp m h = Some (m', h')" "rd h' m' = Some (v, A')" "\<forall>a \<in> A'. length h \<le> a"
    "rd h' m = Some (v, A)"
    by (rule copy [OF assms])
  moreover have "A \<inter> A' = {}" using c(3) cells_exist [OF assms] by fastforce
  ultimately show ?thesis using that rd_perform by blast
qed

end

section \<open>Plain values\<close>

definition rd_plain :: "('c, 'm, 'm) reader" where
  "rd_plain h m = Some (m, {})"

definition cp_plain :: "('c, 'm) copying" where
  "cp_plain m h = Some (m, h)"

lemma copier_plain: "copier rd_plain cp_plain"
  by unfold_locales (auto simp: rd_plain_def cp_plain_def)

section \<open>Pointers\<close>

definition rd_pointer :: "('c \<Rightarrow> 'm option) \<Rightarrow> ('c, 'm, 'v) reader \<Rightarrow> ('c, addr option, 'v option) reader" where
  "rd_pointer un rd h p =
     (case p of
        None \<Rightarrow> Some (None, {})
      | Some a \<Rightarrow> do {
          c \<leftarrow> load h a;
          m \<leftarrow> un c;
          (v, A) \<leftarrow> rd h m;
          Some (Some v, insert a A)
        })"

text \<open>
  \<open>out := new(T); in.DeepCopyInto(out)\<close> for a pointer that is not nil, else nil. The new cell gets
  its address after those the copied struct points to, an order that nothing observes.
\<close>

definition cp_pointer :: "('m \<Rightarrow> 'c) \<Rightarrow> ('c \<Rightarrow> 'm option) \<Rightarrow> ('c, 'm) copying \<Rightarrow> ('c, addr option) copying" where
  "cp_pointer mk un cp p h =
     (case p of
        None \<Rightarrow> Some (None, h)
      | Some a \<Rightarrow> do {
          c \<leftarrow> load h a;
          m \<leftarrow> un c;
          (out, h) \<leftarrow> cp m h;
          let (a', h) = new_cell (mk out) h;
          Some (Some a', h)
        })"

lemma rd_pointer_simps [simp]:
  "rd_pointer un rd h None = Some (None, {})"
  "rd_pointer un rd h (Some a) = Some (w, B) \<longleftrightarrow>
     (\<exists>c m v A. load h a = Some c \<and> un c = Some m \<and> rd h m = Some (v, A) \<and> w = Some v \<and> B = insert a A)"
  by (auto simp: rd_pointer_def bind_eq_Some_conv split: prod.splits)

lemma reader_pointer:
  assumes "reader rd"
  shows "reader (rd_pointer un rd)"
proof
  fix h p v A a
  assume "rd_pointer un rd h p = Some (v, A)" "a \<in> A"
  then show "a < length h"
    by (cases p) (auto simp: load_def split: if_splits dest: reader.cells_exist [OF assms])
next
  fix h h' p v A
  assume rd: "rd_pointer un rd h p = Some (v, A)" "\<And>a. a \<in> A \<Longrightarrow> load h' a = load h a"
  show "rd_pointer un rd h' p = Some (v, A)"
  proof (cases p)
    case (Some a0)
    with rd(1) obtain c m w B where m: "load h a0 = Some c" "un c = Some m" "rd h m = Some (w, B)" "v = Some w"
      "A = insert a0 B"
      by auto
    then show ?thesis using Some rd(2) reader.local [OF assms m(3), of h'] by auto
  qed (use rd(1) in simp)
qed

lemma copier_pointer:
  assumes "copier rd cp" "cell_type mk un"
  shows "copier (rd_pointer un rd) (cp_pointer mk un cp)"
proof -
  note rd = copier.axioms(1) [OF assms(1)]
  show ?thesis
  proof (rule copier.intro [OF reader_pointer [OF rd]], rule copier_axioms.intro)
    fix h p v A
    assume "rd_pointer un rd h p = Some (v, A)"
    then show "\<exists>p' h' A'. cp_pointer mk un cp p h = Some (p', h') \<and> prefix h h' \<and>
        rd_pointer un rd h' p' = Some (v, A') \<and> (\<forall>a \<in> A'. length h \<le> a)"
    proof (cases p)
      case None
      then show ?thesis using \<open>rd_pointer un rd h p = Some (v, A)\<close> by (auto simp: cp_pointer_def)
    next
      case (Some a)
      then obtain c m w B where m: "load h a = Some c" "un c = Some m" "rd h m = Some (w, B)" "v = Some w"
        using \<open>rd_pointer un rd h p = Some (v, A)\<close> by auto
      obtain out h1 B' where out: "cp m h = Some (out, h1)" "prefix h h1" "rd h1 out = Some (w, B')"
        "\<forall>a \<in> B'. length h \<le> a"
        by (rule copier.copy [OF assms(1) m(3)]) blast
      have "rd (h1 @ [mk out]) out = Some (w, B')"
        by (rule reader.rd_prefix [OF rd out(3)]) simp
      then have "rd_pointer un rd (h1 @ [mk out]) (Some (length h1)) = Some (v, insert (length h1) B')"
        using m(4) cell_type.un_mk [OF assms(2)] by auto
      moreover have "cp_pointer mk un cp p h = Some (Some (length h1), h1 @ [mk out])"
        using Some m(1,2) out(1) by (simp add: cp_pointer_def new_cell_def)
      moreover have "prefix h (h1 @ [mk out])" "\<forall>a \<in> insert (length h1) B'. length h \<le> a"
        using out(2,4) prefix_length_le [OF out(2)] by (simp_all add: prefix_prefix)
      ultimately show ?thesis by blast
    qed
  qed
qed

section \<open>Slices\<close>

primrec rd_list :: "('c, 'm, 'v) reader \<Rightarrow> ('c, 'm list, 'v list) reader" where
  "rd_list rd h [] = Some ([], {})"
| "rd_list rd h (m # ms) = do {
     (v, A) \<leftarrow> rd h m;
     (vs, B) \<leftarrow> rd_list rd h ms;
     Some (v # vs, A \<union> B)
   }"

text \<open>\<open>for i := range in { in[i].DeepCopyInto(&out[i]) }\<close>\<close>

primrec cp_list :: "('c, 'm) copying \<Rightarrow> ('c, 'm list) copying" where
  "cp_list cp [] h = Some ([], h)"
| "cp_list cp (m # ms) h = do {
     (out, h) \<leftarrow> cp m h;
     (outs, h) \<leftarrow> cp_list cp ms h;
     Some (out # outs, h)
   }"

text \<open>\<open>copy(out, in)\<close> is \<open>cp_list cp_plain\<close>.\<close>

lemma cp_list_plain [simp]: "cp_list cp_plain ms h = Some (ms, h)"
  by (induction ms) (simp_all add: cp_plain_def)

lemma reader_list:
  assumes "reader rd"
  shows "reader (rd_list rd)"
proof
  fix h ms vs A a
  assume "rd_list rd h ms = Some (vs, A)" "a \<in> A"
  then show "a < length h"
    by (induction ms arbitrary: vs A)
      (auto simp: bind_eq_Some_conv split: prod.splits dest: reader.cells_exist [OF assms])
next
  fix h h' ms vs A
  assume "rd_list rd h ms = Some (vs, A)" "\<And>a. a \<in> A \<Longrightarrow> load h' a = load h a"
  then show "rd_list rd h' ms = Some (vs, A)"
  proof (induction ms arbitrary: vs A)
    case (Cons m ms)
    from Cons.prems(1) obtain v B ws C where m: "rd h m = Some (v, B)" "rd_list rd h ms = Some (ws, C)"
      "vs = v # ws" "A = B \<union> C"
      by (auto simp: bind_eq_Some_conv split: prod.splits)
    then show ?case
      using Cons.IH [OF m(2)] reader.local [OF assms m(1), of h'] Cons.prems(2) by simp
  qed simp
qed

lemma copier_list:
  assumes "copier rd cp"
  shows "copier (rd_list rd) (cp_list cp)"
proof -
  note rd = copier.axioms(1) [OF assms]
  note rds = reader_list [OF rd]
  show ?thesis
  proof (rule copier.intro [OF rds], rule copier_axioms.intro)
    fix h ms vs A
    assume "rd_list rd h ms = Some (vs, A)"
    then show "\<exists>ms' h' A'. cp_list cp ms h = Some (ms', h') \<and> prefix h h' \<and>
        rd_list rd h' ms' = Some (vs, A') \<and> (\<forall>a \<in> A'. length h \<le> a)"
    proof (induction ms arbitrary: h vs A)
      case (Cons m ms)
      from Cons.prems obtain v B ws C where m: "rd h m = Some (v, B)" "rd_list rd h ms = Some (ws, C)" "vs = v # ws"
        by (auto simp: bind_eq_Some_conv split: prod.splits)
      obtain out h1 B' where out: "cp m h = Some (out, h1)" "prefix h h1" "rd h1 out = Some (v, B')"
        "\<forall>a \<in> B'. length h \<le> a"
        by (rule copier.copy [OF assms m(1)]) blast
      obtain outs h2 C' where outs: "cp_list cp ms h1 = Some (outs, h2)" "prefix h1 h2"
        "rd_list rd h2 outs = Some (ws, C')" "\<forall>a \<in> C'. length h1 \<le> a"
        using Cons.IH [OF reader.rd_prefix [OF rds m(2) out(2)]] by blast
      have "rd h2 out = Some (v, B')" by (rule reader.rd_prefix [OF rd out(3) outs(2)])
      then have "rd_list rd h2 (out # outs) = Some (vs, B' \<union> C')" using outs(3) m(3) by simp
      moreover have "cp_list cp (m # ms) h = Some (out # outs, h2)" using out(1) outs(1) by simp
      ultimately show ?case
        using prefix_order.trans [OF out(2) outs(2)] out(4) later_cells [OF out(2) outs(4)] by blast
    qed simp
  qed
qed

text \<open>A slice looks into an array cell: \<open>len\<close> elements from \<open>off\<close>. A nil slice is \<open>None\<close>.\<close>

record slice =
  sl_array :: addr
  sl_off :: nat
  sl_len :: nat

definition elements :: "('c \<Rightarrow> 'm list option) \<Rightarrow> 'c memory \<Rightarrow> slice \<Rightarrow> 'm list option" where
  "elements un h s = do {
     c \<leftarrow> load h (sl_array s);
     xs \<leftarrow> un c;
     if sl_off s + sl_len s \<le> length xs then Some (take (sl_len s) (drop (sl_off s) xs)) else None
   }"

definition rd_slice :: "('c \<Rightarrow> 'm list option) \<Rightarrow> ('c, 'm, 'v) reader \<Rightarrow> ('c, slice option, 'v list) reader" where
  "rd_slice un rd h s =
     (case s of
        None \<Rightarrow> Some ([], {})
      | Some s \<Rightarrow> do {
          ms \<leftarrow> elements un h s;
          (vs, A) \<leftarrow> rd_list rd h ms;
          Some (vs, insert (sl_array s) A)
        })"

text \<open>\<open>out := make([]T, len(in))\<close> and the loop, for a slice that is not nil.\<close>

definition cp_slice :: "('m list \<Rightarrow> 'c) \<Rightarrow> ('c \<Rightarrow> 'm list option) \<Rightarrow> ('c, 'm) copying \<Rightarrow> ('c, slice option) copying" where
  "cp_slice mk un cp s h =
     (case s of
        None \<Rightarrow> Some (None, h)
      | Some s \<Rightarrow> do {
          ms \<leftarrow> elements un h s;
          (outs, h) \<leftarrow> cp_list cp ms h;
          let (a, h) = new_cell (mk outs) h;
          Some (Some \<lparr>sl_array = a, sl_off = 0, sl_len = sl_len s\<rparr>, h)
        })"

lemma cp_list_length: "cp_list cp ms h = Some (outs, h') \<Longrightarrow> length outs = length ms"
  by (induction ms arbitrary: h outs) (auto simp: bind_eq_Some_conv split: prod.splits)

lemma elements_length: "elements un h s = Some ms \<Longrightarrow> length ms = sl_len s"
  by (auto simp: elements_def bind_eq_Some_conv split: if_splits)

lemma elements_exist: "elements un h s = Some ms \<Longrightarrow> sl_array s < length h"
  by (auto simp: elements_def bind_eq_Some_conv load_def split: if_splits)

lemma elements_local: "load h' (sl_array s) = load h (sl_array s) \<Longrightarrow> elements un h' s = elements un h s"
  by (simp add: elements_def)

lemma rd_slice_simps [simp]:
  "rd_slice un rd h None = Some ([], {})"
  "rd_slice un rd h (Some s) = Some (vs, B) \<longleftrightarrow>
     (\<exists>ms A. elements un h s = Some ms \<and> rd_list rd h ms = Some (vs, A) \<and> B = insert (sl_array s) A)"
  by (auto simp: rd_slice_def bind_eq_Some_conv split: prod.splits)

lemma reader_slice:
  assumes "reader rd"
  shows "reader (rd_slice un rd)"
proof
  fix h s v A a
  assume "rd_slice un rd h s = Some (v, A)" "a \<in> A"
  then show "a < length h"
    by (cases s) (auto dest: elements_exist reader.cells_exist [OF reader_list [OF assms]])
next
  fix h h' s v A
  assume rd: "rd_slice un rd h s = Some (v, A)" "\<And>a. a \<in> A \<Longrightarrow> load h' a = load h a"
  show "rd_slice un rd h' s = Some (v, A)"
  proof (cases s)
    case (Some t)
    with rd obtain ms B where "elements un h t = Some ms" "rd_list rd h ms = Some (v, B)" "A = insert (sl_array t) B"
      by auto
    moreover from this rd(2) have "elements un h' t = elements un h t" by (intro elements_local) simp
    ultimately show ?thesis
      using Some rd(2) reader.local [OF reader_list [OF assms], of h ms v B h'] by simp
  qed (use rd(1) in simp)
qed

lemma copier_slice:
  assumes "copier rd cp" "cell_type mk un"
  shows "copier (rd_slice un rd) (cp_slice mk un cp)"
proof -
  note rd = copier.axioms(1) [OF assms(1)]
  show ?thesis
  proof (rule copier.intro [OF reader_slice [OF rd]], rule copier_axioms.intro)
    fix h s v A
    assume r: "rd_slice un rd h s = Some (v, A)"
    show "\<exists>s' h' A'. cp_slice mk un cp s h = Some (s', h') \<and> prefix h h' \<and>
        rd_slice un rd h' s' = Some (v, A') \<and> (\<forall>a \<in> A'. length h \<le> a)"
    proof (cases s)
      case None
      then show ?thesis using r by (auto simp: cp_slice_def)
    next
      case (Some t)
      then obtain ms B where ms: "elements un h t = Some ms" "rd_list rd h ms = Some (v, B)" using r by auto
      obtain outs h1 B' where outs: "cp_list cp ms h = Some (outs, h1)" "prefix h h1"
        "rd_list rd h1 outs = Some (v, B')" "\<forall>a \<in> B'. length h \<le> a"
        by (rule copier.copy [OF copier_list [OF assms(1)] ms(2)]) blast
      let ?t = "\<lparr>sl_array = length h1, sl_off = 0, sl_len = sl_len t\<rparr>"
      have "length outs = sl_len t" using cp_list_length [OF outs(1)] elements_length [OF ms(1)] by simp
      then have "elements un (h1 @ [mk outs]) ?t = Some outs"
        using cell_type.un_mk [OF assms(2)] by (simp add: elements_def)
      moreover have "rd_list rd (h1 @ [mk outs]) outs = Some (v, B')"
        by (rule reader.rd_prefix [OF reader_list [OF rd] outs(3)]) simp
      ultimately have "rd_slice un rd (h1 @ [mk outs]) (Some ?t) = Some (v, insert (length h1) B')" by simp
      moreover have "cp_slice mk un cp s h = Some (Some ?t, h1 @ [mk outs])"
        using Some ms(1) outs(1) by (simp add: cp_slice_def new_cell_def)
      moreover have "prefix h (h1 @ [mk outs])" "\<forall>a \<in> insert (length h1) B'. length h \<le> a"
        using outs(2,4) prefix_length_le [OF outs(2)] by (simp_all add: prefix_prefix)
      ultimately show ?thesis by blast
    qed
  qed
qed

section \<open>Fields\<close>

text \<open>Two fields, one after the other; and a struct seen as the tuple of its fields.\<close>

definition rd_pair :: "('c, 'm, 'v) reader \<Rightarrow> ('c, 'n, 'w) reader \<Rightarrow> ('c, 'm \<times> 'n, 'v \<times> 'w) reader" where
  "rd_pair rd1 rd2 h p = do {
     (v, A) \<leftarrow> rd1 h (fst p);
     (w, B) \<leftarrow> rd2 h (snd p);
     Some ((v, w), A \<union> B)
   }"

definition cp_pair :: "('c, 'm) copying \<Rightarrow> ('c, 'n) copying \<Rightarrow> ('c, 'm \<times> 'n) copying" where
  "cp_pair cp1 cp2 p h = do {
     (x, h) \<leftarrow> cp1 (fst p) h;
     (y, h) \<leftarrow> cp2 (snd p) h;
     Some ((x, y), h)
   }"

lemma rd_pair_eq [simp]:
  "rd_pair rd1 rd2 h (m, n) = Some (z, C) \<longleftrightarrow>
     (\<exists>v A w B. rd1 h m = Some (v, A) \<and> rd2 h n = Some (w, B) \<and> z = (v, w) \<and> C = A \<union> B)"
  by (auto simp: rd_pair_def bind_eq_Some_conv split: prod.splits)

lemma reader_pair:
  assumes "reader rd1" "reader rd2"
  shows "reader (rd_pair rd1 rd2)"
proof
  fix h p v A a
  assume "rd_pair rd1 rd2 h p = Some (v, A)" "a \<in> A"
  then show "a < length h"
    by (cases p) (auto dest: reader.cells_exist [OF assms(1)] reader.cells_exist [OF assms(2)])
next
  fix h h' p v A
  assume rd: "rd_pair rd1 rd2 h p = Some (v, A)" "\<And>a. a \<in> A \<Longrightarrow> load h' a = load h a"
  obtain m n where p: "p = (m, n)" by fastforce
  with rd(1) obtain v1 B w1 C where parts: "rd1 h m = Some (v1, B)" "rd2 h n = Some (w1, C)" "v = (v1, w1)" "A = B \<union> C"
    by auto
  then show "rd_pair rd1 rd2 h' p = Some (v, A)"
    using reader.local [OF assms(1) parts(1), of h'] reader.local [OF assms(2) parts(2), of h'] rd(2) p by auto
qed

lemma copier_pair:
  assumes "copier rd1 cp1" "copier rd2 cp2"
  shows "copier (rd_pair rd1 rd2) (cp_pair cp1 cp2)"
proof -
  note rd1 = copier.axioms(1) [OF assms(1)] and rd2 = copier.axioms(1) [OF assms(2)]
  show ?thesis
  proof (rule copier.intro [OF reader_pair [OF rd1 rd2]], rule copier_axioms.intro)
    fix h p v A
    assume r: "rd_pair rd1 rd2 h p = Some (v, A)"
    obtain m n where p: "p = (m, n)" by fastforce
    with r obtain v1 B w1 C where parts: "rd1 h m = Some (v1, B)" "rd2 h n = Some (w1, C)" "v = (v1, w1)"
      by auto
    obtain x h1 B' where x: "cp1 m h = Some (x, h1)" "prefix h h1" "rd1 h1 x = Some (v1, B')"
      "\<forall>a \<in> B'. length h \<le> a"
      by (rule copier.copy [OF assms(1) parts(1)]) blast
    obtain y h2 C' where y: "cp2 n h1 = Some (y, h2)" "prefix h1 h2" "rd2 h2 y = Some (w1, C')"
      "\<forall>a \<in> C'. length h1 \<le> a"
      by (rule copier.copy [OF assms(2) reader.rd_prefix [OF rd2 parts(2) x(2)]]) blast
    have "rd1 h2 x = Some (v1, B')" by (rule reader.rd_prefix [OF rd1 x(3) y(2)])
    then have "rd_pair rd1 rd2 h2 (x, y) = Some (v, B' \<union> C')" using y(3) parts(3) by simp
    moreover have "cp_pair cp1 cp2 p h = Some ((x, y), h2)" using x(1) y(1) p by (simp add: cp_pair_def)
    ultimately show "\<exists>p' h' A'. cp_pair cp1 cp2 p h = Some (p', h') \<and> prefix h h' \<and>
        rd_pair rd1 rd2 h' p' = Some (v, A') \<and> (\<forall>a \<in> A'. length h \<le> a)"
      using prefix_order.trans [OF x(2) y(2)] x(4) later_cells [OF x(2) y(4)] by blast
  qed
qed

text \<open>
  \<open>get\<close> picks the fields that need copying, \<open>put\<close> writes them into the struct copied by \<open>*out = *in\<close>,
  \<open>val\<close> makes the value from the struct and the values of these fields.
\<close>

definition rd_struct :: "('m \<Rightarrow> 'n) \<Rightarrow> ('m \<Rightarrow> 'v \<Rightarrow> 'w) \<Rightarrow> ('c, 'n, 'v) reader \<Rightarrow> ('c, 'm, 'w) reader" where
  "rd_struct get val rd h m = do {
     (v, A) \<leftarrow> rd h (get m);
     Some (val m v, A)
   }"

definition cp_struct :: "('m \<Rightarrow> 'n) \<Rightarrow> ('n \<Rightarrow> 'm \<Rightarrow> 'm) \<Rightarrow> ('c, 'n) copying \<Rightarrow> ('c, 'm) copying" where
  "cp_struct get put cp m h = do {
     (n, h) \<leftarrow> cp (get m) h;
     Some (put n m, h)
   }"

lemma copier_struct:
  assumes "copier rd cp" "\<And>n m. get (put n m) = n" "\<And>n m. val (put n m) = val m"
  shows "copier (rd_struct get val rd) (cp_struct get put cp)"
proof -
  have eq: "rd_struct get val rd h m = Some (w, A) \<longleftrightarrow> (\<exists>v. rd h (get m) = Some (v, A) \<and> w = val m v)" for h m w A
    by (auto simp: rd_struct_def bind_eq_Some_conv split: prod.splits)
  note rd = copier.axioms(1) [OF assms(1)]
  show ?thesis
  proof
    fix h m w A a
    assume "rd_struct get val rd h m = Some (w, A)" "a \<in> A"
    then show "a < length h" by (auto simp: eq dest: reader.cells_exist [OF rd])
  next
    fix h h' m w A
    assume "rd_struct get val rd h m = Some (w, A)" "\<And>a. a \<in> A \<Longrightarrow> load h' a = load h a"
    then show "rd_struct get val rd h' m = Some (w, A)"
      unfolding eq using reader.local [OF rd] by blast
  next
    fix h m w A
    assume "rd_struct get val rd h m = Some (w, A)"
    then obtain v where v: "rd h (get m) = Some (v, A)" "w = val m v" by (auto simp: eq)
    obtain n h1 B where n: "cp (get m) h = Some (n, h1)" "prefix h h1" "rd h1 n = Some (v, B)"
      "\<forall>a \<in> B. length h \<le> a"
      by (rule copier.copy [OF assms(1) v(1)]) blast
    have "rd_struct get val rd h1 (put n m) = Some (w, B)" using n(3) v(2) assms(2,3) by (simp add: eq)
    moreover have "cp_struct get put cp m h = Some (put n m, h1)" by (simp add: cp_struct_def n(1))
    ultimately show "\<exists>m' h' A'. cp_struct get put cp m h = Some (m', h') \<and> prefix h h' \<and>
        rd_struct get val rd h' m' = Some (w, A') \<and> (\<forall>a \<in> A'. length h \<le> a)"
      using n(2,4) by blast
  qed
qed

end
