(* ===== verification/Memory_Types.thy ===== *)
theory Memory_Types
  imports Go_Memory Api_Types
begin

text \<open>
  The API types as they lie in memory: a record per struct that has pointers or slices
  (\<open>_mem\<close>, the other structs are the records of \<open>Api_Types\<close>), the cells that pointers and slices lead
  to, and the readers that give the value of \<open>Api_Types\<close> a piece of memory stands for. Of the library
  structs (\<open>ObjectMeta\<close>, \<open>ListMeta\<close>, \<open>LabelSelector\<close>) the fields are those the program reads.
\<close>

section \<open>Library structs\<close>

record TypeMeta =
  tm_Kind :: string
  tm_APIVersion :: string

record ObjectMeta =
  om_Name :: string
  om_Namespace :: string
  om_Generation :: int64
  om_Labels :: "labels option"
  om_Annotations :: "labels option"

record ObjectMeta_mem =
  omm_Name :: string
  omm_Namespace :: string
  omm_Generation :: int64
  omm_Labels :: "addr option"
  omm_Annotations :: "addr option"

record ListMeta =
  lm_ResourceVersion :: string
  lm_Continue :: string
  lm_RemainingItemCount :: "int64 option"

record ListMeta_mem =
  lmm_ResourceVersion :: string
  lmm_Continue :: string
  lmm_RemainingItemCount :: "addr option"

record LabelSelectorRequirement_mem =
  lsrm_Key :: string
  lsrm_Operator :: string
  lsrm_Values :: "slice option"

record LabelSelector_mem =
  lsm_MatchLabels :: "addr option"
  lsm_MatchExpressions :: "slice option"

section \<open>Structs with pointers\<close>

record TokenQuota_mem =
  tqm_TokensPerMinute :: "addr option"
  tqm_RequestsPerMinute :: "addr option"
  tqm_TokensPerDay :: "addr option"
  tqm_TokensPerMonth :: "addr option"

record ModelPermission_mem =
  mpm_Provider :: string
  mpm_Model :: string
  mpm_Action :: PermissionAction
  mpm_CredentialRef :: "addr option"
  mpm_Quota :: "addr option"

record WorkloadSelector_mem =
  wsm_PodSelector :: "addr option"
  wsm_ServiceAccounts :: "slice option"

record GatewayIntegration_mem =
  gim_Type :: GatewayType
  gim_TargetRef :: "addr option"

record UsageStatus_mem =
  usm_WindowStart :: "addr option"
  usm_TokensMinute :: int64
  usm_TokensDay :: int64
  usm_TokensMonth :: int64
  usm_RequestsMinute :: int64
  usm_LastUpdated :: "addr option"

record ModelRequest_mem =
  mrm_Provider :: string
  mrm_Model :: string
  mrm_CredentialRef :: "addr option"

record ClusterTokenPolicySpec_mem =
  ctpsm_NamespaceSelector :: "addr option"
  ctpsm_Models :: "slice option"
  ctpsm_Quota :: "addr option"
  ctpsm_Enforcement :: EnforcementMode
  ctpsm_DefaultCredentialRef :: "addr option"
  ctpsm_Gateway :: "addr option"

record ClusterTokenPolicyStatus_mem =
  ctpstm_ObservedGeneration :: int64
  ctpstm_ModelCount :: nat
  ctpstm_AppliedNamespaces :: "slice option"
  ctpstm_Conditions :: "slice option"

record TokenPolicySpec_mem =
  tpsm_Selector :: "addr option"
  tpsm_Models :: "slice option"
  tpsm_Quota :: "addr option"
  tpsm_Enforcement :: EnforcementMode
  tpsm_Priority :: int32
  tpsm_Gateway :: "addr option"

record TokenPolicyStatus_mem =
  tpstm_ObservedGeneration :: int64
  tpstm_EffectiveModels :: "slice option"
  tpstm_EffectiveQuota :: "addr option"
  tpstm_Usage :: "addr option"
  tpstm_BoundCredentials :: "slice option"
  tpstm_GatewayRef :: string
  tpstm_Conditions :: "slice option"

record ModelClaimSpec_mem =
  mclsm_Selector :: "addr option"
  mclsm_Models :: "slice option"
  mclsm_Purpose :: string

record ModelClaimStatus_mem =
  mclstm_ObservedGeneration :: int64
  mclstm_Phase :: ModelClaimPhase
  mclstm_ResolvedModels :: "slice option"
  mclstm_BoundCredentials :: "slice option"
  mclstm_Conditions :: "slice option"

record ModelCredentialSpec_mem =
  mcsm_Provider :: string
  mcsm_Models :: "slice option"
  mcsm_SecretRef :: SecretKeySelector
  mcsm_AllowedNamespaces :: "slice option"
  mcsm_NamespaceSelector :: "addr option"
  mcsm_Injection :: "addr option"
  mcsm_Capacity :: "addr option"

record ModelCredentialStatus_mem =
  mcstm_ObservedGeneration :: int64
  mcstm_SecretResolved :: bool
  mcstm_SyncedNamespaces :: "slice option"
  mcstm_ReferencingPolicies :: "slice option"
  mcstm_Allocated :: "addr option"
  mcstm_Available :: "addr option"
  mcstm_Conditions :: "slice option"

text \<open>The four kinds and their lists have the same shape.\<close>

record ('spec, 'status) k8s_object =
  ob_TypeMeta :: TypeMeta
  ob_ObjectMeta :: ObjectMeta
  ob_Spec :: 'spec
  ob_Status :: 'status

record ('spec, 'status) k8s_object_mem =
  obm_TypeMeta :: TypeMeta
  obm_ObjectMeta :: ObjectMeta_mem
  obm_Spec :: 'spec
  obm_Status :: 'status

record 'o k8s_list =
  li_TypeMeta :: TypeMeta
  li_ListMeta :: ListMeta
  li_Items :: "'o list"

record k8s_list_mem =
  lim_TypeMeta :: TypeMeta
  lim_ListMeta :: ListMeta_mem
  lim_Items :: "slice option"

type_synonym ClusterTokenPolicy_mem = "(ClusterTokenPolicySpec_mem, ClusterTokenPolicyStatus_mem) k8s_object_mem"
type_synonym ModelClaim_mem = "(ModelClaimSpec_mem, ModelClaimStatus_mem) k8s_object_mem"
type_synonym ModelCredential_mem = "(ModelCredentialSpec_mem, ModelCredentialStatus_mem) k8s_object_mem"
type_synonym TokenPolicy_mem = "(TokenPolicySpec_mem, TokenPolicyStatus_mem) k8s_object_mem"

type_synonym ClusterTokenPolicyList_mem = k8s_list_mem

type_synonym ModelClaimList_mem = k8s_list_mem

type_synonym ModelCredentialList_mem = k8s_list_mem

type_synonym TokenPolicyList_mem = k8s_list_mem

section \<open>Cells\<close>

datatype cell =
    Int64Cell int64
  | TimeCell int
  | MapCell labels
  | StringsCell "string list"
  | LabelSelectorCell LabelSelector_mem
  | RequirementsCell "LabelSelectorRequirement_mem list"
  | CredentialReferenceCell CredentialReference
  | CredentialInjectionCell CredentialInjection
  | EffectiveModelCell EffectiveModel
  | GatewayTargetRefCell GatewayTargetRef
  | SecretKeySelectorCell SecretKeySelector
  | TokenQuotaCell TokenQuota_mem
  | ModelPermissionCell ModelPermission_mem
  | WorkloadSelectorCell WorkloadSelector_mem
  | GatewayIntegrationCell GatewayIntegration_mem
  | UsageStatusCell UsageStatus_mem
  | ModelRequestCell ModelRequest_mem
  | ClusterTokenPolicySpecCell ClusterTokenPolicySpec_mem
  | ClusterTokenPolicyStatusCell ClusterTokenPolicyStatus_mem
  | TokenPolicySpecCell TokenPolicySpec_mem
  | TokenPolicyStatusCell TokenPolicyStatus_mem
  | ModelClaimSpecCell ModelClaimSpec_mem
  | ModelClaimStatusCell ModelClaimStatus_mem
  | ModelCredentialSpecCell ModelCredentialSpec_mem
  | ModelCredentialStatusCell ModelCredentialStatus_mem
  | ClusterTokenPolicyCell ClusterTokenPolicy_mem
  | ModelClaimCell ModelClaim_mem
  | ModelCredentialCell ModelCredential_mem
  | TokenPolicyCell TokenPolicy_mem
  | ClusterTokenPolicyListCell k8s_list_mem
  | ModelClaimListCell k8s_list_mem
  | ModelCredentialListCell k8s_list_mem
  | TokenPolicyListCell k8s_list_mem
  | ModelPermissionsCell "ModelPermission_mem list"
  | ModelRequestsCell "ModelRequest_mem list"
  | EffectiveModelsCell "EffectiveModel list"
  | ConditionsCell "Condition list"
  | ClusterTokenPolicysCell "ClusterTokenPolicy_mem list"
  | ModelClaimsCell "ModelClaim_mem list"
  | ModelCredentialsCell "ModelCredential_mem list"
  | TokenPolicysCell "TokenPolicy_mem list"

definition un_Int64 :: "cell \<Rightarrow> int64 option" where
  "un_Int64 c = (case c of Int64Cell x \<Rightarrow> Some x | _ \<Rightarrow> None)"

definition un_Time :: "cell \<Rightarrow> int option" where
  "un_Time c = (case c of TimeCell x \<Rightarrow> Some x | _ \<Rightarrow> None)"

definition un_Map :: "cell \<Rightarrow> labels option" where
  "un_Map c = (case c of MapCell x \<Rightarrow> Some x | _ \<Rightarrow> None)"

definition un_Strings :: "cell \<Rightarrow> (string list) option" where
  "un_Strings c = (case c of StringsCell x \<Rightarrow> Some x | _ \<Rightarrow> None)"

definition un_LabelSelector :: "cell \<Rightarrow> LabelSelector_mem option" where
  "un_LabelSelector c = (case c of LabelSelectorCell x \<Rightarrow> Some x | _ \<Rightarrow> None)"

definition un_Requirements :: "cell \<Rightarrow> (LabelSelectorRequirement_mem list) option" where
  "un_Requirements c = (case c of RequirementsCell x \<Rightarrow> Some x | _ \<Rightarrow> None)"

definition un_CredentialReference :: "cell \<Rightarrow> CredentialReference option" where
  "un_CredentialReference c = (case c of CredentialReferenceCell x \<Rightarrow> Some x | _ \<Rightarrow> None)"

definition un_CredentialInjection :: "cell \<Rightarrow> CredentialInjection option" where
  "un_CredentialInjection c = (case c of CredentialInjectionCell x \<Rightarrow> Some x | _ \<Rightarrow> None)"

definition un_EffectiveModel :: "cell \<Rightarrow> EffectiveModel option" where
  "un_EffectiveModel c = (case c of EffectiveModelCell x \<Rightarrow> Some x | _ \<Rightarrow> None)"

definition un_GatewayTargetRef :: "cell \<Rightarrow> GatewayTargetRef option" where
  "un_GatewayTargetRef c = (case c of GatewayTargetRefCell x \<Rightarrow> Some x | _ \<Rightarrow> None)"

definition un_SecretKeySelector :: "cell \<Rightarrow> SecretKeySelector option" where
  "un_SecretKeySelector c = (case c of SecretKeySelectorCell x \<Rightarrow> Some x | _ \<Rightarrow> None)"

definition un_TokenQuota :: "cell \<Rightarrow> TokenQuota_mem option" where
  "un_TokenQuota c = (case c of TokenQuotaCell x \<Rightarrow> Some x | _ \<Rightarrow> None)"

definition un_ModelPermission :: "cell \<Rightarrow> ModelPermission_mem option" where
  "un_ModelPermission c = (case c of ModelPermissionCell x \<Rightarrow> Some x | _ \<Rightarrow> None)"

definition un_WorkloadSelector :: "cell \<Rightarrow> WorkloadSelector_mem option" where
  "un_WorkloadSelector c = (case c of WorkloadSelectorCell x \<Rightarrow> Some x | _ \<Rightarrow> None)"

definition un_GatewayIntegration :: "cell \<Rightarrow> GatewayIntegration_mem option" where
  "un_GatewayIntegration c = (case c of GatewayIntegrationCell x \<Rightarrow> Some x | _ \<Rightarrow> None)"

definition un_UsageStatus :: "cell \<Rightarrow> UsageStatus_mem option" where
  "un_UsageStatus c = (case c of UsageStatusCell x \<Rightarrow> Some x | _ \<Rightarrow> None)"

definition un_ModelRequest :: "cell \<Rightarrow> ModelRequest_mem option" where
  "un_ModelRequest c = (case c of ModelRequestCell x \<Rightarrow> Some x | _ \<Rightarrow> None)"

definition un_ClusterTokenPolicySpec :: "cell \<Rightarrow> ClusterTokenPolicySpec_mem option" where
  "un_ClusterTokenPolicySpec c = (case c of ClusterTokenPolicySpecCell x \<Rightarrow> Some x | _ \<Rightarrow> None)"

definition un_ClusterTokenPolicyStatus :: "cell \<Rightarrow> ClusterTokenPolicyStatus_mem option" where
  "un_ClusterTokenPolicyStatus c = (case c of ClusterTokenPolicyStatusCell x \<Rightarrow> Some x | _ \<Rightarrow> None)"

definition un_TokenPolicySpec :: "cell \<Rightarrow> TokenPolicySpec_mem option" where
  "un_TokenPolicySpec c = (case c of TokenPolicySpecCell x \<Rightarrow> Some x | _ \<Rightarrow> None)"

definition un_TokenPolicyStatus :: "cell \<Rightarrow> TokenPolicyStatus_mem option" where
  "un_TokenPolicyStatus c = (case c of TokenPolicyStatusCell x \<Rightarrow> Some x | _ \<Rightarrow> None)"

definition un_ModelClaimSpec :: "cell \<Rightarrow> ModelClaimSpec_mem option" where
  "un_ModelClaimSpec c = (case c of ModelClaimSpecCell x \<Rightarrow> Some x | _ \<Rightarrow> None)"

definition un_ModelClaimStatus :: "cell \<Rightarrow> ModelClaimStatus_mem option" where
  "un_ModelClaimStatus c = (case c of ModelClaimStatusCell x \<Rightarrow> Some x | _ \<Rightarrow> None)"

definition un_ModelCredentialSpec :: "cell \<Rightarrow> ModelCredentialSpec_mem option" where
  "un_ModelCredentialSpec c = (case c of ModelCredentialSpecCell x \<Rightarrow> Some x | _ \<Rightarrow> None)"

definition un_ModelCredentialStatus :: "cell \<Rightarrow> ModelCredentialStatus_mem option" where
  "un_ModelCredentialStatus c = (case c of ModelCredentialStatusCell x \<Rightarrow> Some x | _ \<Rightarrow> None)"

definition un_ClusterTokenPolicy :: "cell \<Rightarrow> ClusterTokenPolicy_mem option" where
  "un_ClusterTokenPolicy c = (case c of ClusterTokenPolicyCell x \<Rightarrow> Some x | _ \<Rightarrow> None)"

definition un_ModelClaim :: "cell \<Rightarrow> ModelClaim_mem option" where
  "un_ModelClaim c = (case c of ModelClaimCell x \<Rightarrow> Some x | _ \<Rightarrow> None)"

definition un_ModelCredential :: "cell \<Rightarrow> ModelCredential_mem option" where
  "un_ModelCredential c = (case c of ModelCredentialCell x \<Rightarrow> Some x | _ \<Rightarrow> None)"

definition un_TokenPolicy :: "cell \<Rightarrow> TokenPolicy_mem option" where
  "un_TokenPolicy c = (case c of TokenPolicyCell x \<Rightarrow> Some x | _ \<Rightarrow> None)"

definition un_ClusterTokenPolicyList :: "cell \<Rightarrow> k8s_list_mem option" where
  "un_ClusterTokenPolicyList c = (case c of ClusterTokenPolicyListCell x \<Rightarrow> Some x | _ \<Rightarrow> None)"

definition un_ModelClaimList :: "cell \<Rightarrow> k8s_list_mem option" where
  "un_ModelClaimList c = (case c of ModelClaimListCell x \<Rightarrow> Some x | _ \<Rightarrow> None)"

definition un_ModelCredentialList :: "cell \<Rightarrow> k8s_list_mem option" where
  "un_ModelCredentialList c = (case c of ModelCredentialListCell x \<Rightarrow> Some x | _ \<Rightarrow> None)"

definition un_TokenPolicyList :: "cell \<Rightarrow> k8s_list_mem option" where
  "un_TokenPolicyList c = (case c of TokenPolicyListCell x \<Rightarrow> Some x | _ \<Rightarrow> None)"

definition un_ModelPermissions :: "cell \<Rightarrow> (ModelPermission_mem list) option" where
  "un_ModelPermissions c = (case c of ModelPermissionsCell x \<Rightarrow> Some x | _ \<Rightarrow> None)"

definition un_ModelRequests :: "cell \<Rightarrow> (ModelRequest_mem list) option" where
  "un_ModelRequests c = (case c of ModelRequestsCell x \<Rightarrow> Some x | _ \<Rightarrow> None)"

definition un_EffectiveModels :: "cell \<Rightarrow> (EffectiveModel list) option" where
  "un_EffectiveModels c = (case c of EffectiveModelsCell x \<Rightarrow> Some x | _ \<Rightarrow> None)"

definition un_Conditions :: "cell \<Rightarrow> (Condition list) option" where
  "un_Conditions c = (case c of ConditionsCell x \<Rightarrow> Some x | _ \<Rightarrow> None)"

definition un_ClusterTokenPolicys :: "cell \<Rightarrow> (ClusterTokenPolicy_mem list) option" where
  "un_ClusterTokenPolicys c = (case c of ClusterTokenPolicysCell x \<Rightarrow> Some x | _ \<Rightarrow> None)"

definition un_ModelClaims :: "cell \<Rightarrow> (ModelClaim_mem list) option" where
  "un_ModelClaims c = (case c of ModelClaimsCell x \<Rightarrow> Some x | _ \<Rightarrow> None)"

definition un_ModelCredentials :: "cell \<Rightarrow> (ModelCredential_mem list) option" where
  "un_ModelCredentials c = (case c of ModelCredentialsCell x \<Rightarrow> Some x | _ \<Rightarrow> None)"

definition un_TokenPolicys :: "cell \<Rightarrow> (TokenPolicy_mem list) option" where
  "un_TokenPolicys c = (case c of TokenPolicysCell x \<Rightarrow> Some x | _ \<Rightarrow> None)"

lemma cell_types [simp]:
  "cell_type Int64Cell un_Int64"
  "cell_type TimeCell un_Time"
  "cell_type MapCell un_Map"
  "cell_type StringsCell un_Strings"
  "cell_type LabelSelectorCell un_LabelSelector"
  "cell_type RequirementsCell un_Requirements"
  "cell_type CredentialReferenceCell un_CredentialReference"
  "cell_type CredentialInjectionCell un_CredentialInjection"
  "cell_type EffectiveModelCell un_EffectiveModel"
  "cell_type GatewayTargetRefCell un_GatewayTargetRef"
  "cell_type SecretKeySelectorCell un_SecretKeySelector"
  "cell_type TokenQuotaCell un_TokenQuota"
  "cell_type ModelPermissionCell un_ModelPermission"
  "cell_type WorkloadSelectorCell un_WorkloadSelector"
  "cell_type GatewayIntegrationCell un_GatewayIntegration"
  "cell_type UsageStatusCell un_UsageStatus"
  "cell_type ModelRequestCell un_ModelRequest"
  "cell_type ClusterTokenPolicySpecCell un_ClusterTokenPolicySpec"
  "cell_type ClusterTokenPolicyStatusCell un_ClusterTokenPolicyStatus"
  "cell_type TokenPolicySpecCell un_TokenPolicySpec"
  "cell_type TokenPolicyStatusCell un_TokenPolicyStatus"
  "cell_type ModelClaimSpecCell un_ModelClaimSpec"
  "cell_type ModelClaimStatusCell un_ModelClaimStatus"
  "cell_type ModelCredentialSpecCell un_ModelCredentialSpec"
  "cell_type ModelCredentialStatusCell un_ModelCredentialStatus"
  "cell_type ClusterTokenPolicyCell un_ClusterTokenPolicy"
  "cell_type ModelClaimCell un_ModelClaim"
  "cell_type ModelCredentialCell un_ModelCredential"
  "cell_type TokenPolicyCell un_TokenPolicy"
  "cell_type ClusterTokenPolicyListCell un_ClusterTokenPolicyList"
  "cell_type ModelClaimListCell un_ModelClaimList"
  "cell_type ModelCredentialListCell un_ModelCredentialList"
  "cell_type TokenPolicyListCell un_TokenPolicyList"
  "cell_type ModelPermissionsCell un_ModelPermissions"
  "cell_type ModelRequestsCell un_ModelRequests"
  "cell_type EffectiveModelsCell un_EffectiveModels"
  "cell_type ConditionsCell un_Conditions"
  "cell_type ClusterTokenPolicysCell un_ClusterTokenPolicys"
  "cell_type ModelClaimsCell un_ModelClaims"
  "cell_type ModelCredentialsCell un_ModelCredentials"
  "cell_type TokenPolicysCell un_TokenPolicys"
  by unfold_locales (simp_all add: un_Int64_def un_Time_def un_Map_def un_Strings_def un_LabelSelector_def un_Requirements_def un_CredentialReference_def un_CredentialInjection_def un_EffectiveModel_def un_GatewayTargetRef_def un_SecretKeySelector_def un_TokenQuota_def un_ModelPermission_def un_WorkloadSelector_def un_GatewayIntegration_def un_UsageStatus_def un_ModelRequest_def un_ClusterTokenPolicySpec_def un_ClusterTokenPolicyStatus_def un_TokenPolicySpec_def un_TokenPolicyStatus_def un_ModelClaimSpec_def un_ModelClaimStatus_def un_ModelCredentialSpec_def un_ModelCredentialStatus_def un_ClusterTokenPolicy_def un_ModelClaim_def un_ModelCredential_def un_TokenPolicy_def un_ClusterTokenPolicyList_def un_ModelClaimList_def un_ModelCredentialList_def un_TokenPolicyList_def un_ModelPermissions_def un_ModelRequests_def un_EffectiveModels_def un_Conditions_def un_ClusterTokenPolicys_def un_ModelClaims_def un_ModelCredentials_def un_TokenPolicys_def)

interpretation TokenQuota_cell: cell_type TokenQuotaCell un_TokenQuota
  by simp

section \<open>Readers\<close>

definition rd_Map :: "(cell, addr option, labels option) reader" where
  "rd_Map = rd_pointer un_Map rd_plain"

definition rd_Int64 :: "(cell, addr option, int64 option) reader" where
  "rd_Int64 = rd_pointer un_Int64 rd_plain"

definition rd_Strings :: "(cell, slice option, string list) reader" where
  "rd_Strings = rd_slice un_Strings rd_plain"

definition rd_Conditions :: "(cell, slice option, Condition list) reader" where
  "rd_Conditions = rd_slice un_Conditions rd_plain"

definition rd_ObjectMeta :: "(cell, ObjectMeta_mem, ObjectMeta) reader" where
  "rd_ObjectMeta h m = do {
     (ls, A) \<leftarrow> rd_Map h (omm_Labels m);
     (as, B) \<leftarrow> rd_Map h (omm_Annotations m);
     Some (\<lparr>om_Name = omm_Name m, om_Namespace = omm_Namespace m, om_Generation = omm_Generation m,
            om_Labels = ls, om_Annotations = as\<rparr>, A \<union> B)
   }"

definition rd_ListMeta :: "(cell, ListMeta_mem, ListMeta) reader" where
  "rd_ListMeta h m = do {
     (n, A) \<leftarrow> rd_Int64 h (lmm_RemainingItemCount m);
     Some (\<lparr>lm_ResourceVersion = lmm_ResourceVersion m, lm_Continue = lmm_Continue m,
            lm_RemainingItemCount = n\<rparr>, A)
   }"

definition rd_LabelSelectorRequirement :: "(cell, LabelSelectorRequirement_mem, LabelSelectorRequirement) reader" where
  "rd_LabelSelectorRequirement h m = do {
     (vs, A) \<leftarrow> rd_Strings h (lsrm_Values m);
     Some (\<lparr>lsr_Key = lsrm_Key m, lsr_Operator = lsrm_Operator m, lsr_Values = vs\<rparr>, A)
   }"

text \<open>A nil map of match labels is empty.\<close>

definition rd_LabelSelector :: "(cell, LabelSelector_mem, LabelSelector) reader" where
  "rd_LabelSelector h m = do {
     (ls, A) \<leftarrow> rd_Map h (lsm_MatchLabels m);
     (es, B) \<leftarrow> rd_slice un_Requirements rd_LabelSelectorRequirement h (lsm_MatchExpressions m);
     Some (\<lparr>ls_MatchLabels = (case ls of None \<Rightarrow> [] | Some l \<Rightarrow> l), ls_MatchExpressions = es\<rparr>, A \<union> B)
   }"

definition rd_TokenQuota :: "(cell, TokenQuota_mem, TokenQuota) reader" where
  "rd_TokenQuota h m = do {
     (x0, A) \<leftarrow> rd_Int64 h (tqm_TokensPerMinute m);
     (x1, B) \<leftarrow> rd_Int64 h (tqm_RequestsPerMinute m);
     (x2, C) \<leftarrow> rd_Int64 h (tqm_TokensPerDay m);
     (x3, D) \<leftarrow> rd_Int64 h (tqm_TokensPerMonth m);
     Some (\<lparr>tq_TokensPerMinute = x0, tq_RequestsPerMinute = x1, tq_TokensPerDay = x2,
            tq_TokensPerMonth = x3\<rparr>, A \<union> (B \<union> (C \<union> D)))
   }"

definition rd_ModelPermission :: "(cell, ModelPermission_mem, ModelPermission) reader" where
  "rd_ModelPermission h m = do {
     (x0, A) \<leftarrow> rd_pointer un_CredentialReference rd_plain h (mpm_CredentialRef m);
     (x1, B) \<leftarrow> rd_pointer un_TokenQuota rd_TokenQuota h (mpm_Quota m);
     Some (\<lparr>mp_Provider = mpm_Provider m, mp_Model = mpm_Model m, mp_Action = mpm_Action m,
            mp_CredentialRef = x0, mp_Quota = x1\<rparr>, A \<union> B)
   }"

definition rd_WorkloadSelector :: "(cell, WorkloadSelector_mem, WorkloadSelector) reader" where
  "rd_WorkloadSelector h m = do {
     (x0, A) \<leftarrow> rd_pointer un_LabelSelector rd_LabelSelector h (wsm_PodSelector m);
     (x1, B) \<leftarrow> rd_Strings h (wsm_ServiceAccounts m);
     Some (\<lparr>ws_PodSelector = x0, ws_ServiceAccounts = x1\<rparr>, A \<union> B)
   }"

definition rd_GatewayIntegration :: "(cell, GatewayIntegration_mem, GatewayIntegration) reader" where
  "rd_GatewayIntegration h m = do {
     (x0, A) \<leftarrow> rd_pointer un_GatewayTargetRef rd_plain h (gim_TargetRef m);
     Some (\<lparr>gi_Type = gim_Type m, gi_TargetRef = x0\<rparr>, A)
   }"

definition rd_UsageStatus :: "(cell, UsageStatus_mem, UsageStatus) reader" where
  "rd_UsageStatus h m = do {
     (x0, A) \<leftarrow> rd_pointer un_Time rd_plain h (usm_WindowStart m);
     (x1, B) \<leftarrow> rd_pointer un_Time rd_plain h (usm_LastUpdated m);
     Some (\<lparr>us_WindowStart = x0, us_TokensMinute = usm_TokensMinute m,
            us_TokensDay = usm_TokensDay m, us_TokensMonth = usm_TokensMonth m,
            us_RequestsMinute = usm_RequestsMinute m, us_LastUpdated = x1\<rparr>, A \<union> B)
   }"

definition rd_ModelRequest :: "(cell, ModelRequest_mem, ModelRequest) reader" where
  "rd_ModelRequest h m = do {
     (x0, A) \<leftarrow> rd_pointer un_CredentialReference rd_plain h (mrm_CredentialRef m);
     Some (\<lparr>mr_Provider = mrm_Provider m, mr_Model = mrm_Model m,
            mr_CredentialRef = x0\<rparr>, A)
   }"

definition rd_ClusterTokenPolicySpec :: "(cell, ClusterTokenPolicySpec_mem, ClusterTokenPolicySpec) reader" where
  "rd_ClusterTokenPolicySpec h m = do {
     (x0, A) \<leftarrow> rd_pointer un_LabelSelector rd_LabelSelector h (ctpsm_NamespaceSelector m);
     (x1, B) \<leftarrow> rd_slice un_ModelPermissions rd_ModelPermission h (ctpsm_Models m);
     (x2, C) \<leftarrow> rd_pointer un_TokenQuota rd_TokenQuota h (ctpsm_Quota m);
     (x3, D) \<leftarrow> rd_pointer un_CredentialReference rd_plain h (ctpsm_DefaultCredentialRef m);
     (x4, E) \<leftarrow> rd_pointer un_GatewayIntegration rd_GatewayIntegration h (ctpsm_Gateway m);
     Some (\<lparr>ctps_NamespaceSelector = x0, ctps_Models = x1, ctps_Quota = x2,
            ctps_Enforcement = ctpsm_Enforcement m, ctps_DefaultCredentialRef = x3,
            ctps_Gateway = x4\<rparr>, A \<union> (B \<union> (C \<union> (D \<union> E))))
   }"

definition rd_ClusterTokenPolicyStatus :: "(cell, ClusterTokenPolicyStatus_mem, ClusterTokenPolicyStatus) reader" where
  "rd_ClusterTokenPolicyStatus h m = do {
     (x0, A) \<leftarrow> rd_Strings h (ctpstm_AppliedNamespaces m);
     (x1, B) \<leftarrow> rd_Conditions h (ctpstm_Conditions m);
     Some (\<lparr>ctpst_ObservedGeneration = ctpstm_ObservedGeneration m,
            ctpst_ModelCount = ctpstm_ModelCount m, ctpst_AppliedNamespaces = x0,
            ctpst_Conditions = x1\<rparr>, A \<union> B)
   }"

definition rd_TokenPolicySpec :: "(cell, TokenPolicySpec_mem, TokenPolicySpec) reader" where
  "rd_TokenPolicySpec h m = do {
     (x0, A) \<leftarrow> rd_pointer un_WorkloadSelector rd_WorkloadSelector h (tpsm_Selector m);
     (x1, B) \<leftarrow> rd_slice un_ModelPermissions rd_ModelPermission h (tpsm_Models m);
     (x2, C) \<leftarrow> rd_pointer un_TokenQuota rd_TokenQuota h (tpsm_Quota m);
     (x3, D) \<leftarrow> rd_pointer un_GatewayIntegration rd_GatewayIntegration h (tpsm_Gateway m);
     Some (\<lparr>tps_Selector = x0, tps_Models = x1, tps_Quota = x2,
            tps_Enforcement = tpsm_Enforcement m, tps_Priority = tpsm_Priority m,
            tps_Gateway = x3\<rparr>, A \<union> (B \<union> (C \<union> D)))
   }"

definition rd_TokenPolicyStatus :: "(cell, TokenPolicyStatus_mem, TokenPolicyStatus) reader" where
  "rd_TokenPolicyStatus h m = do {
     (x0, A) \<leftarrow> rd_slice un_EffectiveModels rd_plain h (tpstm_EffectiveModels m);
     (x1, B) \<leftarrow> rd_pointer un_TokenQuota rd_TokenQuota h (tpstm_EffectiveQuota m);
     (x2, C) \<leftarrow> rd_pointer un_UsageStatus rd_UsageStatus h (tpstm_Usage m);
     (x3, D) \<leftarrow> rd_Strings h (tpstm_BoundCredentials m);
     (x4, E) \<leftarrow> rd_Conditions h (tpstm_Conditions m);
     Some (\<lparr>tpst_ObservedGeneration = tpstm_ObservedGeneration m, tpst_EffectiveModels = x0,
            tpst_EffectiveQuota = x1, tpst_Usage = x2, tpst_BoundCredentials = x3,
            tpst_GatewayRef = tpstm_GatewayRef m, tpst_Conditions = x4\<rparr>, A \<union> (B \<union> (C \<union> (D \<union> E))))
   }"

definition rd_ModelClaimSpec :: "(cell, ModelClaimSpec_mem, ModelClaimSpec) reader" where
  "rd_ModelClaimSpec h m = do {
     (x0, A) \<leftarrow> rd_pointer un_WorkloadSelector rd_WorkloadSelector h (mclsm_Selector m);
     (x1, B) \<leftarrow> rd_slice un_ModelRequests rd_ModelRequest h (mclsm_Models m);
     Some (\<lparr>mcls_Selector = x0, mcls_Models = x1, mcls_Purpose = mclsm_Purpose m\<rparr>, A \<union> B)
   }"

definition rd_ModelClaimStatus :: "(cell, ModelClaimStatus_mem, ModelClaimStatus) reader" where
  "rd_ModelClaimStatus h m = do {
     (x0, A) \<leftarrow> rd_slice un_EffectiveModels rd_plain h (mclstm_ResolvedModels m);
     (x1, B) \<leftarrow> rd_Strings h (mclstm_BoundCredentials m);
     (x2, C) \<leftarrow> rd_Conditions h (mclstm_Conditions m);
     Some (\<lparr>mclst_ObservedGeneration = mclstm_ObservedGeneration m,
            mclst_Phase = mclstm_Phase m, mclst_ResolvedModels = x0, mclst_BoundCredentials = x1,
            mclst_Conditions = x2\<rparr>, A \<union> (B \<union> C))
   }"

definition rd_ModelCredentialSpec :: "(cell, ModelCredentialSpec_mem, ModelCredentialSpec) reader" where
  "rd_ModelCredentialSpec h m = do {
     (x0, A) \<leftarrow> rd_Strings h (mcsm_Models m);
     (x1, B) \<leftarrow> rd_Strings h (mcsm_AllowedNamespaces m);
     (x2, C) \<leftarrow> rd_pointer un_LabelSelector rd_LabelSelector h (mcsm_NamespaceSelector m);
     (x3, D) \<leftarrow> rd_pointer un_CredentialInjection rd_plain h (mcsm_Injection m);
     (x4, E) \<leftarrow> rd_pointer un_TokenQuota rd_TokenQuota h (mcsm_Capacity m);
     Some (\<lparr>mcs_Provider = mcsm_Provider m, mcs_Models = x0,
            mcs_SecretRef = mcsm_SecretRef m, mcs_AllowedNamespaces = x1,
            mcs_NamespaceSelector = x2, mcs_Injection = x3, mcs_Capacity = x4\<rparr>, A \<union> (B \<union> (C \<union> (D \<union> E))))
   }"

definition rd_ModelCredentialStatus :: "(cell, ModelCredentialStatus_mem, ModelCredentialStatus) reader" where
  "rd_ModelCredentialStatus h m = do {
     (x0, A) \<leftarrow> rd_Strings h (mcstm_SyncedNamespaces m);
     (x1, B) \<leftarrow> rd_Strings h (mcstm_ReferencingPolicies m);
     (x2, C) \<leftarrow> rd_pointer un_TokenQuota rd_TokenQuota h (mcstm_Allocated m);
     (x3, D) \<leftarrow> rd_pointer un_TokenQuota rd_TokenQuota h (mcstm_Available m);
     (x4, E) \<leftarrow> rd_Conditions h (mcstm_Conditions m);
     Some (\<lparr>mcst_ObservedGeneration = mcstm_ObservedGeneration m,
            mcst_SecretResolved = mcstm_SecretResolved m, mcst_SyncedNamespaces = x0,
            mcst_ReferencingPolicies = x1, mcst_Allocated = x2, mcst_Available = x3,
            mcst_Conditions = x4\<rparr>, A \<union> (B \<union> (C \<union> (D \<union> E))))
   }"

definition rd_object ::
  "(cell, 'm, 'spec) reader \<Rightarrow> (cell, 'n, 'status) reader
     \<Rightarrow> (cell, ('m, 'n) k8s_object_mem, ('spec, 'status) k8s_object) reader" where
  "rd_object rd1 rd2 h m = do {
     (om, A) \<leftarrow> rd_ObjectMeta h (obm_ObjectMeta m);
     (sp, B) \<leftarrow> rd1 h (obm_Spec m);
     (st, C) \<leftarrow> rd2 h (obm_Status m);
     Some (\<lparr>ob_TypeMeta = obm_TypeMeta m, ob_ObjectMeta = om, ob_Spec = sp, ob_Status = st\<rparr>, A \<union> (B \<union> C))
   }"

definition rd_objects ::
  "(cell \<Rightarrow> 'm list option) \<Rightarrow> (cell, 'm, 'o) reader \<Rightarrow> (cell, k8s_list_mem, 'o k8s_list) reader" where
  "rd_objects un rd h m = do {
     (lm, A) \<leftarrow> rd_ListMeta h (lim_ListMeta m);
     (xs, B) \<leftarrow> rd_slice un rd h (lim_Items m);
     Some (\<lparr>li_TypeMeta = lim_TypeMeta m, li_ListMeta = lm, li_Items = xs\<rparr>, A \<union> B)
   }"

definition rd_ClusterTokenPolicy :: "(cell, ClusterTokenPolicy_mem, (ClusterTokenPolicySpec, ClusterTokenPolicyStatus) k8s_object) reader" where
  "rd_ClusterTokenPolicy = rd_object rd_ClusterTokenPolicySpec rd_ClusterTokenPolicyStatus"

definition rd_ModelClaim :: "(cell, ModelClaim_mem, (ModelClaimSpec, ModelClaimStatus) k8s_object) reader" where
  "rd_ModelClaim = rd_object rd_ModelClaimSpec rd_ModelClaimStatus"

definition rd_ModelCredential :: "(cell, ModelCredential_mem, (ModelCredentialSpec, ModelCredentialStatus) k8s_object) reader" where
  "rd_ModelCredential = rd_object rd_ModelCredentialSpec rd_ModelCredentialStatus"

definition rd_TokenPolicy :: "(cell, TokenPolicy_mem, (TokenPolicySpec, TokenPolicyStatus) k8s_object) reader" where
  "rd_TokenPolicy = rd_object rd_TokenPolicySpec rd_TokenPolicyStatus"

end
