(* ===== verification/Deep_Copy.thy ===== *)
theory Deep_Copy
  imports Memory_Types
begin

text \<open>
  The functions of \<open>api/v1alpha1/zz_generated.deepcopy.go\<close>, in the order of their calls. A
  \<open>DeepCopyInto\<close> fills the struct \<open>out\<close> points to from \<open>inp\<close>: here it returns \<open>out\<close>. It begins with
  \<open>*out = *in\<close>, which shares every pointer and slice, and replaces these one by one. A \<open>DeepCopy\<close>
  takes and returns a pointer; a \<open>DeepCopyObject\<close> returns an interface value. The functions of
  apimachinery are the parameter \<open>lib\<close>.
\<close>

record metav1 =
  LabelSelector_DeepCopyInto :: "(cell, LabelSelector_mem) copying"
  ObjectMeta_DeepCopyInto :: "(cell, ObjectMeta_mem) copying"
  ListMeta_DeepCopyInto :: "(cell, ListMeta_mem) copying"
  Condition_DeepCopyInto :: "(cell, Condition) copying"
  Time_DeepCopy :: "(cell, addr option) copying"

section \<open>Structs without pointers\<close>

definition CredentialReference_DeepCopyInto :: "(cell, CredentialReference) copying" where
  "CredentialReference_DeepCopyInto inp h = Some (inp, h)"

definition CredentialReference_DeepCopy :: "(cell, addr option) copying" where
  "CredentialReference_DeepCopy = cp_pointer CredentialReferenceCell un_CredentialReference CredentialReference_DeepCopyInto"

definition CredentialInjection_DeepCopyInto :: "(cell, CredentialInjection) copying" where
  "CredentialInjection_DeepCopyInto inp h = Some (inp, h)"

definition CredentialInjection_DeepCopy :: "(cell, addr option) copying" where
  "CredentialInjection_DeepCopy = cp_pointer CredentialInjectionCell un_CredentialInjection CredentialInjection_DeepCopyInto"

definition EffectiveModel_DeepCopyInto :: "(cell, EffectiveModel) copying" where
  "EffectiveModel_DeepCopyInto inp h = Some (inp, h)"

definition EffectiveModel_DeepCopy :: "(cell, addr option) copying" where
  "EffectiveModel_DeepCopy = cp_pointer EffectiveModelCell un_EffectiveModel EffectiveModel_DeepCopyInto"

definition GatewayTargetRef_DeepCopyInto :: "(cell, GatewayTargetRef) copying" where
  "GatewayTargetRef_DeepCopyInto inp h = Some (inp, h)"

definition GatewayTargetRef_DeepCopy :: "(cell, addr option) copying" where
  "GatewayTargetRef_DeepCopy = cp_pointer GatewayTargetRefCell un_GatewayTargetRef GatewayTargetRef_DeepCopyInto"

definition SecretKeySelector_DeepCopyInto :: "(cell, SecretKeySelector) copying" where
  "SecretKeySelector_DeepCopyInto inp h = Some (inp, h)"

definition SecretKeySelector_DeepCopy :: "(cell, addr option) copying" where
  "SecretKeySelector_DeepCopy = cp_pointer SecretKeySelectorCell un_SecretKeySelector SecretKeySelector_DeepCopyInto"

section \<open>Structs with pointers\<close>

definition TokenQuota_DeepCopyInto :: "(cell, TokenQuota_mem) copying" where
  "TokenQuota_DeepCopyInto inp h = do {
     let out = inp;
     (x, h) \<leftarrow> cp_pointer Int64Cell un_Int64 cp_plain (tqm_TokensPerMinute inp) h;
     let out = out\<lparr>tqm_TokensPerMinute := x\<rparr>;
     (x, h) \<leftarrow> cp_pointer Int64Cell un_Int64 cp_plain (tqm_RequestsPerMinute inp) h;
     let out = out\<lparr>tqm_RequestsPerMinute := x\<rparr>;
     (x, h) \<leftarrow> cp_pointer Int64Cell un_Int64 cp_plain (tqm_TokensPerDay inp) h;
     let out = out\<lparr>tqm_TokensPerDay := x\<rparr>;
     (x, h) \<leftarrow> cp_pointer Int64Cell un_Int64 cp_plain (tqm_TokensPerMonth inp) h;
     let out = out\<lparr>tqm_TokensPerMonth := x\<rparr>;
     Some (out, h)
   }"

definition TokenQuota_DeepCopy :: "(cell, addr option) copying" where
  "TokenQuota_DeepCopy = cp_pointer TokenQuotaCell un_TokenQuota TokenQuota_DeepCopyInto"

definition ModelPermission_DeepCopyInto :: "(cell, ModelPermission_mem) copying" where
  "ModelPermission_DeepCopyInto inp h = do {
     let out = inp;
     (x, h) \<leftarrow> cp_pointer CredentialReferenceCell un_CredentialReference cp_plain (mpm_CredentialRef inp) h;
     let out = out\<lparr>mpm_CredentialRef := x\<rparr>;
     (x, h) \<leftarrow> cp_pointer TokenQuotaCell un_TokenQuota TokenQuota_DeepCopyInto (mpm_Quota inp) h;
     let out = out\<lparr>mpm_Quota := x\<rparr>;
     Some (out, h)
   }"

definition ModelPermission_DeepCopy :: "(cell, addr option) copying" where
  "ModelPermission_DeepCopy = cp_pointer ModelPermissionCell un_ModelPermission ModelPermission_DeepCopyInto"

definition WorkloadSelector_DeepCopyInto :: "metav1 \<Rightarrow> (cell, WorkloadSelector_mem) copying" where
  "WorkloadSelector_DeepCopyInto lib inp h = do {
     let out = inp;
     (x, h) \<leftarrow> cp_pointer LabelSelectorCell un_LabelSelector (LabelSelector_DeepCopyInto lib) (wsm_PodSelector inp) h;
     let out = out\<lparr>wsm_PodSelector := x\<rparr>;
     (x, h) \<leftarrow> cp_slice StringsCell un_Strings cp_plain (wsm_ServiceAccounts inp) h;
     let out = out\<lparr>wsm_ServiceAccounts := x\<rparr>;
     Some (out, h)
   }"

definition WorkloadSelector_DeepCopy :: "metav1 \<Rightarrow> (cell, addr option) copying" where
  "WorkloadSelector_DeepCopy lib = cp_pointer WorkloadSelectorCell un_WorkloadSelector (WorkloadSelector_DeepCopyInto lib)"

definition GatewayIntegration_DeepCopyInto :: "(cell, GatewayIntegration_mem) copying" where
  "GatewayIntegration_DeepCopyInto inp h = do {
     let out = inp;
     (x, h) \<leftarrow> cp_pointer GatewayTargetRefCell un_GatewayTargetRef cp_plain (gim_TargetRef inp) h;
     let out = out\<lparr>gim_TargetRef := x\<rparr>;
     Some (out, h)
   }"

definition GatewayIntegration_DeepCopy :: "(cell, addr option) copying" where
  "GatewayIntegration_DeepCopy = cp_pointer GatewayIntegrationCell un_GatewayIntegration GatewayIntegration_DeepCopyInto"

definition UsageStatus_DeepCopyInto :: "metav1 \<Rightarrow> (cell, UsageStatus_mem) copying" where
  "UsageStatus_DeepCopyInto lib inp h = do {
     let out = inp;
     (x, h) \<leftarrow> Time_DeepCopy lib (usm_WindowStart inp) h;
     let out = out\<lparr>usm_WindowStart := x\<rparr>;
     (x, h) \<leftarrow> Time_DeepCopy lib (usm_LastUpdated inp) h;
     let out = out\<lparr>usm_LastUpdated := x\<rparr>;
     Some (out, h)
   }"

definition UsageStatus_DeepCopy :: "metav1 \<Rightarrow> (cell, addr option) copying" where
  "UsageStatus_DeepCopy lib = cp_pointer UsageStatusCell un_UsageStatus (UsageStatus_DeepCopyInto lib)"

definition ModelRequest_DeepCopyInto :: "(cell, ModelRequest_mem) copying" where
  "ModelRequest_DeepCopyInto inp h = do {
     let out = inp;
     (x, h) \<leftarrow> cp_pointer CredentialReferenceCell un_CredentialReference cp_plain (mrm_CredentialRef inp) h;
     let out = out\<lparr>mrm_CredentialRef := x\<rparr>;
     Some (out, h)
   }"

definition ModelRequest_DeepCopy :: "(cell, addr option) copying" where
  "ModelRequest_DeepCopy = cp_pointer ModelRequestCell un_ModelRequest ModelRequest_DeepCopyInto"

definition ClusterTokenPolicySpec_DeepCopyInto :: "metav1 \<Rightarrow> (cell, ClusterTokenPolicySpec_mem) copying" where
  "ClusterTokenPolicySpec_DeepCopyInto lib inp h = do {
     let out = inp;
     (x, h) \<leftarrow> cp_pointer LabelSelectorCell un_LabelSelector (LabelSelector_DeepCopyInto lib) (ctpsm_NamespaceSelector inp) h;
     let out = out\<lparr>ctpsm_NamespaceSelector := x\<rparr>;
     (x, h) \<leftarrow> cp_slice ModelPermissionsCell un_ModelPermissions ModelPermission_DeepCopyInto (ctpsm_Models inp) h;
     let out = out\<lparr>ctpsm_Models := x\<rparr>;
     (x, h) \<leftarrow> cp_pointer TokenQuotaCell un_TokenQuota TokenQuota_DeepCopyInto (ctpsm_Quota inp) h;
     let out = out\<lparr>ctpsm_Quota := x\<rparr>;
     (x, h) \<leftarrow> cp_pointer CredentialReferenceCell un_CredentialReference cp_plain (ctpsm_DefaultCredentialRef inp) h;
     let out = out\<lparr>ctpsm_DefaultCredentialRef := x\<rparr>;
     (x, h) \<leftarrow> cp_pointer GatewayIntegrationCell un_GatewayIntegration GatewayIntegration_DeepCopyInto (ctpsm_Gateway inp) h;
     let out = out\<lparr>ctpsm_Gateway := x\<rparr>;
     Some (out, h)
   }"

definition ClusterTokenPolicySpec_DeepCopy :: "metav1 \<Rightarrow> (cell, addr option) copying" where
  "ClusterTokenPolicySpec_DeepCopy lib = cp_pointer ClusterTokenPolicySpecCell un_ClusterTokenPolicySpec (ClusterTokenPolicySpec_DeepCopyInto lib)"

definition ClusterTokenPolicyStatus_DeepCopyInto :: "metav1 \<Rightarrow> (cell, ClusterTokenPolicyStatus_mem) copying" where
  "ClusterTokenPolicyStatus_DeepCopyInto lib inp h = do {
     let out = inp;
     (x, h) \<leftarrow> cp_slice StringsCell un_Strings cp_plain (ctpstm_AppliedNamespaces inp) h;
     let out = out\<lparr>ctpstm_AppliedNamespaces := x\<rparr>;
     (x, h) \<leftarrow> cp_slice ConditionsCell un_Conditions (Condition_DeepCopyInto lib) (ctpstm_Conditions inp) h;
     let out = out\<lparr>ctpstm_Conditions := x\<rparr>;
     Some (out, h)
   }"

definition ClusterTokenPolicyStatus_DeepCopy :: "metav1 \<Rightarrow> (cell, addr option) copying" where
  "ClusterTokenPolicyStatus_DeepCopy lib = cp_pointer ClusterTokenPolicyStatusCell un_ClusterTokenPolicyStatus (ClusterTokenPolicyStatus_DeepCopyInto lib)"

definition TokenPolicySpec_DeepCopyInto :: "metav1 \<Rightarrow> (cell, TokenPolicySpec_mem) copying" where
  "TokenPolicySpec_DeepCopyInto lib inp h = do {
     let out = inp;
     (x, h) \<leftarrow> cp_pointer WorkloadSelectorCell un_WorkloadSelector (WorkloadSelector_DeepCopyInto lib) (tpsm_Selector inp) h;
     let out = out\<lparr>tpsm_Selector := x\<rparr>;
     (x, h) \<leftarrow> cp_slice ModelPermissionsCell un_ModelPermissions ModelPermission_DeepCopyInto (tpsm_Models inp) h;
     let out = out\<lparr>tpsm_Models := x\<rparr>;
     (x, h) \<leftarrow> cp_pointer TokenQuotaCell un_TokenQuota TokenQuota_DeepCopyInto (tpsm_Quota inp) h;
     let out = out\<lparr>tpsm_Quota := x\<rparr>;
     (x, h) \<leftarrow> cp_pointer GatewayIntegrationCell un_GatewayIntegration GatewayIntegration_DeepCopyInto (tpsm_Gateway inp) h;
     let out = out\<lparr>tpsm_Gateway := x\<rparr>;
     Some (out, h)
   }"

definition TokenPolicySpec_DeepCopy :: "metav1 \<Rightarrow> (cell, addr option) copying" where
  "TokenPolicySpec_DeepCopy lib = cp_pointer TokenPolicySpecCell un_TokenPolicySpec (TokenPolicySpec_DeepCopyInto lib)"

definition TokenPolicyStatus_DeepCopyInto :: "metav1 \<Rightarrow> (cell, TokenPolicyStatus_mem) copying" where
  "TokenPolicyStatus_DeepCopyInto lib inp h = do {
     let out = inp;
     (x, h) \<leftarrow> cp_slice EffectiveModelsCell un_EffectiveModels cp_plain (tpstm_EffectiveModels inp) h;
     let out = out\<lparr>tpstm_EffectiveModels := x\<rparr>;
     (x, h) \<leftarrow> cp_pointer TokenQuotaCell un_TokenQuota TokenQuota_DeepCopyInto (tpstm_EffectiveQuota inp) h;
     let out = out\<lparr>tpstm_EffectiveQuota := x\<rparr>;
     (x, h) \<leftarrow> cp_pointer UsageStatusCell un_UsageStatus (UsageStatus_DeepCopyInto lib) (tpstm_Usage inp) h;
     let out = out\<lparr>tpstm_Usage := x\<rparr>;
     (x, h) \<leftarrow> cp_slice StringsCell un_Strings cp_plain (tpstm_BoundCredentials inp) h;
     let out = out\<lparr>tpstm_BoundCredentials := x\<rparr>;
     (x, h) \<leftarrow> cp_slice ConditionsCell un_Conditions (Condition_DeepCopyInto lib) (tpstm_Conditions inp) h;
     let out = out\<lparr>tpstm_Conditions := x\<rparr>;
     Some (out, h)
   }"

definition TokenPolicyStatus_DeepCopy :: "metav1 \<Rightarrow> (cell, addr option) copying" where
  "TokenPolicyStatus_DeepCopy lib = cp_pointer TokenPolicyStatusCell un_TokenPolicyStatus (TokenPolicyStatus_DeepCopyInto lib)"

definition ModelClaimSpec_DeepCopyInto :: "metav1 \<Rightarrow> (cell, ModelClaimSpec_mem) copying" where
  "ModelClaimSpec_DeepCopyInto lib inp h = do {
     let out = inp;
     (x, h) \<leftarrow> cp_pointer WorkloadSelectorCell un_WorkloadSelector (WorkloadSelector_DeepCopyInto lib) (mclsm_Selector inp) h;
     let out = out\<lparr>mclsm_Selector := x\<rparr>;
     (x, h) \<leftarrow> cp_slice ModelRequestsCell un_ModelRequests ModelRequest_DeepCopyInto (mclsm_Models inp) h;
     let out = out\<lparr>mclsm_Models := x\<rparr>;
     Some (out, h)
   }"

definition ModelClaimSpec_DeepCopy :: "metav1 \<Rightarrow> (cell, addr option) copying" where
  "ModelClaimSpec_DeepCopy lib = cp_pointer ModelClaimSpecCell un_ModelClaimSpec (ModelClaimSpec_DeepCopyInto lib)"

definition ModelClaimStatus_DeepCopyInto :: "metav1 \<Rightarrow> (cell, ModelClaimStatus_mem) copying" where
  "ModelClaimStatus_DeepCopyInto lib inp h = do {
     let out = inp;
     (x, h) \<leftarrow> cp_slice EffectiveModelsCell un_EffectiveModels cp_plain (mclstm_ResolvedModels inp) h;
     let out = out\<lparr>mclstm_ResolvedModels := x\<rparr>;
     (x, h) \<leftarrow> cp_slice StringsCell un_Strings cp_plain (mclstm_BoundCredentials inp) h;
     let out = out\<lparr>mclstm_BoundCredentials := x\<rparr>;
     (x, h) \<leftarrow> cp_slice ConditionsCell un_Conditions (Condition_DeepCopyInto lib) (mclstm_Conditions inp) h;
     let out = out\<lparr>mclstm_Conditions := x\<rparr>;
     Some (out, h)
   }"

definition ModelClaimStatus_DeepCopy :: "metav1 \<Rightarrow> (cell, addr option) copying" where
  "ModelClaimStatus_DeepCopy lib = cp_pointer ModelClaimStatusCell un_ModelClaimStatus (ModelClaimStatus_DeepCopyInto lib)"

definition ModelCredentialSpec_DeepCopyInto :: "metav1 \<Rightarrow> (cell, ModelCredentialSpec_mem) copying" where
  "ModelCredentialSpec_DeepCopyInto lib inp h = do {
     let out = inp;
     (x, h) \<leftarrow> cp_slice StringsCell un_Strings cp_plain (mcsm_Models inp) h;
     let out = out\<lparr>mcsm_Models := x\<rparr>;
     let out = out\<lparr>mcsm_SecretRef := mcsm_SecretRef inp\<rparr>;
     (x, h) \<leftarrow> cp_slice StringsCell un_Strings cp_plain (mcsm_AllowedNamespaces inp) h;
     let out = out\<lparr>mcsm_AllowedNamespaces := x\<rparr>;
     (x, h) \<leftarrow> cp_pointer LabelSelectorCell un_LabelSelector (LabelSelector_DeepCopyInto lib) (mcsm_NamespaceSelector inp) h;
     let out = out\<lparr>mcsm_NamespaceSelector := x\<rparr>;
     (x, h) \<leftarrow> cp_pointer CredentialInjectionCell un_CredentialInjection cp_plain (mcsm_Injection inp) h;
     let out = out\<lparr>mcsm_Injection := x\<rparr>;
     (x, h) \<leftarrow> cp_pointer TokenQuotaCell un_TokenQuota TokenQuota_DeepCopyInto (mcsm_Capacity inp) h;
     let out = out\<lparr>mcsm_Capacity := x\<rparr>;
     Some (out, h)
   }"

definition ModelCredentialSpec_DeepCopy :: "metav1 \<Rightarrow> (cell, addr option) copying" where
  "ModelCredentialSpec_DeepCopy lib = cp_pointer ModelCredentialSpecCell un_ModelCredentialSpec (ModelCredentialSpec_DeepCopyInto lib)"

definition ModelCredentialStatus_DeepCopyInto :: "metav1 \<Rightarrow> (cell, ModelCredentialStatus_mem) copying" where
  "ModelCredentialStatus_DeepCopyInto lib inp h = do {
     let out = inp;
     (x, h) \<leftarrow> cp_slice StringsCell un_Strings cp_plain (mcstm_SyncedNamespaces inp) h;
     let out = out\<lparr>mcstm_SyncedNamespaces := x\<rparr>;
     (x, h) \<leftarrow> cp_slice StringsCell un_Strings cp_plain (mcstm_ReferencingPolicies inp) h;
     let out = out\<lparr>mcstm_ReferencingPolicies := x\<rparr>;
     (x, h) \<leftarrow> cp_pointer TokenQuotaCell un_TokenQuota TokenQuota_DeepCopyInto (mcstm_Allocated inp) h;
     let out = out\<lparr>mcstm_Allocated := x\<rparr>;
     (x, h) \<leftarrow> cp_pointer TokenQuotaCell un_TokenQuota TokenQuota_DeepCopyInto (mcstm_Available inp) h;
     let out = out\<lparr>mcstm_Available := x\<rparr>;
     (x, h) \<leftarrow> cp_slice ConditionsCell un_Conditions (Condition_DeepCopyInto lib) (mcstm_Conditions inp) h;
     let out = out\<lparr>mcstm_Conditions := x\<rparr>;
     Some (out, h)
   }"

definition ModelCredentialStatus_DeepCopy :: "metav1 \<Rightarrow> (cell, addr option) copying" where
  "ModelCredentialStatus_DeepCopy lib = cp_pointer ModelCredentialStatusCell un_ModelCredentialStatus (ModelCredentialStatus_DeepCopyInto lib)"

section \<open>The four kinds and their lists\<close>

text \<open>A \<open>runtime.Object\<close> that is not nil, with its dynamic type.\<close>

datatype Object =
    ClusterTokenPolicyObject addr
  | ModelClaimObject addr
  | ModelCredentialObject addr
  | TokenPolicyObject addr
  | ClusterTokenPolicyListObject addr
  | ModelClaimListObject addr
  | ModelCredentialListObject addr
  | TokenPolicyListObject addr

definition as_object :: "(addr \<Rightarrow> Object) \<Rightarrow> addr option \<times> cell memory \<Rightarrow> Object option \<times> cell memory" where
  "as_object ty ch = (case fst ch of None \<Rightarrow> (None, snd ch) | Some c \<Rightarrow> (Some (ty c), snd ch))"

definition ClusterTokenPolicy_DeepCopyInto :: "metav1 \<Rightarrow> (cell, ClusterTokenPolicy_mem) copying" where
  "ClusterTokenPolicy_DeepCopyInto lib inp h = do {
     let out = inp;
     let out = out\<lparr>obm_TypeMeta := obm_TypeMeta inp\<rparr>;
     (x, h) \<leftarrow> ObjectMeta_DeepCopyInto lib (obm_ObjectMeta inp) h;
     let out = out\<lparr>obm_ObjectMeta := x\<rparr>;
     (x, h) \<leftarrow> ClusterTokenPolicySpec_DeepCopyInto lib (obm_Spec inp) h;
     let out = out\<lparr>obm_Spec := x\<rparr>;
     (x, h) \<leftarrow> ClusterTokenPolicyStatus_DeepCopyInto lib (obm_Status inp) h;
     let out = out\<lparr>obm_Status := x\<rparr>;
     Some (out, h)
   }"

definition ClusterTokenPolicy_DeepCopy :: "metav1 \<Rightarrow> (cell, addr option) copying" where
  "ClusterTokenPolicy_DeepCopy lib = cp_pointer ClusterTokenPolicyCell un_ClusterTokenPolicy (ClusterTokenPolicy_DeepCopyInto lib)"

definition ClusterTokenPolicy_DeepCopyObject :: "metav1 \<Rightarrow> addr option \<Rightarrow> cell memory \<Rightarrow> (Object option \<times> cell memory) option" where
  "ClusterTokenPolicy_DeepCopyObject lib p h = map_option (as_object ClusterTokenPolicyObject) (ClusterTokenPolicy_DeepCopy lib p h)"

definition ClusterTokenPolicyList_DeepCopyInto :: "metav1 \<Rightarrow> (cell, k8s_list_mem) copying" where
  "ClusterTokenPolicyList_DeepCopyInto lib inp h = do {
     let out = inp;
     let out = out\<lparr>lim_TypeMeta := lim_TypeMeta inp\<rparr>;
     (x, h) \<leftarrow> ListMeta_DeepCopyInto lib (lim_ListMeta inp) h;
     let out = out\<lparr>lim_ListMeta := x\<rparr>;
     (x, h) \<leftarrow> cp_slice ClusterTokenPolicysCell un_ClusterTokenPolicys (ClusterTokenPolicy_DeepCopyInto lib) (lim_Items inp) h;
     let out = out\<lparr>lim_Items := x\<rparr>;
     Some (out, h)
   }"

definition ClusterTokenPolicyList_DeepCopy :: "metav1 \<Rightarrow> (cell, addr option) copying" where
  "ClusterTokenPolicyList_DeepCopy lib = cp_pointer ClusterTokenPolicyListCell un_ClusterTokenPolicyList (ClusterTokenPolicyList_DeepCopyInto lib)"

definition ClusterTokenPolicyList_DeepCopyObject :: "metav1 \<Rightarrow> addr option \<Rightarrow> cell memory \<Rightarrow> (Object option \<times> cell memory) option" where
  "ClusterTokenPolicyList_DeepCopyObject lib p h = map_option (as_object ClusterTokenPolicyListObject) (ClusterTokenPolicyList_DeepCopy lib p h)"

definition ModelClaim_DeepCopyInto :: "metav1 \<Rightarrow> (cell, ModelClaim_mem) copying" where
  "ModelClaim_DeepCopyInto lib inp h = do {
     let out = inp;
     let out = out\<lparr>obm_TypeMeta := obm_TypeMeta inp\<rparr>;
     (x, h) \<leftarrow> ObjectMeta_DeepCopyInto lib (obm_ObjectMeta inp) h;
     let out = out\<lparr>obm_ObjectMeta := x\<rparr>;
     (x, h) \<leftarrow> ModelClaimSpec_DeepCopyInto lib (obm_Spec inp) h;
     let out = out\<lparr>obm_Spec := x\<rparr>;
     (x, h) \<leftarrow> ModelClaimStatus_DeepCopyInto lib (obm_Status inp) h;
     let out = out\<lparr>obm_Status := x\<rparr>;
     Some (out, h)
   }"

definition ModelClaim_DeepCopy :: "metav1 \<Rightarrow> (cell, addr option) copying" where
  "ModelClaim_DeepCopy lib = cp_pointer ModelClaimCell un_ModelClaim (ModelClaim_DeepCopyInto lib)"

definition ModelClaim_DeepCopyObject :: "metav1 \<Rightarrow> addr option \<Rightarrow> cell memory \<Rightarrow> (Object option \<times> cell memory) option" where
  "ModelClaim_DeepCopyObject lib p h = map_option (as_object ModelClaimObject) (ModelClaim_DeepCopy lib p h)"

definition ModelClaimList_DeepCopyInto :: "metav1 \<Rightarrow> (cell, k8s_list_mem) copying" where
  "ModelClaimList_DeepCopyInto lib inp h = do {
     let out = inp;
     let out = out\<lparr>lim_TypeMeta := lim_TypeMeta inp\<rparr>;
     (x, h) \<leftarrow> ListMeta_DeepCopyInto lib (lim_ListMeta inp) h;
     let out = out\<lparr>lim_ListMeta := x\<rparr>;
     (x, h) \<leftarrow> cp_slice ModelClaimsCell un_ModelClaims (ModelClaim_DeepCopyInto lib) (lim_Items inp) h;
     let out = out\<lparr>lim_Items := x\<rparr>;
     Some (out, h)
   }"

definition ModelClaimList_DeepCopy :: "metav1 \<Rightarrow> (cell, addr option) copying" where
  "ModelClaimList_DeepCopy lib = cp_pointer ModelClaimListCell un_ModelClaimList (ModelClaimList_DeepCopyInto lib)"

definition ModelClaimList_DeepCopyObject :: "metav1 \<Rightarrow> addr option \<Rightarrow> cell memory \<Rightarrow> (Object option \<times> cell memory) option" where
  "ModelClaimList_DeepCopyObject lib p h = map_option (as_object ModelClaimListObject) (ModelClaimList_DeepCopy lib p h)"

definition ModelCredential_DeepCopyInto :: "metav1 \<Rightarrow> (cell, ModelCredential_mem) copying" where
  "ModelCredential_DeepCopyInto lib inp h = do {
     let out = inp;
     let out = out\<lparr>obm_TypeMeta := obm_TypeMeta inp\<rparr>;
     (x, h) \<leftarrow> ObjectMeta_DeepCopyInto lib (obm_ObjectMeta inp) h;
     let out = out\<lparr>obm_ObjectMeta := x\<rparr>;
     (x, h) \<leftarrow> ModelCredentialSpec_DeepCopyInto lib (obm_Spec inp) h;
     let out = out\<lparr>obm_Spec := x\<rparr>;
     (x, h) \<leftarrow> ModelCredentialStatus_DeepCopyInto lib (obm_Status inp) h;
     let out = out\<lparr>obm_Status := x\<rparr>;
     Some (out, h)
   }"

definition ModelCredential_DeepCopy :: "metav1 \<Rightarrow> (cell, addr option) copying" where
  "ModelCredential_DeepCopy lib = cp_pointer ModelCredentialCell un_ModelCredential (ModelCredential_DeepCopyInto lib)"

definition ModelCredential_DeepCopyObject :: "metav1 \<Rightarrow> addr option \<Rightarrow> cell memory \<Rightarrow> (Object option \<times> cell memory) option" where
  "ModelCredential_DeepCopyObject lib p h = map_option (as_object ModelCredentialObject) (ModelCredential_DeepCopy lib p h)"

definition ModelCredentialList_DeepCopyInto :: "metav1 \<Rightarrow> (cell, k8s_list_mem) copying" where
  "ModelCredentialList_DeepCopyInto lib inp h = do {
     let out = inp;
     let out = out\<lparr>lim_TypeMeta := lim_TypeMeta inp\<rparr>;
     (x, h) \<leftarrow> ListMeta_DeepCopyInto lib (lim_ListMeta inp) h;
     let out = out\<lparr>lim_ListMeta := x\<rparr>;
     (x, h) \<leftarrow> cp_slice ModelCredentialsCell un_ModelCredentials (ModelCredential_DeepCopyInto lib) (lim_Items inp) h;
     let out = out\<lparr>lim_Items := x\<rparr>;
     Some (out, h)
   }"

definition ModelCredentialList_DeepCopy :: "metav1 \<Rightarrow> (cell, addr option) copying" where
  "ModelCredentialList_DeepCopy lib = cp_pointer ModelCredentialListCell un_ModelCredentialList (ModelCredentialList_DeepCopyInto lib)"

definition ModelCredentialList_DeepCopyObject :: "metav1 \<Rightarrow> addr option \<Rightarrow> cell memory \<Rightarrow> (Object option \<times> cell memory) option" where
  "ModelCredentialList_DeepCopyObject lib p h = map_option (as_object ModelCredentialListObject) (ModelCredentialList_DeepCopy lib p h)"

definition TokenPolicy_DeepCopyInto :: "metav1 \<Rightarrow> (cell, TokenPolicy_mem) copying" where
  "TokenPolicy_DeepCopyInto lib inp h = do {
     let out = inp;
     let out = out\<lparr>obm_TypeMeta := obm_TypeMeta inp\<rparr>;
     (x, h) \<leftarrow> ObjectMeta_DeepCopyInto lib (obm_ObjectMeta inp) h;
     let out = out\<lparr>obm_ObjectMeta := x\<rparr>;
     (x, h) \<leftarrow> TokenPolicySpec_DeepCopyInto lib (obm_Spec inp) h;
     let out = out\<lparr>obm_Spec := x\<rparr>;
     (x, h) \<leftarrow> TokenPolicyStatus_DeepCopyInto lib (obm_Status inp) h;
     let out = out\<lparr>obm_Status := x\<rparr>;
     Some (out, h)
   }"

definition TokenPolicy_DeepCopy :: "metav1 \<Rightarrow> (cell, addr option) copying" where
  "TokenPolicy_DeepCopy lib = cp_pointer TokenPolicyCell un_TokenPolicy (TokenPolicy_DeepCopyInto lib)"

definition TokenPolicy_DeepCopyObject :: "metav1 \<Rightarrow> addr option \<Rightarrow> cell memory \<Rightarrow> (Object option \<times> cell memory) option" where
  "TokenPolicy_DeepCopyObject lib p h = map_option (as_object TokenPolicyObject) (TokenPolicy_DeepCopy lib p h)"

definition TokenPolicyList_DeepCopyInto :: "metav1 \<Rightarrow> (cell, k8s_list_mem) copying" where
  "TokenPolicyList_DeepCopyInto lib inp h = do {
     let out = inp;
     let out = out\<lparr>lim_TypeMeta := lim_TypeMeta inp\<rparr>;
     (x, h) \<leftarrow> ListMeta_DeepCopyInto lib (lim_ListMeta inp) h;
     let out = out\<lparr>lim_ListMeta := x\<rparr>;
     (x, h) \<leftarrow> cp_slice TokenPolicysCell un_TokenPolicys (TokenPolicy_DeepCopyInto lib) (lim_Items inp) h;
     let out = out\<lparr>lim_Items := x\<rparr>;
     Some (out, h)
   }"

definition TokenPolicyList_DeepCopy :: "metav1 \<Rightarrow> (cell, addr option) copying" where
  "TokenPolicyList_DeepCopy lib = cp_pointer TokenPolicyListCell un_TokenPolicyList (TokenPolicyList_DeepCopyInto lib)"

definition TokenPolicyList_DeepCopyObject :: "metav1 \<Rightarrow> addr option \<Rightarrow> cell memory \<Rightarrow> (Object option \<times> cell memory) option" where
  "TokenPolicyList_DeepCopyObject lib p h = map_option (as_object TokenPolicyListObject) (TokenPolicyList_DeepCopy lib p h)"

section \<open>What the functions of apimachinery promise\<close>

locale metav1_copies =
  fixes lib :: metav1
  assumes LabelSelector: "copier rd_LabelSelector (LabelSelector_DeepCopyInto lib)"
    and ObjectMeta: "copier rd_ObjectMeta (ObjectMeta_DeepCopyInto lib)"
    and ListMeta: "copier rd_ListMeta (ListMeta_DeepCopyInto lib)"
    and Condition: "copier rd_plain (Condition_DeepCopyInto lib)"
    and Time: "copier (rd_pointer un_Time rd_plain) (Time_DeepCopy lib)"

end
