(* ===== verification/Deep_Copy_Props.thy ===== *)
theory Deep_Copy_Props
  imports Deep_Copy
begin

text \<open>
  Every \<open>DeepCopyInto\<close> meets the contract \<open>copier\<close> of its reader, when the functions of apimachinery
  meet theirs: struct by struct, from the contracts of its fields.
\<close>

section \<open>Structs as tuples of fields\<close>

lemma bind_case_prod: "Option.bind (case p of (a, b) \<Rightarrow> f a b) g = (case p of (a, b) \<Rightarrow> Option.bind (f a b) g)"
  by (cases p) simp

lemmas struct_simps = fun_eq_iff rd_struct_def cp_struct_def rd_pair_def cp_pair_def Let_def Option.bind_assoc split_def

lemma copier_fields:
  assumes "copier rd0 cp0" "rd = rd_struct get val rd0" "cp = cp_struct get put cp0"
    and "\<And>n m. get (put n m) = n" "\<And>n m. val (put n m) = val m"
  shows "copier rd cp"
  unfolding assms(2,3) using assms(1,4,5) by (rule copier_struct)

lemma Int64_copier: "copier rd_Int64 (cp_pointer Int64Cell un_Int64 cp_plain)"
  unfolding rd_Int64_def by (intro copier_pointer copier_plain cell_types)

lemma Strings_copier: "copier rd_Strings (cp_slice StringsCell un_Strings cp_plain)"
  unfolding rd_Strings_def by (intro copier_slice copier_plain cell_types)

lemma plain_copiers:

  "copier rd_plain CredentialReference_DeepCopyInto"
  "copier rd_plain CredentialInjection_DeepCopyInto"
  "copier rd_plain EffectiveModel_DeepCopyInto"
  "copier rd_plain GatewayTargetRef_DeepCopyInto"
  "copier rd_plain SecretKeySelector_DeepCopyInto"
  by (simp_all add: copier_plain [unfolded cp_plain_def [abs_def]] CredentialReference_DeepCopyInto_def [abs_def] CredentialInjection_DeepCopyInto_def [abs_def] EffectiveModel_DeepCopyInto_def [abs_def] GatewayTargetRef_DeepCopyInto_def [abs_def] SecretKeySelector_DeepCopyInto_def [abs_def])

section \<open>Structs\<close>

lemma TokenQuota_copier: "copier rd_TokenQuota TokenQuota_DeepCopyInto"
  by (rule copier_fields [OF copier_pair [OF Int64_copier copier_pair [OF Int64_copier copier_pair [OF Int64_copier Int64_copier]]], where
        get = "\<lambda>m. (tqm_TokensPerMinute m, tqm_RequestsPerMinute m, tqm_TokensPerDay m, tqm_TokensPerMonth m)"
        and put = "\<lambda>(x0, x1, x2, x3) m. m\<lparr>tqm_TokensPerMinute := x0, tqm_RequestsPerMinute := x1, tqm_TokensPerDay := x2, tqm_TokensPerMonth := x3\<rparr>"
        and val = "\<lambda>m (x0, x1, x2, x3). \<lparr>tq_TokensPerMinute = x0, tq_RequestsPerMinute = x1, tq_TokensPerDay = x2, tq_TokensPerMonth = x3\<rparr>"])
    (simp_all add: struct_simps rd_TokenQuota_def TokenQuota_DeepCopyInto_def)

lemma ModelPermission_copier: "copier rd_ModelPermission ModelPermission_DeepCopyInto"
  by (rule copier_fields [OF copier_pair [OF copier_pointer [OF copier_plain cell_types(7)] copier_pointer [OF TokenQuota_copier cell_types(12)]], where
        get = "\<lambda>m. (mpm_CredentialRef m, mpm_Quota m)"
        and put = "\<lambda>(x0, x1) m. m\<lparr>mpm_CredentialRef := x0, mpm_Quota := x1\<rparr>"
        and val = "\<lambda>m (x0, x1). \<lparr>mp_Provider = mpm_Provider m, mp_Model = mpm_Model m, mp_Action = mpm_Action m, mp_CredentialRef = x0, mp_Quota = x1\<rparr>"])
    (simp_all add: struct_simps rd_ModelPermission_def ModelPermission_DeepCopyInto_def)

lemma GatewayIntegration_copier: "copier rd_GatewayIntegration GatewayIntegration_DeepCopyInto"
  by (rule copier_fields [OF copier_pointer [OF copier_plain cell_types(10)], where
        get = "\<lambda>m. gim_TargetRef m"
        and put = "\<lambda>x0 m. m\<lparr>gim_TargetRef := x0\<rparr>"
        and val = "\<lambda>m x0. \<lparr>gi_Type = gim_Type m, gi_TargetRef = x0\<rparr>"])
    (simp_all add: struct_simps rd_GatewayIntegration_def GatewayIntegration_DeepCopyInto_def)

lemma ModelRequest_copier: "copier rd_ModelRequest ModelRequest_DeepCopyInto"
  by (rule copier_fields [OF copier_pointer [OF copier_plain cell_types(7)], where
        get = "\<lambda>m. mrm_CredentialRef m"
        and put = "\<lambda>x0 m. m\<lparr>mrm_CredentialRef := x0\<rparr>"
        and val = "\<lambda>m x0. \<lparr>mr_Provider = mrm_Provider m, mr_Model = mrm_Model m, mr_CredentialRef = x0\<rparr>"])
    (simp_all add: struct_simps rd_ModelRequest_def ModelRequest_DeepCopyInto_def)

context metav1_copies
begin

lemma Conditions_copier: "copier rd_Conditions (cp_slice ConditionsCell un_Conditions (Condition_DeepCopyInto lib))"
  unfolding rd_Conditions_def by (intro copier_slice Condition cell_types)

lemma WorkloadSelector_copier: "copier rd_WorkloadSelector (WorkloadSelector_DeepCopyInto lib)"
  by (rule copier_fields [OF copier_pair [OF copier_pointer [OF LabelSelector cell_types(5)] Strings_copier], where
        get = "\<lambda>m. (wsm_PodSelector m, wsm_ServiceAccounts m)"
        and put = "\<lambda>(x0, x1) m. m\<lparr>wsm_PodSelector := x0, wsm_ServiceAccounts := x1\<rparr>"
        and val = "\<lambda>m (x0, x1). \<lparr>ws_PodSelector = x0, ws_ServiceAccounts = x1\<rparr>"])
    (simp_all add: struct_simps rd_WorkloadSelector_def WorkloadSelector_DeepCopyInto_def)

lemma UsageStatus_copier: "copier rd_UsageStatus (UsageStatus_DeepCopyInto lib)"
  by (rule copier_fields [OF copier_pair [OF Time Time], where
        get = "\<lambda>m. (usm_WindowStart m, usm_LastUpdated m)"
        and put = "\<lambda>(x0, x1) m. m\<lparr>usm_WindowStart := x0, usm_LastUpdated := x1\<rparr>"
        and val = "\<lambda>m (x0, x1). \<lparr>us_WindowStart = x0, us_TokensMinute = usm_TokensMinute m, us_TokensDay = usm_TokensDay m, us_TokensMonth = usm_TokensMonth m, us_RequestsMinute = usm_RequestsMinute m, us_LastUpdated = x1\<rparr>"])
    (simp_all add: struct_simps rd_UsageStatus_def UsageStatus_DeepCopyInto_def)

lemma ClusterTokenPolicySpec_copier: "copier rd_ClusterTokenPolicySpec (ClusterTokenPolicySpec_DeepCopyInto lib)"
  by (rule copier_fields [OF copier_pair [OF copier_pointer [OF LabelSelector cell_types(5)] copier_pair [OF copier_slice [OF ModelPermission_copier cell_types(34)] copier_pair [OF copier_pointer [OF TokenQuota_copier cell_types(12)] copier_pair [OF copier_pointer [OF copier_plain cell_types(7)] copier_pointer [OF GatewayIntegration_copier cell_types(15)]]]]], where
        get = "\<lambda>m. (ctpsm_NamespaceSelector m, ctpsm_Models m, ctpsm_Quota m, ctpsm_DefaultCredentialRef m, ctpsm_Gateway m)"
        and put = "\<lambda>(x0, x1, x2, x3, x4) m. m\<lparr>ctpsm_NamespaceSelector := x0, ctpsm_Models := x1, ctpsm_Quota := x2, ctpsm_DefaultCredentialRef := x3, ctpsm_Gateway := x4\<rparr>"
        and val = "\<lambda>m (x0, x1, x2, x3, x4). \<lparr>ctps_NamespaceSelector = x0, ctps_Models = x1, ctps_Quota = x2, ctps_Enforcement = ctpsm_Enforcement m, ctps_DefaultCredentialRef = x3, ctps_Gateway = x4\<rparr>"])
    (simp_all add: struct_simps rd_ClusterTokenPolicySpec_def ClusterTokenPolicySpec_DeepCopyInto_def)

lemma ClusterTokenPolicyStatus_copier: "copier rd_ClusterTokenPolicyStatus (ClusterTokenPolicyStatus_DeepCopyInto lib)"
  by (rule copier_fields [OF copier_pair [OF Strings_copier Conditions_copier], where
        get = "\<lambda>m. (ctpstm_AppliedNamespaces m, ctpstm_Conditions m)"
        and put = "\<lambda>(x0, x1) m. m\<lparr>ctpstm_AppliedNamespaces := x0, ctpstm_Conditions := x1\<rparr>"
        and val = "\<lambda>m (x0, x1). \<lparr>ctpst_ObservedGeneration = ctpstm_ObservedGeneration m, ctpst_ModelCount = ctpstm_ModelCount m, ctpst_AppliedNamespaces = x0, ctpst_Conditions = x1\<rparr>"])
    (simp_all add: struct_simps rd_ClusterTokenPolicyStatus_def ClusterTokenPolicyStatus_DeepCopyInto_def)

lemma TokenPolicySpec_copier: "copier rd_TokenPolicySpec (TokenPolicySpec_DeepCopyInto lib)"
  by (rule copier_fields [OF copier_pair [OF copier_pointer [OF WorkloadSelector_copier cell_types(14)] copier_pair [OF copier_slice [OF ModelPermission_copier cell_types(34)] copier_pair [OF copier_pointer [OF TokenQuota_copier cell_types(12)] copier_pointer [OF GatewayIntegration_copier cell_types(15)]]]], where
        get = "\<lambda>m. (tpsm_Selector m, tpsm_Models m, tpsm_Quota m, tpsm_Gateway m)"
        and put = "\<lambda>(x0, x1, x2, x3) m. m\<lparr>tpsm_Selector := x0, tpsm_Models := x1, tpsm_Quota := x2, tpsm_Gateway := x3\<rparr>"
        and val = "\<lambda>m (x0, x1, x2, x3). \<lparr>tps_Selector = x0, tps_Models = x1, tps_Quota = x2, tps_Enforcement = tpsm_Enforcement m, tps_Priority = tpsm_Priority m, tps_Gateway = x3\<rparr>"])
    (simp_all add: struct_simps rd_TokenPolicySpec_def TokenPolicySpec_DeepCopyInto_def)

lemma TokenPolicyStatus_copier: "copier rd_TokenPolicyStatus (TokenPolicyStatus_DeepCopyInto lib)"
  by (rule copier_fields [OF copier_pair [OF copier_slice [OF copier_plain cell_types(36)] copier_pair [OF copier_pointer [OF TokenQuota_copier cell_types(12)] copier_pair [OF copier_pointer [OF UsageStatus_copier cell_types(16)] copier_pair [OF Strings_copier Conditions_copier]]]], where
        get = "\<lambda>m. (tpstm_EffectiveModels m, tpstm_EffectiveQuota m, tpstm_Usage m, tpstm_BoundCredentials m, tpstm_Conditions m)"
        and put = "\<lambda>(x0, x1, x2, x3, x4) m. m\<lparr>tpstm_EffectiveModels := x0, tpstm_EffectiveQuota := x1, tpstm_Usage := x2, tpstm_BoundCredentials := x3, tpstm_Conditions := x4\<rparr>"
        and val = "\<lambda>m (x0, x1, x2, x3, x4). \<lparr>tpst_ObservedGeneration = tpstm_ObservedGeneration m, tpst_EffectiveModels = x0, tpst_EffectiveQuota = x1, tpst_Usage = x2, tpst_BoundCredentials = x3, tpst_GatewayRef = tpstm_GatewayRef m, tpst_Conditions = x4\<rparr>"])
    (simp_all add: struct_simps rd_TokenPolicyStatus_def TokenPolicyStatus_DeepCopyInto_def)

lemma ModelClaimSpec_copier: "copier rd_ModelClaimSpec (ModelClaimSpec_DeepCopyInto lib)"
  by (rule copier_fields [OF copier_pair [OF copier_pointer [OF WorkloadSelector_copier cell_types(14)] copier_slice [OF ModelRequest_copier cell_types(35)]], where
        get = "\<lambda>m. (mclsm_Selector m, mclsm_Models m)"
        and put = "\<lambda>(x0, x1) m. m\<lparr>mclsm_Selector := x0, mclsm_Models := x1\<rparr>"
        and val = "\<lambda>m (x0, x1). \<lparr>mcls_Selector = x0, mcls_Models = x1, mcls_Purpose = mclsm_Purpose m\<rparr>"])
    (simp_all add: struct_simps rd_ModelClaimSpec_def ModelClaimSpec_DeepCopyInto_def)

lemma ModelClaimStatus_copier: "copier rd_ModelClaimStatus (ModelClaimStatus_DeepCopyInto lib)"
  by (rule copier_fields [OF copier_pair [OF copier_slice [OF copier_plain cell_types(36)] copier_pair [OF Strings_copier Conditions_copier]], where
        get = "\<lambda>m. (mclstm_ResolvedModels m, mclstm_BoundCredentials m, mclstm_Conditions m)"
        and put = "\<lambda>(x0, x1, x2) m. m\<lparr>mclstm_ResolvedModels := x0, mclstm_BoundCredentials := x1, mclstm_Conditions := x2\<rparr>"
        and val = "\<lambda>m (x0, x1, x2). \<lparr>mclst_ObservedGeneration = mclstm_ObservedGeneration m, mclst_Phase = mclstm_Phase m, mclst_ResolvedModels = x0, mclst_BoundCredentials = x1, mclst_Conditions = x2\<rparr>"])
    (simp_all add: struct_simps rd_ModelClaimStatus_def ModelClaimStatus_DeepCopyInto_def)

lemma ModelCredentialSpec_copier: "copier rd_ModelCredentialSpec (ModelCredentialSpec_DeepCopyInto lib)"
  by (rule copier_fields [OF copier_pair [OF Strings_copier copier_pair [OF Strings_copier copier_pair [OF copier_pointer [OF LabelSelector cell_types(5)] copier_pair [OF copier_pointer [OF copier_plain cell_types(8)] copier_pointer [OF TokenQuota_copier cell_types(12)]]]]], where
        get = "\<lambda>m. (mcsm_Models m, mcsm_AllowedNamespaces m, mcsm_NamespaceSelector m, mcsm_Injection m, mcsm_Capacity m)"
        and put = "\<lambda>(x0, x1, x2, x3, x4) m. m\<lparr>mcsm_Models := x0, mcsm_AllowedNamespaces := x1, mcsm_NamespaceSelector := x2, mcsm_Injection := x3, mcsm_Capacity := x4\<rparr>"
        and val = "\<lambda>m (x0, x1, x2, x3, x4). \<lparr>mcs_Provider = mcsm_Provider m, mcs_Models = x0, mcs_SecretRef = mcsm_SecretRef m, mcs_AllowedNamespaces = x1, mcs_NamespaceSelector = x2, mcs_Injection = x3, mcs_Capacity = x4\<rparr>"])
    (simp_all add: struct_simps rd_ModelCredentialSpec_def ModelCredentialSpec_DeepCopyInto_def)

lemma ModelCredentialStatus_copier: "copier rd_ModelCredentialStatus (ModelCredentialStatus_DeepCopyInto lib)"
  by (rule copier_fields [OF copier_pair [OF Strings_copier copier_pair [OF Strings_copier copier_pair [OF copier_pointer [OF TokenQuota_copier cell_types(12)] copier_pair [OF copier_pointer [OF TokenQuota_copier cell_types(12)] Conditions_copier]]]], where
        get = "\<lambda>m. (mcstm_SyncedNamespaces m, mcstm_ReferencingPolicies m, mcstm_Allocated m, mcstm_Available m, mcstm_Conditions m)"
        and put = "\<lambda>(x0, x1, x2, x3, x4) m. m\<lparr>mcstm_SyncedNamespaces := x0, mcstm_ReferencingPolicies := x1, mcstm_Allocated := x2, mcstm_Available := x3, mcstm_Conditions := x4\<rparr>"
        and val = "\<lambda>m (x0, x1, x2, x3, x4). \<lparr>mcst_ObservedGeneration = mcstm_ObservedGeneration m, mcst_SecretResolved = mcstm_SecretResolved m, mcst_SyncedNamespaces = x0, mcst_ReferencingPolicies = x1, mcst_Allocated = x2, mcst_Available = x3, mcst_Conditions = x4\<rparr>"])
    (simp_all add: struct_simps rd_ModelCredentialStatus_def ModelCredentialStatus_DeepCopyInto_def)

text \<open>The four kinds and their lists.\<close>

lemma object_copier:
  assumes "copier rd1 cp1" "copier rd2 cp2"
  shows "copier (rd_object rd1 rd2) (\<lambda>m h. do {
     (x, h) \<leftarrow> ObjectMeta_DeepCopyInto lib (obm_ObjectMeta m) h;
     (y, h) \<leftarrow> cp1 (obm_Spec m) h;
     (z, h) \<leftarrow> cp2 (obm_Status m) h;
     Some (m\<lparr>obm_ObjectMeta := x, obm_Spec := y, obm_Status := z\<rparr>, h)
   })"
  by (rule copier_fields [OF copier_pair [OF ObjectMeta copier_pair [OF assms]], where
        get = "\<lambda>m. (obm_ObjectMeta m, obm_Spec m, obm_Status m)"
        and put = "\<lambda>(x, y, z) m. m\<lparr>obm_ObjectMeta := x, obm_Spec := y, obm_Status := z\<rparr>"
        and val = "\<lambda>m (x, y, z). \<lparr>ob_TypeMeta = obm_TypeMeta m, ob_ObjectMeta = x, ob_Spec = y, ob_Status = z\<rparr>"])
    (simp_all add: struct_simps rd_object_def)

lemma objects_copier:
  assumes "copier rd cp" "cell_type mk un"
  shows "copier (rd_objects un rd) (\<lambda>m h. do {
     (x, h) \<leftarrow> ListMeta_DeepCopyInto lib (lim_ListMeta m) h;
     (y, h) \<leftarrow> cp_slice mk un cp (lim_Items m) h;
     Some (m\<lparr>lim_ListMeta := x, lim_Items := y\<rparr>, h)
   })"
  by (rule copier_fields [OF copier_pair [OF ListMeta copier_slice [OF assms]], where
        get = "\<lambda>m. (lim_ListMeta m, lim_Items m)"
        and put = "\<lambda>(x, y) m. m\<lparr>lim_ListMeta := x, lim_Items := y\<rparr>"
        and val = "\<lambda>m (x, y). \<lparr>li_TypeMeta = lim_TypeMeta m, li_ListMeta = x, li_Items = y\<rparr>"])
    (simp_all add: struct_simps rd_objects_def)

lemma ClusterTokenPolicy_copier: "copier rd_ClusterTokenPolicy (ClusterTokenPolicy_DeepCopyInto lib)"
  using object_copier [OF ClusterTokenPolicySpec_copier ClusterTokenPolicyStatus_copier]
  by (simp add: rd_ClusterTokenPolicy_def ClusterTokenPolicy_DeepCopyInto_def [abs_def] Let_def)

lemma ClusterTokenPolicyList_copier: "copier (rd_objects un_ClusterTokenPolicys rd_ClusterTokenPolicy) (ClusterTokenPolicyList_DeepCopyInto lib)"
  using objects_copier [OF ClusterTokenPolicy_copier cell_types(38)]
  by (simp add: ClusterTokenPolicyList_DeepCopyInto_def [abs_def] Let_def)

lemma ModelClaim_copier: "copier rd_ModelClaim (ModelClaim_DeepCopyInto lib)"
  using object_copier [OF ModelClaimSpec_copier ModelClaimStatus_copier]
  by (simp add: rd_ModelClaim_def ModelClaim_DeepCopyInto_def [abs_def] Let_def)

lemma ModelClaimList_copier: "copier (rd_objects un_ModelClaims rd_ModelClaim) (ModelClaimList_DeepCopyInto lib)"
  using objects_copier [OF ModelClaim_copier cell_types(39)]
  by (simp add: ModelClaimList_DeepCopyInto_def [abs_def] Let_def)

lemma ModelCredential_copier: "copier rd_ModelCredential (ModelCredential_DeepCopyInto lib)"
  using object_copier [OF ModelCredentialSpec_copier ModelCredentialStatus_copier]
  by (simp add: rd_ModelCredential_def ModelCredential_DeepCopyInto_def [abs_def] Let_def)

lemma ModelCredentialList_copier: "copier (rd_objects un_ModelCredentials rd_ModelCredential) (ModelCredentialList_DeepCopyInto lib)"
  using objects_copier [OF ModelCredential_copier cell_types(40)]
  by (simp add: ModelCredentialList_DeepCopyInto_def [abs_def] Let_def)

lemma TokenPolicy_copier: "copier rd_TokenPolicy (TokenPolicy_DeepCopyInto lib)"
  using object_copier [OF TokenPolicySpec_copier TokenPolicyStatus_copier]
  by (simp add: rd_TokenPolicy_def TokenPolicy_DeepCopyInto_def [abs_def] Let_def)

lemma TokenPolicyList_copier: "copier (rd_objects un_TokenPolicys rd_TokenPolicy) (TokenPolicyList_DeepCopyInto lib)"
  using objects_copier [OF TokenPolicy_copier cell_types(41)]
  by (simp add: TokenPolicyList_DeepCopyInto_def [abs_def] Let_def)

end

section \<open>An instance of the library\<close>

text \<open>Functions that keep the promises: new cells for the maps and slices of the library structs.\<close>

definition cp_Requirement :: "(cell, LabelSelectorRequirement_mem) copying" where
  "cp_Requirement =
     cp_struct lsrm_Values (\<lambda>x m. m\<lparr>lsrm_Values := x\<rparr>) (cp_slice StringsCell un_Strings cp_plain)"

definition cp_LabelSelector :: "(cell, LabelSelector_mem) copying" where
  "cp_LabelSelector =
     cp_struct (\<lambda>m. (lsm_MatchLabels m, lsm_MatchExpressions m))
       (\<lambda>(x, y) m. m\<lparr>lsm_MatchLabels := x, lsm_MatchExpressions := y\<rparr>)
       (cp_pair (cp_pointer MapCell un_Map cp_plain) (cp_slice RequirementsCell un_Requirements cp_Requirement))"

definition cp_ObjectMeta :: "(cell, ObjectMeta_mem) copying" where
  "cp_ObjectMeta =
     cp_struct (\<lambda>m. (omm_Labels m, omm_Annotations m)) (\<lambda>(x, y) m. m\<lparr>omm_Labels := x, omm_Annotations := y\<rparr>)
       (cp_pair (cp_pointer MapCell un_Map cp_plain) (cp_pointer MapCell un_Map cp_plain))"

definition cp_ListMeta :: "(cell, ListMeta_mem) copying" where
  "cp_ListMeta =
     cp_struct lmm_RemainingItemCount (\<lambda>x m. m\<lparr>lmm_RemainingItemCount := x\<rparr>)
       (cp_pointer Int64Cell un_Int64 cp_plain)"

definition std_metav1 :: metav1 where
  "std_metav1 =
     \<lparr>LabelSelector_DeepCopyInto = cp_LabelSelector, ObjectMeta_DeepCopyInto = cp_ObjectMeta,
      ListMeta_DeepCopyInto = cp_ListMeta, Condition_DeepCopyInto = cp_plain,
      Time_DeepCopy = cp_pointer TimeCell un_Time cp_plain\<rparr>"

lemma Map_copier: "copier rd_Map (cp_pointer MapCell un_Map cp_plain)"
  unfolding rd_Map_def by (intro copier_pointer copier_plain cell_types)

lemma Requirement_copier: "copier rd_LabelSelectorRequirement cp_Requirement"
  by (rule copier_fields [OF Strings_copier _ cp_Requirement_def, where
        val = "\<lambda>m x. \<lparr>lsr_Key = lsrm_Key m, lsr_Operator = lsrm_Operator m, lsr_Values = x\<rparr>"])
    (simp_all add: struct_simps rd_LabelSelectorRequirement_def)

lemma LabelSelector_copier: "copier rd_LabelSelector cp_LabelSelector"
  by (rule copier_fields [OF copier_pair [OF Map_copier copier_slice [OF Requirement_copier cell_types(6)]] _
        cp_LabelSelector_def, where
        val = "\<lambda>m (x, y). \<lparr>ls_MatchLabels = (case x of None \<Rightarrow> [] | Some l \<Rightarrow> l), ls_MatchExpressions = y\<rparr>"])
    (simp_all add: struct_simps rd_LabelSelector_def)

lemma ObjectMeta_copier: "copier rd_ObjectMeta cp_ObjectMeta"
  by (rule copier_fields [OF copier_pair [OF Map_copier Map_copier] _ cp_ObjectMeta_def, where
        val = "\<lambda>m (x, y). \<lparr>om_Name = omm_Name m, om_Namespace = omm_Namespace m, om_Generation = omm_Generation m,
          om_Labels = x, om_Annotations = y\<rparr>"])
    (simp_all add: struct_simps rd_ObjectMeta_def)

lemma ListMeta_copier: "copier rd_ListMeta cp_ListMeta"
  by (rule copier_fields [OF Int64_copier _ cp_ListMeta_def, where
        val = "\<lambda>m x. \<lparr>lm_ResourceVersion = lmm_ResourceVersion m, lm_Continue = lmm_Continue m,
          lm_RemainingItemCount = x\<rparr>"])
    (simp_all add: struct_simps rd_ListMeta_def)

interpretation std_metav1: metav1_copies std_metav1
  by (intro metav1_copies.intro)
    (simp_all add: std_metav1_def LabelSelector_copier ObjectMeta_copier ListMeta_copier copier_plain
      copier_pointer)

interpretation TokenQuota_copy: copier rd_TokenQuota TokenQuota_DeepCopyInto
  by (rule TokenQuota_copier)

interpretation TokenPolicy_copy: copier rd_TokenPolicy "TokenPolicy_DeepCopyInto std_metav1"
  by (rule std_metav1.TokenPolicy_copier)

section \<open>Properties\<close>

text \<open>
  The copy of a value in memory reads as the value, in cells of its own. From then on each of the
  two keeps its value, whatever is allocated and whatever is stored into cells that are not its own.
\<close>

definition separate_copy :: "('c, 'm, 'v) reader \<Rightarrow> ('c, 'm) copying \<Rightarrow> bool" where
  "separate_copy rd cp \<longleftrightarrow>
     (\<forall>h m v A. rd h m = Some (v, A) \<longrightarrow>
        (\<exists>m' h' A'. cp m h = Some (m', h') \<and> rd h m = rd h' m \<and> rd h' m' = Some (v, A') \<and> A \<inter> A' = {} \<and>
           (\<forall>ops h''. perform ops h' = Some h'' \<longrightarrow>
              (stores_to ops \<inter> A = {} \<longrightarrow> rd h'' m = Some (v, A)) \<and>
              (stores_to ops \<inter> A' = {} \<longrightarrow> rd h'' m' = Some (v, A')))))"

lemma separate_copyI:
  assumes "copier rd cp"
  shows "separate_copy rd cp"
  unfolding separate_copy_def
proof (intro allI impI)
  fix h m v A
  assume "rd h m = Some (v, A)"
  then show "\<exists>m' h' A'. cp m h = Some (m', h') \<and> rd h m = rd h' m \<and> rd h' m' = Some (v, A') \<and> A \<inter> A' = {} \<and>
           (\<forall>ops h''. perform ops h' = Some h'' \<longrightarrow>
              (stores_to ops \<inter> A = {} \<longrightarrow> rd h'' m = Some (v, A)) \<and>
              (stores_to ops \<inter> A' = {} \<longrightarrow> rd h'' m' = Some (v, A')))"
  proof (rule copier.separate [OF assms])
    fix m' h' A'
    assume "cp m h = Some (m', h')" "rd h' m' = Some (v, A')" "A \<inter> A' = {}"
      and keeps: "\<And>ops h''. perform ops h' = Some h'' \<Longrightarrow> stores_to ops \<inter> A = {} \<Longrightarrow> rd h'' m = Some (v, A)"
        "\<And>ops h''. perform ops h' = Some h'' \<Longrightarrow> stores_to ops \<inter> A' = {} \<Longrightarrow> rd h'' m' = Some (v, A')"
    moreover have "rd h' m = Some (v, A)" using keeps(1) [of "[]"] by simp
    ultimately show ?thesis using \<open>rd h m = Some (v, A)\<close> by (intro exI [of _ m'] exI [of _ h'] exI [of _ A']) simp
  qed
qed

text \<open>
  C32: A deep copy shares no memory with its original. For each of the four kinds and their lists,
  whatever the object and however its own parts share memory, the copy reads as the same object
  with the same metadata, spec and status; a later store into one of them never shows in the
  other. So a reconciler that fills in the object it was given never changes the informer's copy.
\<close>

theorem deep_copies_separate:
  assumes "metav1_copies lib"
  shows "separate_copy (rd_pointer un_ClusterTokenPolicy rd_ClusterTokenPolicy) (ClusterTokenPolicy_DeepCopy lib) \<and>
    separate_copy (rd_pointer un_TokenPolicy rd_TokenPolicy) (TokenPolicy_DeepCopy lib) \<and>
    separate_copy (rd_pointer un_ModelClaim rd_ModelClaim) (ModelClaim_DeepCopy lib) \<and>
    separate_copy (rd_pointer un_ModelCredential rd_ModelCredential) (ModelCredential_DeepCopy lib) \<and>
    separate_copy (rd_pointer un_ClusterTokenPolicyList (rd_objects un_ClusterTokenPolicys rd_ClusterTokenPolicy))
      (ClusterTokenPolicyList_DeepCopy lib) \<and>
    separate_copy (rd_pointer un_TokenPolicyList (rd_objects un_TokenPolicys rd_TokenPolicy)) (TokenPolicyList_DeepCopy lib) \<and>
    separate_copy (rd_pointer un_ModelClaimList (rd_objects un_ModelClaims rd_ModelClaim)) (ModelClaimList_DeepCopy lib) \<and>
    separate_copy (rd_pointer un_ModelCredentialList (rd_objects un_ModelCredentials rd_ModelCredential))
      (ModelCredentialList_DeepCopy lib)"
  unfolding ClusterTokenPolicy_DeepCopy_def TokenPolicy_DeepCopy_def ModelClaim_DeepCopy_def ModelCredential_DeepCopy_def
    ClusterTokenPolicyList_DeepCopy_def TokenPolicyList_DeepCopy_def ModelClaimList_DeepCopy_def
    ModelCredentialList_DeepCopy_def
  by (intro conjI separate_copyI copier_pointer cell_types
      metav1_copies.ClusterTokenPolicy_copier [OF assms] metav1_copies.TokenPolicy_copier [OF assms]
      metav1_copies.ModelClaim_copier [OF assms] metav1_copies.ModelCredential_copier [OF assms]
      metav1_copies.ClusterTokenPolicyList_copier [OF assms] metav1_copies.TokenPolicyList_copier [OF assms]
      metav1_copies.ModelClaimList_copier [OF assms] metav1_copies.ModelCredentialList_copier [OF assms])

text \<open>A cluster policy with a quota, two rules and a condition, as it lies in memory.\<close>

definition policy_memory :: "cell memory" where
  "policy_memory =
     [Int64Cell 1000,
      TokenQuotaCell \<lparr>tqm_TokensPerMinute = Some 0, tqm_RequestsPerMinute = None, tqm_TokensPerDay = None,
        tqm_TokensPerMonth = None\<rparr>,
      ModelPermissionsCell
        [\<lparr>mpm_Provider = ''openai'', mpm_Model = ''gpt-*'', mpm_Action = ActionAllow, mpm_CredentialRef = None,
          mpm_Quota = None\<rparr>,
         \<lparr>mpm_Provider = ''*'', mpm_Model = ''*'', mpm_Action = ActionDeny, mpm_CredentialRef = None,
          mpm_Quota = Some 1\<rparr>],
      MapCell [(''team'', ''platform'')],
      ClusterTokenPolicyCell
        \<lparr>obm_TypeMeta = \<lparr>tm_Kind = ''ClusterTokenPolicy'', tm_APIVersion = []\<rparr>,
         obm_ObjectMeta = \<lparr>omm_Name = ''org'', omm_Namespace = [], omm_Generation = 1, omm_Labels = Some 3,
           omm_Annotations = None\<rparr>,
         obm_Spec = \<lparr>ctpsm_NamespaceSelector = None,
           ctpsm_Models = Some \<lparr>sl_array = 2, sl_off = 0, sl_len = 2\<rparr>, ctpsm_Quota = Some 1,
           ctpsm_Enforcement = EnforcementEnforce, ctpsm_DefaultCredentialRef = None, ctpsm_Gateway = None\<rparr>,
         obm_Status = \<lparr>ctpstm_ObservedGeneration = 1, ctpstm_ModelCount = 2, ctpstm_AppliedNamespaces = None,
           ctpstm_Conditions = None\<rparr>\<rparr>]"

definition policy_value :: "(ClusterTokenPolicySpec, ClusterTokenPolicyStatus) k8s_object" where
  "policy_value =
     \<lparr>ob_TypeMeta = \<lparr>tm_Kind = ''ClusterTokenPolicy'', tm_APIVersion = []\<rparr>,
      ob_ObjectMeta = \<lparr>om_Name = ''org'', om_Namespace = [], om_Generation = 1,
        om_Labels = Some [(''team'', ''platform'')], om_Annotations = None\<rparr>,
      ob_Spec = \<lparr>ctps_NamespaceSelector = None,
        ctps_Models =
          [\<lparr>mp_Provider = ''openai'', mp_Model = ''gpt-*'', mp_Action = ActionAllow, mp_CredentialRef = None,
            mp_Quota = None\<rparr>,
           \<lparr>mp_Provider = ''*'', mp_Model = ''*'', mp_Action = ActionDeny, mp_CredentialRef = None,
            mp_Quota = Some (empty_quota\<lparr>tq_TokensPerMinute := Some 1000\<rparr>)\<rparr>],
        ctps_Quota = Some (empty_quota\<lparr>tq_TokensPerMinute := Some 1000\<rparr>),
        ctps_Enforcement = EnforcementEnforce, ctps_DefaultCredentialRef = None, ctps_Gateway = None\<rparr>,
      ob_Status = \<lparr>ctpst_ObservedGeneration = 1, ctpst_ModelCount = 2, ctpst_AppliedNamespaces = [],
        ctpst_Conditions = []\<rparr>\<rparr>"

lemma policy_reads_as:
  "rd_pointer un_ClusterTokenPolicy rd_ClusterTokenPolicy policy_memory (Some 4) = Some (Some policy_value, {0, 1, 2, 3, 4})"
  by code_simp

theorem deep_copies_separate_witness:
  "\<exists>p' h' A'. ClusterTokenPolicy_DeepCopy std_metav1 (Some 4) policy_memory = Some (p', h') \<and>
     rd_pointer un_ClusterTokenPolicy rd_ClusterTokenPolicy h' p' = Some (Some policy_value, A') \<and>
     {0, 1, 2, 3, 4} \<inter> A' = {}"
proof -
  have "separate_copy (rd_pointer un_ClusterTokenPolicy rd_ClusterTokenPolicy) (ClusterTokenPolicy_DeepCopy std_metav1)"
    by (rule conjunct1 [OF deep_copies_separate [OF std_metav1.metav1_copies_axioms]])
  from this [unfolded separate_copy_def, rule_format, OF policy_reads_as]
  show ?thesis by (elim exE conjE) (intro exI conjI, assumption+)
qed

end
