(* ===== verification/Quota_Memory.thy ===== *)
theory Quota_Memory
  imports Deep_Copy_Props Resolver_Facts Samples
begin

text \<open>
  The quota arithmetic of \<open>Quotas\<close> on pointers, as the program runs it: which cells its results
  consist of, and that it changes none of the quotas it reads. The resolver's minimum points to the
  limits of its arguments; the sums of the credential controller are made of new cells.
\<close>

definition int64_at :: "cell memory \<Rightarrow> addr \<Rightarrow> int64 option" where
  "int64_at h a = load h a \<bind> un_Int64"

definition quota_at :: "cell memory \<Rightarrow> addr \<Rightarrow> TokenQuota_mem option" where
  "quota_at h a = load h a \<bind> un_TokenQuota"

section \<open>The resolver's minimum\<close>

definition minPtr_mem :: "cell memory \<Rightarrow> addr option \<Rightarrow> addr option \<Rightarrow> addr option option" where
  "minPtr_mem h a b =
     (case a of
        None \<Rightarrow> Some b
      | Some pa \<Rightarrow>
          (case b of
             None \<Rightarrow> Some a
           | Some pb \<Rightarrow> do {
               x \<leftarrow> int64_at h pa;
               y \<leftarrow> int64_at h pb;
               Some (if le64 x y then a else b)
             }))"

text \<open>\<open>out.F = minPtr(a.F, b.F)\<close> for a field of \<open>*out\<close>.\<close>

definition assign_min ::
  "addr \<Rightarrow> ((addr option \<Rightarrow> addr option) \<Rightarrow> TokenQuota_mem \<Rightarrow> TokenQuota_mem) \<Rightarrow> addr option \<Rightarrow> addr option
     \<Rightarrow> cell memory \<Rightarrow> cell memory option" where
  "assign_min out upd a b h = do {
     p \<leftarrow> minPtr_mem h a b;
     q \<leftarrow> quota_at h out;
     store out (TokenQuotaCell (upd (\<lambda>_. p) q)) h
   }"

definition minQuota_mem :: "addr option \<Rightarrow> addr option \<Rightarrow> cell memory \<Rightarrow> (addr option \<times> cell memory) option" where
  "minQuota_mem a b h =
     (case a of
        None \<Rightarrow> TokenQuota_DeepCopy b h
      | Some pa \<Rightarrow>
          (case b of
             None \<Rightarrow> TokenQuota_DeepCopy a h
           | Some pb \<Rightarrow> do {
               (p, h) \<leftarrow> TokenQuota_DeepCopy a h;
               out \<leftarrow> p;
               qa \<leftarrow> quota_at h pa;
               qb \<leftarrow> quota_at h pb;
               h \<leftarrow> assign_min out tqm_TokensPerMinute_update (tqm_TokensPerMinute qa) (tqm_TokensPerMinute qb) h;
               h \<leftarrow> assign_min out tqm_RequestsPerMinute_update (tqm_RequestsPerMinute qa) (tqm_RequestsPerMinute qb) h;
               h \<leftarrow> assign_min out tqm_TokensPerDay_update (tqm_TokensPerDay qa) (tqm_TokensPerDay qb) h;
               h \<leftarrow> assign_min out tqm_TokensPerMonth_update (tqm_TokensPerMonth qa) (tqm_TokensPerMonth qb) h;
               Some (Some out, h)
             }))"

text \<open>The assignments of \<open>Resolve\<close> and \<open>applyNamespaceTier\<close> to \<open>eff.Quota\<close>, over the policies' quotas.\<close>

primrec fold_quotas :: "addr option list \<Rightarrow> addr option \<Rightarrow> cell memory \<Rightarrow> (addr option \<times> cell memory) option" where
  "fold_quotas [] e h = Some (e, h)"
| "fold_quotas (p # ps) e h =
     (if p \<noteq> None
      then do {
        (e, h) \<leftarrow> minQuota_mem e p h;
        fold_quotas ps e h
      }
      else fold_quotas ps e h)"

section \<open>The capacity rollup\<close>

definition empty_quota_mem :: TokenQuota_mem where
  "empty_quota_mem = \<lparr>tqm_TokensPerMinute = None, tqm_RequestsPerMinute = None, tqm_TokensPerDay = None,
     tqm_TokensPerMonth = None\<rparr>"

definition normalizeQuota_mem :: "cell memory \<Rightarrow> addr option \<Rightarrow> addr option option" where
  "normalizeQuota_mem h q =
     (case q of
        None \<Rightarrow> Some None
      | Some p \<Rightarrow> do {
          m \<leftarrow> quota_at h p;
          Some (if tqm_TokensPerMinute m = None \<and> tqm_RequestsPerMinute m = None \<and>
                   tqm_TokensPerDay m = None \<and> tqm_TokensPerMonth m = None
                then None else q)
        })"

type_synonym pointer_op = "addr option \<Rightarrow> addr option \<Rightarrow> cell memory \<Rightarrow> (addr option \<times> cell memory) option"

text \<open>\<open>if a == nil { a = &TokenQuota{} }\<close>\<close>

definition or_empty :: "addr option \<Rightarrow> cell memory \<Rightarrow> addr \<times> cell memory" where
  "or_empty a h = (case a of None \<Rightarrow> new_cell (TokenQuotaCell empty_quota_mem) h | Some p \<Rightarrow> (p, h))"

definition mapQuota2_mem :: "addr option \<Rightarrow> addr option \<Rightarrow> pointer_op \<Rightarrow> cell memory \<Rightarrow> (addr option \<times> cell memory) option" where
  "mapQuota2_mem a b op h = do {
     let (a, h) = or_empty a h;
     let (b, h) = or_empty b h;
     qa \<leftarrow> quota_at h a;
     qb \<leftarrow> quota_at h b;
     (tpm, h) \<leftarrow> op (tqm_TokensPerMinute qa) (tqm_TokensPerMinute qb) h;
     (rpm, h) \<leftarrow> op (tqm_RequestsPerMinute qa) (tqm_RequestsPerMinute qb) h;
     (tpd, h) \<leftarrow> op (tqm_TokensPerDay qa) (tqm_TokensPerDay qb) h;
     (tpo, h) \<leftarrow> op (tqm_TokensPerMonth qa) (tqm_TokensPerMonth qb) h;
     let (q, h) = new_cell (TokenQuotaCell \<lparr>tqm_TokensPerMinute = tpm, tqm_RequestsPerMinute = rpm,
       tqm_TokensPerDay = tpd, tqm_TokensPerMonth = tpo\<rparr>) h;
     r \<leftarrow> normalizeQuota_mem h (Some q);
     Some (r, h)
   }"

text \<open>\<open>v := e; return &v\<close>\<close>

definition new_int64 :: "int64 \<Rightarrow> cell memory \<Rightarrow> addr option \<times> cell memory" where
  "new_int64 v h = (let (p, h) = new_cell (Int64Cell v) h in (Some p, h))"

definition add_mem :: pointer_op where
  "add_mem x y h =
     (case (x, y) of
        (None, None) \<Rightarrow> Some (None, h)
      | (None, Some py) \<Rightarrow> do { v \<leftarrow> int64_at h py; Some (new_int64 v h) }
      | (Some px, None) \<Rightarrow> do { v \<leftarrow> int64_at h px; Some (new_int64 v h) }
      | (Some px, Some py) \<Rightarrow> do { v \<leftarrow> int64_at h px; w \<leftarrow> int64_at h py; Some (new_int64 (v + w) h) })"

definition addQuota_mem :: "addr option \<Rightarrow> addr option \<Rightarrow> cell memory \<Rightarrow> (addr option \<times> cell memory) option" where
  "addQuota_mem a b = mapQuota2_mem a b add_mem"

definition available_mem :: pointer_op where
  "available_mem cv av h =
     (case cv of
        None \<Rightarrow> Some (None, h)
      | Some pc \<Rightarrow> do {
          used \<leftarrow> (case av of None \<Rightarrow> Some 0 | Some pa \<Rightarrow> int64_at h pa);
          c \<leftarrow> int64_at h pc;
          let v = c - used;
          Some (new_int64 (if lt64 v 0 then 0 else v) h)
        })"

definition availableQuota_mem :: "addr option \<Rightarrow> addr option \<Rightarrow> cell memory \<Rightarrow> (addr option \<times> cell memory) option" where
  "availableQuota_mem capacity allocated = mapQuota2_mem capacity allocated available_mem"

section \<open>What pointers and quotas read as\<close>

abbreviation rd_Quota :: "(cell, addr option, TokenQuota option) reader" where
  "rd_Quota \<equiv> rd_pointer un_TokenQuota rd_TokenQuota"

lemma reader_Int64: "reader rd_Int64"
  by (rule copier.axioms(1) [OF Int64_copier])

interpretation quota_pointer: reader rd_Quota
  by (rule reader_pointer [OF TokenQuota_copy.reader_axioms])

lemmas Int64_prefix = reader.rd_prefix [OF reader_Int64]

lemmas Quota_prefix = quota_pointer.rd_prefix

lemma rd_Int64_simps [simp]:
  "rd_Int64 h None = Some (None, {})"
  "rd_Int64 h (Some a) = Some (v, A) \<longleftrightarrow> (\<exists>x. int64_at h a = Some x \<and> v = Some x \<and> A = {a})"
  by (auto simp: rd_Int64_def int64_at_def rd_plain_def bind_eq_Some_conv)

lemma rd_Int64_nil: "rd_Int64 h p = Some (v, A) \<Longrightarrow> v = None \<longleftrightarrow> p = None"
  by (cases p) auto

lemma rd_TokenQuota_eq:
  "rd_TokenQuota h m = Some (v, A) \<longleftrightarrow>
     (\<exists>B C D E. rd_Int64 h (tqm_TokensPerMinute m) = Some (tq_TokensPerMinute v, B) \<and>
        rd_Int64 h (tqm_RequestsPerMinute m) = Some (tq_RequestsPerMinute v, C) \<and>
        rd_Int64 h (tqm_TokensPerDay m) = Some (tq_TokensPerDay v, D) \<and>
        rd_Int64 h (tqm_TokensPerMonth m) = Some (tq_TokensPerMonth v, E) \<and> A = B \<union> (C \<union> (D \<union> E)))"
  by (cases v) (auto simp: rd_TokenQuota_def bind_eq_Some_conv split: prod.splits)

lemma rd_Quota_Some:
  "rd_Quota h (Some a) = Some (v, A) \<longleftrightarrow>
     (\<exists>m q B. quota_at h a = Some m \<and> rd_TokenQuota h m = Some (q, B) \<and> v = Some q \<and> A = insert a B)"
  by (auto simp: quota_at_def bind_eq_Some_conv)

lemma quota_at_prefix: "prefix h h' \<Longrightarrow> quota_at h a = Some m \<Longrightarrow> quota_at h' a = Some m"
  by (auto simp: quota_at_def load_def prefix_def nth_append bind_eq_Some_conv split: if_splits)

lemma TokenQuota_prefix: "rd_TokenQuota h m = Some (v, A) \<Longrightarrow> prefix h h' \<Longrightarrow> rd_TokenQuota h' m = Some (v, A)"
  by (rule TokenQuota_copy.rd_prefix)

section \<open>The minimum in memory\<close>

lemma minPtr_mem_ok:
  assumes "rd_Int64 h a = Some (va, A)" "rd_Int64 h b = Some (vb, B)"
  obtains p C where "minPtr_mem h a b = Some p" "rd_Int64 h p = Some (minPtr va vb, C)" "C \<subseteq> A \<union> B"
proof (cases a)
  case None
  with assms show thesis by (intro that [of b B]) (auto simp: minPtr_mem_def)
next
  case a: (Some pa)
  show thesis
  proof (cases b)
    case None
    with assms a show thesis by (intro that [of a A]) (auto simp: minPtr_mem_def minPtr_def)
  next
    case (Some pb)
    with assms a obtain x y where "int64_at h pa = Some x" "int64_at h pb = Some y" "va = Some x" "vb = Some y"
      "A = {pa}" "B = {pb}"
      by auto
    with a Some show thesis
      by (intro that [of "if le64 x y then a else b" "if le64 x y then A else B"]) (auto simp: minPtr_mem_def minPtr_def)
  qed
qed

lemma minPtr_mem_prefix:
  assumes "rd_Int64 h a = Some (va, A)" "rd_Int64 h b = Some (vb, B)" "prefix h h'"
  shows "minPtr_mem h' a b = minPtr_mem h a b"
  using assms(1,2) Int64_prefix [OF assms(1,3)] Int64_prefix [OF assms(2,3)]
  by (cases a; cases b) (auto simp: minPtr_mem_def)

text \<open>While \<open>*out\<close> is filled in, the memory from before is untouched.\<close>

definition filling :: "cell memory \<Rightarrow> cell memory \<Rightarrow> addr \<Rightarrow> TokenQuota_mem \<Rightarrow> bool" where
  "filling h0 h out m \<longleftrightarrow> prefix h0 h \<and> length h0 \<le> out \<and> quota_at h out = Some m"

lemma filling_store:
  assumes "filling h0 h out m"
  obtains h' where "store out (TokenQuotaCell m') h = Some h'" "filling h0 h' out m'"
proof -
  have "out < length h" using assms by (auto simp: filling_def quota_at_def load_def bind_eq_Some_conv split: if_splits)
  moreover from assms have "prefix h0 (h[out := TokenQuotaCell m'])"
    by (auto simp: filling_def prefix_def list_update_append)
  ultimately show thesis
    using assms that by (simp add: store_def filling_def quota_at_def load_def un_TokenQuota_def)
qed

lemma assign_min_ok:
  assumes "filling h0 h out m" "rd_Int64 h0 a = Some (va, A)" "rd_Int64 h0 b = Some (vb, B)"
  obtains p C h' where "assign_min out upd a b h = Some h'" "filling h0 h' out (upd (\<lambda>_. p) m)"
    "rd_Int64 h0 p = Some (minPtr va vb, C)" "C \<subseteq> A \<union> B"
proof -
  obtain p C where p: "minPtr_mem h0 a b = Some p" "rd_Int64 h0 p = Some (minPtr va vb, C)" "C \<subseteq> A \<union> B"
    by (rule minPtr_mem_ok [OF assms(2,3)])
  have m: "prefix h0 h" "quota_at h out = Some m" using assms(1) by (simp_all add: filling_def)
  obtain h' where h': "store out (TokenQuotaCell (upd (\<lambda>_. p) m)) h = Some h'" "filling h0 h' out (upd (\<lambda>_. p) m)"
    by (rule filling_store [OF assms(1)])
  have "assign_min out upd a b h = Some h'"
    by (simp add: assign_min_def minPtr_mem_prefix [OF assms(2,3) m(1)] p(1) m(2) h'(1))
  then show thesis using h'(2) p(2,3) by (rule that)
qed

lemma minQuota_both:
  assumes "rd_Quota h (Some pa) = Some (Some va, A)" "rd_Quota h (Some pb) = Some (Some vb, B)"
  shows "\<exists>out h' C. minQuota_mem (Some pa) (Some pb) h = Some (Some out, h') \<and> prefix h h' \<and> length h \<le> out \<and>
    rd_Quota h' (Some out) = Some (minQuota (Some va) (Some vb), C) \<and> (\<forall>c \<in> C. c \<in> A \<union> B \<or> length h \<le> c)"
proof -
  obtain ma A' where ma: "quota_at h pa = Some ma" "rd_TokenQuota h ma = Some (va, A')" "A = insert pa A'"
    using assms(1) unfolding rd_Quota_Some by blast
  obtain mb B' where mb: "quota_at h pb = Some mb" "rd_TokenQuota h mb = Some (vb, B')" "B = insert pb B'"
    using assms(2) unfolding rd_Quota_Some by blast
  obtain p h1 D where copy: "TokenQuota_DeepCopy (Some pa) h = Some (p, h1)" "prefix h h1"
    "rd_Quota h1 p = Some (Some va, D)" "\<forall>a \<in> D. length h \<le> a"
    unfolding TokenQuota_DeepCopy_def
    by (rule copier.copy [OF copier_pointer [OF TokenQuota_copier cell_types(12)] assms(1)]) blast
  then obtain out m where out: "p = Some out" "quota_at h1 out = Some m" "out \<in> D"
    by (cases p) (auto simp del: rd_pointer_simps(2) simp: rd_Quota_Some)
  have f1: "filling h h1 out m" using copy(2,4) out by (simp add: filling_def)
  obtain A1 A2 A3 A4 where a: "rd_Int64 h (tqm_TokensPerMinute ma) = Some (tq_TokensPerMinute va, A1)"
    "rd_Int64 h (tqm_RequestsPerMinute ma) = Some (tq_RequestsPerMinute va, A2)"
    "rd_Int64 h (tqm_TokensPerDay ma) = Some (tq_TokensPerDay va, A3)"
    "rd_Int64 h (tqm_TokensPerMonth ma) = Some (tq_TokensPerMonth va, A4)" "A' = A1 \<union> (A2 \<union> (A3 \<union> A4))"
    using ma(2) by (auto simp: rd_TokenQuota_eq)
  obtain B1 B2 B3 B4 where b: "rd_Int64 h (tqm_TokensPerMinute mb) = Some (tq_TokensPerMinute vb, B1)"
    "rd_Int64 h (tqm_RequestsPerMinute mb) = Some (tq_RequestsPerMinute vb, B2)"
    "rd_Int64 h (tqm_TokensPerDay mb) = Some (tq_TokensPerDay vb, B3)"
    "rd_Int64 h (tqm_TokensPerMonth mb) = Some (tq_TokensPerMonth vb, B4)" "B' = B1 \<union> (B2 \<union> (B3 \<union> B4))"
    using mb(2) by (auto simp: rd_TokenQuota_eq)
  obtain p1 C1 h2 where s1: "assign_min out tqm_TokensPerMinute_update (tqm_TokensPerMinute ma) (tqm_TokensPerMinute mb) h1 = Some h2"
    "filling h h2 out (m\<lparr>tqm_TokensPerMinute := p1\<rparr>)"
    "rd_Int64 h p1 = Some (minPtr (tq_TokensPerMinute va) (tq_TokensPerMinute vb), C1)" "C1 \<subseteq> A1 \<union> B1"
    by (rule assign_min_ok [OF f1 a(1) b(1)])
  obtain p2 C2 h3 where s2: "assign_min out tqm_RequestsPerMinute_update (tqm_RequestsPerMinute ma) (tqm_RequestsPerMinute mb) h2 = Some h3"
    "filling h h3 out (m\<lparr>tqm_TokensPerMinute := p1, tqm_RequestsPerMinute := p2\<rparr>)"
    "rd_Int64 h p2 = Some (minPtr (tq_RequestsPerMinute va) (tq_RequestsPerMinute vb), C2)" "C2 \<subseteq> A2 \<union> B2"
    by (rule assign_min_ok [OF s1(2) a(2) b(2)])
  obtain p3 C3 h4 where s3: "assign_min out tqm_TokensPerDay_update (tqm_TokensPerDay ma) (tqm_TokensPerDay mb) h3 = Some h4"
    "filling h h4 out (m\<lparr>tqm_TokensPerMinute := p1, tqm_RequestsPerMinute := p2, tqm_TokensPerDay := p3\<rparr>)"
    "rd_Int64 h p3 = Some (minPtr (tq_TokensPerDay va) (tq_TokensPerDay vb), C3)" "C3 \<subseteq> A3 \<union> B3"
    by (rule assign_min_ok [OF s2(2) a(3) b(3)])
  obtain p4 C4 h5 where s4: "assign_min out tqm_TokensPerMonth_update (tqm_TokensPerMonth ma) (tqm_TokensPerMonth mb) h4 = Some h5"
    "filling h h5 out (m\<lparr>tqm_TokensPerMinute := p1, tqm_RequestsPerMinute := p2, tqm_TokensPerDay := p3,
       tqm_TokensPerMonth := p4\<rparr>)"
    "rd_Int64 h p4 = Some (minPtr (tq_TokensPerMonth va) (tq_TokensPerMonth vb), C4)" "C4 \<subseteq> A4 \<union> B4"
    by (rule assign_min_ok [OF s3(2) a(4) b(4)])
  let ?q = "m\<lparr>tqm_TokensPerMinute := p1, tqm_RequestsPerMinute := p2, tqm_TokensPerDay := p3, tqm_TokensPerMonth := p4\<rparr>"
  have last: "prefix h h5" "length h \<le> out" "quota_at h5 out = Some ?q" using s4(2) by (simp_all add: filling_def)
  have "rd_TokenQuota h5 ?q = Some (the (minQuota (Some va) (Some vb)), C1 \<union> (C2 \<union> (C3 \<union> C4)))"
    using Int64_prefix [OF s1(3) last(1)] Int64_prefix [OF s2(3) last(1)] Int64_prefix [OF s3(3) last(1)]
      Int64_prefix [OF s4(3) last(1)]
    by (auto simp: rd_TokenQuota_eq minQuota_def)
  then have "rd_Quota h5 (Some out) = Some (minQuota (Some va) (Some vb), insert out (C1 \<union> (C2 \<union> (C3 \<union> C4))))"
    using last(3) unfolding rd_Quota_Some by (simp add: minQuota_def)
  moreover have "minQuota_mem (Some pa) (Some pb) h = Some (Some out, h5)"
    using copy(1) out(1) ma(1) mb(1) quota_at_prefix [OF copy(2)] s1(1) s2(1) s3(1) s4(1)
    by (simp add: minQuota_mem_def)
  moreover have "\<forall>c \<in> insert out (C1 \<union> (C2 \<union> (C3 \<union> C4))). c \<in> A \<union> B \<or> length h \<le> c"
    using s1(4) s2(4) s3(4) s4(4) a(5) b(5) ma(3) mb(3) last(2) by auto
  ultimately show ?thesis using last(1,2) by blast
qed

lemma TokenQuota_DeepCopy_new:
  assumes "rd_Quota h p = Some (v, A)"
  shows "\<exists>p' h' C. TokenQuota_DeepCopy p h = Some (p', h') \<and> prefix h h' \<and> rd_Quota h' p' = Some (v, C) \<and>
    (\<forall>c \<in> C. length h \<le> c)"
  unfolding TokenQuota_DeepCopy_def
  by (rule copier.copies [OF copier_pointer [OF TokenQuota_copier cell_types(12)] assms])

lemma rd_Quota_nil: "rd_Quota h p = Some (None, A) \<longleftrightarrow> p = None \<and> A = {}"
  by (cases p) auto

lemma rd_Quota_root: "rd_Quota h (Some a) = Some (v, A) \<Longrightarrow> a \<in> A"
  by auto

lemma minQuota_mem_nil: "minQuota_mem None p h = TokenQuota_DeepCopy p h" "minQuota_mem p None h = TokenQuota_DeepCopy p h"
  by (simp_all add: minQuota_mem_def split: option.split)

lemma minQuota_nil: "minQuota None v = v" "minQuota v None = v"
  by (simp_all add: minQuota_def split: option.split)

lemma minQuota_mem_ok:
  assumes "rd_Quota h a = Some (va, A)" "rd_Quota h b = Some (vb, B)"
  shows "\<exists>p h' C. minQuota_mem a b h = Some (p, h') \<and> prefix h h' \<and> (\<forall>q. p = Some q \<longrightarrow> length h \<le> q) \<and>
    rd_Quota h' p = Some (minQuota va vb, C) \<and> (\<forall>c \<in> C. c \<in> A \<union> B \<or> length h \<le> c)"
proof (cases "va = None \<or> vb = None")
  case True
  then obtain p w D where c: "minQuota_mem a b h = TokenQuota_DeepCopy p h" "rd_Quota h p = Some (w, D)"
    "minQuota va vb = w"
  proof
    assume "va = None"
    with assms(1) have "a = None" by (simp add: rd_Quota_nil)
    with \<open>va = None\<close> show thesis using that [of b vb B] assms(2) by (simp add: minQuota_mem_nil minQuota_nil)
  next
    assume "vb = None"
    with assms(2) have "b = None" by (simp add: rd_Quota_nil)
    with \<open>vb = None\<close> show thesis using that [of a va A] assms(1) by (simp add: minQuota_mem_nil minQuota_nil)
  qed
  show ?thesis
    using TokenQuota_DeepCopy_new [OF c(2)] rd_Quota_root unfolding c(1,3) by blast
next
  case False
  then obtain pa pb qa qb where "a = Some pa" "b = Some pb" "va = Some qa" "vb = Some qb"
    using assms by (cases a; cases b) auto
  with minQuota_both [of h pa qa A pb qb B] assms show ?thesis by blast
qed

text \<open>The resolver never points \<open>eff.Quota\<close> at a policy's own quota.\<close>

lemma fold_quotas_ok:
  assumes "list_all2 (\<lambda>p v. \<exists>A. rd_Quota h p = Some (v, A)) ps vs" "rd_Quota h e = Some (ve, E)"
    and "\<forall>q. e = Some q \<longrightarrow> n \<le> q" "n \<le> length h"
  shows "\<exists>p h' C. fold_quotas ps e h = Some (p, h') \<and> prefix h h' \<and> (\<forall>q. p = Some q \<longrightarrow> n \<le> q) \<and>
    rd_Quota h' p = Some (foldl minQuota ve vs, C)"
  using assms
proof (induction ps arbitrary: vs e ve E h)
  case Nil
  then show ?case by auto
next
  case (Cons p ps)
  from Cons.prems(1) obtain v A ws where v: "vs = v # ws" "rd_Quota h p = Some (v, A)"
    "list_all2 (\<lambda>p v. \<exists>A. rd_Quota h p = Some (v, A)) ps ws"
    by (auto simp: list_all2_Cons1)
  show ?case
  proof (cases p)
    case None
    then have "v = None" using v(2) by simp
    with None v Cons.IH [OF v(3) Cons.prems(2-4)] show ?thesis by simp
  next
    case (Some r)
    obtain e1 h1 C where m: "minQuota_mem e p h = Some (e1, h1)" "prefix h h1" "\<forall>q. e1 = Some q \<longrightarrow> length h \<le> q"
      "rd_Quota h1 e1 = Some (minQuota ve v, C)"
      using minQuota_mem_ok [OF Cons.prems(2) v(2)] by blast
    have "list_all2 (\<lambda>p v. \<exists>A. rd_Quota h1 p = Some (v, A)) ps ws"
      using v(3) by (rule list_all2_mono) (blast intro: Quota_prefix m(2))
    moreover have "\<forall>q. e1 = Some q \<longrightarrow> n \<le> q" "n \<le> length h1"
      using m(3) Cons.prems(4) prefix_length_le [OF m(2)] by fastforce+
    ultimately obtain p' h' C' where "fold_quotas ps e1 h1 = Some (p', h')" "prefix h1 h'"
      "\<forall>q. p' = Some q \<longrightarrow> n \<le> q" "rd_Quota h' p' = Some (foldl minQuota (minQuota ve v) ws, C')"
      using Cons.IH [OF _ m(4)] by blast
    moreover from this(2) have "prefix h h'" using m(2) by (rule prefix_order.trans [rotated])
    ultimately show ?thesis using Some m(1) v(1) by auto
  qed
qed

section \<open>The sums in memory\<close>

text \<open>Operations on limits that return new cells.\<close>

locale quota_op =
  fixes f :: "int64 option \<Rightarrow> int64 option \<Rightarrow> int64 option" and op :: pointer_op
  assumes op_ok: "rd_Int64 h x = Some (vx, X) \<Longrightarrow> rd_Int64 h y = Some (vy, Y) \<Longrightarrow>
    \<exists>p h' C. op x y h = Some (p, h') \<and> prefix h h' \<and> rd_Int64 h' p = Some (f vx vy, C) \<and> (\<forall>c \<in> C. length h \<le> c)"
begin

lemma op_later:
  assumes "rd_Int64 h0 x = Some (vx, X)" "rd_Int64 h0 y = Some (vy, Y)" "prefix h0 h"
  obtains p h' C where "op x y h = Some (p, h')" "prefix h0 h'" "prefix h h'" "rd_Int64 h' p = Some (f vx vy, C)"
    "\<forall>c \<in> C. length h0 \<le> c"
proof -
  obtain p h' C where r: "op x y h = Some (p, h')" "prefix h h'" "rd_Int64 h' p = Some (f vx vy, C)"
    "\<forall>c \<in> C. length h \<le> c"
    using op_ok [OF Int64_prefix [OF assms(1,3)] Int64_prefix [OF assms(2,3)]] by blast
  from prefix_order.trans [OF assms(3) r(2)] later_cells [OF assms(3) r(4)] show thesis
    using r(1-3) by (intro that)
qed

end

lemma or_empty_ok:
  assumes "rd_Quota h a = Some (va, A)"
  obtains p h' m B where "or_empty a h = (p, h')" "prefix h h'" "quota_at h' p = Some m"
    "rd_TokenQuota h' m = Some (case va of None \<Rightarrow> empty_quota | Some q \<Rightarrow> q, B)"
proof (cases a)
  case None
  let ?h = "h @ [TokenQuotaCell empty_quota_mem]"
  have "quota_at ?h (length h) = Some empty_quota_mem" by (simp add: quota_at_def un_TokenQuota_def)
  moreover have "rd_TokenQuota ?h empty_quota_mem = Some (empty_quota, {})"
    by (simp add: rd_TokenQuota_eq empty_quota_mem_def empty_quota_def)
  ultimately show thesis using that [of "length h" ?h] None assms by (simp add: or_empty_def new_cell_def)
next
  case (Some p)
  with assms obtain m q B where "quota_at h p = Some m" "rd_TokenQuota h m = Some (q, B)" "va = Some q"
    unfolding Some rd_Quota_Some by blast
  with Some show thesis by (intro that [of p h m B]) (simp_all add: or_empty_def)
qed

context quota_op
begin

lemma mapQuota2_ok:
  assumes "rd_Quota h a = Some (va, A)" "rd_Quota h b = Some (vb, B)"
  shows "\<exists>p h' C. mapQuota2_mem a b op h = Some (p, h') \<and> prefix h h' \<and>
    rd_Quota h' p = Some (mapQuota2 va vb f, C) \<and> (\<forall>c \<in> C. length h \<le> c)"
proof -
  let ?qa = "case va of None \<Rightarrow> empty_quota | Some q \<Rightarrow> q" and ?qb = "case vb of None \<Rightarrow> empty_quota | Some q \<Rightarrow> q"
  obtain pa h1 ma A' where a: "or_empty a h = (pa, h1)" "prefix h h1" "quota_at h1 pa = Some ma"
    "rd_TokenQuota h1 ma = Some (?qa, A')"
    by (rule or_empty_ok [OF assms(1)])
  obtain pb h2 mb B' where b: "or_empty b h1 = (pb, h2)" "prefix h1 h2" "quota_at h2 pb = Some mb"
    "rd_TokenQuota h2 mb = Some (?qb, B')"
    by (rule or_empty_ok [OF Quota_prefix [OF assms(2) a(2)]])
  have a2: "quota_at h2 pa = Some ma" "rd_TokenQuota h2 ma = Some (?qa, A')"
    using quota_at_prefix [OF b(2) a(3)] TokenQuota_prefix [OF a(4) b(2)] by simp_all
  have pre: "prefix h h2" by (rule prefix_order.trans [OF a(2) b(2)])
  obtain A1 A2 A3 A4 where qa: "rd_Int64 h2 (tqm_TokensPerMinute ma) = Some (tq_TokensPerMinute ?qa, A1)"
    "rd_Int64 h2 (tqm_RequestsPerMinute ma) = Some (tq_RequestsPerMinute ?qa, A2)"
    "rd_Int64 h2 (tqm_TokensPerDay ma) = Some (tq_TokensPerDay ?qa, A3)"
    "rd_Int64 h2 (tqm_TokensPerMonth ma) = Some (tq_TokensPerMonth ?qa, A4)"
    using a2(2) unfolding rd_TokenQuota_eq by blast
  obtain B1 B2 B3 B4 where qb: "rd_Int64 h2 (tqm_TokensPerMinute mb) = Some (tq_TokensPerMinute ?qb, B1)"
    "rd_Int64 h2 (tqm_RequestsPerMinute mb) = Some (tq_RequestsPerMinute ?qb, B2)"
    "rd_Int64 h2 (tqm_TokensPerDay mb) = Some (tq_TokensPerDay ?qb, B3)"
    "rd_Int64 h2 (tqm_TokensPerMonth mb) = Some (tq_TokensPerMonth ?qb, B4)"
    using b(4) unfolding rd_TokenQuota_eq by blast
  obtain p1 h3 C1 where s1: "op (tqm_TokensPerMinute ma) (tqm_TokensPerMinute mb) h2 = Some (p1, h3)" "prefix h2 h3"
    "rd_Int64 h3 p1 = Some (f (tq_TokensPerMinute ?qa) (tq_TokensPerMinute ?qb), C1)" "\<forall>c \<in> C1. length h2 \<le> c"
    by (rule op_later [OF qa(1) qb(1) prefix_order.refl])
  obtain p2 h4 C2 where s2: "op (tqm_RequestsPerMinute ma) (tqm_RequestsPerMinute mb) h3 = Some (p2, h4)" "prefix h2 h4"
    "prefix h3 h4"
    "rd_Int64 h4 p2 = Some (f (tq_RequestsPerMinute ?qa) (tq_RequestsPerMinute ?qb), C2)" "\<forall>c \<in> C2. length h2 \<le> c"
    by (rule op_later [OF qa(2) qb(2) s1(2)])
  obtain p3 h5 C3 where s3: "op (tqm_TokensPerDay ma) (tqm_TokensPerDay mb) h4 = Some (p3, h5)" "prefix h2 h5"
    "prefix h4 h5"
    "rd_Int64 h5 p3 = Some (f (tq_TokensPerDay ?qa) (tq_TokensPerDay ?qb), C3)" "\<forall>c \<in> C3. length h2 \<le> c"
    by (rule op_later [OF qa(3) qb(3) s2(2)])
  obtain p4 h6 C4 where s4: "op (tqm_TokensPerMonth ma) (tqm_TokensPerMonth mb) h5 = Some (p4, h6)" "prefix h2 h6"
    "prefix h5 h6"
    "rd_Int64 h6 p4 = Some (f (tq_TokensPerMonth ?qa) (tq_TokensPerMonth ?qb), C4)" "\<forall>c \<in> C4. length h2 \<le> c"
    by (rule op_later [OF qa(4) qb(4) s3(2)])
  let ?m = "\<lparr>tqm_TokensPerMinute = p1, tqm_RequestsPerMinute = p2, tqm_TokensPerDay = p3, tqm_TokensPerMonth = p4\<rparr>"
  let ?v = "\<lparr>tq_TokensPerMinute = f (tq_TokensPerMinute ?qa) (tq_TokensPerMinute ?qb),
    tq_RequestsPerMinute = f (tq_RequestsPerMinute ?qa) (tq_RequestsPerMinute ?qb),
    tq_TokensPerDay = f (tq_TokensPerDay ?qa) (tq_TokensPerDay ?qb),
    tq_TokensPerMonth = f (tq_TokensPerMonth ?qa) (tq_TokensPerMonth ?qb)\<rparr>"
  let ?h = "h6 @ [TokenQuotaCell ?m]"
  have "prefix h h6" by (rule prefix_order.trans [OF pre s4(2)])
  then have ends: "prefix h3 ?h" "prefix h4 ?h" "prefix h5 ?h" "prefix h6 ?h" "prefix h ?h" "length h \<le> length h6"
    using s2(3) s3(3) s4(3) by (auto intro: prefix_order.trans prefix_length_le)
  let ?C = "C1 \<union> (C2 \<union> (C3 \<union> C4))"
  note reads = Int64_prefix [OF s1(3) ends(1)] Int64_prefix [OF s2(4) ends(2)] Int64_prefix [OF s3(4) ends(3)]
    Int64_prefix [OF s4(4) ends(4)]
  have at: "quota_at ?h (length h6) = Some ?m" by (simp add: quota_at_def un_TokenQuota_def)
  have rd: "rd_Quota ?h (Some (length h6)) = Some (Some ?v, insert (length h6) ?C)"
    using at reads unfolding rd_Quota_Some rd_TokenQuota_eq by auto
  have nil: "tq_TokensPerMinute ?v = None \<longleftrightarrow> p1 = None" "tq_RequestsPerMinute ?v = None \<longleftrightarrow> p2 = None"
    "tq_TokensPerDay ?v = None \<longleftrightarrow> p3 = None" "tq_TokensPerMonth ?v = None \<longleftrightarrow> p4 = None"
    using reads [THEN rd_Int64_nil] by simp_all
  let ?r = "if p1 = None \<and> p2 = None \<and> p3 = None \<and> p4 = None then None else Some (length h6)"
  have "mapQuota2_mem a b op h = Some (?r, ?h)"
    using a2(1) b(3) s1(1) s2(1) s3(1) s4(1) at
    by (simp add: mapQuota2_mem_def a(1) b(1) new_cell_def normalizeQuota_mem_def)
  moreover have "rd_Quota ?h ?r = Some (mapQuota2 va vb f, if ?r = None then {} else insert (length h6) ?C)"
    using rd nil by (simp add: mapQuota2_def normalizeQuota_def Let_def)
  moreover have "\<forall>c \<in> (if ?r = None then {} else insert (length h6) ?C). length h \<le> c"
    using later_cells [OF pre s1(4)] later_cells [OF pre s2(5)] later_cells [OF pre s3(5)] later_cells [OF pre s4(5)]
      ends(6)
    by auto
  ultimately show ?thesis using ends(5) by blast
qed

end

lemma new_int64_ok: "\<exists>p h' C. Some (new_int64 v h) = Some (p, h') \<and> prefix h h' \<and> rd_Int64 h' p = Some (Some v, C) \<and>
    (\<forall>c \<in> C. length h \<le> c)"
  by (auto simp: new_int64_def new_cell_def int64_at_def un_Int64_def)

interpretation add_mem: quota_op addPtr add_mem
proof
  fix h x vx X y vy Y
  assume "rd_Int64 h x = Some (vx, X)" "rd_Int64 h y = Some (vy, Y)"
  then show "\<exists>p h' C. add_mem x y h = Some (p, h') \<and> prefix h h' \<and> rd_Int64 h' p = Some (addPtr vx vy, C) \<and>
      (\<forall>c \<in> C. length h \<le> c)"
    using new_int64_ok [of _ h] by (cases x; cases y) (auto simp: add_mem_def addPtr_def)
qed

interpretation available_mem: quota_op availablePtr available_mem
proof
  fix h x vx X y vy Y
  assume "rd_Int64 h x = Some (vx, X)" "rd_Int64 h y = Some (vy, Y)"
  then show "\<exists>p h' C. available_mem x y h = Some (p, h') \<and> prefix h h' \<and> rd_Int64 h' p = Some (availablePtr vx vy, C) \<and>
      (\<forall>c \<in> C. length h \<le> c)"
    using new_int64_ok [of _ h] by (cases x; cases y) (auto simp: available_mem_def availablePtr_def Let_def)
qed

section \<open>Properties\<close>

text \<open>The quotas of the policies that apply, in the order of the resolver's loops.\<close>

definition applied_quotas :: "selector_api \<Rightarrow> ResolveInput \<Rightarrow> TokenQuota option list" where
  "applied_quotas asSel inp =
     cluster_quotas (sort_key ctp_Name (sel_cluster asSel inp)) @
     policy_quotas (sortByPriority (sel_default inp)) @ policy_quotas (sortByPriority (sel_workload asSel inp))"

text \<open>
  C33: The quota arithmetic is right on shared memory. When pointers \<open>ps\<close> lead to the quotas of the
  policies that apply, the assignments of the resolver to \<open>eff.Quota\<close> succeed, the quota they
  leave there reads as that of the effective policy, its struct is none of the policies', and no
  cell that existed before has changed: every policy keeps its quota. So for the sum of two quotas
  and for what remains of one, and these share no cell at all with their arguments.
\<close>

theorem quota_arithmetic_in_memory:
  assumes "Resolve asSel inp = Inr eff"
    and "list_all2 (\<lambda>p v. \<exists>A. rd_Quota h p = Some (v, A)) ps (applied_quotas asSel inp)"
    and "rd_Quota h a = Some (va, A)" "rd_Quota h b = Some (vb, B)"
  shows "(\<exists>p h' C. fold_quotas ps None h = Some (p, h') \<and> prefix h h' \<and> rd_Quota h' p = Some (eff_Quota eff, C) \<and>
      (\<forall>q. p = Some q \<longrightarrow> length h \<le> q)) \<and>
    (\<exists>p h' C. addQuota_mem a b h = Some (p, h') \<and> prefix h h' \<and> rd_Quota h' p = Some (addQuota va vb, C) \<and>
      (\<forall>c \<in> C. length h \<le> c)) \<and>
    (\<exists>p h' C. availableQuota_mem a b h = Some (p, h') \<and> prefix h h' \<and>
      rd_Quota h' p = Some (availableQuota va vb, C) \<and> (\<forall>c \<in> C. length h \<le> c))"
proof (intro conjI)
  have "eff_Quota eff = foldl minQuota None (applied_quotas asSel inp)"
    using assms(1) by (simp add: Resolve_Inr_iff effective_for_def applied_quotas_def)
  with fold_quotas_ok [OF assms(2), of None None "{}" "length h"]
  show "\<exists>p h' C. fold_quotas ps None h = Some (p, h') \<and> prefix h h' \<and> rd_Quota h' p = Some (eff_Quota eff, C) \<and>
      (\<forall>q. p = Some q \<longrightarrow> length h \<le> q)"
    by auto
qed (unfold addQuota_mem_def addQuota_def availableQuota_mem_def availableQuota_def,
    rule add_mem.mapQuota2_ok [OF assms(3,4)], rule available_mem.mapQuota2_ok [OF assms(3,4)])

text \<open>The quotas of the three policies of the samples, in memory.\<close>

definition quota_memory :: "cell memory" where
  "quota_memory =
     [Int64Cell 200000, Int64Cell 1000, Int64Cell 50000000,
      TokenQuotaCell \<lparr>tqm_TokensPerMinute = Some 0, tqm_RequestsPerMinute = Some 1, tqm_TokensPerDay = Some 2,
        tqm_TokensPerMonth = None\<rparr>,
      Int64Cell 50000, Int64Cell 200,
      TokenQuotaCell (empty_quota_mem\<lparr>tqm_TokensPerMinute := Some 4, tqm_RequestsPerMinute := Some 5\<rparr>),
      Int64Cell 10000, Int64Cell 60,
      TokenQuotaCell (empty_quota_mem\<lparr>tqm_TokensPerMinute := Some 7, tqm_RequestsPerMinute := Some 8\<rparr>)]"

lemma quota_memory_reads:
  "list_all2 (\<lambda>p v. \<exists>A. rd_Quota quota_memory p = Some (v, A)) [Some 3, Some 6, Some 9]
     (applied_quotas std_selector batch_input)"
proof -
  have "applied_quotas std_selector batch_input =
      [ctps_Quota (ctp_Spec org_default), tps_Quota (tp_Spec ns_default), tps_Quota (tp_Spec batch_workers)]"
    by code_simp
  moreover have "rd_Quota quota_memory (Some 3) = Some (ctps_Quota (ctp_Spec org_default), {0, 1, 2, 3})"
    "rd_Quota quota_memory (Some 6) = Some (tps_Quota (tp_Spec ns_default), {4, 5, 6})"
    "rd_Quota quota_memory (Some 9) = Some (tps_Quota (tp_Spec batch_workers), {7, 8, 9})"
    by code_simp+
  ultimately show ?thesis by (simp del: rd_pointer_simps(2))
qed

theorem quota_arithmetic_in_memory_witness:
  "(\<exists>p h' C. fold_quotas [Some 3, Some 6, Some 9] None quota_memory = Some (p, h') \<and> prefix quota_memory h' \<and>
      rd_Quota h' p = Some (Some \<lparr>tq_TokensPerMinute = Some 10000, tq_RequestsPerMinute = Some 60,
        tq_TokensPerDay = Some 50000000, tq_TokensPerMonth = None\<rparr>, C)) \<and>
   (\<exists>p h' C. addQuota_mem (Some 3) (Some 6) quota_memory = Some (p, h') \<and>
      rd_Quota h' p = Some (Some \<lparr>tq_TokensPerMinute = Some 250000, tq_RequestsPerMinute = Some 1200,
        tq_TokensPerDay = Some 50000000, tq_TokensPerMonth = None\<rparr>, C))"
proof -
  have res: "Resolve std_selector batch_input = Inr batch_eff" by (rule batch_ok)
  have "rd_Quota quota_memory (Some 3) = Some (ctps_Quota (ctp_Spec org_default), {0, 1, 2, 3})"
    "rd_Quota quota_memory (Some 6) = Some (tps_Quota (tp_Spec ns_default), {4, 5, 6})"
    by code_simp+
  note r = quota_arithmetic_in_memory [OF res quota_memory_reads this]
  have "eff_Quota batch_eff = Some \<lparr>tq_TokensPerMinute = Some 10000, tq_RequestsPerMinute = Some 60,
      tq_TokensPerDay = Some 50000000, tq_TokensPerMonth = None\<rparr>"
    "addQuota (ctps_Quota (ctp_Spec org_default)) (tps_Quota (tp_Spec ns_default)) =
      Some \<lparr>tq_TokensPerMinute = Some 250000, tq_RequestsPerMinute = Some 1200,
        tq_TokensPerDay = Some 50000000, tq_TokensPerMonth = None\<rparr>"
    by code_simp+
  with r show ?thesis by (simp del: rd_pointer_simps(2)) blast
qed

text \<open>The minimum of the first two quotas points to their limits, not to copies of them.\<close>

lemma minimum_shares_limits:
  "(do { (p, h) \<leftarrow> minQuota_mem (Some 3) (Some 6) quota_memory; out \<leftarrow> p; quota_at h out }) =
     Some \<lparr>tqm_TokensPerMinute = Some 4, tqm_RequestsPerMinute = Some 5, tqm_TokensPerDay = Some 2,
       tqm_TokensPerMonth = None\<rparr>"
  by code_simp

end
