(* ===== verification/Glob_Reference.thy ===== *)
theory Glob_Reference
  imports Glob_Props
begin

text \<open>
  What a pattern of literals, \<open>*\<close> and \<open>?\<close> means, as a function that tries every way to split the name,
  and that the matcher of package \<open>path\<close>, which commits to the first place where the chunk after a
  star fits, decides the same. Patterns with classes are left out on purpose: for those the first
  fit is not always the right one (\<open>first_fit_loses\<close>).
\<close>

section \<open>The reference\<close>

text \<open>A star stands for any characters but \<open>/\<close>, a question mark for one of them.\<close>

fun fits1 :: "char \<Rightarrow> char \<Rightarrow> bool" where
  "fits1 c d \<longleftrightarrow> (if c = CHR ''?'' then d \<noteq> CHR ''/'' else c = d)"

function wild :: "string \<Rightarrow> string \<Rightarrow> bool" where
  "wild [] s \<longleftrightarrow> s = []"
| "wild (c # p) [] \<longleftrightarrow> c = CHR ''*'' \<and> wild p []"
| "wild (c # p) (d # s) \<longleftrightarrow>
     (if c = CHR ''*'' then wild p (d # s) \<or> d \<noteq> CHR ''/'' \<and> wild (c # p) s
      else fits1 c d \<and> wild p s)"
  by pat_completeness auto
termination by (relation "measure (\<lambda>(p, s). length p + length s)") auto

definition plain_pattern :: "string \<Rightarrow> bool" where
  "plain_pattern p \<longleftrightarrow> CHR ''['' \<notin> set p \<and> backslash \<notin> set p"

lemma plain_pattern_simps [simp]:
  "plain_pattern []" "plain_pattern (c # p) \<longleftrightarrow> c \<noteq> CHR ''['' \<and> c \<noteq> backslash \<and> plain_pattern p"
  "plain_pattern (p @ q) \<longleftrightarrow> plain_pattern p \<and> plain_pattern q"
  by (auto simp: plain_pattern_def)

lemma wild_star_zero: "wild p s \<Longrightarrow> wild (CHR ''*'' # p) s"
  by (cases s) simp_all

lemma wild_self: "wild p p"
  by (induction p) (auto intro: wild_star_zero)

section \<open>Chunks\<close>

text \<open>A chunk fits at the start of the name.\<close>

fun fits :: "string \<Rightarrow> string \<Rightarrow> bool" where
  "fits [] s \<longleftrightarrow> True"
| "fits (c # cs) [] \<longleftrightarrow> False"
| "fits (c # cs) (d # ds) \<longleftrightarrow> fits1 c d \<and> fits cs ds"

lemma chunkLoop_plain:
  "plain_pattern cs \<Longrightarrow>
     chunkLoop failed cs s = (if \<not> failed \<and> fits cs s then Inr (drop (length cs) s, True) else Inr ([], False))"
proof (induction cs arbitrary: failed s)
  case (Cons c cs)
  then show ?case
    by (cases s; cases failed) (auto simp: chunkLoop.simps(2) Let_def)
qed simp

lemma matchChunk_plain:
  "plain_pattern cs \<Longrightarrow>
     matchChunk cs s = (if fits cs s then Inr (drop (length cs) s, True) else Inr ([], False))"
  by (simp add: matchChunk_def chunkLoop_plain)

lemma wild_chunk: "CHR ''*'' \<notin> set cs \<Longrightarrow> wild (cs @ p) s \<longleftrightarrow> fits cs s \<and> wild p (drop (length cs) s)"
proof (induction cs arbitrary: s)
  case (Cons c cs)
  then show ?case by (cases s) auto
qed simp

lemma scanTo_plain:
  "plain_pattern p \<Longrightarrow>
     scanTo False p = (takeWhile (\<lambda>c. c \<noteq> CHR ''*'') p, dropWhile (\<lambda>c. c \<noteq> CHR ''*'') p)"
  by (induction p) (auto simp: split: list.split)

lemma scanChunk_plain:
  assumes "plain_pattern p" "scanChunk p = (star, chunk, rest)"
  obtains stars where "p = stars @ chunk @ rest" "set stars \<subseteq> {CHR ''*''}" "star \<longleftrightarrow> stars \<noteq> []"
    "CHR ''*'' \<notin> set chunk" "rest \<noteq> [] \<longrightarrow> hd rest = CHR ''*''" "plain_pattern chunk" "plain_pattern rest"
proof -
  let ?star = "\<lambda>c. c = CHR ''*''"
  let ?q = "dropWhile ?star p"
  have p: "p = takeWhile ?star p @ ?q" by simp
  then have plain: "plain_pattern ?q" using assms(1) by (metis plain_pattern_simps(3))
  with assms(2) have c: "chunk = takeWhile (\<lambda>c. c \<noteq> CHR ''*'') ?q" "rest = dropWhile (\<lambda>c. c \<noteq> CHR ''*'') ?q"
    and star: "star = (length ?q < length p)"
    by (auto simp: scanChunk_def scanTo_plain Let_def)
  have "length p = length (takeWhile ?star p) + length ?q" by (metis length_append p)
  then have "star \<longleftrightarrow> takeWhile ?star p \<noteq> []" using star by auto
  moreover have "rest \<noteq> [] \<longrightarrow> hd rest = CHR ''*''" using hd_dropWhile c(2) by blast
  moreover have q: "?q = chunk @ rest" by (simp add: c)
  moreover have "p = takeWhile ?star p @ chunk @ rest" by (simp flip: q)
  moreover have "set (takeWhile ?star p) \<subseteq> {CHR ''*''}" by (auto dest: set_takeWhileD)
  moreover have "CHR ''*'' \<notin> set chunk" unfolding c by (auto dest: set_takeWhileD)
  moreover have "plain_pattern chunk" "plain_pattern rest" using plain unfolding q by simp_all
  ultimately show thesis using that by blast
qed

section \<open>Stars\<close>

lemma wild_star: "wild (CHR ''*'' # p) s \<longleftrightarrow> wild p s \<or> (s \<noteq> [] \<and> hd s \<noteq> CHR ''/'' \<and> wild (CHR ''*'' # p) (tl s))"
  by (cases s) auto

lemma wild_star_split: "wild (CHR ''*'' # p) s \<longleftrightarrow> (\<exists>u t. s = u @ t \<and> CHR ''/'' \<notin> set u \<and> wild p t)"
proof
  show "wild (CHR ''*'' # p) s \<Longrightarrow> \<exists>u t. s = u @ t \<and> CHR ''/'' \<notin> set u \<and> wild p t"
  proof (induction s)
    case (Cons d s)
    show ?case
    proof (cases "wild p (d # s)")
      case True
      then show ?thesis by (intro exI [of _ "[]"] exI [of _ "d # s"]) simp
    next
      case False
      with Cons.prems have d: "d \<noteq> CHR ''/''" "wild (CHR ''*'' # p) s" by simp_all
      with Cons.IH obtain u t where "s = u @ t" "CHR ''/'' \<notin> set u" "wild p t" by blast
      with d show ?thesis by (intro exI [of _ "d # u"] exI [of _ t]) simp
    qed
  qed simp
  have "wild p t \<Longrightarrow> CHR ''/'' \<notin> set u \<Longrightarrow> wild (CHR ''*'' # p) (u @ t)" for u t
    by (induction u) (auto intro: wild_star_zero)
  then show "\<exists>u t. s = u @ t \<and> CHR ''/'' \<notin> set u \<and> wild p t \<Longrightarrow> wild (CHR ''*'' # p) s" by blast
qed

lemma wild_stars:
  assumes "set stars \<subseteq> {CHR ''*''}" "stars \<noteq> []"
  shows "wild (stars @ p) s \<longleftrightarrow> wild (CHR ''*'' # p) s"
  using assms
proof (induction stars arbitrary: s)
  case (Cons c stars)
  have "wild (CHR ''*'' # CHR ''*'' # p) s \<longleftrightarrow> wild (CHR ''*'' # p) s" for s
    unfolding wild_star_split [of "CHR ''*'' # p"] wild_star_split [of p]
    by (metis (no_types, opaque_lifting) UnE append.assoc append_Nil list.set(1) set_append empty_iff)
  with Cons show ?case by (cases "stars = []") (auto simp: wild_star_split)
qed simp

text \<open>Between two places where the same chunk fits, with no slash before the later, there is no slash.\<close>

lemma fits_no_slash:
  assumes "fits c a" "fits c (drop d a)" "CHR ''/'' \<notin> set (take d a)" "0 < d" "d \<le> length a"
  shows "CHR ''/'' \<notin> set (take d (drop (length c) a))"
  using assms
proof (induction c arbitrary: a)
  case (Cons x c)
  then obtain y a' where a: "a = y # a'" by (cases a) auto
  obtain y' b where b: "drop d a = y' # b" using Cons.prems(2) by (cases "drop d a") auto
  have len: "d < length a" using b by (metis drop_eq_Nil list.distinct(1) not_less)
  have b': "b = drop d a'" using b a Cons.prems(4) by (metis drop_Suc drop_tl list.sel(3))
  have y: "y \<noteq> CHR ''/''" using Cons.prems(3,4) a by (cases d) auto
  have "fits1 x y" "fits1 x y'" using Cons.prems(1,2) a b by auto
  with y have y': "y' \<noteq> CHR ''/''" by (auto split: if_splits)
  have "y' = a' ! (d - 1)" using b a Cons.prems(4) len
    by (metis Suc_pred' drop_Suc hd_drop_conv_nth length_Cons less_Suc_eq list.sel(1) list.sel(3) nat_neq_iff
        not_less_eq Suc_less_eq)
  then have "take d a' = take (d - 1) a' @ [y']"
    using len a Cons.prems(4) by (metis Suc_pred' Suc_less_eq length_Cons take_Suc_conv_app_nth)
  moreover have "set (take (d - 1) a') \<subseteq> set (take d a)" using a Cons.prems(4) by (cases d) auto
  ultimately have "CHR ''/'' \<notin> set (take d a')" using Cons.prems(3) y' by auto
  moreover have "fits c a'" "fits c (drop d a')" using Cons.prems(1,2) a b b' by auto
  moreover have "d \<le> length a'" using len a by simp
  ultimately show ?case using Cons.IH [of a'] Cons.prems(4) a by simp
qed simp

section \<open>The first fit is the right one\<close>

text \<open>
  What follows a chunk is nothing or another star; where the chunk fits first (and leaves nothing,
  if nothing follows), the whole pattern matches exactly when the rest does.
\<close>

lemma first_fit:
  assumes chunk: "CHR ''*'' \<notin> set chunk" and rest: "rest \<noteq> [] \<longrightarrow> hd rest = CHR ''*''"
    and fit: "fits chunk s" "rest = [] \<longrightarrow> drop (length chunk) s = []"
  shows "wild (CHR ''*'' # chunk @ rest) s \<longleftrightarrow> wild rest (drop (length chunk) s)"
proof
  assume "wild rest (drop (length chunk) s)"
  with chunk fit show "wild (CHR ''*'' # chunk @ rest) s" by (intro wild_star_zero) (simp add: wild_chunk)
next
  assume "wild (CHR ''*'' # chunk @ rest) s"
  then obtain u t where s: "s = u @ t" "CHR ''/'' \<notin> set u" and t: "fits chunk t" "wild rest (drop (length chunk) t)"
    using chunk by (auto simp: wild_star_split [of "chunk @ rest"] wild_chunk)
  show "wild rest (drop (length chunk) s)"
  proof (cases rest)
    case Nil
    with fit(2) show ?thesis by simp
  next
    case (Cons c r)
    with rest have star: "rest = CHR ''*'' # r" by simp
    show ?thesis
    proof (cases "u = []")
      case False
      let ?x = "take (length u) (drop (length chunk) s)"
      have "CHR ''/'' \<notin> set ?x"
        using fits_no_slash [OF fit(1), of "length u"] s t False by simp
      moreover obtain v w where "drop (length chunk) t = v @ w" "CHR ''/'' \<notin> set v" "wild r w"
        using t(2) by (auto simp: star wild_star_split)
      moreover have "drop (length u) (drop (length chunk) s) = drop (length chunk) t"
        using s(1) by (metis append_eq_conv_conj drop_drop add.commute)
      then have "drop (length chunk) s = ?x @ drop (length chunk) t" by (metis append_take_drop_id)
      ultimately show ?thesis
        unfolding star wild_star_split
        by (intro exI [of _ "?x @ v"] exI [of _ w]) auto
    qed (use s t in simp)
  qed
qed

lemma checkRest_plain: "plain_pattern p \<Longrightarrow> checkRest p = Inr False"
proof (induction p rule: length_induct)
  case (1 p)
  show ?case
  proof (cases "p = []")
    case False
    obtain star chunk rest where sc: "scanChunk p = (star, chunk, rest)" by (metis prod_cases3)
    obtain stars where "plain_pattern chunk" "plain_pattern rest" using scanChunk_plain [OF 1(2) sc] by metis
    then have "checkRest rest = Inr False" "\<exists>r. matchChunk chunk [] = Inr r"
      using 1 scanChunk_shorter [OF sc False] by (auto simp: matchChunk_plain)
    with sc False show ?thesis by (auto simp: checkRest.simps [of p])
  qed (simp add: checkRest.simps)
qed

text \<open>The search after a star, from the second place on.\<close>

lemma skipLoop_wild:
  assumes chunk: "plain_pattern chunk" "CHR ''*'' \<notin> set chunk" and rest: "rest \<noteq> [] \<longrightarrow> hd rest = CHR ''*''"
  shows "case skipLoop chunk rest n of
     Inl e \<Rightarrow> False
   | Inr r \<Rightarrow> (n \<noteq> [] \<and> hd n \<noteq> CHR ''/'' \<and> wild (CHR ''*'' # chunk @ rest) (tl n)) =
       (case r of None \<Rightarrow> False | Some t \<Rightarrow> wild rest t)"
proof (induction n)
  case (Cons c ns)
  show ?case
  proof (cases "c = CHR ''/''")
    case False
    show ?thesis
    proof (cases "fits chunk ns \<and> (rest = [] \<longrightarrow> drop (length chunk) ns = [])")
      case True
      with first_fit [OF chunk(2) rest, of ns] False chunk(1) show ?thesis
        by (auto simp: matchChunk_plain)
    next
      case no: False
      then have "\<not> wild (chunk @ rest) ns" using chunk(2) by (auto simp: wild_chunk)
      with wild_star [of "chunk @ rest" ns] Cons False no chunk(1) show ?thesis
        by (auto simp: matchChunk_plain split: sum.splits)
    qed
  qed simp
qed simp

lemma path_Match_wild: "plain_pattern p \<Longrightarrow> path_Match p n = Inr (wild p n)"
proof (induction p arbitrary: n rule: length_induct)
  case (1 p)
  show ?case
  proof (cases "p = []")
    case False
    obtain star chunk rest where sc: "scanChunk p = (star, chunk, rest)" by (metis prod_cases3)
    obtain stars where p: "p = stars @ chunk @ rest" and stars: "set stars \<subseteq> {CHR ''*''}" "star \<longleftrightarrow> stars \<noteq> []"
      and chunk: "CHR ''*'' \<notin> set chunk" and rest: "rest \<noteq> [] \<longrightarrow> hd rest = CHR ''*''"
      and plain: "plain_pattern chunk" "plain_pattern rest"
      by (rule scanChunk_plain [OF 1(2) sc])
    have IH: "path_Match rest t = Inr (wild rest t)" for t
      using 1 scanChunk_shorter [OF sc False] plain(2) by blast
    have w: "wild p n \<longleftrightarrow> (if star then wild (CHR ''*'' # chunk @ rest) n else wild (chunk @ rest) n)"
      using stars wild_stars [OF stars(1)] by (simp add: p)
    let ?fit = "fits chunk n \<and> (rest \<noteq> [] \<or> drop (length chunk) n = [])"
    have nofit: "\<not> ?fit \<Longrightarrow> \<not> wild (chunk @ rest) n" using chunk by (auto simp: wild_chunk)
    consider (stars) "star" "chunk = []" | (fit) "\<not> (star \<and> chunk = [])" ?fit
      | (skip) "\<not> ?fit" "star" "chunk \<noteq> []" | (fail) "\<not> ?fit" "\<not> star" by blast
    then show ?thesis
    proof cases
      case stars
      then have "rest = []" using sc scanChunk_star_only by simp
      moreover have "wild ''*'' n \<longleftrightarrow> CHR ''/'' \<notin> set n"
        by (simp add: wild_star_split)
      ultimately show ?thesis using stars sc False w by (simp add: path_Match.simps [of p])
    next
      case fit
      then have "wild p n \<longleftrightarrow> wild rest (drop (length chunk) n)"
        using first_fit [OF chunk rest, of n] w chunk by (auto simp: wild_chunk)
      with fit sc False plain show ?thesis
        by (subst path_Match.simps) (auto simp: matchChunk_plain IH)
    next
      case skip
      then have "wild p n \<longleftrightarrow> n \<noteq> [] \<and> hd n \<noteq> CHR ''/'' \<and> wild (CHR ''*'' # chunk @ rest) (tl n)"
        using w nofit wild_star [of "chunk @ rest" n] by simp
      with skipLoop_wild [OF plain(1) chunk rest, of n] skip sc False plain show ?thesis
        by (subst path_Match.simps)
           (auto simp: matchChunk_plain IH path_Match.simps [of "[]"] checkRest_plain split: sum.splits option.splits)
    next
      case fail
      with w nofit sc False plain show ?thesis
        by (subst path_Match.simps) (auto simp: matchChunk_plain checkRest_plain)
    qed
  qed (simp add: path_Match.simps)
qed

section \<open>Property\<close>

lemma plain_pattern_fold: "plain_pattern p \<Longrightarrow> plain_pattern (fold_name p)"
proof -
  have "set (TrimSpace p) \<subseteq> set p" by (auto simp: TrimSpace_def dest!: set_dropWhileD)
  then show "plain_pattern p \<Longrightarrow> plain_pattern (fold_name p)"
    by (auto simp: plain_pattern_def fold_name_def ToLower_def eq_commute [of "CHR ''[''"] eq_commute [of backslash])
qed

lemma glob_samples:
  "plain_pattern ''GPT-4*-mini*''" "wild (fold_name ''GPT-4*-mini*'') (fold_name ''gpt-4o-mini-2024'')"
  "plain_pattern ''gpt-*''" "\<not> wild (fold_name ''gpt-*'') (fold_name ''gpt-oss/120b'')"
  "fold_name ''gpt-*'' \<noteq> ''*''"
  by code_simp+

text \<open>
  C35: A name pattern without classes and escapes means what it says: up to case and surrounding
  blanks, the name is split into the pattern's literals, one character other than \<open>/\<close> for each \<open>?\<close> and
  any number of them for each \<open>*\<close>; the pattern \<open>*\<close> alone matches every name, slashes included. The
  matcher's commitment to the first fit after a star loses no match.
\<close>

theorem glob_reference:
  assumes "plain_pattern p"
  shows "globMatch p v \<longleftrightarrow> fold_name p = ''*'' \<or> wild (fold_name p) (fold_name v)"
  using path_Match_wild [OF plain_pattern_fold [OF assms], of "fold_name v"] wild_self [of "fold_name p"]
  by (auto simp: globMatch_def Let_def simp flip: fold_name_def)

theorem glob_reference_witness:
  "globMatch ''GPT-4*-mini*'' ''gpt-4o-mini-2024'' \<and> \<not> globMatch ''gpt-*'' ''gpt-oss/120b''"
  using glob_reference [of "''GPT-4*-mini*''" "''gpt-4o-mini-2024''"] glob_reference [of "''gpt-*''" "''gpt-oss/120b''"]
    glob_samples
  by blast

text \<open>With a class that admits \<open>/\<close> it may lose one: here the star could stand for \<open>b\<close>.\<close>

lemma first_fit_loses:
  "path_Match ''*[^a]/*'' ''b//c'' = Inr False \<and> path_Match ''[^a]/*'' ''//c'' = Inr True"
  by code_simp

end
