(* ===== verification/Startup.thy ===== *)
theory Startup
  imports Manager
begin

text \<open>
  The start of the operator (\<open>main\<close> in \<open>cmd/main.go\<close>, \<open>SetupWebhooksWithManager\<close> in
  \<open>internal/webhook/v1alpha1/setup.go\<close>): the calls it makes into controller-runtime, in order, with
  the configuration it passes, up to the first one that fails; and the types its clients know. What a call does is the library's
  business: the parameter \<open>fails\<close> says which of them return an error.
\<close>

section \<open>Flags\<close>

record flags =
  fl_metricsAddr :: string
  fl_probeAddr :: string
  fl_enableLeaderElection :: bool
  fl_webhookPort :: int
  fl_certDir :: string
  fl_enableWebhooks :: bool
  fl_operatorNamespace :: string
  fl_exemptNamespaces :: string

text \<open>What \<open>flag.Parse\<close> leaves when no flag is given.\<close>

definition default_flags :: "(string \<Rightarrow> string) \<Rightarrow> flags" where
  "default_flags getenv =
     \<lparr>fl_metricsAddr = '':8080'', fl_probeAddr = '':8081'', fl_enableLeaderElection = False,
      fl_webhookPort = 9443, fl_certDir = ''/tmp/k8s-webhook-server/serving-certs'',
      fl_enableWebhooks = True,
      fl_operatorNamespace = envOr getenv ''POD_NAMESPACE'' ''token-control-system'',
      fl_exemptNamespaces = ''kube-system,kube-public,kube-node-lease''\<rparr>"

section \<open>What is set up\<close>

text \<open>
  Two clients of the API server: the manager's, which reads from its caches, and the uncached one. A
  reconciler or handler is its fields (the schemes, which are all the manager's, left out).
\<close>

datatype api_client = ManagerClient | UncachedClient

record TokenPolicyReconciler =
  tpr_Client :: api_client
  tpr_Apply :: api_client

record ClusterTokenPolicyReconciler =
  ctpr_Client :: api_client

record ModelCredentialReconciler =
  mcr_Client :: api_client
  mcr_SecretClient :: api_client
  mcr_OperatorNamespace :: string

record ModelClaimReconciler =
  mclr_Client :: api_client

datatype reconciler =
    ReconcileTokenPolicies TokenPolicyReconciler
  | ReconcileClusterTokenPolicies ClusterTokenPolicyReconciler
  | ReconcileModelCredentials ModelCredentialReconciler
  | ReconcileModelClaims ModelClaimReconciler

record ClusterTokenPolicyValidator =
  ctpv_Client :: api_client

record TokenPolicyValidator =
  tpv_Client :: api_client

record ModelCredentialValidator =
  mcv_Client :: api_client
  mcv_OperatorNamespace :: string

record ModelClaimValidator =
  mclv_Client :: api_client

record PodValidator =
  pv_Client :: api_client
  pv_Config :: Config

record PodDefaulter =
  pd_Client :: api_client
  pd_Config :: Config

text \<open>\<open>WithValidator\<close>, and for pods \<open>WithDefaulter\<close> too.\<close>

datatype webhook_handler =
    ForClusterTokenPolicy ClusterTokenPolicyValidator
  | ForTokenPolicy TokenPolicyValidator
  | ForModelCredential ModelCredentialValidator
  | ForModelClaim ModelClaimValidator
  | ForPod PodValidator PodDefaulter

section \<open>Calls\<close>

text \<open>
  Each of these may return an error, or in the case of \<open>GetConfigOrDie\<close> end the process: the
  configuration of the cluster, the manager (metrics address, probe address, leader election and its
  identity, the webhook server if there is one), the uncached client, the controllers, the webhooks,
  the health and readiness checks (the latter waits for the webhook server when there is one), and
  the run of the manager.
\<close>

datatype start_call =
    GetConfigOrDie
  | NewManager string string bool string "(int \<times> string) option"
  | NewUncachedClient
  | SetupController reconciler
  | CompleteWebhook webhook_handler
  | AddHealthzCheck string
  | AddReadyzCheck string bool
  | StartManager

text \<open>The calls up to the first error, and that error.\<close>

primrec until_error :: "('c \<Rightarrow> error option) \<Rightarrow> 'c list \<Rightarrow> 'c list \<times> error option" where
  "until_error fails [] = ([], None)"
| "until_error fails (c # cs) =
     (case fails c of
        Some err \<Rightarrow> ([c], Some err)
      | None \<Rightarrow> (let (made, err) = until_error fails cs in (c # made, err)))"

definition SetupWebhooksWithManager ::
  "(start_call \<Rightarrow> error option) \<Rightarrow> Config \<Rightarrow> start_call list \<times> error option" where
  "SetupWebhooksWithManager fails cfg =
     until_error fails
       [CompleteWebhook (ForClusterTokenPolicy \<lparr>ctpv_Client = ManagerClient\<rparr>),
        CompleteWebhook (ForTokenPolicy \<lparr>tpv_Client = ManagerClient\<rparr>),
        CompleteWebhook (ForModelCredential
          \<lparr>mcv_Client = ManagerClient, mcv_OperatorNamespace = cfg_OperatorNamespace cfg\<rparr>),
        CompleteWebhook (ForModelClaim \<lparr>mclv_Client = ManagerClient\<rparr>),
        CompleteWebhook (ForPod \<lparr>pv_Client = ManagerClient, pv_Config = cfg\<rparr>
          \<lparr>pd_Client = ManagerClient, pd_Config = cfg\<rparr>)]"

text \<open>\<open>main\<close>: the calls made and the exit status.\<close>

definition main :: "(start_call \<Rightarrow> error option) \<Rightarrow> flags \<Rightarrow> start_call list \<times> nat" where
  "main fails fl =
     (let webhookServer = (if fl_enableWebhooks fl then Some (fl_webhookPort fl, fl_certDir fl) else None);
          (made, err) = until_error fails
            [GetConfigOrDie,
             NewManager (fl_metricsAddr fl) (fl_probeAddr fl) (fl_enableLeaderElection fl)
               ''token-control.tokencontrol.io'' webhookServer,
             NewUncachedClient,
             SetupController (ReconcileTokenPolicies \<lparr>tpr_Client = ManagerClient, tpr_Apply = UncachedClient\<rparr>),
             SetupController (ReconcileClusterTokenPolicies \<lparr>ctpr_Client = ManagerClient\<rparr>),
             SetupController (ReconcileModelCredentials
               \<lparr>mcr_Client = ManagerClient, mcr_SecretClient = UncachedClient,
                mcr_OperatorNamespace = fl_operatorNamespace fl\<rparr>),
             SetupController (ReconcileModelClaims \<lparr>mclr_Client = ManagerClient\<rparr>)]
      in if err \<noteq> None then (made, 1)
         else (let cfg = \<lparr>cfg_OperatorNamespace = fl_operatorNamespace fl,
                          cfg_ExemptNamespaces = parseSet (fl_exemptNamespaces fl)\<rparr>;
                   (made', err) = (if fl_enableWebhooks fl then SetupWebhooksWithManager fails cfg else ([], None));
                   made = made @ made'
               in if err \<noteq> None then (made, 1)
                  else (let (made', err) = until_error fails
                              [AddHealthzCheck ''healthz'', AddReadyzCheck ''readyz'' (fl_enableWebhooks fl), StartManager]
                        in (made @ made', if err \<noteq> None then 1 else 0))))"

section \<open>What runs when the manager is started\<close>

lemma until_error_append:
  "until_error fails (xs @ ys) =
     (case until_error fails xs of
        (made, Some err) \<Rightarrow> (made, Some err)
      | (made, None) \<Rightarrow> (case until_error fails ys of (made', err) \<Rightarrow> (made @ made', err)))"
  by (induction xs) (auto split: option.splits prod.splits)

lemma until_error_prefix: "\<exists>rest. cs = fst (until_error fails cs) @ rest"
  by (induction cs) (auto split: option.split prod.split)

definition start_config :: "flags \<Rightarrow> Config" where
  "start_config fl =
     \<lparr>cfg_OperatorNamespace = fl_operatorNamespace fl,
      cfg_ExemptNamespaces = parseSet (fl_exemptNamespaces fl)\<rparr>"

definition all_calls :: "flags \<Rightarrow> start_call list" where
  "all_calls fl =
     [GetConfigOrDie,
      NewManager (fl_metricsAddr fl) (fl_probeAddr fl) (fl_enableLeaderElection fl) ''token-control.tokencontrol.io''
        (if fl_enableWebhooks fl then Some (fl_webhookPort fl, fl_certDir fl) else None),
      NewUncachedClient,
      SetupController (ReconcileTokenPolicies \<lparr>tpr_Client = ManagerClient, tpr_Apply = UncachedClient\<rparr>),
      SetupController (ReconcileClusterTokenPolicies \<lparr>ctpr_Client = ManagerClient\<rparr>),
      SetupController (ReconcileModelCredentials
        \<lparr>mcr_Client = ManagerClient, mcr_SecretClient = UncachedClient, mcr_OperatorNamespace = fl_operatorNamespace fl\<rparr>),
      SetupController (ReconcileModelClaims \<lparr>mclr_Client = ManagerClient\<rparr>)] @
     (if fl_enableWebhooks fl
      then [CompleteWebhook (ForClusterTokenPolicy \<lparr>ctpv_Client = ManagerClient\<rparr>),
            CompleteWebhook (ForTokenPolicy \<lparr>tpv_Client = ManagerClient\<rparr>),
            CompleteWebhook (ForModelCredential
              \<lparr>mcv_Client = ManagerClient, mcv_OperatorNamespace = fl_operatorNamespace fl\<rparr>),
            CompleteWebhook (ForModelClaim \<lparr>mclv_Client = ManagerClient\<rparr>),
            CompleteWebhook (ForPod \<lparr>pv_Client = ManagerClient, pv_Config = start_config fl\<rparr>
              \<lparr>pd_Client = ManagerClient, pd_Config = start_config fl\<rparr>)]
      else []) @
     [AddHealthzCheck ''healthz'', AddReadyzCheck ''readyz'' (fl_enableWebhooks fl), StartManager]"

lemma main_calls:
  "main fails fl =
     (fst (until_error fails (all_calls fl)), if snd (until_error fails (all_calls fl)) = None then 0 else 1)"
  unfolding main_def all_calls_def until_error_append SetupWebhooksWithManager_def Let_def start_config_def
  by (simp split: prod.split option.split del: until_error.simps list.map) (simp split: prod.split option.split)

text \<open>
  The manager is started only when everything it runs is set up: then the calls made are all of
  them. Source Secrets, replicas and artifacts are accessed without a cache, the credential
  controller, the credential validator and the pod handlers work with the same operator namespace, admission is registered for all five kinds unless it is disabled, and
  the readiness check is then the one that waits for the webhook server.
\<close>

theorem started_complete:
  assumes "StartManager \<in> set (fst (main fails fl))"
  shows "fst (main fails fl) = all_calls fl"
proof -
  obtain rest where rest: "all_calls fl = fst (main fails fl) @ rest"
    using until_error_prefix [of "all_calls fl" fails] by (auto simp: main_calls)
  obtain xs where xs: "all_calls fl = xs @ [StartManager]" "StartManager \<notin> set xs"
    by (auto simp: all_calls_def)
  with rest assms show ?thesis
    by (cases rest rule: rev_cases) (auto simp flip: append_assoc)
qed

section \<open>The scheme\<close>

text \<open>
  A scheme lists the types that clients can encode, by group, version and kind. The \<open>init\<close>
  functions of \<open>api/v1alpha1\<close> run in the order of the file names and give the scheme builder a kind
  and its list each; \<open>clientgo\<close> is \<open>AddToScheme\<close> of client-go, a parameter.
\<close>

type_synonym group_version_kind = "string \<times> string \<times> string"

type_synonym scheme = "group_version_kind list"

definition GroupVersion :: "string \<times> string" where
  "GroupVersion = (''governance.tokencontrol.io'', ''v1alpha1'')"

definition ClusterTokenPolicy_init :: "string list \<Rightarrow> string list" where
  "ClusterTokenPolicy_init builder = builder @ [''ClusterTokenPolicy'', ''ClusterTokenPolicyList'']"

definition ModelClaim_init :: "string list \<Rightarrow> string list" where
  "ModelClaim_init builder = builder @ [''ModelClaim'', ''ModelClaimList'']"

definition ModelCredential_init :: "string list \<Rightarrow> string list" where
  "ModelCredential_init builder = builder @ [''ModelCredential'', ''ModelCredentialList'']"

definition TokenPolicy_init :: "string list \<Rightarrow> string list" where
  "TokenPolicy_init builder = builder @ [''TokenPolicy'', ''TokenPolicyList'']"

definition SchemeBuilder :: "string list" where
  "SchemeBuilder = TokenPolicy_init (ModelCredential_init (ModelClaim_init (ClusterTokenPolicy_init [])))"

definition AddToScheme :: "scheme \<Rightarrow> scheme" where
  "AddToScheme sch = sch @ map (\<lambda>k. (fst GroupVersion, snd GroupVersion, k)) SchemeBuilder"

definition main_init :: "(scheme \<Rightarrow> scheme) \<Rightarrow> scheme" where
  "main_init clientgo = AddToScheme (clientgo [])"

text \<open>The manager's clients know every governance kind that a controller reconciles or watches, and its list.\<close>

fun governance_kind :: "kind \<Rightarrow> string option" where
  "governance_kind KClusterTokenPolicy = Some ''ClusterTokenPolicy''"
| "governance_kind KTokenPolicy = Some ''TokenPolicy''"
| "governance_kind KModelClaim = Some ''ModelClaim''"
| "governance_kind KModelCredential = Some ''ModelCredential''"
| "governance_kind KNamespace = None"

theorem scheme_complete:
  assumes "governance_kind k = Some n"
  shows "(''governance.tokencontrol.io'', ''v1alpha1'', n) \<in> set (main_init clientgo) \<and>
    (''governance.tokencontrol.io'', ''v1alpha1'', n @ ''List'') \<in> set (main_init clientgo)"
  using assms unfolding main_init_def AddToScheme_def
  by (cases k) (simp_all add: SchemeBuilder_def GroupVersion_def ClusterTokenPolicy_init_def ModelClaim_init_def
      ModelCredential_init_def TokenPolicy_init_def)

end
