(* ===== verification/Fake_LLM.thy ===== *)
theory Fake_LLM
  imports Go_Strings
begin

text \<open>
  The fake model server of the integration tests (\<open>test/integration/fake_llm/main.go\<close>): the request
  log that tests read, what is recorded of a request, and the handlers behind the routes. Decoding
  a JSON body is the library's business: a request carries its outcome, the name of the model.
  The clock is the parameter \<open>now\<close>.
\<close>

record logEntry =
  le_Time :: string
  le_Method :: string
  le_Path :: string
  le_Authorization :: string
  le_Model :: string

record request =
  rq_Method :: string
  rq_Path :: string
  rq_Authorization :: string
  rq_Model :: "error + string"

text \<open>
  A response: status code and, for the bodies that carry data, what they carry: a completion its
  model, the text of its message and the tokens used (prompt, completion, total); its identifier
  and date are read off the clock and left out.
\<close>

datatype body = Empty | ErrorText string | Completion string string nat nat nat | ModelList "string list" | Entries "logEntry list"

section \<open>The log\<close>

type_synonym requestLog = "logEntry list"

definition log_add :: "requestLog \<Rightarrow> logEntry \<Rightarrow> requestLog" where
  "log_add entries e = entries @ [e]"

definition log_snapshot :: "requestLog \<Rightarrow> logEntry list" where
  "log_snapshot entries = entries"

definition log_reset :: "requestLog \<Rightarrow> requestLog" where
  "log_reset entries = []"

definition bearer :: string where
  "bearer = ''Bearer ''"

definition redact :: "string \<Rightarrow> string" where
  "redact auth =
     (if take (length bearer) auth = bearer
      then (let tok = drop (length bearer) auth;
                tok = (if length tok > 8 then take 8 tok @ ''...'' else tok)
            in bearer @ tok)
      else auth)"

definition record_request :: "string \<Rightarrow> requestLog \<Rightarrow> request \<Rightarrow> string \<Rightarrow> requestLog" where
  "record_request now entries r model =
     log_add entries
       \<lparr>le_Time = now, le_Method = rq_Method r, le_Path = rq_Path r,
        le_Authorization = redact (rq_Authorization r), le_Model = model\<rparr>"

section \<open>Handlers\<close>

definition handleChatCompletions :: "string \<Rightarrow> requestLog \<Rightarrow> request \<Rightarrow> requestLog \<times> nat \<times> body" where
  "handleChatCompletions now entries r =
     (if rq_Method r \<noteq> ''POST'' then (entries, 405, ErrorText ''method not allowed'')
      else (case rq_Model r of
              Inl err \<Rightarrow> (entries, 400, ErrorText ''bad request'')
            | Inr model \<Rightarrow>
                (let model = (if model = [] then ''unknown'' else model)
                 in (record_request now entries r model, 200,
                    Completion model (''fake response from '' @ model) 10 7 17))))"

definition handleModels :: "string \<Rightarrow> requestLog \<Rightarrow> request \<Rightarrow> requestLog \<times> nat \<times> body" where
  "handleModels now entries r =
     (record_request now entries r [], 200, ModelList [''gpt-4o'', ''gpt-4o-mini'', ''claude-3-5-sonnet''])"

definition handleRequests :: "requestLog \<Rightarrow> request \<Rightarrow> requestLog \<times> nat \<times> body" where
  "handleRequests entries r =
     (if rq_Method r \<noteq> ''GET'' then (entries, 405, ErrorText ''method not allowed'')
      else (entries, 200, Entries (log_snapshot entries)))"

definition handleReset :: "requestLog \<Rightarrow> request \<Rightarrow> requestLog \<times> nat \<times> body" where
  "handleReset entries r =
     (if rq_Method r \<noteq> ''POST'' then (entries, 405, ErrorText ''method not allowed'')
      else (log_reset entries, 204, Empty))"

text \<open>The routes that \<open>main\<close> registers.\<close>

definition serve :: "string \<Rightarrow> requestLog \<Rightarrow> request \<Rightarrow> requestLog \<times> nat \<times> body" where
  "serve now entries r =
     (if rq_Path r = ''/v1/chat/completions'' then handleChatCompletions now entries r
      else if rq_Path r = ''/v1/models'' then handleModels now entries r
      else if rq_Path r = ''/requests'' then handleRequests entries r
      else if rq_Path r = ''/reset'' then handleReset entries r
      else if rq_Path r = ''/healthz'' then (entries, 200, Empty)
      else (entries, 404, ErrorText ''404 page not found''))"

section \<open>What tests see\<close>

text \<open>The entry a request leaves, if any.\<close>

definition recorded :: "string \<Rightarrow> request \<Rightarrow> logEntry option" where
  "recorded now r =
     (let entry = (\<lambda>m. \<lparr>le_Time = now, le_Method = rq_Method r, le_Path = rq_Path r,
                        le_Authorization = redact (rq_Authorization r), le_Model = m\<rparr>)
      in if rq_Path r = ''/v1/models'' then Some (entry [])
         else if rq_Path r = ''/v1/chat/completions'' \<and> rq_Method r = ''POST''
         then (case rq_Model r of
                 Inl _ \<Rightarrow> None
               | Inr m \<Rightarrow> Some (entry (if m = [] then ''unknown'' else m)))
         else None)"

definition resets :: "request \<Rightarrow> bool" where
  "resets r \<longleftrightarrow> rq_Path r = ''/reset'' \<and> rq_Method r = ''POST''"

lemma serve_log:
  "fst (serve now entries r) =
     (if resets r then []
      else entries @ (case recorded now r of None \<Rightarrow> [] | Some e \<Rightarrow> [e]))"
  by (auto simp: serve_def handleChatCompletions_def handleModels_def handleRequests_def handleReset_def
      resets_def recorded_def record_request_def log_add_def log_reset_def Let_def split: sum.splits)

text \<open>
  After any requests the log is what the calls since the last reset left, in the order of their
  arrival: rejected ones leave nothing.
\<close>

lemma log_of_requests:
  assumes "\<forall>(t, r) \<in> set rs. \<not> resets r"
  shows "foldl (\<lambda>l (t, r). fst (serve t l r)) entries rs = entries @ List.map_filter (\<lambda>(t, r). recorded t r) rs"
  using assms
  by (induction rs arbitrary: entries) (auto simp: serve_log map_filter_simps split: option.split)

text \<open>Of a bearer token at most eight characters are kept; other authorization is kept as it is.\<close>

lemma redact_bearer:
  "redact (bearer @ tok) = bearer @ (if length tok > 8 then take 8 tok @ ''...'' else tok)"
  by (simp add: redact_def Let_def)

lemma redact_other: "take (length bearer) auth \<noteq> bearer \<Longrightarrow> redact auth = auth"
  by (simp add: redact_def)

text \<open>No route looks at the authorization: an anonymous completion is served.\<close>

lemma authorization_not_checked:
  "rq_Method r = ''POST'' \<Longrightarrow> rq_Path r = ''/v1/chat/completions'' \<Longrightarrow> rq_Model r = Inr m \<Longrightarrow>
     fst (snd (serve now entries r)) = 200"
  by (simp add: serve_def handleChatCompletions_def Let_def)

end
