(* ===== verification/Findings.thy ===== *)
theory Findings
  imports Samples Claim_Props Credential_Props Gateway CRD_Props
begin

text \<open>
  Concrete runs of the model where the code does something else than a comment or the
  documentation says. Each lemma evaluates the code's model on the objects it names.
\<close>

section \<open>Priority\<close>

text \<open>Two workload policies for the same pods that allow one model with different credentials.\<close>

definition prio_policy :: "string \<Rightarrow> string \<Rightarrow> int32 \<Rightarrow> TokenPolicy" where
  "prio_policy n cred prio =
     token_policy ''team-a'' n (Some batch_selector) [rule ActionAllow ''openai'' ''gpt-4o'' cred] None prio"

definition prio_input :: ResolveInput where
  "prio_input = batch_input
     \<lparr>ri_ClusterPolicies := [],
      ri_NamespacePolicies := [prio_policy ''low'' ''cred-low'' 1, prio_policy ''high'' ''cred-high'' 9]\<rparr>"

text \<open>The policy of the lowest priority supplies the credential.\<close>

lemma lowest_priority_supplies_credential:
  "case Resolve std_selector prio_input of
     Inl e \<Rightarrow> False
   | Inr eff \<Rightarrow> md_Credential (Permit eff ''openai'' ''gpt-4o'') = ''cred-low''"
  by code_simp

text \<open>Two namespace-wide policies are both in force: the lower one's rule still permits.\<close>

definition two_defaults :: ResolveInput where
  "two_defaults = batch_input
     \<lparr>ri_ClusterPolicies := [],
      ri_NamespacePolicies :=
        [token_policy ''team-a'' ''low'' None [rule ActionAllow ''openai'' ''gpt-4o'' []] None 1,
         token_policy ''team-a'' ''high'' None [rule ActionAllow ''anthropic'' ''*'' []] None 9]\<rparr>"

lemma namespace_defaults_merge:
  "case Resolve std_selector two_defaults of
     Inl e \<Rightarrow> False
   | Inr eff \<Rightarrow> md_Allowed (Permit eff ''openai'' ''gpt-4o'') \<and>
       eff_Sources eff = [''TokenPolicy/team-a/high'', ''TokenPolicy/team-a/low'']"
  by code_simp

section \<open>Reasons\<close>

text \<open>An explicit Deny of a policy whose name ends in \<open>allowlist\<close> is reported as an omission.\<close>

definition deny_input :: ResolveInput where
  "deny_input = batch_input
     \<lparr>ri_ClusterPolicies := [],
      ri_NamespacePolicies :=
        [token_policy ''team-a'' ''openai-allowlist'' None [rule ActionDeny ''openai'' ''gpt-4o'' []] None 0]\<rparr>"

lemma explicit_deny_reported_as_omission:
  "case Resolve std_selector deny_input of
     Inl e \<Rightarrow> False
   | Inr eff \<Rightarrow> md_Reason (Permit eff ''openai'' ''gpt-4o'') = ''openai/gpt-4o is not on the namespace allowlist''"
  by code_simp

section \<open>Gateway artifacts\<close>

text \<open>Without a quota, the artifact limits every caller to zero requests, and the target's namespace is not emitted.\<close>

lemma unlimited_policy_emits_zero_limit:
  "u_Spec (buildEnvoyBackendTrafficPolicy
      \<lparr>gt_Group = [], gt_Kind = ''HTTPRoute'', gt_Name = ''ai'', gt_Namespace = ''gateways''\<rparr> ns_default None) =
   Some (JObj
     [(''targetRefs'', JArr [JObj [(''kind'', JStr ''HTTPRoute''), (''name'', JStr ''ai'')]]),
      (''rateLimit'', JObj [(''type'', JStr ''Global''), (''global'', JObj [(''rules'',
         JArr [JObj [(''limit'', JObj [(''requests'', JInt 0), (''unit'', JStr ''Minute'')])]])])])])"
  by code_simp

section \<open>Credentials\<close>

text \<open>A credential counts as referenced by a policy whose only rule with it is a Deny.\<close>

lemma deny_rule_counts_as_reference:
  "binds_policy ''openai'' (token_policy ''team-a'' ''no-openai'' None [rule ActionDeny ''openai'' ''*'' ''openai''] None 0)"
  by code_simp

text \<open>
  When the key disappears from the source Secret, the credential stays Ready; its replicas stay too,
  in namespaces that have lost their authorization.
\<close>

definition ready_credential :: ModelCredential where
  "ready_credential = openai_credential
     \<lparr>mc_Status := credential_status0
        \<lparr>mcst_Conditions := [\<lparr>cond_Type = ConditionReady, cond_Status = ConditionTrue, cond_Reason = ''Synced'',
            cond_Message = [], cond_ObservedGeneration = 1\<rparr>]\<rparr>\<rparr>"

definition key_missing_run :: "Secret list \<times> ModelCredential outcome" where
  "key_missing_run =
     ModelCredential_Reconcile std_selector replace_or_append sample_client (list_store no_fault) own_by keep_order
       ''operator'' (\<lambda>_. None) (Inr ready_credential) [source_secret\<lparr>sec_Data := []\<rparr>, stale_secret]"

lemma key_missing_keeps_ready:
  "case oc_Written (snd key_missing_run) of
     None \<Rightarrow> False
   | Some mc \<Rightarrow> condition_is ConditionReady ConditionTrue (mcst_Conditions (mc_Status mc)) \<and>
       \<not> mcst_SecretResolved (mc_Status mc)"
  "list_view (fst key_missing_run) (''team-b'', ManagedSecretPrefix @ ''openai'') = Some stale_secret"
  by code_simp+

section \<open>Claims\<close>

text \<open>A claim whose hierarchy cannot be resolved any more keeps the phase Bound.\<close>

definition broken_policy :: TokenPolicy where
  "broken_policy = token_policy ''team-a'' ''broken''
     (Some \<lparr>ws_PodSelector = Some bad_selector, ws_ServiceAccounts = []\<rparr>) [] None 0"

definition bound_claim :: ModelClaim where
  "bound_claim = good_claim\<lparr>mcl_Status := (mcl_Status good_claim)\<lparr>mclst_Phase := ClaimBound\<rparr>\<rparr>"

lemma unresolved_claim_stays_bound:
  "case oc_Written (ModelClaim_Reconcile std_selector replace_or_append
          (client_of (sample_cluster\<lparr>cl_Policies := [broken_policy]\<rparr>)) (\<lambda>_. None) (Inr bound_claim)) of
     None \<Rightarrow> False
   | Some cl \<Rightarrow> mclst_Phase (mcl_Status cl) = ClaimBound \<and>
       condition_is ConditionReady ConditionFalse (mclst_Conditions (mcl_Status cl))"
  by code_simp

end
