(* ===== verification/Spec2Isabelle.thy ===== *)
theory Spec2Isabelle
  imports Resolver_Status Gateway_Props Glob_Props CRD_Props Policy_Props System_Props Metric_Props
    Delivery Gateway_Enforcement Status_Props Queue_Props Credential_Queue Metric_Values Quota_Memory Glob_Reference Startup Fake_LLM Findings
begin

text \<open>
  token-control is a Kubernetes operator that governs which models a workload may call, with which
  credential and within which token budget. This development models its Go code and proves what
  the code promises.

  \<^bold>\<open>The program.\<close> Four kinds of objects (\<open>src/api/v1alpha1\<close>) describe governance: a cluster-scoped
  ClusterTokenPolicy, a namespaced TokenPolicy (the default of its namespace without a selector,
  else for the pods it selects), a ModelClaim by which a team asks for models, and a
  ModelCredential that binds one source Secret to the namespaces that may use it. The resolver
  (\<open>src/internal/policy/resolver.go\<close>) folds the policies that apply to a pod, broad to narrow, into an
  \<open>Effective\<close>: three tiers of rules, the field-wise least quota, mode and gateway; \<open>Permit\<close> takes
  the most restrictive verdict of the tiers. The pod webhooks
  (\<open>src/internal/webhook/v1alpha1/pod_webhook.go\<close>) read which models a pod declares, by annotation or
  by a claim that matches it; the mutating one injects references to the replicas of the bound
  credentials, the validating one rejects or warns. Four reconcilers
  (\<open>src/internal/controller\<close>) write the statuses, replicate the source Secrets into the authorized
  namespaces, and keep the gateway artifacts (\<open>src/internal/gateway\<close>). Resolver and selector
  functions are shared by webhooks and reconcilers; the webhooks and the credential reconciler
  share the name of the replica and the rule that says which namespaces are authorized.

  \<^bold>\<open>Theories and code.\<close>
  \<^item> \<open>TC_Prelude\<close>: results with Go errors, loops that stop at the first error, the interface of
    loops that collect without duplicates, stable sorting, \<open>int64\<close>. \<open>Go_Strings\<close>, \<open>Go_Path\<close>: the
    standard library functions the code calls (\<open>strings\<close>, \<open>strconv\<close>, \<open>path.Match\<close>), on bytes.
  \<^item> \<open>Api_Types\<close>: \<open>src/api/v1alpha1/*_types.go\<close>; a struct is a record (a nil pointer is \<open>None\<close>), a
    string enumeration a datatype, \<open>*int64\<close> an optional 64-bit word. \<open>Kube\<close>: pods, Secrets,
    namespaces, API errors, and the record \<open>client\<close> of the answers of the API server.
  \<^item> \<open>Quotas\<close>, \<open>Selectors\<close>, \<open>Resolver\<close>: \<open>resolver.go\<close>, with the quota arithmetic of the credential
    controller, and of \<open>Go_Float\<close> the conversion to \<open>float64\<close>; \<open>Resolver_Facts\<close> gives the closed form \<open>effective_of\<close> of the three folds.
  \<^item> \<open>Gateway\<close>: \<open>gateway.go\<close>. \<open>Metrics\<close>: \<open>metrics.go\<close>; handlers return the list of their updates.
  \<^item> \<open>Webhook_Common\<close>, \<open>Pod_Webhook\<close>, \<open>CRD_Webhooks\<close>: \<open>src/internal/webhook/v1alpha1\<close>.
  \<^item> \<open>Controller_Common\<close>, \<open>Claim_Controller\<close>, \<open>Policy_Controllers\<close>, \<open>Credential_Controller\<close>:
    \<open>src/internal/controller\<close>. A reconciler is a function of the object read, the client and, where
    it writes other objects, the store; its \<open>outcome\<close> is the delay of the next run, the error, the
    status written and the metrics. \<open>Manager\<close>, \<open>Startup\<close>: flags, registrations and the sequence of
    start-up calls (\<open>src/cmd/main.go\<close>, \<open>setup.go\<close>, \<open>SetupWithManager\<close>).
  \<^item> \<open>Cluster_Machine\<close>: the credential reconciler and everybody else as a step relation
    \<open>sys_step\<close> with executions of any length; others may store any Secrets, with the labels and names of
    replicas too. \<open>Queue_Machine\<close>: a reconciler with its queue, filled as its registration says, and
    everybody else (\<open>change_step\<close>, \<open>run_step\<close>). \<open>Credential_Queue\<close>: the credential reconciler with its
    queue and the timers of \<open>RequeueAfter\<close>, on the states of \<open>Cluster_Machine\<close>. In both queues a change of
    a watched kind enqueues what the \<open>...ForAll\<close> function returns for the answer to its List, which is
    nothing when the List fails: \<open>qs_missed\<close> and the event \<open>Lost\<close> keep track of that.
  \<^item> \<open>Go_Memory\<close>, \<open>Memory_Types\<close>: pointers, slices and allocation, and the API types as cells of a memory.
    \<open>Deep_Copy\<close>: \<open>zz_generated.deepcopy.go\<close>. \<open>Quota_Memory\<close>: the quota functions of \<open>resolver.go\<close> and of
    the credential controller on pointers. Everywhere else a struct is its value.
  \<^item> \<open>Fake_LLM\<close>: the model server of the integration tests.
  \<^item> \<open>Samples\<close>, \<open>Cluster_Samples\<close>: the objects of \<open>src/examples\<close>, at which properties are witnessed.

  \<^bold>\<open>What is shown.\<close>
  \<^item> \<open>Resolver_Props\<close>, \<open>Resolver_Queries\<close>, \<open>Resolver_Status\<close>: narrower scopes only narrow; exact
    conditions for a permission, a failure, a quota, a bound credential and the cause of a denial;
    independence of the listing order; the status preview of a policy is the decision at admission.
  \<^item> \<open>Glob_Props\<close>, \<open>Glob_Reference\<close>: accepted patterns are never malformed; the matcher, which commits
    to the first fit after a star, agrees with a reference that tries every split.
  \<^item> \<open>Pod_Props\<close>, \<open>Admission_Props\<close>: who is rejected and what is reported; what is injected and what
    is left alone; idempotence; injection does not change the verdict; an admitted pod is served.
  \<^item> \<open>CRD_Props\<close>: accepted policies always resolve; warnings about dead rules and requests are right.
  \<^item> \<open>Claim_Props\<close>, \<open>Policy_Props\<close>, \<open>Gateway_Props\<close>: the phase of a claim decides what happens to its
    pods; statuses and artifacts are what was resolved and applied, quotas read back.
    \<open>Gateway_Enforcement\<close>: a synced artifact carries the strictest limits of the policies in scope.
  \<^item> \<open>Credential_Facts\<close>, \<open>Credential_Props\<close>, \<open>Capacity_Props\<close>: replicas, pruning and status under any
    failures; exact sums and the effect of overflow.
  \<^item> \<open>Publication\<close>: a run without failures refines the abstract step that publishes a key to exactly
    the authorized namespaces. \<open>Cluster_Machine\<close>: in every execution each Secret was there before, was
    stored by others, or was released by its credential's reconciler while its namespace was
    authorized; when only controllers act, one healthy run heals the replicas for good.
  \<^item> \<open>Status_Props\<close>: writing a status triggers the next run, which writes the same status.
    \<open>Queue_Machine\<close>: the claim and the cluster policy controllers watch every kind they read, so an
    object that is not waiting, and for which no event was lost, has a current status; a lost event can
    leave a claim stale. \<open>Queue_Props\<close>: so a Bound claim at rest means that pods of its identities
    are admitted now, and every fair execution empties the queue of the claims.
    \<open>Credential_Queue\<close>: a credential at rest has no replica in a revoked namespace when its last runs could
    prune, and the periodic runs repair what others, failures and lost events left behind.
  \<^item> \<open>Deep_Copy_Props\<close>: a deep copy shares no cell with its original, for every kind. \<open>Quota_Memory\<close>: the
    pointer code refines the value functions and changes no quota it reads; together they justify
    modelling structs as values. What is shared on purpose or not: the least quota points to the
    limits of the policies (\<open>minimum_shares_limits\<close>), the sums share nothing.
  \<^item> \<open>System_Props\<close>: webhook and reconciler agree on authorization; injected references resolve.
    \<open>Delivery\<close>: a pod admitted while the credential controller is at work gets in each container exactly the
    reference of the credential, or keeps its author's entry, and one healthy run makes it resolve for good. \<open>Metric_Props\<close>: no handler gives a collector a wrong
    number of labels. \<open>Metric_Values\<close>: counters count the verdicts, gauges show the statuses as \<open>float64\<close> values.
  \<^item> \<open>Findings\<close> and the last sections of \<open>Glob_Props\<close>, \<open>CRD_Props\<close>, \<open>Capacity_Props\<close>, \<open>Manager\<close>, \<open>Metric_Values\<close> and
    \<open>lost_event_leaves_claim_stale\<close> in \<open>Queue_Machine\<close>: runs where the code does something else than its documentation says.

  \<^bold>\<open>Parameters and interfaces.\<close> Code outside the repository is an argument: \<open>asSel\<close> builds a label
  selector (apimachinery), \<open>setCond\<close> is \<open>meta.SetStatusCondition\<close>, \<open>own\<close> sets an owner reference, the
  records \<open>secret_client\<close> and \<open>apply_client\<close> are the uncached clients on a store of any type, \<open>order\<close>
  is the order in which a Go map is visited, \<open>upd\<close> the answer to a status update. What the code
  relies on is stated in locales (\<open>condition_setter\<close>, \<open>secret_store\<close> and its extension
  \<open>replica_store\<close>, \<open>artifact_store\<close> and its extension \<open>artifact_apply\<close>), each interpreted on an executable instance (the store that keeps
  a list and may fail any call). The locales \<open>dedup_loop\<close>, \<open>limit_fold\<close> and \<open>container_injector\<close> are
  interfaces inside the program, interpreted on the code's own loops, quota operations and
  injectors; \<open>reader\<close> and \<open>copier\<close> are the contracts of reading and copying memory, with one lemma per way
  of building types (pointer, slice, struct), \<open>metav1_copies\<close> states them for apimachinery, \<open>quota_op\<close>
  for the operations on limits; \<open>watching_controller\<close> is what a registration has to promise of its reconciler,
  interpreted on the claim and the cluster policy controllers. A read is answered the same during one run; a run may fail at any call.

  \<^bold>\<open>Bounds and termination.\<close> Every function is total: loops are folds or recursions on lists, and the
  loops of \<open>path.Match\<close> end because the pattern gets shorter (proved with measures); no fuel is used.
  Limits are 64-bit words as in the code, so sums wrap; the theorems on sums state when they do not. A \<open>float64\<close> that the program can hold
  in a gauge is an integer; conversions round to 53 bits, half to even.

  \<^bold>\<open>Not modelled.\<close> Log output, contexts and cancellation, the caches, rate limits and retry delays of controller-runtime
  (the machines have their queues as sets of keys, and one run at a time; timers fire at any time), the text of the metrics
  endpoint, object metadata other than name, namespace, generation, labels and annotations, garbage
  collection by owner reference, and non-ASCII case folding: \<open>ToLower\<close> and \<open>path.Match\<close> are modelled
  on bytes, which is exact for ASCII names.
\<close>

end
